(* ===== verification/Command_Types.thy ===== *)
theory Command_Types
  imports Prelude
begin

text \<open>
  The closed vocabulary of commands: \<open>src/lib/device-message/command-types.ts\<close>. Each constant
  list is a list of the datatype's constructors, in the order the source spreads them; a guard
  \<open>isTypeIn(group)\<close> is membership in the list.
\<close>

datatype commandType =
    READ_VOLTAGE | READ_CURRENT | READ_POWER | READ_POWER_LIMIT | READ_CREDIT | READ_VERSION
  | READ_DATE | READ_TIME
  | TURN_ON | TURN_OFF
  | SET_DATE | SET_TIME
  | CLEAR_CREDIT | CLEAR_TAMPER | SET_POWER_LIMIT | TOP_UP_KWH
  | DELIVER_PREEXISTING_TOKEN
  | READ_REPORT | JOIN_NETWORK

text \<open>A command as the string the wire and the error texts carry.\<close>

fun command_text :: "commandType \<Rightarrow> string" where
  "command_text READ_VOLTAGE = ''READ_VOLTAGE''"
| "command_text READ_CURRENT = ''READ_CURRENT''"
| "command_text READ_POWER = ''READ_POWER''"
| "command_text READ_POWER_LIMIT = ''READ_POWER_LIMIT''"
| "command_text READ_CREDIT = ''READ_CREDIT''"
| "command_text READ_VERSION = ''READ_VERSION''"
| "command_text READ_DATE = ''READ_DATE''"
| "command_text READ_TIME = ''READ_TIME''"
| "command_text TURN_ON = ''TURN_ON''"
| "command_text TURN_OFF = ''TURN_OFF''"
| "command_text SET_DATE = ''SET_DATE''"
| "command_text SET_TIME = ''SET_TIME''"
| "command_text CLEAR_CREDIT = ''CLEAR_CREDIT''"
| "command_text CLEAR_TAMPER = ''CLEAR_TAMPER''"
| "command_text SET_POWER_LIMIT = ''SET_POWER_LIMIT''"
| "command_text TOP_UP_KWH = ''TOP_UP_KWH''"
| "command_text DELIVER_PREEXISTING_TOKEN = ''DELIVER_PREEXISTING_TOKEN''"
| "command_text READ_REPORT = ''READ_REPORT''"
| "command_text JOIN_NETWORK = ''JOIN_NETWORK''"

definition PHASE_SPECIFIC_READ_COMMAND_TYPES :: "commandType list" where
  "PHASE_SPECIFIC_READ_COMMAND_TYPES = [READ_VOLTAGE, READ_CURRENT]"

definition READ_COMMAND_TYPES :: "commandType list" where
  "READ_COMMAND_TYPES = PHASE_SPECIFIC_READ_COMMAND_TYPES @
     [READ_POWER, READ_POWER_LIMIT, READ_CREDIT, READ_VERSION, READ_DATE, READ_TIME]"

definition CONTROL_COMMAND_TYPES :: "commandType list" where
  "CONTROL_COMMAND_TYPES = [TURN_ON, TURN_OFF]"

definition WRITE_COMMAND_TYPES :: "commandType list" where
  "WRITE_COMMAND_TYPES = [SET_DATE, SET_TIME]"

definition GENERATE_TOKEN_TYPES :: "commandType list" where
  "GENERATE_TOKEN_TYPES = [CLEAR_CREDIT, CLEAR_TAMPER, SET_POWER_LIMIT, TOP_UP_KWH]"

definition TOKEN_COMMAND_TYPES :: "commandType list" where
  "TOKEN_COMMAND_TYPES = GENERATE_TOKEN_TYPES @ [DELIVER_PREEXISTING_TOKEN]"

definition UNSOLICITED_COMMAND_TYPES :: "commandType list" where
  "UNSOLICITED_COMMAND_TYPES = [READ_REPORT, JOIN_NETWORK]"

definition COMMAND_TYPES :: "commandType list" where
  "COMMAND_TYPES = READ_COMMAND_TYPES @ CONTROL_COMMAND_TYPES @ WRITE_COMMAND_TYPES @
     TOKEN_COMMAND_TYPES @ UNSOLICITED_COMMAND_TYPES"

definition ENQUEUEABLE_COMMAND_TYPES :: "commandType list" where
  "ENQUEUEABLE_COMMAND_TYPES = READ_COMMAND_TYPES @ CONTROL_COMMAND_TYPES @
     WRITE_COMMAND_TYPES @ TOKEN_COMMAND_TYPES"

lemmas command_group_defs =
  PHASE_SPECIFIC_READ_COMMAND_TYPES_def READ_COMMAND_TYPES_def CONTROL_COMMAND_TYPES_def
  WRITE_COMMAND_TYPES_def GENERATE_TOKEN_TYPES_def TOKEN_COMMAND_TYPES_def
  UNSOLICITED_COMMAND_TYPES_def COMMAND_TYPES_def ENQUEUEABLE_COMMAND_TYPES_def

text \<open>\<open>isTypeIn\<close> and the guards made from it.\<close>

definition isTypeIn :: "commandType list \<Rightarrow> commandType \<Rightarrow> bool" where
  "isTypeIn grp commandType = List.member grp commandType"

definition isPhaseSpecificReadCommand :: "commandType \<Rightarrow> bool" where
  "isPhaseSpecificReadCommand = isTypeIn PHASE_SPECIFIC_READ_COMMAND_TYPES"

definition isReadCommand :: "commandType \<Rightarrow> bool" where
  "isReadCommand = isTypeIn READ_COMMAND_TYPES"

definition isControlCommand :: "commandType \<Rightarrow> bool" where
  "isControlCommand = isTypeIn CONTROL_COMMAND_TYPES"

definition isWriteCommand :: "commandType \<Rightarrow> bool" where
  "isWriteCommand = isTypeIn WRITE_COMMAND_TYPES"

definition isTokenCommand :: "commandType \<Rightarrow> bool" where
  "isTokenCommand = isTypeIn TOKEN_COMMAND_TYPES"

definition isGenerateTokenType :: "commandType \<Rightarrow> bool" where
  "isGenerateTokenType = isTypeIn GENERATE_TOKEN_TYPES"

definition isUnsolicitedCommand :: "commandType \<Rightarrow> bool" where
  "isUnsolicitedCommand = isTypeIn UNSOLICITED_COMMAND_TYPES"

definition isEnqueueableCommand :: "commandType \<Rightarrow> bool" where
  "isEnqueueableCommand = isTypeIn ENQUEUEABLE_COMMAND_TYPES"

definition isCommandType :: "commandType \<Rightarrow> bool" where
  "isCommandType = isTypeIn COMMAND_TYPES"

lemmas command_guard_defs =
  isTypeIn_def isPhaseSpecificReadCommand_def isReadCommand_def isControlCommand_def
  isWriteCommand_def isTokenCommand_def isGenerateTokenType_def isUnsolicitedCommand_def
  isEnqueueableCommand_def isCommandType_def

text \<open>
  The four enqueueable groups partition the enqueueable vocabulary: the vendor task dispatch
  (READ, else CONTROL, else WRITE, else TOKEN) meets every enqueueable command in exactly one arm.
\<close>

lemma enqueueable_groups_partition:
  "isEnqueueableCommand c \<longleftrightarrow>
     isReadCommand c \<or> isControlCommand c \<or> isWriteCommand c \<or> isTokenCommand c"
  "\<not> (isReadCommand c \<and> isControlCommand c)" "\<not> (isReadCommand c \<and> isWriteCommand c)"
  "\<not> (isReadCommand c \<and> isTokenCommand c)" "\<not> (isControlCommand c \<and> isWriteCommand c)"
  "\<not> (isControlCommand c \<and> isTokenCommand c)" "\<not> (isWriteCommand c \<and> isTokenCommand c)"
  by (cases c; simp add: command_guard_defs command_group_defs)+

lemma enqueueable_iff_not_unsolicited: "isEnqueueableCommand c \<longleftrightarrow> \<not> isUnsolicitedCommand c"
  by (cases c) (simp_all add: command_guard_defs command_group_defs)

lemma commandTypes_total: "isCommandType c"
  by (cases c) (simp_all add: command_guard_defs command_group_defs)

end
