(* ===== verification/Redis_Keys.thy ===== *)
theory Redis_Keys
  imports Prelude
begin

text \<open>
  Redis key builders: \<open>src/lib/redis-repository/keys.ts\<close>, the initial-queue keys of
  \<open>src/plugins/_shared/initial-queue-key.ts\<close>, the two literal stage keys of
  \<open>src/engine/lifecycle/stages.ts\<close> and the webhook keys of \<open>src/engine/webhook/keys.ts\<close>.
  Keys are the strings the code builds. The lemmas show that the builders are injective where the
  engine relies on it and that the key families do not meet, so one family's writes never touch
  another family's keys.
\<close>

datatype phase = PhaseA | PhaseB | PhaseC

text \<open>\<open>PHASES\<close> of \<open>schemas.ts\<close>, and a phase as it is spliced into a key.\<close>

definition PHASES :: "phase list" where
  "PHASES = [PhaseA, PhaseB, PhaseC]"

fun phase_string :: "phase \<Rightarrow> string" where
  "phase_string PhaseA = ''A''"
| "phase_string PhaseB = ''B''"
| "phase_string PhaseC = ''C''"

section \<open>\<open>redisKeys\<close>\<close>

definition MESSAGE_KEY_PREFIX :: string where
  "MESSAGE_KEY_PREFIX = ''device_message:''"

definition messageKey :: "msg_id \<Rightarrow> string" where
  "messageKey messageId = MESSAGE_KEY_PREFIX @ messageId"

definition messageIdFromKey :: "string option \<Rightarrow> msg_id option" where
  "messageIdFromKey key =
     (case key of
        None \<Rightarrow> None
      | Some k \<Rightarrow>
          if \<not> starts_with MESSAGE_KEY_PREFIX k then None
          else (let i = drop (length MESSAGE_KEY_PREFIX) k in if i = [] then None else Some i))"

definition listOfInitialQueuesToDistributeFrom :: string where
  "listOfInitialQueuesToDistributeFrom = ''queues_to_distribute_from''"

definition lockForQueue :: "string \<Rightarrow> string" where
  "lockForQueue toLock = ''lock_queue:'' @ toLock"

definition queueAwaitingTask :: "plugin_id \<Rightarrow> string" where
  "queueAwaitingTask pluginId = ''queue_awaiting_task:'' @ pluginId"

definition indexCorrelationId :: "string \<Rightarrow> phase option \<Rightarrow> string" where
  "indexCorrelationId correlationId ph =
     ''idx:correlation_id:'' @ correlationId @
     (case ph of None \<Rightarrow> [] | Some p \<Rightarrow> ''_ph'' @ phase_string p)"

definition indexExternalDeliveryId :: "string \<Rightarrow> string" where
  "indexExternalDeliveryId externalDeliveryId = ''idx:external_delivery_id:'' @ externalDeliveryId"

lemma messageIdFromKey_messageKey [key_simps]:
  "i \<noteq> [] \<Longrightarrow> messageIdFromKey (Some (messageKey i)) = Some i"
  by (simp add: messageIdFromKey_def messageKey_def)

lemma messageIdFromKey_Some:
  "messageIdFromKey (Some k) = Some i \<Longrightarrow> k = messageKey i \<and> i \<noteq> []"
  by (auto simp: messageIdFromKey_def messageKey_def Let_def starts_with_def split: if_splits)
     (metis append_take_drop_id)

lemma messageIdFromKey_None [simp]: "messageIdFromKey None = None"
  by (simp add: messageIdFromKey_def)

lemma messageKey_inject [simp]: "messageKey i = messageKey j \<longleftrightarrow> i = j"
  by (simp add: messageKey_def)

lemma queueAwaitingTask_inject [simp]: "queueAwaitingTask p = queueAwaitingTask q \<longleftrightarrow> p = q"
  by (simp add: queueAwaitingTask_def)

lemma indexExternalDeliveryId_inject [simp]:
  "indexExternalDeliveryId a = indexExternalDeliveryId b \<longleftrightarrow> a = b"
  by (simp add: indexExternalDeliveryId_def)

lemma lockForQueue_inject [simp]: "lockForQueue a = lockForQueue b \<longleftrightarrow> a = b"
  by (simp add: lockForQueue_def)

text \<open>For one correlation id the base key and the three phase keys are four different keys.\<close>

lemma phase_string_inject [simp]: "phase_string p = phase_string q \<longleftrightarrow> p = q"
  by (cases p; cases q) simp_all

lemma indexCorrelationId_phase_inject [simp]:
  "indexCorrelationId c p = indexCorrelationId c q \<longleftrightarrow> p = q"
  by (cases p; cases q) (auto simp: indexCorrelationId_def)

text \<open>
  Over all ids the builder is not injective: the id \<open>x_phA\<close> without a phase and the id \<open>x\<close> with
  phase A share one key.
\<close>

lemma indexCorrelationId_clash:
  "indexCorrelationId (x @ ''_phA'') None = indexCorrelationId x (Some PhaseA)"
  by (simp add: indexCorrelationId_def)

section \<open>Initial-queue keys\<close>

definition buildInitialQueueKey :: "plugin_id \<Rightarrow> string \<Rightarrow> string \<Rightarrow> string" where
  "buildInitialQueueKey pluginId kind i = ''queue:'' @ pluginId @ '':'' @ kind @ '':'' @ i"

definition parseInitialQueueKey :: "string \<Rightarrow> string list option" where
  "parseInitialQueueKey queueKey =
     (let parts = split_on CHR '':'' queueKey in
      if length parts < 4 \<or> parts ! 0 \<noteq> ''queue'' \<or> parts ! 1 = [] then None else Some parts)"

definition getPluginIdFromInitialQueueKey :: "string \<Rightarrow> plugin_id option" where
  "getPluginIdFromInitialQueueKey queueKey =
     map_option (\<lambda>parts. parts ! 1) (parseInitialQueueKey queueKey)"

definition buildConcurrencyRateLimitKey :: "string \<Rightarrow> string option" where
  "buildConcurrencyRateLimitKey queueKey =
     (case parseInitialQueueKey queueKey of
        None \<Rightarrow> None
      | Some parts \<Rightarrow> Some (''rate_limit:'' @ join_with CHR '':'' (drop 1 parts)))"

text \<open>The documented segment invariant: non-empty and free of the delimiter.\<close>

definition good_segment :: "string \<Rightarrow> bool" where
  "good_segment s \<longleftrightarrow> s \<noteq> [] \<and> CHR '':'' \<notin> set s"

lemma split_on_queue_prefix:
  "split_on CHR '':'' (''queue:'' @ s) = ''queue'' # split_on CHR '':'' s"
  using split_on_append [of "CHR '':''" "''queue''" s] by simp

lemma split_buildInitialQueueKey:
  assumes "good_segment p" and "good_segment k"
  shows "split_on CHR '':'' (buildInitialQueueKey p k i) =
           ''queue'' # p # k # split_on CHR '':'' i"
  using assms split_on_append [of "CHR '':''" p "k @ '':'' @ i"]
    split_on_append [of "CHR '':''" k i]
  by (simp add: buildInitialQueueKey_def split_on_queue_prefix [simplified] good_segment_def)

lemma parse_buildInitialQueueKey:
  assumes "good_segment p" and "good_segment k"
  shows "parseInitialQueueKey (buildInitialQueueKey p k i) =
           Some (''queue'' # p # k # split_on CHR '':'' i)"
proof -
  have "length (split_on CHR '':'' i) \<ge> 1"
    by (cases "split_on CHR '':'' i") auto
  then have "\<not> length (''queue'' # p # k # split_on CHR '':'' i) < 4" by simp
  with assms show ?thesis
    by (simp add: parseInitialQueueKey_def split_buildInitialQueueKey Let_def good_segment_def)
qed

lemma getPluginId_buildInitialQueueKey [key_simps]:
  "good_segment p \<Longrightarrow> good_segment k \<Longrightarrow>
     getPluginIdFromInitialQueueKey (buildInitialQueueKey p k i) = Some p"
  by (simp add: getPluginIdFromInitialQueueKey_def parse_buildInitialQueueKey)

lemma rateLimitKey_buildInitialQueueKey [key_simps]:
  assumes "good_segment p" and "good_segment k"
  shows "buildConcurrencyRateLimitKey (buildInitialQueueKey p k i) =
           Some (''rate_limit:'' @ p @ '':'' @ k @ '':'' @ i)"
  using assms
  by (simp add: buildConcurrencyRateLimitKey_def parse_buildInitialQueueKey join_cons join_split)

lemma parseInitialQueueKey_Some:
  assumes "parseInitialQueueKey k = Some parts"
  shows "k = ''queue:'' @ join_with CHR '':'' (drop 1 parts)"
proof -
  from assms have parts: "parts = split_on CHR '':'' k" and len: "length parts \<ge> 4"
    and hd: "parts ! 0 = ''queue''"
    by (auto simp: parseInitialQueueKey_def Let_def split: if_splits)
  from len hd obtain ps where ps: "parts = ''queue'' # ps" "ps \<noteq> []"
    by (cases parts; cases "tl parts") auto
  have "k = join_with CHR '':'' parts" using parts by (simp add: join_split)
  with ps show ?thesis by (simp add: join_cons)
qed

lemma buildConcurrencyRateLimitKey_Some:
  "buildConcurrencyRateLimitKey k = Some r \<Longrightarrow> \<exists>s. k = ''queue:'' @ s \<and> r = ''rate_limit:'' @ s"
  by (auto simp: buildConcurrencyRateLimitKey_def split: option.splits
      dest!: parseInitialQueueKey_Some)

text \<open>Different valid initial queues never share a concurrency set.\<close>

lemma buildConcurrencyRateLimitKey_inject:
  "buildConcurrencyRateLimitKey k = Some r \<Longrightarrow> buildConcurrencyRateLimitKey k' = Some r \<Longrightarrow> k = k'"
  by (drule buildConcurrencyRateLimitKey_Some)+ auto

section \<open>Stage and webhook keys\<close>

definition QUEUE_NS_KEY :: string where
  "QUEUE_NS_KEY = ''queue_in_flight_to_ns''"

definition QUEUE_RETRY_KEY :: string where
  "QUEUE_RETRY_KEY = ''queue_awaiting_retry''"

definition webhookPending :: string where
  "webhookPending = ''webhook:pending''"

definition webhookPayload :: "string \<Rightarrow> string" where
  "webhookPayload eventId = ''webhook:payload:'' @ eventId"

definition webhookDeadLetter :: "string \<Rightarrow> string" where
  "webhookDeadLetter eventId = ''webhook:dlq:'' @ eventId"

lemma webhookPayload_inject [simp]: "webhookPayload a = webhookPayload b \<longleftrightarrow> a = b"
  by (simp add: webhookPayload_def)

lemma webhookDeadLetter_inject [simp]: "webhookDeadLetter a = webhookDeadLetter b \<longleftrightarrow> a = b"
  by (simp add: webhookDeadLetter_def)

lemma webhook_keys_disjoint [simp]:
  "webhookPayload a \<noteq> webhookDeadLetter b" "webhookDeadLetter b \<noteq> webhookPayload a"
  by (simp_all add: webhookPayload_def webhookDeadLetter_def)

lemma queue_keys_disjoint [key_simps]:
  "QUEUE_NS_KEY \<noteq> QUEUE_RETRY_KEY" "QUEUE_RETRY_KEY \<noteq> QUEUE_NS_KEY"
  "queueAwaitingTask p \<noteq> QUEUE_NS_KEY" "queueAwaitingTask p \<noteq> QUEUE_RETRY_KEY"
  "QUEUE_NS_KEY \<noteq> queueAwaitingTask p" "QUEUE_RETRY_KEY \<noteq> queueAwaitingTask p"
  "buildInitialQueueKey p k i \<noteq> QUEUE_NS_KEY" "buildInitialQueueKey p k i \<noteq> QUEUE_RETRY_KEY"
  "buildInitialQueueKey p k i \<noteq> queueAwaitingTask q"
  "QUEUE_NS_KEY \<noteq> buildInitialQueueKey p k i" "QUEUE_RETRY_KEY \<noteq> buildInitialQueueKey p k i"
  "queueAwaitingTask q \<noteq> buildInitialQueueKey p k i"
  by (auto simp: QUEUE_NS_KEY_def QUEUE_RETRY_KEY_def queueAwaitingTask_def buildInitialQueueKey_def)

lemma index_keys_disjoint [key_simps]:
  "indexCorrelationId c p \<noteq> indexExternalDeliveryId d"
  "indexExternalDeliveryId d \<noteq> indexCorrelationId c p"
  "lockForQueue q \<noteq> indexExternalDeliveryId d" "indexExternalDeliveryId d \<noteq> lockForQueue q"
  "lockForQueue q \<noteq> indexCorrelationId c p" "indexCorrelationId c p \<noteq> lockForQueue q"
  by (auto simp: indexCorrelationId_def indexExternalDeliveryId_def lockForQueue_def)

end
