(* ===== verification/Device_Message.thy ===== *)
theory Device_Message
  imports Command_Types Redis_Keys
begin

text \<open>
  The device-message aggregate: the types of \<open>src/lib/device-message/types.ts\<close>, the value
  constraints that \<open>schemas.ts\<close> declares (as bool-valued predicates on the typed records;
  \<open>Wire_Schemas\<close> reads the JSON), and
  \<open>omit-internal-fields.ts\<close>. An optional field is an \<open>option\<close>, \<open>None\<close> for absent.
\<close>

section \<open>Statuses\<close>

datatype deliveryStatus =
    QUEUED
  | TO_RETRY
  | SENT_TO_NS
  | DELIVERED_TO_NS
  | SENT_TO_DEVICE
  | DELIVERY_SUCCESSFUL
  | DELIVERY_FAILED

definition terminal_status :: "deliveryStatus \<Rightarrow> bool" where
  "terminal_status s \<longleftrightarrow> s \<in> {DELIVERY_SUCCESSFUL, DELIVERY_FAILED}"

datatype messageResponseStatus = EXECUTION_SUCCESS | EXECUTION_FAILURE

datatype cancelResult = CANCELLED | NOT_CANCELLABLE | NOT_FOUND

record cancelMessageResult =
  cr_correlationId :: string
  cr_result :: cancelResult

section \<open>Device and request data\<close>

datatype deviceType = ELECTRICITY_METER

record relayNode =
  rn_id :: "nat option"
  rn_externalReference :: "string option"
  rn_snr :: "num option"
  rn_rssi :: "num option"

record device =
  dev_type :: deviceType
  dev_externalReference :: string
  dev_relayNode :: "relayNode option"

text \<open>The payload union: \<open>SetDate year month day\<close> and \<open>SetTime hour minute second\<close>.\<close>

datatype payload =
    SetDate int int int
  | SetTime int int "int option"

record requestData =
  rd_token :: "string option"
  rd_payload :: "payload option"

section \<open>Create DTO\<close>

record createDeviceMessage =
  c_commandType :: commandType
  c_priority :: num
  c_pluginId :: plugin_id
  c_requestData :: "requestData option"
  c_phase :: "phase option"
  c_networkId :: "nat option"
  c_correlationId :: "string option"
  c_device :: device

definition uint32 :: "nat \<Rightarrow> bool" where
  "uint32 n \<longleftrightarrow> n < 2 ^ 32"

definition valid_relayNode :: "relayNode \<Rightarrow> bool" where
  "valid_relayNode r \<longleftrightarrow> pred_option uint32 (rn_id r)"

definition valid_device :: "device \<Rightarrow> bool" where
  "valid_device d \<longleftrightarrow>
     dev_externalReference d \<noteq> [] \<and> pred_option valid_relayNode (dev_relayNode d)"

fun setDatePayloadSchema :: "int \<Rightarrow> int \<Rightarrow> int \<Rightarrow> bool" where
  "setDatePayloadSchema year month day \<longleftrightarrow>
     0 \<le> year \<and> year \<le> 9999 \<and> 1 \<le> month \<and> month \<le> 12 \<and> 1 \<le> day \<and> day \<le> 31"

fun setTimePayloadSchema :: "int \<Rightarrow> int \<Rightarrow> int option \<Rightarrow> bool" where
  "setTimePayloadSchema hour minute second \<longleftrightarrow>
     0 \<le> hour \<and> hour \<le> 23 \<and> 0 \<le> minute \<and> minute \<le> 59 \<and>
     pred_option (\<lambda>s. 0 \<le> s \<and> s \<le> 59) second"

fun valid_payload :: "payload \<Rightarrow> bool" where
  "valid_payload (SetDate y m d) = setDatePayloadSchema y m d"
| "valid_payload (SetTime h m s) = setTimePayloadSchema h m s"

definition valid_requestData :: "requestData \<Rightarrow> bool" where
  "valid_requestData r \<longleftrightarrow> pred_option valid_payload (rd_payload r)"

definition createDeviceMessageSchema :: "createDeviceMessage \<Rightarrow> bool" where
  "createDeviceMessageSchema c \<longleftrightarrow>
     isEnqueueableCommand (c_commandType c) \<and>
     c_pluginId c \<noteq> [] \<and>
     pred_option valid_requestData (c_requestData c) \<and>
     pred_option uint32 (c_networkId c) \<and>
     pred_option (\<lambda>s. s \<noteq> []) (c_correlationId c) \<and>
     valid_device (c_device c)"

definition cancelOneBodySchema :: "string \<Rightarrow> bool" where
  "cancelOneBodySchema correlationId \<longleftrightarrow> correlationId \<noteq> []"

definition cancelManyBodySchema :: "string list \<Rightarrow> bool" where
  "cancelManyBodySchema correlationIds \<longleftrightarrow>
     correlationIds \<noteq> [] \<and> list_all (\<lambda>s. s \<noteq> []) correlationIds"

section \<open>Responses, failures\<close>

record messageResponse =
  mr_status :: messageResponseStatus
  mr_data :: "(string \<times> jval) list option"

datatype errorCode = CodeNum num | CodeStr string

record failureContext =
  fc_reason :: string
  fc_errorCode :: "errorCode option"
  fc_details :: "string option"
  fc_skipRetry :: "bool option"

text \<open>
  A stored failure. \<open>timestamp\<close> is the ISO text of an instant in the code; the model keeps the
  instant.
\<close>

record failureReason =
  fr_reason :: string
  fr_errorCode :: "errorCode option"
  fr_details :: "string option"
  fr_status :: deliveryStatus
  fr_timestamp :: time
  fr_isFinal :: "bool option"

section \<open>The message\<close>

record deviceMessage =
  m_id :: msg_id
  m_commandType :: commandType
  m_priority :: num
  m_pluginId :: plugin_id
  m_requestData :: "requestData option"
  m_phase :: "phase option"
  m_networkId :: "nat option"
  m_correlationId :: "string option"
  m_device :: device
  m_deliveryQueueId :: string
  m_deliveryStatus :: deliveryStatus
  m_response :: "messageResponse option"
  m_unsolicited :: "bool option"
  m_retryCount :: "nat option"
  m_failureHistory :: "failureReason list option"
  m_concurrencyRateLimitKey :: "string option"

text \<open>\<open>Partial<DeviceMessage>\<close>, what the emit sites pass on.\<close>

record partialMessage =
  p_id :: "msg_id option"
  p_commandType :: "commandType option"
  p_priority :: "num option"
  p_pluginId :: "plugin_id option"
  p_requestData :: "requestData option"
  p_phase :: "phase option"
  p_networkId :: "nat option"
  p_correlationId :: "string option"
  p_device :: "device option"
  p_deliveryQueueId :: "string option"
  p_deliveryStatus :: "deliveryStatus option"
  p_response :: "messageResponse option"
  p_unsolicited :: "bool option"
  p_retryCount :: "nat option"
  p_failureHistory :: "failureReason list option"
  p_concurrencyRateLimitKey :: "string option"

definition partial_of :: "deviceMessage \<Rightarrow> partialMessage" where
  "partial_of m = \<lparr>
     p_id = Some (m_id m), p_commandType = Some (m_commandType m),
     p_priority = Some (m_priority m), p_pluginId = Some (m_pluginId m),
     p_requestData = m_requestData m, p_phase = m_phase m, p_networkId = m_networkId m,
     p_correlationId = m_correlationId m, p_device = Some (m_device m),
     p_deliveryQueueId = Some (m_deliveryQueueId m),
     p_deliveryStatus = Some (m_deliveryStatus m), p_response = m_response m,
     p_unsolicited = m_unsolicited m, p_retryCount = m_retryCount m,
     p_failureHistory = m_failureHistory m,
     p_concurrencyRateLimitKey = m_concurrencyRateLimitKey m \<rparr>"

text \<open>\<open>omitInternalFields\<close> on a partial message, and on a full one as the HTTP layer uses it.\<close>

definition omitInternalFields :: "partialMessage \<Rightarrow> partialMessage" where
  "omitInternalFields message =
     (if p_concurrencyRateLimitKey message = None then message
      else message\<lparr>p_concurrencyRateLimitKey := None\<rparr>)"

definition omitInternalFields_full :: "deviceMessage \<Rightarrow> deviceMessage" where
  "omitInternalFields_full message =
     (if m_concurrencyRateLimitKey message = None then message
      else message\<lparr>m_concurrencyRateLimitKey := None\<rparr>)"

lemma omitInternalFields_eq:
  "omitInternalFields message = message\<lparr>p_concurrencyRateLimitKey := None\<rparr>"
  by (simp add: omitInternalFields_def)

lemma omitInternalFields_partial_of:
  "omitInternalFields (partial_of m) = partial_of (omitInternalFields_full m)"
  by (simp add: omitInternalFields_def omitInternalFields_full_def partial_of_def)

section \<open>Incoming events\<close>

record parsedIncomingEvent =
  e_commandType :: "commandType option"
  e_deliveryQueueId :: "string option"
  e_deliveryStatus :: deliveryStatus
  e_device :: device
  e_response :: "messageResponse option"
  e_unsolicited :: bool
  e_failureContext :: "failureContext option"

section \<open>Domain errors\<close>

text \<open>
  \<open>src/engine/errors.ts\<close>, the vendor error classes (message, code, \<open>skipRetry\<close>), the
  \<open>ServiceError\<close> of the gRPC library (message, code, details) and plain \<open>Error\<close>s. A call that may throw returns \<open>exn + 'a\<close>.
\<close>

datatype exn =
    UnknownPluginError plugin_id
  | TokenNotSupportedError plugin_id
  | ProvisioningNotSupportedError plugin_id
  | InvalidProvisioningError plugin_id string
  | UnsupportedCommandTypeError plugin_id commandType
  | InvalidEnqueueError plugin_id string
  | VendorError string "errorCode option" bool
  | GrpcServiceError string num string
  | PlainError string

text \<open>The \<open>message\<close> of each error.\<close>

fun exn_message :: "exn \<Rightarrow> string" where
  "exn_message (UnknownPluginError i) = ''Unknown or disabled pluginId: '' @ i"
| "exn_message (TokenNotSupportedError i) = ''Plugin does not support token generation: '' @ i"
| "exn_message (ProvisioningNotSupportedError i) = ''Plugin does not support provisioning: '' @ i"
| "exn_message (InvalidProvisioningError i detail) = ''Plugin '' @ i @ '': '' @ detail"
| "exn_message (UnsupportedCommandTypeError i c) =
     ''Plugin '' @ i @ '' does not support commandType: '' @ command_text c"
| "exn_message (InvalidEnqueueError i detail) = ''Plugin '' @ i @ '': '' @ detail"
| "exn_message (VendorError m _ _) = m"
| "exn_message (GrpcServiceError m _ _) = m"
| "exn_message (PlainError m) = m"

definition raises :: "exn + 'a \<Rightarrow> bool" where
  "raises r = (case r of Inl _ \<Rightarrow> True | Inr _ \<Rightarrow> False)"

lemma raises_simps [simp]: "raises (Inl e)" "\<not> raises (Inr v)"
  by (simp_all add: raises_def)

end
