(* ===== verification/Delivery_Config.thy ===== *)
theory Delivery_Config
  imports Device_Message
begin

text \<open>
  Configuration knobs and the delays computed from them: the \<open>delivery\<close> and \<open>eventWebhook\<close> slices
  of \<open>src/config/schema.ts\<close> with their bounds and defaults, \<open>calculateBackoffDelay\<close>
  (\<open>src/lib/retry-helpers.ts\<close>), \<open>calculateWebhookBackoffDelay\<close>
  (\<open>src/engine/webhook/backoff.ts\<close>) and the tuning merge
  (\<open>src/plugins/_shared/merge-plugin-tuning.ts\<close>).
\<close>

section \<open>Delivery knobs\<close>

record deliveryConfig =
  maxRetries :: nat
  retryBaseDelayMs :: nat
  retryBackoffMultiplier :: num
  retryMaxDelayMs :: nat
  messageTtlSeconds :: nat

definition deliverySchema :: "deliveryConfig \<Rightarrow> bool" where
  "deliverySchema d \<longleftrightarrow>
     0 < retryBaseDelayMs d \<and> 1 \<le> retryBackoffMultiplier d \<and>
     0 < retryMaxDelayMs d \<and> 0 < messageTtlSeconds d"

definition default_delivery :: deliveryConfig where
  "default_delivery = \<lparr>maxRetries = 11, retryBaseDelayMs = 2000, retryBackoffMultiplier = 2,
     retryMaxDelayMs = 3600000, messageTtlSeconds = 604800\<rparr>"

lemma default_delivery_valid: "deliverySchema default_delivery"
  by (simp add: deliverySchema_def default_delivery_def)

record eventWebhookConfig =
  wh_url :: string
  wh_maxAttempts :: nat
  wh_baseDelayMs :: nat
  wh_backoffMultiplier :: num
  wh_maxDelayMs :: nat
  wh_requestTimeoutMs :: nat
  wh_deadLetterTtlSeconds :: nat

definition eventWebhookSchema :: "eventWebhookConfig \<Rightarrow> bool" where
  "eventWebhookSchema w \<longleftrightarrow>
     0 < wh_maxAttempts w \<and> 0 < wh_baseDelayMs w \<and> 1 \<le> wh_backoffMultiplier w \<and>
     0 < wh_maxDelayMs w \<and> 0 < wh_requestTimeoutMs w \<and> 0 < wh_deadLetterTtlSeconds w"

definition default_eventWebhook :: "string \<Rightarrow> eventWebhookConfig" where
  "default_eventWebhook url = \<lparr>wh_url = url, wh_maxAttempts = 6, wh_baseDelayMs = 2000,
     wh_backoffMultiplier = 2, wh_maxDelayMs = 60000, wh_requestTimeoutMs = 10000,
     wh_deadLetterTtlSeconds = 604800\<rparr>"

section \<open>Retry backoff\<close>

definition RETRY_JITTER_FRACTION :: num where
  "RETRY_JITTER_FRACTION = 1 / 2"

text \<open>The capped exponential part, shared by the delay and its bounds.\<close>

definition cappedDelay :: "nat \<Rightarrow> deliveryConfig \<Rightarrow> num" where
  "cappedDelay retryCount d =
     min (of_nat (retryBaseDelayMs d) * retryBackoffMultiplier d ^ retryCount)
         (of_nat (retryMaxDelayMs d))"

text \<open>\<open>rnd\<close> is the value \<open>Math.random()\<close> returned, in \<open>[0, 1)\<close>.\<close>

definition calculateBackoffDelay :: "nat \<Rightarrow> deliveryConfig \<Rightarrow> num \<Rightarrow> num" where
  "calculateBackoffDelay retryCount deliveryConfig rnd =
     (let capped = cappedDelay retryCount deliveryConfig;
          jitter = \<lfloor>rnd * (capped * RETRY_JITTER_FRACTION)\<rfloor>
      in capped + of_int jitter)"

lemma cappedDelay_pos: "deliverySchema d \<Longrightarrow> 0 < cappedDelay n d"
  by (simp add: cappedDelay_def deliverySchema_def)

lemma cappedDelay_mono:
  assumes "deliverySchema d" and "m \<le> n"
  shows "cappedDelay m d \<le> cappedDelay n d"
proof -
  have "retryBackoffMultiplier d ^ m \<le> retryBackoffMultiplier d ^ n"
    using assms by (intro power_increasing) (auto simp: deliverySchema_def)
  then have "of_nat (retryBaseDelayMs d) * retryBackoffMultiplier d ^ m
      \<le> of_nat (retryBaseDelayMs d) * retryBackoffMultiplier d ^ n"
    by (intro mult_left_mono) auto
  then show ?thesis unfolding cappedDelay_def by (meson min.mono order_refl)
qed

lemma cappedDelay_le_max: "cappedDelay n d \<le> of_nat (retryMaxDelayMs d)"
  by (simp add: cappedDelay_def)

lemma calculateBackoffDelay_bounds:
  assumes "deliverySchema d" and "0 \<le> rnd" and "rnd < 1"
  shows "cappedDelay n d \<le> calculateBackoffDelay n d rnd"
    and "calculateBackoffDelay n d rnd \<le> 3 / 2 * cappedDelay n d"
proof -
  let ?c = "cappedDelay n d" and ?x = "rnd * (cappedDelay n d * RETRY_JITTER_FRACTION)"
  have pos: "0 < ?c" using assms(1) by (rule cappedDelay_pos)
  have "0 \<le> ?x" using pos assms(2) by (simp add: RETRY_JITTER_FRACTION_def)
  then have "0 \<le> \<lfloor>?x\<rfloor>" by simp
  then show "?c \<le> calculateBackoffDelay n d rnd"
    by (simp add: calculateBackoffDelay_def Let_def)
  have "of_int \<lfloor>?x\<rfloor> \<le> ?x" by (rule of_int_floor_le)
  also have "?x \<le> 1 * (?c * RETRY_JITTER_FRACTION)"
    using pos assms(2,3) by (intro mult_right_mono) (auto simp: RETRY_JITTER_FRACTION_def)
  finally show "calculateBackoffDelay n d rnd \<le> 3 / 2 * ?c"
    by (simp add: calculateBackoffDelay_def Let_def RETRY_JITTER_FRACTION_def)
qed

section \<open>Webhook backoff\<close>

definition calculateWebhookBackoffDelay :: "nat \<Rightarrow> eventWebhookConfig \<Rightarrow> num" where
  "calculateWebhookBackoffDelay failedAttemptCount w =
     (let safeCount = max 1 failedAttemptCount;
          delay = of_nat (wh_baseDelayMs w) * wh_backoffMultiplier w ^ (safeCount - 1)
      in min delay (of_nat (wh_maxDelayMs w)))"

lemma calculateWebhookBackoffDelay_pos:
  "eventWebhookSchema w \<Longrightarrow> 0 < calculateWebhookBackoffDelay n w"
  by (simp add: calculateWebhookBackoffDelay_def eventWebhookSchema_def Let_def)

section \<open>Plugin tuning\<close>

record pluginTuning =
  nsInFlightTimeoutMs :: nat
  relayNodeInFlightTimeoutMs :: nat
  deviceInFlightTimeoutMs :: nat
  initialPollDelayMs :: nat

definition DEFAULT_PLUGIN_TUNING :: pluginTuning where
  "DEFAULT_PLUGIN_TUNING = \<lparr>nsInFlightTimeoutMs = 20000, relayNodeInFlightTimeoutMs = 900000,
     deviceInFlightTimeoutMs = 12000, initialPollDelayMs = 10000\<rparr>"

text \<open>A partial override: the keys that are present.\<close>

record tuningOverride =
  o_nsInFlightTimeoutMs :: "nat option"
  o_relayNodeInFlightTimeoutMs :: "nat option"
  o_deviceInFlightTimeoutMs :: "nat option"
  o_initialPollDelayMs :: "nat option"

definition no_override :: tuningOverride where
  "no_override = \<lparr>o_nsInFlightTimeoutMs = None, o_relayNodeInFlightTimeoutMs = None,
     o_deviceInFlightTimeoutMs = None, o_initialPollDelayMs = None\<rparr>"

text \<open>\<open>{ ...base, ...override }\<close>: a present key wins.\<close>

definition spread_tuning :: "pluginTuning \<Rightarrow> tuningOverride \<Rightarrow> pluginTuning" where
  "spread_tuning t ov = \<lparr>
     nsInFlightTimeoutMs = case_option (nsInFlightTimeoutMs t) id (o_nsInFlightTimeoutMs ov),
     relayNodeInFlightTimeoutMs =
       case_option (relayNodeInFlightTimeoutMs t) id (o_relayNodeInFlightTimeoutMs ov),
     deviceInFlightTimeoutMs =
       case_option (deviceInFlightTimeoutMs t) id (o_deviceInFlightTimeoutMs ov),
     initialPollDelayMs = case_option (initialPollDelayMs t) id (o_initialPollDelayMs ov)\<rparr>"

text \<open>
  \<open>tuningOverrideSchema\<close> on the raw \<open>plugins[].tuning\<close> object: \<open>strict\<close> rejects unknown keys, and
  each known key must be a positive safe integer.
\<close>

definition tuning_keys :: "string list" where
  "tuning_keys = [''nsInFlightTimeoutMs'', ''relayNodeInFlightTimeoutMs'',
     ''deviceInFlightTimeoutMs'', ''initialPollDelayMs'']"

fun positive_int :: "jval \<Rightarrow> nat option" where
  "positive_int (JNum x) =
     (if x \<in> \<int> \<and> 0 < x \<and> x < 2 ^ 53 then Some (nat \<lfloor>x\<rfloor>) else None)"
| "positive_int _ = None"

definition tuningOverrideSchema :: "(string \<times> jval) list \<Rightarrow> tuningOverride option" where
  "tuningOverrideSchema raw =
     (if list_all (\<lambda>(k, v). k \<in> set tuning_keys \<and> positive_int v \<noteq> None) raw
      then (let field = (\<lambda>k. Option.bind (map_of raw k) positive_int) in
        Some \<lparr>o_nsInFlightTimeoutMs = field ''nsInFlightTimeoutMs'',
              o_relayNodeInFlightTimeoutMs = field ''relayNodeInFlightTimeoutMs'',
              o_deviceInFlightTimeoutMs = field ''deviceInFlightTimeoutMs'',
              o_initialPollDelayMs = field ''initialPollDelayMs''\<rparr>)
      else None)"

record pluginEntry =
  pe_id :: plugin_id
  pe_settings :: "(string \<times> jval) list option"
  pe_tuning :: "(string \<times> jval) list option"

definition mergePluginTuning :: "pluginEntry \<Rightarrow> tuningOverride \<Rightarrow> exn + pluginTuning" where
  "mergePluginTuning entry overrides =
     (let defaults = spread_tuning DEFAULT_PLUGIN_TUNING overrides in
      case pe_tuning entry of
        None \<Rightarrow> Inr defaults
      | Some raw \<Rightarrow>
          (case tuningOverrideSchema raw of
             None \<Rightarrow> Inl (PlainError (''Invalid tuning for plugin '' @ pe_id entry))
           | Some parsed \<Rightarrow> Inr (spread_tuning defaults parsed)))"

definition positive_tuning :: "pluginTuning \<Rightarrow> bool" where
  "positive_tuning t \<longleftrightarrow> 0 < nsInFlightTimeoutMs t \<and> 0 < relayNodeInFlightTimeoutMs t \<and>
     0 < deviceInFlightTimeoutMs t \<and> 0 < initialPollDelayMs t"

lemma positive_int_pos: "positive_int v = Some n \<Longrightarrow> 0 < n"
  by (cases v) (auto split: if_splits elim!: Ints_cases)

lemma default_tuning_positive: "positive_tuning DEFAULT_PLUGIN_TUNING"
  by (simp add: positive_tuning_def DEFAULT_PLUGIN_TUNING_def)

lemma spread_no_override [simp]: "spread_tuning t no_override = t"
  by (simp add: spread_tuning_def no_override_def)

lemma bind_positive_int: "Option.bind x positive_int = Some n \<Longrightarrow> 0 < n"
  by (cases x) (auto dest: positive_int_pos)

lemma tuningOverrideSchema_positive:
  assumes "tuningOverrideSchema raw = Some ov"
  shows "o_nsInFlightTimeoutMs ov = Some n \<Longrightarrow> 0 < n"
    and "o_relayNodeInFlightTimeoutMs ov = Some n \<Longrightarrow> 0 < n"
    and "o_deviceInFlightTimeoutMs ov = Some n \<Longrightarrow> 0 < n"
    and "o_initialPollDelayMs ov = Some n \<Longrightarrow> 0 < n"
proof -
  let ?f = "\<lambda>k. Option.bind (map_of raw k) positive_int"
  from assms have "ov = \<lparr>o_nsInFlightTimeoutMs = ?f ''nsInFlightTimeoutMs'',
      o_relayNodeInFlightTimeoutMs = ?f ''relayNodeInFlightTimeoutMs'',
      o_deviceInFlightTimeoutMs = ?f ''deviceInFlightTimeoutMs'',
      o_initialPollDelayMs = ?f ''initialPollDelayMs''\<rparr>"
    unfolding tuningOverrideSchema_def Let_def
    by (metis option.distinct(1) option.sel)
  then show "o_nsInFlightTimeoutMs ov = Some n \<Longrightarrow> 0 < n"
    and "o_relayNodeInFlightTimeoutMs ov = Some n \<Longrightarrow> 0 < n"
    and "o_deviceInFlightTimeoutMs ov = Some n \<Longrightarrow> 0 < n"
    and "o_initialPollDelayMs ov = Some n \<Longrightarrow> 0 < n"
    by (simp_all add: bind_positive_int)
qed

lemma spread_parsed_positive:
  assumes "positive_tuning t" and "tuningOverrideSchema raw = Some ov"
  shows "positive_tuning (spread_tuning t ov)"
  unfolding positive_tuning_def spread_tuning_def
  using assms(1) tuningOverrideSchema_positive [OF assms(2)]
  by (auto simp: positive_tuning_def split: option.split)

end
