(* ===== verification/Plugin_SPI.thy ===== *)
theory Plugin_SPI
  imports Delivery_Config
begin

text \<open>
  The plugin interface (\<open>src/plugins/plugin.interface.ts\<close>) as data, and the registry
  (\<open>src/plugins/registry.ts\<close>). A plugin's asynchronous vendor calls (\<open>sendOne\<close>,
  \<open>getRemoteStatus\<close>, \<open>fetchStatus\<close>) are not functions here: their replies come in from outside,
  as arguments of the operations that await them. The record keeps what the engine reads of a
  plugin besides those calls. The locale \<open>delivery_plugin_contract\<close> is what the engine relies on
  about a plugin's pure parts; the first-party plugins are shown to satisfy it where they are
  modelled.
\<close>

datatype pipelinePattern = PUSH | PULL

text \<open>\<open>Spacing minIntervalMs\<close> and \<open>Concurrency maxInFlight\<close>.\<close>

datatype admission = Spacing nat | Concurrency nat

record deliveryPlugin =
  d_id :: plugin_id
  d_pattern :: pipelinePattern
  d_supportedCommandTypes :: "commandType list"
  d_initialQueueKey :: "nat option \<Rightarrow> device \<Rightarrow> string"
  d_validateEnqueue :: "(createDeviceMessage \<Rightarrow> string option) option"
  d_admission :: admission
  d_tuning :: pluginTuning
  d_relayNodeNoun :: "string option"
  d_parseError :: "exn \<Rightarrow> failureContext"
  d_hasGetRemoteStatus :: bool
  d_hasToken :: bool
  d_hasProvisioning :: bool

text \<open>
  \<open>DeviceMessagingPlugin\<close>: a delivery plugin, or a token-only one (pattern \<open>NONE\<close>), which has
  no queue, admission or tuning. The registry's lookup can also give a value that is no plugin,
  \<open>ObjectMember name\<close>: the member of that name which every object inherits. It is an object or a
  function, so it counts as true, and each field of a plugin is undefined on it.
\<close>

datatype devicePlugin =
    Delivery deliveryPlugin
  | TokenOnly plugin_id
  | ObjectMember string

fun plugin_id_of :: "devicePlugin \<Rightarrow> plugin_id option" where
  "plugin_id_of (Delivery p) = Some (d_id p)"
| "plugin_id_of (TokenOnly i) = Some i"
| "plugin_id_of (ObjectMember _) = None"

fun delivery_of :: "devicePlugin \<Rightarrow> deliveryPlugin option" where
  "delivery_of (Delivery p) = Some p"
| "delivery_of (TokenOnly i) = None"
| "delivery_of (ObjectMember _) = None"

section \<open>The registry\<close>

text \<open>The object \<open>plugins\<close>: its own entries in insertion order.\<close>

type_synonym registry = "(plugin_id \<times> devicePlugin) list"

text \<open>
  \<open>plugins\<close> is an object literal, so \<open>plugins[id]\<close> finds the own entries first and then the members
  of \<open>Object.prototype\<close>.
\<close>

definition OBJECT_MEMBERS :: "string list" where
  "OBJECT_MEMBERS = [''constructor'', ''__defineGetter__'', ''__defineSetter__'', ''hasOwnProperty'',
     ''__lookupGetter__'', ''__lookupSetter__'', ''isPrototypeOf'', ''propertyIsEnumerable'',
     ''toString'', ''valueOf'', ''__proto__'', ''toLocaleString'']"

definition registry_get :: "registry \<Rightarrow> plugin_id \<Rightarrow> devicePlugin option" where
  "registry_get reg i =
     (case map_of reg i of
        Some p \<Rightarrow> Some p
      | None \<Rightarrow> if i \<in> set OBJECT_MEMBERS then Some (ObjectMember i) else None)"

text \<open>What calling a method of an undefined field throws.\<close>

definition undefined_field :: "string \<Rightarrow> exn" where
  "undefined_field method = PlainError (''Cannot read properties of undefined (reading '' @
     CHR 0x27 # method @ CHR 0x27 # '')'')"

definition registry_getAll :: "registry \<Rightarrow> devicePlugin list" where
  "registry_getAll reg = map snd reg"

definition getByDeliveryPattern :: "registry \<Rightarrow> pipelinePattern \<Rightarrow> deliveryPlugin list" where
  "getByDeliveryPattern reg pat =
     filter (\<lambda>p. d_pattern p = pat) (List.map_filter delivery_of (registry_getAll reg))"

text \<open>
  \<open>createPluginRegistry\<close>: the catalog maps an id to a factory, which may throw (missing secrets, bad
  tuning). The loop stops at the first unknown id, duplicate, or throwing factory.
\<close>

type_synonym catalog = "plugin_id \<Rightarrow> (pluginEntry \<Rightarrow> exn + devicePlugin) option"

fun build_registry :: "catalog \<Rightarrow> registry \<Rightarrow> pluginEntry list \<Rightarrow> exn + registry" where
  "build_registry catalog plugins [] = Inr plugins"
| "build_registry catalog plugins (entry # entries) =
     (case catalog (pe_id entry) of
        None \<Rightarrow> Inl (PlainError (''Unknown plugin id '' @ pe_id entry))
      | Some factory \<Rightarrow>
          if map_of plugins (pe_id entry) \<noteq> None
          then Inl (PlainError (''Duplicate plugin id in config: '' @ pe_id entry))
          else
            (case factory entry of
               Inl e \<Rightarrow> Inl e
             | Inr p \<Rightarrow> build_registry catalog (plugins @ [(pe_id entry, p)]) entries))"

definition createPluginRegistry :: "catalog \<Rightarrow> pluginEntry list \<Rightarrow> exn + registry" where
  "createPluginRegistry catalog entries = build_registry catalog [] entries"

lemma build_registry_keys:
  "build_registry cat acc es = Inr reg \<Longrightarrow> map fst reg = map fst acc @ map pe_id es"
  by (induction cat acc es rule: build_registry.induct)
     (auto split: option.splits sum.splits if_splits)

lemma build_registry_distinct:
  "build_registry cat acc es = Inr reg \<Longrightarrow> distinct (map fst acc) \<Longrightarrow> distinct (map fst reg)"
proof (induction cat acc es rule: build_registry.induct)
  case (2 cat acc e es)
  from "2.prems"(1) obtain factory p where
    c: "cat (pe_id e) = Some factory" and new: "map_of acc (pe_id e) = None"
    and m: "factory e = Inr p" and rest: "build_registry cat (acc @ [(pe_id e, p)]) es = Inr reg"
    by (auto split: option.splits sum.splits if_splits)
  have "distinct (map fst (acc @ [(pe_id e, p)]))"
    using new "2.prems"(2) by (auto simp: map_of_eq_None_iff)
  with "2.IH" c new m rest show ?case by auto
qed simp

lemma build_registry_from_catalog:
  "build_registry cat acc es = Inr reg \<Longrightarrow> (i, p) \<in> set reg \<Longrightarrow>
     (i, p) \<in> set acc \<or> (\<exists>e factory. e \<in> set es \<and> pe_id e = i \<and> cat i = Some factory \<and> factory e = Inr p)"
proof (induction cat acc es rule: build_registry.induct)
  case (2 cat acc e es)
  from "2.prems"(1) obtain factory q where
    c: "cat (pe_id e) = Some factory" "map_of acc (pe_id e) = None" "factory e = Inr q"
    and rest: "build_registry cat (acc @ [(pe_id e, q)]) es = Inr reg"
    by (auto split: option.splits sum.splits if_splits)
  from "2.IH" [of factory q] c rest "2.prems"(2)
  have "(i, p) \<in> set (acc @ [(pe_id e, q)]) \<or>
      (\<exists>e factory. e \<in> set es \<and> pe_id e = i \<and> cat i = Some factory \<and> factory e = Inr p)"
    by auto
  then show ?case using c by auto
qed auto

lemma registry_get_own: "map_of reg i = Some p \<Longrightarrow> registry_get reg i = Some p"
  by (simp add: registry_get_def)

lemma registry_get_Delivery:
  "registry_get reg i = Some (Delivery p) \<longleftrightarrow> map_of reg i = Some (Delivery p)"
  by (auto simp: registry_get_def split: option.split)

lemma registry_get_cases:
  obtains p where "registry_get reg i = Some (Delivery p)" "map_of reg i = Some (Delivery p)"
  | j where "registry_get reg i = Some (TokenOnly j)"
  | j where "registry_get reg i = Some (ObjectMember j)"
  | "registry_get reg i = None"
  by (metis devicePlugin.exhaust not_Some_eq registry_get_Delivery)

lemma registry_get_in: "registry_get reg i = Some (Delivery p) \<Longrightarrow> (i, Delivery p) \<in> set reg"
  by (simp add: registry_get_Delivery map_of_SomeD)

text \<open>Every registered plugin is listed under its own id.\<close>

definition registry_ok :: "registry \<Rightarrow> bool" where
  "registry_ok reg \<longleftrightarrow>
     distinct (map fst reg) \<and> list_all (\<lambda>(i, p). plugin_id_of p = Some i) reg"

text \<open>An id that is not configured and names a member that every object inherits.\<close>

definition inherited_id :: "registry \<Rightarrow> plugin_id \<Rightarrow> bool" where
  "inherited_id reg i \<longleftrightarrow> map_of reg i = None \<and> i \<in> set OBJECT_MEMBERS"

lemma registry_get_inherited: "inherited_id reg i \<Longrightarrow> registry_get reg i = Some (ObjectMember i)"
  by (simp add: registry_get_def inherited_id_def)

lemma registry_get_ObjectMember:
  assumes "registry_ok reg" and "registry_get reg i = Some (ObjectMember j)"
  shows "inherited_id reg i" and "j = i"
proof -
  have "map_of reg i \<noteq> Some (ObjectMember j)"
    using assms(1) by (auto simp: registry_ok_def list_all_iff dest: map_of_SomeD)
  then show "inherited_id reg i" "j = i"
    using assms(2) by (auto simp: registry_get_def inherited_id_def split: option.splits if_splits)
qed

lemma registry_ok_id: "registry_ok reg \<Longrightarrow> registry_get reg i = Some (Delivery p) \<Longrightarrow> d_id p = i"
  by (auto simp: registry_ok_def list_all_iff dest!: registry_get_in)

lemma pull_ids_complete:
  assumes "registry_get reg i = Some (Delivery p)" and "d_pattern p = PULL"
  shows "p \<in> set (getByDeliveryPattern reg PULL)"
proof -
  from assms(1) have "(i, Delivery p) \<in> set reg" by (rule registry_get_in)
  then have "Delivery p \<in> set (registry_getAll reg)"
    by (force simp: registry_getAll_def)
  then show ?thesis using assms(2)
    by (force simp: getByDeliveryPattern_def map_filter_def)
qed

section \<open>Contract of a delivery plugin\<close>

locale delivery_plugin_contract =
  fixes p :: deliveryPlugin
    and kind :: string
  assumes id_segment: "good_segment (d_id p)"
    and kind_segment: "good_segment kind"
    and queue_shape: "\<exists>i. d_initialQueueKey p networkId dev = buildInitialQueueKey (d_id p) kind i"
    and supported_enqueueable: "c \<in> set (d_supportedCommandTypes p) \<Longrightarrow> isEnqueueableCommand c"
    and tuning_positive: "positive_tuning (d_tuning p)"
begin

text \<open>Distribute recovers the owner from any of the plugin's queue keys.\<close>

lemma owner_recovered:
  "getPluginIdFromInitialQueueKey (d_initialQueueKey p networkId dev) = Some (d_id p)"
  using queue_shape [of networkId dev] id_segment kind_segment
  by (auto simp: getPluginId_buildInitialQueueKey)

text \<open>The concurrency strategy always finds its key.\<close>

lemma rate_limit_key_exists:
  "buildConcurrencyRateLimitKey (d_initialQueueKey p networkId dev) \<noteq> None"
  using queue_shape [of networkId dev] id_segment kind_segment
  by (auto simp: rateLimitKey_buildInitialQueueKey)

text \<open>The plugin's ready queues are none of the stage queues.\<close>

lemma ready_not_stage:
  "d_initialQueueKey p networkId dev \<noteq> QUEUE_NS_KEY"
  "d_initialQueueKey p networkId dev \<noteq> QUEUE_RETRY_KEY"
  "d_initialQueueKey p networkId dev \<noteq> queueAwaitingTask q"
  using queue_shape [of networkId dev] by (auto simp: key_simps)

end

end
