(* ===== verification/Sorted_Set.thy ===== *)
theory Sorted_Set
  imports Prelude "HOL-Library.Product_Lexorder"
begin

text \<open>
  Redis sorted sets. The engine keeps every queue in one: a ready queue scored by \<open>-priority\<close>, a
  stage queue scored by the instant the engine should next look at the member. The concrete
  representation is the list of members with their scores in Redis order (score, then member, as
  bytes), so that \<open>ZPOPMIN\<close> and \<open>ZRANGEBYSCORE\<close> compute. The locale \<open>sorted_set\<close> is what the
  engine relies on, stated over the partial map from members to scores; its laws are discharged for
  the list representation at the end.
\<close>

section \<open>The interface\<close>

locale sorted_set =
  fixes score :: "'z \<Rightarrow> string \<Rightarrow> num option"
    and add :: "num \<Rightarrow> string \<Rightarrow> 'z \<Rightarrow> 'z"
    and rem :: "string \<Rightarrow> 'z \<Rightarrow> 'z"
    and pop :: "'z \<Rightarrow> ((string \<times> num) \<times> 'z) option"
    and due :: "num \<Rightarrow> nat \<Rightarrow> 'z \<Rightarrow> string list"
    and invar :: "'z \<Rightarrow> bool"
  assumes score_add: "invar z \<Longrightarrow> score (add s m z) = (score z)(m \<mapsto> s)"
    and score_rem: "invar z \<Longrightarrow> score (rem m z) = (score z)(m := None)"
    and pop_None: "invar z \<Longrightarrow> pop z = None \<longleftrightarrow> score z = Map.empty"
    and pop_Some: "invar z \<Longrightarrow> pop z = Some ((m, s), z') \<Longrightarrow>
      score z m = Some s \<and> score z' = (score z)(m := None)"
    and pop_least: "invar z \<Longrightarrow> pop z = Some ((m, s), z') \<Longrightarrow> score z m' = Some s' \<Longrightarrow> s \<le> s'"
    and due_sound: "invar z \<Longrightarrow> m \<in> set (due c n z) \<Longrightarrow> \<exists>s. score z m = Some s \<and> s \<le> c"
    and due_length: "length (due c n z) \<le> n"
    and due_complete: "invar z \<Longrightarrow> length (due c n z) < n \<Longrightarrow> score z m = Some s \<Longrightarrow> s \<le> c \<Longrightarrow>
      m \<in> set (due c n z)"
    and due_oldest: "invar z \<Longrightarrow> m \<in> set (due c n z) \<Longrightarrow> m' \<notin> set (due c n z) \<Longrightarrow>
      score z m = Some s \<Longrightarrow> score z m' = Some s' \<Longrightarrow> s \<le> s'"
    and due_distinct: "invar z \<Longrightarrow> distinct (due c n z)"
    and invar_add: "invar z \<Longrightarrow> invar (add s m z)"
    and invar_rem: "invar z \<Longrightarrow> invar (rem m z)"
    and invar_pop: "invar z \<Longrightarrow> pop z = Some (e, z') \<Longrightarrow> invar z'"
begin

text \<open>\<open>ZADD XX\<close> writes only where the member still is: a departed member is not resurrected.\<close>

lemma add_if_present:
  assumes "invar z"
  shows "score (if score z m = None then z else add s m z) =
    (if score z m = None then score z else (score z)(m \<mapsto> s))"
  using assms by (simp add: score_add)

text \<open>A member rescored past the cutoff is not due at that cutoff any more.\<close>

lemma not_due_after_add: "invar z \<Longrightarrow> c < s \<Longrightarrow> m \<notin> set (due c n (add s m z))"
  using due_sound [of "add s m z" m c n] by (auto simp: score_add invar_add)

text \<open>A removed member is not due.\<close>

lemma not_due_after_rem: "invar z \<Longrightarrow> m \<notin> set (due c n (rem m z))"
  using due_sound [of "rem m z" m c n] by (auto simp: score_rem invar_rem)

text \<open>
  No starvation: while fewer members than the batch size are due with a score not above a
  member's, that member is in the batch.
\<close>

lemma due_not_starved:
  assumes inv: "invar z" and m: "score z m = Some s" "s \<le> c"
    and few: "card {m'. \<exists>s'. score z m' = Some s' \<and> s' \<le> s} \<le> n"
    and fin: "finite {m'. \<exists>s'. score z m' = Some s' \<and> s' \<le> s}"
  shows "m \<in> set (due c n z)"
proof (rule ccontr)
  assume out: "m \<notin> set (due c n z)"
  then have full: "length (due c n z) = n"
    using due_complete [OF inv _ m] due_length [of c n z] by (metis le_neq_implies_less)
  let ?E = "{m'. \<exists>s'. score z m' = Some s' \<and> s' \<le> s}"
  have "insert m (set (due c n z)) \<subseteq> ?E"
    using due_oldest [OF inv _ out _ m(1)] due_sound [OF inv] m(1) by fastforce
  then have "card (insert m (set (due c n z))) \<le> card ?E"
    using fin by (rule card_mono [rotated])
  moreover have "card (insert m (set (due c n z))) = Suc n"
    using out full due_distinct [OF inv] by (simp add: distinct_card)
  ultimately show False using few by simp
qed

end

section \<open>The list representation\<close>

type_synonym zset = "(string \<times> num) list"

definition zkey :: "string \<times> num \<Rightarrow> num \<times> string" where
  "zkey e = (snd e, fst e)"

definition zset_ok :: "zset \<Rightarrow> bool" where
  "zset_ok z \<longleftrightarrow> distinct (map fst z) \<and> sorted (map zkey z)"

definition zscore :: "zset \<Rightarrow> string \<Rightarrow> num option" where
  "zscore z m = map_of z m"

definition zrem :: "string \<Rightarrow> zset \<Rightarrow> zset" where
  "zrem m z = filter (\<lambda>e. fst e \<noteq> m) z"

definition zadd :: "num \<Rightarrow> string \<Rightarrow> zset \<Rightarrow> zset" where
  "zadd s m z = insort_key zkey (m, s) (zrem m z)"

definition zaddXx :: "num \<Rightarrow> string \<Rightarrow> zset \<Rightarrow> zset" where
  "zaddXx s m z = (if zscore z m = None then z else zadd s m z)"

definition zpopmin :: "zset \<Rightarrow> ((string \<times> num) \<times> zset) option" where
  "zpopmin z = (case z of [] \<Rightarrow> None | e # es \<Rightarrow> Some (e, es))"

definition zrangebyscore :: "num \<Rightarrow> nat \<Rightarrow> zset \<Rightarrow> string list" where
  "zrangebyscore cutoff limit z = map fst (take limit (filter (\<lambda>e. snd e \<le> cutoff) z))"

lemma zscore_Nil [simp]: "zscore [] m = None"
  by (simp add: zscore_def)

lemma zset_ok_Nil [simp]: "zset_ok []"
  by (simp add: zset_ok_def)

lemma zscore_zrem: "zscore (zrem m z) = (zscore z)(m := None)"
  by (rule ext, induction z) (auto simp: zscore_def zrem_def)

lemma zset_ok_zrem: "zset_ok z \<Longrightarrow> zset_ok (zrem m z)"
  by (simp add: zset_ok_def zrem_def distinct_map_filter sorted_filter)

lemma distinct_insort_fst:
  "m \<notin> fst ` set z \<Longrightarrow> distinct (map fst z) \<Longrightarrow> distinct (map fst (insort_key zkey (m, s) z))"
  by (induction z) (auto simp: set_insort_key)

lemma notin_zrem: "m \<notin> fst ` set (zrem m z)"
  by (auto simp: zrem_def)

lemma zset_ok_zadd: "zset_ok z \<Longrightarrow> zset_ok (zadd s m z)"
  using zset_ok_zrem [of z m] notin_zrem [of m z]
  by (simp add: zset_ok_def zadd_def sorted_insort_key distinct_insort_fst)

lemma map_of_insort:
  "m \<notin> fst ` set z \<Longrightarrow> map_of (insort_key zkey (m, s) z) = (map_of z)(m \<mapsto> s)"
  by (induction z) (auto simp: fun_eq_iff)

lemma zscore_zadd: "zscore (zadd s m z) = (zscore z)(m \<mapsto> s)"
proof -
  have "zscore (zadd s m z) = (zscore (zrem m z))(m \<mapsto> s)"
    using map_of_insort [OF notin_zrem [of m z], of s] by (simp add: zadd_def zscore_def fun_eq_iff)
  then show ?thesis by (simp add: zscore_zrem)
qed

lemma zscore_in_set: "zset_ok z \<Longrightarrow> zscore z m = Some s \<longleftrightarrow> (m, s) \<in> set z"
  by (simp add: zscore_def zset_ok_def)

lemma zpopmin_Some: "zpopmin z = Some (e, z') \<longleftrightarrow> z = e # z'"
  by (cases z) (auto simp: zpopmin_def)

lemma zscore_tl:
  assumes "zset_ok ((m, s) # z)"
  shows "zscore z = (zscore ((m, s) # z))(m := None)"
  using assms by (auto simp: zset_ok_def zscore_def fun_eq_iff map_of_eq_None_iff)

lemma zset_sorted_scores:
  "zset_ok z \<Longrightarrow> i \<le> j \<Longrightarrow> j < length z \<Longrightarrow> snd (z ! i) \<le> snd (z ! j)"
  using sorted_nth_mono [of "map zkey z" i j]
  by (auto simp: zset_ok_def zkey_def less_eq_prod_def)

lemma take_before_rest:
  assumes "sorted (map snd xs)" and "x \<in> set (take n xs)" and "y \<in> set xs"
    and "y \<notin> set (take n xs)"
  shows "snd x \<le> (snd y :: num)"
proof -
  from assms(3,4) have "y \<in> set (drop n xs)"
    by (metis Un_iff append_take_drop_id set_append)
  moreover have "sorted (map snd (take n xs) @ map snd (drop n xs))"
    using assms(1) by (metis append_take_drop_id map_append)
  ultimately show ?thesis using assms(2) by (auto simp: sorted_append)
qed

lemma sorted_snd: "zset_ok z \<Longrightarrow> sorted (map snd z)"
  by (rule sorted_wrt_iff_nth_less [THEN iffD2]) (auto intro: zset_sorted_scores)

lemma zrangebyscore_oldest:
  assumes ok: "zset_ok z" and m: "m \<in> set (zrangebyscore c n z)"
    and m': "m' \<notin> set (zrangebyscore c n z)"
    and s: "zscore z m = Some s" and s': "zscore z m' = Some s'"
  shows "s \<le> s'"
proof -
  let ?f = "filter (\<lambda>e. snd e \<le> c) z"
  have d: "distinct (map fst z)" using ok by (simp add: zset_ok_def)
  have ms: "(m, s) \<in> set (take n ?f)"
  proof -
    from m obtain t where t: "(m, t) \<in> set (take n ?f)" by (auto simp: zrangebyscore_def)
    then have "(m, t) \<in> set z" by (auto dest: in_set_takeD)
    with s ok have "t = s" by (simp add: zscore_in_set [symmetric])
    with t show ?thesis by simp
  qed
  have z': "(m', s') \<in> set z" using s' ok by (simp add: zscore_in_set)
  have nin: "(m', s') \<notin> set (take n ?f)"
    using m' by (force simp: zrangebyscore_def)
  show ?thesis
  proof (cases "s' \<le> c")
    case True
    have "sorted (map snd ?f)" using sorted_snd [OF ok] by (rule sorted_filter)
    then have "snd (m, s) \<le> snd (m', s')"
      using ms z' True nin by (intro take_before_rest [of ?f "(m, s)" n "(m', s')"]) auto
    then show ?thesis by simp
  next
    case False
    moreover have "s \<le> c" using ms by (auto dest: in_set_takeD)
    ultimately show ?thesis by simp
  qed
qed

interpretation zs: sorted_set zscore zadd zrem zpopmin zrangebyscore zset_ok
proof (unfold_locales, goal_cases)
  case (3 z)
  have "zscore (e # z') (fst e) \<noteq> None" for e z' by (cases e) (simp add: zscore_def)
  then have "zscore (e # z') \<noteq> Map.empty" for e z' by metis
  then show ?case by (cases z) (auto simp: zpopmin_def)
next
  case 4
  then show ?case by (auto simp: zpopmin_Some zscore_tl) (simp add: zscore_def)
next
  case (5 z m s z' m' s')
  then show ?case
    using sorted_snd [of z] by (auto simp: zpopmin_Some zscore_in_set)
next
  case 6
  then show ?case
    by (auto simp: zrangebyscore_def zscore_in_set dest!: in_set_takeD)
next
  case (8 z c n m s)
  then have "(m, s) \<in> set (filter (\<lambda>e. snd e \<le> c) z)" by (auto simp: zscore_in_set)
  moreover have "take n (filter (\<lambda>e. snd e \<le> c) z) = filter (\<lambda>e. snd e \<le> c) z"
    using 8 by (auto simp: zrangebyscore_def min_def split: if_splits)
  ultimately show ?case by (force simp: zrangebyscore_def)
next
  case 9
  then show ?case by (rule zrangebyscore_oldest)
next
  case 10
  then show ?case
    by (auto simp: zrangebyscore_def zset_ok_def take_map [symmetric] distinct_map_filter
        intro: distinct_take)
next
  case (13 z e z')
  then show ?case by (auto simp: zpopmin_Some zset_ok_def)
qed (auto simp: zscore_zadd zscore_zrem zset_ok_zadd zset_ok_zrem zrangebyscore_def)

lemma zscore_zaddXx:
  "zset_ok z \<Longrightarrow> zscore (zaddXx s m z) =
     (if zscore z m = None then zscore z else (zscore z)(m \<mapsto> s))"
  unfolding zaddXx_def by (rule zs.add_if_present)

lemma zset_ok_zaddXx: "zset_ok z \<Longrightarrow> zset_ok (zaddXx s m z)"
  by (simp add: zaddXx_def zset_ok_zadd)

end
