(* ===== verification/Js_Number.thy ===== *)
theory Js_Number
  imports Prelude
begin

text \<open>
  JavaScript's conversions between numbers and text, which the vendor adapters use on the strings a
  vendor returns: \<open>Number(text)\<close> (ECMAScript's \<open>StringToNumber\<close>), \<open>String(number)\<close> and the helper
  \<open>src/plugins/_shared/to-safe-number-or-null.ts\<close> over them. A number is an exact rational, so a
  decimal text denotes the number it spells; \<open>None\<close> stands for \<open>NaN\<close> and the infinities.
\<close>

section \<open>From text to numbers\<close>

definition is_digit :: "char \<Rightarrow> bool" where
  "is_digit c \<longleftrightarrow> 48 \<le> (of_char c :: nat) \<and> (of_char c :: nat) \<le> 57"

definition pow10 :: "int \<Rightarrow> num" where
  "pow10 e = (if 0 \<le> e then 10 ^ nat e else 1 / 10 ^ nat (- e))"

text \<open>The optional exponent at the end of a decimal literal.\<close>

definition exponent_part :: "string \<Rightarrow> int option" where
  "exponent_part s =
     (case s of
        [] \<Rightarrow> Some 0
      | c # r \<Rightarrow>
          if c \<noteq> CHR ''e'' \<and> c \<noteq> CHR ''E'' then None
          else
            (let negative = starts_with ''-'' r;
                 ds = (if negative \<or> starts_with ''+'' r then tl r else r)
             in if ds = [] \<or> \<not> list_all is_digit ds then None
                else Some ((if negative then -1 else 1) * int (string_to_nat ds))))"

text \<open>\<open>StrUnsignedDecimalLiteral\<close> without \<open>Infinity\<close>, which is not finite.\<close>

definition unsigned_decimal :: "string \<Rightarrow> num option" where
  "unsigned_decimal s =
     (let whole = takeWhile is_digit s;
          after = dropWhile is_digit s;
          point = starts_with ''.'' after;
          decs = (if point then takeWhile is_digit (tl after) else []);
          rest = (if point then dropWhile is_digit (tl after) else after)
      in if whole = [] \<and> decs = [] then None
         else map_option
           (\<lambda>e. of_nat (string_to_nat (whole @ decs)) * pow10 (e - int (length decs)))
           (exponent_part rest))"

definition decimal_literal :: "string \<Rightarrow> num option" where
  "decimal_literal s =
     (if starts_with ''-'' s then map_option uminus (unsigned_decimal (tl s))
      else if starts_with ''+'' s then unsigned_decimal (tl s)
      else unsigned_decimal s)"

text \<open>\<open>0b...\<close>, \<open>0o...\<close> and \<open>0x...\<close>, which take no sign.\<close>

definition digit_value :: "char \<Rightarrow> nat" where
  "digit_value c =
     (let n = of_char c :: nat
      in if 48 \<le> n \<and> n \<le> 57 then n - 48
         else if 97 \<le> n \<and> n \<le> 122 then n - 87
         else if 65 \<le> n \<and> n \<le> 90 then n - 55 else 99)"

definition radix_of :: "string \<Rightarrow> nat option" where
  "radix_of s =
     (if starts_with ''0x'' s \<or> starts_with ''0X'' s then Some 16
      else if starts_with ''0o'' s \<or> starts_with ''0O'' s then Some 8
      else if starts_with ''0b'' s \<or> starts_with ''0B'' s then Some 2 else None)"

definition radix_literal :: "nat \<Rightarrow> string \<Rightarrow> num option" where
  "radix_literal r ds =
     (if ds = [] \<or> \<not> list_all (\<lambda>c. digit_value c < r) ds then None
      else Some (of_nat (foldl (\<lambda>acc c. r * acc + digit_value c) 0 ds)))"

text \<open>A magnitude from here on rounds to an infinite double.\<close>

definition double_overflow :: num where
  "double_overflow = 2 ^ 1024 - 2 ^ 970"

definition js_to_number :: "string \<Rightarrow> num option" where
  "js_to_number s =
     (let t = trim s in
      if t = [] then Some 0
      else
        (let v = (case radix_of t of Some r \<Rightarrow> radix_literal r (drop 2 t) | None \<Rightarrow> decimal_literal t)
         in Option.bind v (\<lambda>x. if \<bar>x\<bar> < double_overflow then Some x else None)))"

text \<open>
  \<open>toSafeNumberOr(fallback)\<close> on a value read from JSON, \<open>None\<close> for \<open>undefined\<close>, with the fallback
  \<open>null\<close> that every caller in the repository uses as the result \<open>None\<close>.
\<close>

definition toSafeNumberOrNull :: "jval option \<Rightarrow> num option" where
  "toSafeNumberOrNull v =
     (case v of
        Some (JNum x) \<Rightarrow> Some x
      | Some (JStr s) \<Rightarrow> if trim s = [] then None else js_to_number s
      | _ \<Rightarrow> None)"

section \<open>From numbers to text\<close>

text \<open>
  ECMAScript's \<open>Number::toString\<close>. A number is written with the digits \<open>s\<close> and the number of decimals
  \<open>d\<close> for the least \<open>d\<close> that makes it whole, which every number read from a decimal text of fewer
  than 400 decimals has.
\<close>

definition whole_number :: "num \<Rightarrow> bool" where
  "whole_number x \<longleftrightarrow> of_int \<lfloor>x\<rfloor> = x"

definition decimals_of :: "num \<Rightarrow> nat" where
  "decimals_of x = length (takeWhile (\<lambda>d. \<not> whole_number (x * 10 ^ d)) [0..<400])"

definition strip_zeros :: "string \<Rightarrow> string" where
  "strip_zeros ds = rev (dropWhile (\<lambda>c. c = CHR ''0'') (rev ds))"

definition scientific :: "string \<Rightarrow> int \<Rightarrow> string" where
  "scientific ds e =
     hd ds # (if tl ds = [] then [] else CHR ''.'' # tl ds) @
     ''e'' @ (if 0 \<le> e then ''+'' else ''-'') @ nat_to_string (nat \<bar>e\<bar>)"

definition positive_text :: "num \<Rightarrow> string" where
  "positive_text x =
     (let d = decimals_of x;
          ds = nat_to_string (nat \<lfloor>x * 10 ^ d\<rfloor>);
          n = int (length ds) - int d
      in if n > 21 then scientific (strip_zeros ds) (n - 1)
         else if d = 0 then ds
         else if n > 0 then take (nat n) ds @ CHR ''.'' # drop (nat n) ds
         else if n > -6 then ''0.'' @ replicate (nat (- n)) (CHR ''0'') @ ds
         else scientific ds (n - 1))"

definition num_text :: "num \<Rightarrow> string" where
  "num_text x =
     (if x = 0 then ''0'' else if x < 0 then CHR ''-'' # positive_text (- x) else positive_text x)"

text \<open>\<open>String(value)\<close>.\<close>

definition join_commas :: "string list \<Rightarrow> string" where
  "join_commas ps = join_with (CHR '','') ps"

fun js_string :: "jval \<Rightarrow> string" where
  "js_string JNull = ''null''"
| "js_string (JBool b) = (if b then ''true'' else ''false'')"
| "js_string (JNum x) = num_text x"
| "js_string (JStr s) = s"
| "js_string (JArr vs) = join_commas (map (\<lambda>v. if v = JNull then [] else js_string v) vs)"
| "js_string (JObj fs) = ''[object Object]''"

section \<open>A number's text reads back\<close>

lemma is_digit_digit: "d < 10 \<Longrightarrow> is_digit (digit d)"
  by (simp add: is_digit_def of_char_digit)

lemma digits_nat_to_string: "list_all is_digit (nat_to_string n)"
proof (induction n rule: nat_to_string.induct)
  case (1 n)
  then show ?case by (subst nat_to_string.simps) (auto simp: is_digit_digit)
qed

lemma not_digits [simp]:
  "\<not> is_digit CHR ''.''" "\<not> is_digit CHR ''-''" "\<not> is_digit CHR ''+''" "\<not> is_digit CHR '' ''"
  "\<not> is_digit CHR '',''" "\<not> is_digit CHR ''x''" "\<not> is_digit CHR ''X''" "\<not> is_digit CHR ''o''"
  "\<not> is_digit CHR ''O''" "\<not> is_digit CHR ''b''" "\<not> is_digit CHR ''B''" "is_digit CHR ''0''"
  by (simp_all add: is_digit_def)

lemma digit_no_space: "is_digit c \<Longrightarrow> \<not> js_space c"
  by (auto simp: is_digit_def js_space_def)

text \<open>A decimal text: digits, or digits on both sides of a point.\<close>

definition plain_decimal :: "string \<Rightarrow> string \<Rightarrow> string" where
  "plain_decimal whole decs = (if decs = [] then whole else whole @ CHR ''.'' # decs)"

lemma trim_outer:
  assumes "s \<noteq> []" and "\<not> js_space (hd s)" and "\<not> js_space (last s)"
  shows "trim s = s"
proof -
  have "dropWhile js_space s = s" using assms(1,2) by (cases s) auto
  moreover have "dropWhile js_space (rev s) = rev s"
    using assms(1,3) by (cases s rule: rev_cases) auto
  ultimately show ?thesis by (simp add: trim_def)
qed

lemma unsigned_plain_decimal:
  assumes "list_all is_digit whole" and "list_all is_digit decs" and "whole \<noteq> []"
  shows "unsigned_decimal (plain_decimal whole decs) =
    Some (of_nat (string_to_nat (whole @ decs)) * pow10 (- int (length decs)))"
proof -
  have t: "takeWhile is_digit (whole @ CHR ''.'' # decs) = whole"
    "dropWhile is_digit (whole @ CHR ''.'' # decs) = CHR ''.'' # decs"
    "takeWhile is_digit whole = whole" "dropWhile is_digit whole = []"
    "takeWhile is_digit decs = decs" "dropWhile is_digit decs = []"
    using assms(1,2) by (auto simp: list_all_iff takeWhile_append dropWhile_append)
  show ?thesis
    using assms(3) by (simp add: unsigned_decimal_def plain_decimal_def t starts_with_def exponent_part_def)
qed

lemma plain_decimal_ends:
  assumes "list_all is_digit whole" and "list_all is_digit decs" and "whole \<noteq> []"
  shows "trim (plain_decimal whole decs) = plain_decimal whole decs"
    and "radix_of (plain_decimal whole decs) = None"
    and "decimal_literal (plain_decimal whole decs) = unsigned_decimal (plain_decimal whole decs)"
    and "plain_decimal whole decs \<noteq> []"
proof -
  have hd: "is_digit (hd (plain_decimal whole decs))"
    using assms by (auto simp: plain_decimal_def list_all_iff)
  have last: "is_digit (List.last (plain_decimal whole decs))"
    using assms by (auto simp: plain_decimal_def list_all_iff)
  show ne: "plain_decimal whole decs \<noteq> []" using assms(3) by (auto simp: plain_decimal_def)
  show "trim (plain_decimal whole decs) = plain_decimal whole decs"
    by (rule trim_outer [OF ne]) (use hd last in \<open>simp_all add: digit_no_space\<close>)
  have sg: "\<not> starts_with [c] (plain_decimal whole decs)" if "\<not> is_digit c" for c
    using hd that ne by (cases "plain_decimal whole decs") (auto simp: starts_with_def)
  show "decimal_literal (plain_decimal whole decs) = unsigned_decimal (plain_decimal whole decs)"
    using sg [of "CHR ''-''"] sg [of "CHR ''+''"] by (simp add: decimal_literal_def)
  have rx: "\<not> starts_with [a, c] (plain_decimal whole decs)" if "\<not> is_digit c" and "c \<noteq> CHR ''.''" for a c
  proof
    assume "starts_with [a, c] (plain_decimal whole decs)"
    then obtain t where "plain_decimal whole decs = a # c # t" by (auto simp: starts_with_iff)
    then have "c \<in> set (plain_decimal whole decs)" by simp
    then show False using that assms(1,2) by (auto simp: plain_decimal_def list_all_iff split: if_splits)
  qed
  show "radix_of (plain_decimal whole decs) = None" by (simp add: radix_of_def rx)
qed

lemma js_to_number_plain:
  assumes "list_all is_digit whole" and "list_all is_digit decs" and "whole \<noteq> []"
    and "x = of_nat (string_to_nat (whole @ decs)) * pow10 (- int (length decs))" and "x < double_overflow"
  shows "js_to_number (plain_decimal whole decs) = Some x"
proof -
  have "0 \<le> x" by (simp add: assms(4) pow10_def)
  then show ?thesis
    using assms plain_decimal_ends [OF assms(1-3)] unsigned_plain_decimal [OF assms(1-3)]
    by (simp add: js_to_number_def)
qed

lemma string_to_nat_zeros: "string_to_nat (replicate k (CHR ''0'') @ s) = string_to_nat s"
proof (induction s rule: rev_induct)
  case Nil
  show ?case by (induction k) (simp_all add: string_to_nat_def)
next
  case (snoc c s)
  then show ?case by (simp add: string_to_nat_snoc flip: append_assoc)
qed

lemma nat_to_string_length: "0 < n \<Longrightarrow> 10 ^ (length (nat_to_string n) - 1) \<le> n"
proof (induction n rule: nat_to_string.induct)
  case (1 n)
  show ?case
  proof (cases "n < 10")
    case True
    then show ?thesis using "1.prems" by (subst nat_to_string.simps) simp
  next
    case False
    then have "10 ^ (length (nat_to_string (n div 10)) - 1) \<le> n div 10" using "1.IH" by simp
    then have "10 * 10 ^ (length (nat_to_string (n div 10)) - 1) \<le> n"
      by (metis mult.commute nat_le_linear div_le_mono order_trans mult_le_mono2 times_div_less_eq_dividend)
    moreover obtain j where j: "length (nat_to_string (n div 10)) = Suc j"
      by (cases "nat_to_string (n div 10)") auto
    moreover have "length (nat_to_string n) = Suc (length (nat_to_string (n div 10)))"
      using False by (subst nat_to_string.simps) simp
    ultimately show ?thesis by simp
  qed
qed

lemma decimals_of_spec:
  assumes "whole_number (x * 10 ^ 6)"
  shows "decimals_of x \<le> 6" and "whole_number (x * 10 ^ decimals_of x)"
proof -
  let ?P = "\<lambda>d. \<not> whole_number (x * 10 ^ d)"
  show le: "decimals_of x \<le> 6"
  proof (rule ccontr)
    assume "\<not> decimals_of x \<le> 6"
    then have "6 < length (takeWhile ?P [0..<400])" by (simp add: decimals_of_def)
    then have "?P (takeWhile ?P [0..<400] ! 6)" by (metis nth_mem set_takeWhileD)
    then show False
      using assms \<open>6 < length (takeWhile ?P [0..<400])\<close> by (simp add: takeWhile_nth)
  qed
  then have "length (takeWhile ?P [0..<400]) < length [0..<400]" by (simp add: decimals_of_def)
  from nth_length_takeWhile [OF this] show "whole_number (x * 10 ^ decimals_of x)"
    using le by (simp add: decimals_of_def)
qed

text \<open>With at most six decimals and below \<open>10 ^ 21\<close>, the text is a plain decimal.\<close>

lemma positive_text_plain:
  assumes x: "0 < x" "x < 10 ^ 21" and w: "whole_number (x * 10 ^ 6)"
  obtains whole decs where "positive_text x = plain_decimal whole decs" and "list_all is_digit whole"
    and "list_all is_digit decs" and "whole \<noteq> []"
    and "x = of_nat (string_to_nat (whole @ decs)) * pow10 (- int (length decs))"
proof -
  define d where "d = decimals_of x"
  define k where "k = nat \<lfloor>x * 10 ^ d\<rfloor>"
  define n where "n = int (length (nat_to_string k)) - int d"
  have d: "d \<le> 6" using decimals_of_spec(1) [OF w] by (simp add: d_def)
  have k: "of_nat k = x * 10 ^ d"
    using decimals_of_spec(2) [OF w] x(1) by (simp add: whole_number_def k_def d_def)
  then have "0 < k" using x(1) by (cases k) auto
  have "of_nat k < (10 :: num) ^ (21 + d)" using x(2) by (simp add: k power_add)
  then have "k < 10 ^ (21 + d)" by (metis of_nat_less_iff of_nat_numeral of_nat_power)
  with nat_to_string_length [OF \<open>0 < k\<close>] have "10 ^ (length (nat_to_string k) - 1) < (10 :: nat) ^ (21 + d)"
    by (rule le_less_trans)
  then have n21: "n \<le> 21" by (simp add: n_def)
  have n6: "-6 < n" using d by (cases "nat_to_string k") (simp_all add: n_def)
  have k0: "d = 0 \<longrightarrow> nat \<lfloor>x\<rfloor> = k" by (simp add: k_def)
  have xk: "x = of_nat k * pow10 (- int d)" by (simp add: k pow10_def)
  have dig: "list_all is_digit (nat_to_string k)" by (rule digits_nat_to_string)
  have pt: "positive_text x = (if d = 0 then nat_to_string k
      else if n > 0 then take (nat n) (nat_to_string k) @ CHR ''.'' # drop (nat n) (nat_to_string k)
      else ''0.'' @ replicate (nat (- n)) (CHR ''0'') @ nat_to_string k)"
    using n21 n6 k0 by (simp add: positive_text_def Let_def d_def [symmetric] k_def [symmetric] n_def [symmetric])
  consider "d = 0" | "d \<noteq> 0" "n > 0" | "d \<noteq> 0" "n \<le> 0" by linarith
  then show thesis
  proof cases
    case 1
    show thesis by (rule that [of "nat_to_string k" "[]"]) (use 1 pt dig xk in \<open>simp_all add: plain_decimal_def\<close>)
  next
    case 2
    show thesis
      by (rule that [of "take (nat n) (nat_to_string k)" "drop (nat n) (nat_to_string k)"])
        (use 2 pt dig xk in \<open>auto simp: plain_decimal_def n_def list_all_iff dest: in_set_takeD in_set_dropD\<close>)
  next
    case 3
    show thesis
    proof (rule that [of "''0''" "replicate (nat (- n)) (CHR ''0'') @ nat_to_string k"])
      have "string_to_nat (''0'' @ replicate (nat (- n)) (CHR ''0'') @ nat_to_string k) = k"
        using string_to_nat_zeros [of "Suc (nat (- n))" "nat_to_string k"] by simp
      then show "x = of_nat (string_to_nat (''0'' @ replicate (nat (- n)) (CHR ''0'') @ nat_to_string k)) *
          pow10 (- int (length (replicate (nat (- n)) (CHR ''0'') @ nat_to_string k)))"
        using 3 xk by (simp add: n_def)
    qed (use 3 pt dig in \<open>auto simp: plain_decimal_def list_all_iff\<close>)
  qed
qed

lemma whole_number_minus [simp]: "whole_number (- x) \<longleftrightarrow> whole_number x"
proof -
  have "whole_number y \<longleftrightarrow> y \<in> \<int>" for y
    by (metis Ints_of_int Ints_cases floor_of_int whole_number_def)
  then show ?thesis by simp
qed

text \<open>The parts of a number's text: a sign when it is negative, and a plain decimal.\<close>

lemma num_text_plain:
  assumes "\<bar>x\<bar> < 10 ^ 21" and "whole_number (x * 10 ^ 6)"
  obtains whole decs where "num_text x = (if x < 0 then CHR ''-'' # plain_decimal whole decs else plain_decimal whole decs)"
    and "list_all is_digit whole" and "list_all is_digit decs" and "whole \<noteq> []"
    and "\<bar>x\<bar> = of_nat (string_to_nat (whole @ decs)) * pow10 (- int (length decs))"
proof (cases "x = 0")
  case True
  then show thesis
    by (intro that [of "''0''" "[]"]) (simp_all add: num_text_def plain_decimal_def string_to_nat_def)
next
  case False
  have w: "whole_number (\<bar>x\<bar> * 10 ^ 6)"
    using assms(2) by (cases "x < 0") (simp_all only: abs_of_neg abs_of_nonneg not_less mult_minus_left whole_number_minus)
  have p: "0 < \<bar>x\<bar>" using False by simp
  obtain whole decs where t: "positive_text \<bar>x\<bar> = plain_decimal whole decs" "list_all is_digit whole"
    "list_all is_digit decs" "whole \<noteq> []"
    "\<bar>x\<bar> = of_nat (string_to_nat (whole @ decs)) * pow10 (- int (length decs))"
    using positive_text_plain [OF p assms(1) w] .
  have "num_text x = (if x < 0 then CHR ''-'' # positive_text \<bar>x\<bar> else positive_text \<bar>x\<bar>)"
    using False by (simp add: num_text_def)
  then show thesis using that t by simp
qed

lemma num_text_chars:
  assumes "\<bar>x\<bar> < 10 ^ 21" and "whole_number (x * 10 ^ 6)" and "c \<in> set (num_text x)"
  shows "is_digit c \<or> c = CHR ''-'' \<or> c = CHR ''.''"
proof -
  obtain whole decs where t: "num_text x = (if x < 0 then CHR ''-'' # plain_decimal whole decs else plain_decimal whole decs)"
    "list_all is_digit whole" "list_all is_digit decs"
    by (rule num_text_plain [OF assms(1,2)]) (rule that)
  then show ?thesis using assms(3) by (auto simp: list_all_iff plain_decimal_def split: if_splits)
qed

theorem num_text_reads_back:
  assumes "\<bar>x\<bar> < 10 ^ 21" and "whole_number (x * 10 ^ 6)"
  shows "js_to_number (num_text x) = Some x" and "trim (num_text x) \<noteq> []"
proof -
  obtain whole decs where t: "num_text x = (if x < 0 then CHR ''-'' # plain_decimal whole decs else plain_decimal whole decs)"
    and d: "list_all is_digit whole" "list_all is_digit decs" "whole \<noteq> []"
    and v: "\<bar>x\<bar> = of_nat (string_to_nat (whole @ decs)) * pow10 (- int (length decs))"
    by (rule num_text_plain [OF assms]) (rule that)
  note e = plain_decimal_ends [OF d]
  have big: "\<bar>x\<bar> < double_overflow"
    by (rule less_trans [OF assms(1)]) (simp add: double_overflow_def)
  have u: "unsigned_decimal (plain_decimal whole decs) = Some \<bar>x\<bar>"
    by (simp only: unsigned_plain_decimal [OF d] v)
  have "js_to_number (num_text x) = Some x \<and> trim (num_text x) \<noteq> []"
  proof (cases "x < 0")
    case False
    then show ?thesis using js_to_number_plain [OF d v big] e(1,4) by (simp add: t)
  next
    case True
    let ?s = "CHR ''-'' # plain_decimal whole decs"
    have l: "is_digit (last (plain_decimal whole decs))"
      using d by (auto simp: plain_decimal_def list_all_iff)
    have tr: "trim ?s = ?s"
      by (rule trim_outer) (use l e(4) in \<open>auto simp: js_space_def dest: digit_no_space\<close>)
    have "decimal_literal ?s = Some x" using True u by (simp add: decimal_literal_def starts_with_def)
    moreover have "radix_of ?s = None" by (simp add: radix_of_def starts_with_def)
    ultimately have "js_to_number ?s = Some x" using big tr by (simp add: js_to_number_def)
    then show ?thesis using True tr by (simp add: t)
  qed
  then show "js_to_number (num_text x) = Some x" and "trim (num_text x) \<noteq> []" by simp_all
qed

end
