(* ===== verification/Redis_Store.thy ===== *)
theory Redis_Store
  imports Delivery_Config Sorted_Set Js_Number
begin

text \<open>
  The Redis database as the service uses it, and the functions of
  \<open>src/lib/redis-repository/\<close>: the (de)serialisation of \<open>helpers.ts\<close>, the two Lua scripts, and the
  operations of \<open>message-store.ts\<close>, \<open>stage-store.ts\<close> and \<open>admission-store.ts\<close>.

  A message hash is a record with one optional field per hash field; a field keeps the value whose
  text Redis stores (the JSON of an object, the decimal of a number). The key exists when some field
  does. Every command is reliable: an aborted \<open>MULTI\<close> or a broken connection is not modelled.
  Keys with a time to live are removed by \<open>redis_at now\<close>, which every step of the engine model
  applies first, as Redis hides a key from the instant it expires.
\<close>

section \<open>State\<close>

record mhash =
  h_commandType :: "commandType option"
  h_priority :: "num option"
  h_pluginId :: "plugin_id option"
  h_device :: "device option"
  h_networkId :: "nat option"
  h_correlationId :: "string option"
  h_requestData :: "requestData option"
  h_phase :: "phase option"
  h_deliveryStatus :: "deliveryStatus option"
  h_deliveryQueueId :: "string option"
  h_retryCount :: "nat option"
  h_failureHistory :: "failureReason list option"
  h_concurrencyRateLimitKey :: "string option"

definition empty_hash :: mhash where
  "empty_hash = \<lparr>h_commandType = None, h_priority = None, h_pluginId = None, h_device = None,
     h_networkId = None, h_correlationId = None, h_requestData = None, h_phase = None,
     h_deliveryStatus = None, h_deliveryQueueId = None, h_retryCount = None,
     h_failureHistory = None, h_concurrencyRateLimitKey = None\<rparr>"

record redis =
  hashes :: "string \<Rightarrow> mhash option"
  strs :: "string \<Rightarrow> string option"
  zsets :: "string \<Rightarrow> zset"
  sets :: "string \<Rightarrow> string list"
  expires :: "string \<Rightarrow> time option"

definition empty_redis :: redis where
  "empty_redis = \<lparr>hashes = Map.empty, strs = Map.empty, zsets = (\<lambda>_. []), sets = (\<lambda>_. []),
     expires = Map.empty\<rparr>"

definition redis_ok :: "redis \<Rightarrow> bool" where
  "redis_ok r \<longleftrightarrow> (\<forall>k. zset_ok (zsets r k)) \<and> (\<forall>k. distinct (sets r k))"

definition expired :: "time \<Rightarrow> redis \<Rightarrow> string \<Rightarrow> bool" where
  "expired now r k = (case expires r k of None \<Rightarrow> False | Some t \<Rightarrow> t \<le> now)"

definition redis_at :: "time \<Rightarrow> redis \<Rightarrow> redis" where
  "redis_at now r = r\<lparr>
     hashes := (\<lambda>k. if expired now r k then None else hashes r k),
     strs := (\<lambda>k. if expired now r k then None else strs r k),
     expires := (\<lambda>k. if expired now r k then None else expires r k)\<rparr>"

section \<open>Commands\<close>

definition hset :: "string \<Rightarrow> (mhash \<Rightarrow> mhash) \<Rightarrow> redis \<Rightarrow> redis" where
  "hset k f r = r\<lparr>hashes := (hashes r)(k \<mapsto>
     f (case hashes r k of None \<Rightarrow> empty_hash | Some h \<Rightarrow> h))\<rparr>"

definition hdel :: "string \<Rightarrow> (mhash \<Rightarrow> mhash) \<Rightarrow> redis \<Rightarrow> redis" where
  "hdel k f r =
     (case hashes r k of
        None \<Rightarrow> r
      | Some h \<Rightarrow> r\<lparr>hashes := (hashes r)(k := (if f h = empty_hash then None else Some (f h)))\<rparr>)"

definition expire :: "string \<Rightarrow> time \<Rightarrow> redis \<Rightarrow> redis" where
  "expire k t r = r\<lparr>expires := (expires r)(k \<mapsto> t)\<rparr>"

definition del_hash :: "string \<Rightarrow> redis \<Rightarrow> redis" where
  "del_hash k r = r\<lparr>hashes := (hashes r)(k := None), expires := (expires r)(k := None)\<rparr>"

definition del_str :: "string \<Rightarrow> redis \<Rightarrow> redis" where
  "del_str k r = r\<lparr>strs := (strs r)(k := None), expires := (expires r)(k := None)\<rparr>"

definition set_ex :: "string \<Rightarrow> string \<Rightarrow> time \<Rightarrow> redis \<Rightarrow> redis" where
  "set_ex k v t r = r\<lparr>strs := (strs r)(k \<mapsto> v), expires := (expires r)(k \<mapsto> t)\<rparr>"

definition r_zadd :: "string \<Rightarrow> num \<Rightarrow> string \<Rightarrow> redis \<Rightarrow> redis" where
  "r_zadd k s m r = r\<lparr>zsets := (zsets r)(k := zadd s m (zsets r k))\<rparr>"

definition r_zaddXx :: "string \<Rightarrow> num \<Rightarrow> string \<Rightarrow> redis \<Rightarrow> redis" where
  "r_zaddXx k s m r = r\<lparr>zsets := (zsets r)(k := zaddXx s m (zsets r k))\<rparr>"

definition r_zrem :: "string \<Rightarrow> string \<Rightarrow> redis \<Rightarrow> redis" where
  "r_zrem k m r = r\<lparr>zsets := (zsets r)(k := zrem m (zsets r k))\<rparr>"

definition in_queue :: "redis \<Rightarrow> string \<Rightarrow> string \<Rightarrow> bool" where
  "in_queue r k m \<longleftrightarrow> zscore (zsets r k) m \<noteq> None"

definition sadd :: "string \<Rightarrow> string \<Rightarrow> redis \<Rightarrow> redis" where
  "sadd k m r =
     (if m \<in> set (sets r k) then r else r\<lparr>sets := (sets r)(k := sets r k @ [m])\<rparr>)"

definition srem :: "string \<Rightarrow> string \<Rightarrow> redis \<Rightarrow> redis" where
  "srem k m r = r\<lparr>sets := (sets r)(k := filter (\<lambda>x. x \<noteq> m) (sets r k))\<rparr>"

lemmas redis_command_defs =
  hset_def hdel_def expire_def del_hash_def del_str_def set_ex_def r_zadd_def r_zaddXx_def
  r_zrem_def sadd_def srem_def

section \<open>\<open>helpers.ts\<close>\<close>

text \<open>
  \<open>parseInt(String(x))\<close>: truncation towards zero where the decimal text of the number has no exponent; the
  text of a number below \<open>10 ^ -6\<close> or from \<open>10 ^ 21\<close> on starts with one digit, after which \<open>parseInt\<close> stops
  at the point or the exponent.
\<close>

definition parseInt_num :: "num \<Rightarrow> int" where
  "parseInt_num x =
     (if x = 0 \<or> 1 / 10 ^ 6 \<le> \<bar>x\<bar> \<and> \<bar>x\<bar> < 10 ^ 21
      then (if 0 \<le> x then \<lfloor>x\<rfloor> else \<lceil>x\<rceil>)
      else (if 0 \<le> x then 1 else - 1) * int (digit_value (hd (positive_text \<bar>x\<bar>))))"

definition serializeCreateDeviceMessage :: "createDeviceMessage \<Rightarrow> mhash" where
  "serializeCreateDeviceMessage dto = empty_hash\<lparr>
     h_commandType := Some (c_commandType dto),
     h_priority := Some (c_priority dto),
     h_pluginId := Some (c_pluginId dto),
     h_device := Some (c_device dto),
     h_networkId := c_networkId dto,
     h_correlationId := (if c_correlationId dto = Some [] then None else c_correlationId dto),
     h_requestData := c_requestData dto,
     h_phase := c_phase dto,
     h_deliveryStatus := Some QUEUED\<rparr>"

text \<open>
  \<open>deserializeMessage\<close> throws when \<open>device\<close> is absent. The four fields \<open>commandType\<close>, \<open>pluginId\<close>,
  \<open>priority\<close> and \<open>deliveryStatus\<close> are read without a check (the code would carry \<open>undefined\<close> or
  \<open>NaN\<close>); the model reports an error there too, which \<open>complete_hash\<close> shows to be unreachable:
  \<open>enqueueDeviceMessage\<close> writes all five in one command and nothing ever deletes one of them.
\<close>

definition complete_hash :: "mhash \<Rightarrow> bool" where
  "complete_hash h \<longleftrightarrow> h_device h \<noteq> None \<and> h_commandType h \<noteq> None \<and> h_pluginId h \<noteq> None \<and>
     h_priority h \<noteq> None \<and> h_deliveryStatus h \<noteq> None"

definition deserializeMessage :: "msg_id \<Rightarrow> mhash \<Rightarrow> exn + deviceMessage" where
  "deserializeMessage i raw =
     (if \<not> complete_hash raw then Inl (PlainError (''[REDIS] Message without device payload (messageId='' @ i @ '')''))
      else Inr \<lparr>
        m_id = i,
        m_commandType = the (h_commandType raw),
        m_priority = of_int (parseInt_num (the (h_priority raw))),
        m_pluginId = the (h_pluginId raw),
        m_requestData = h_requestData raw,
        m_phase = h_phase raw,
        m_networkId = h_networkId raw,
        m_correlationId = (if h_correlationId raw = Some [] then None else h_correlationId raw),
        m_device = the (h_device raw),
        m_deliveryQueueId = (case h_deliveryQueueId raw of None \<Rightarrow> [] | Some d \<Rightarrow> d),
        m_deliveryStatus = the (h_deliveryStatus raw),
        m_response = None,
        m_unsolicited = None,
        m_retryCount = Some (case h_retryCount raw of None \<Rightarrow> 0 | Some n \<Rightarrow> n),
        m_failureHistory = Some (case h_failureHistory raw of None \<Rightarrow> [] | Some h \<Rightarrow> h),
        m_concurrencyRateLimitKey =
          (if h_concurrencyRateLimitKey raw = Some [] then None
           else h_concurrencyRateLimitKey raw)\<rparr>)"

lemma complete_serialize [simp]: "complete_hash (serializeCreateDeviceMessage dto)"
  by (simp add: complete_hash_def serializeCreateDeviceMessage_def)

lemma deserialize_complete:
  "complete_hash h \<Longrightarrow> \<exists>m. deserializeMessage i h = Inr m"
  by (simp add: deserializeMessage_def)

lemma deserialize_id: "deserializeMessage i h = Inr m \<Longrightarrow> m_id m = i"
  by (auto simp: deserializeMessage_def split: if_splits)

section \<open>Lua scripts\<close>

text \<open>
  \<open>lua/fetch-next-message-in-queue.lua\<close>, step by step: refuse at the cap, pop, drop the queue from
  the work list when it is (now) empty, skip an orphan, then move, set the status and claim the
  slot. The empty string stands for an omitted concurrency set, as in the script.
\<close>

definition fetchNextMessageInQueueAndMove ::
  "string \<Rightarrow> string \<Rightarrow> string \<Rightarrow> string \<Rightarrow> time \<Rightarrow> deliveryStatus \<Rightarrow> nat \<Rightarrow> redis \<Rightarrow>
   (msg_id \<times> mhash) option \<times> redis" where
  "fetchNextMessageInQueueAndMove source_queue destination_queue list_of_queues concurrency_set
     timeout_at new_status max_in_flight r =
     (if concurrency_set \<noteq> [] \<and> max_in_flight > 0 \<and>
         length (sets r concurrency_set) \<ge> max_in_flight
      then (None, r)
      else
        (case zpopmin (zsets r source_queue) of
           None \<Rightarrow> (None, srem list_of_queues source_queue r)
         | Some ((message_id, _), rest) \<Rightarrow>
             (let r1 = r\<lparr>zsets := (zsets r)(source_queue := rest)\<rparr>;
                  r2 = (if rest = [] then srem list_of_queues source_queue r1 else r1);
                  key = messageKey message_id
              in if hashes r2 key = None then (None, r2)
                 else
                   (let r3 = r_zadd destination_queue timeout_at message_id r2;
                        r4 = hset key (\<lambda>h. h\<lparr>h_deliveryStatus := Some new_status\<rparr>) r3;
                        r5 = (if concurrency_set \<noteq> []
                              then hset key
                                (\<lambda>h. h\<lparr>h_concurrencyRateLimitKey := Some concurrency_set\<rparr>)
                                (sadd concurrency_set message_id r4)
                              else r4)
                    in (Some (message_id, the (hashes r5 key)), r5)))))"

text \<open>
  \<open>lua/move-message-between-queues.lua\<close>: the ZREM is the ownership gate, the EXISTS check keeps a
  vanished hash from being recreated. The result is the script's 0 or 1.
\<close>

definition moveMessageBetweenQueues ::
  "string \<Rightarrow> string \<Rightarrow> string \<Rightarrow> string \<Rightarrow> msg_id \<Rightarrow> num \<Rightarrow> deliveryStatus \<Rightarrow> string \<Rightarrow> time \<Rightarrow>
   redis \<Rightarrow> nat \<times> redis" where
  "moveMessageBetweenQueues source_queue destination_queue message_key index_key message_id
     destination_score delivery_status delivery_queue_id index_expires r =
     (if \<not> in_queue r source_queue message_id then (0, r)
      else
        (let r1 = r_zrem source_queue message_id r in
         if hashes r1 message_key = None then (0, r1)
         else
           (let r2 = r_zadd destination_queue destination_score message_id r1;
                r3 = (if delivery_queue_id \<noteq> []
                      then hset message_key
                        (\<lambda>h. h\<lparr>h_deliveryStatus := Some delivery_status,
                               h_deliveryQueueId := Some delivery_queue_id\<rparr>) r2
                      else hset message_key
                        (\<lambda>h. h\<lparr>h_deliveryStatus := Some delivery_status\<rparr>) r2);
                r4 = (if index_key \<noteq> [] then set_ex index_key message_key index_expires r3
                      else r3)
            in (1, r4))))"

section \<open>\<open>message-store.ts\<close>\<close>

definition ttl_instant :: "time \<Rightarrow> nat \<Rightarrow> time" where
  "ttl_instant now ttlSeconds = now + 1000 * of_nat ttlSeconds"

text \<open>\<open>messageId\<close> is the fresh ULID, \<open>now\<close> the server's clock.\<close>

definition enqueueDeviceMessage ::
  "createDeviceMessage \<Rightarrow> string \<Rightarrow> nat \<Rightarrow> msg_id \<Rightarrow> time \<Rightarrow> redis \<Rightarrow>
   (exn + deviceMessage) \<times> redis" where
  "enqueueDeviceMessage dto queueKey ttlSeconds messageId now r =
     (let key = messageKey messageId;
          serialized = serializeCreateDeviceMessage dto;
          r1 = hset key (\<lambda>_. serialized) r;
          r2 = expire key (ttl_instant now ttlSeconds) r1;
          r3 = r_zadd queueKey (- c_priority dto) messageId r2;
          r4 = sadd listOfInitialQueuesToDistributeFrom queueKey r3;
          r5 = (case c_correlationId dto of
                  None \<Rightarrow> r4
                | Some cid \<Rightarrow>
                    if cid = [] then r4
                    else set_ex (indexCorrelationId cid (c_phase dto)) key
                           (ttl_instant now ttlSeconds) r4)
      in (deserializeMessage messageId serialized, r5))"

definition getMessageIdFromDeliveryQueueId :: "string \<Rightarrow> redis \<Rightarrow> msg_id option" where
  "getMessageIdFromDeliveryQueueId deliveryQueueId r =
     messageIdFromKey (strs r (indexExternalDeliveryId deliveryQueueId))"

definition getMessageById :: "msg_id \<Rightarrow> redis \<Rightarrow> exn + deviceMessage option" where
  "getMessageById messageId r =
     (case hashes r (messageKey messageId) of
        None \<Rightarrow> Inr None
      | Some raw \<Rightarrow> map_sum id Some (deserializeMessage messageId raw))"

definition getMessageFromCorrelationId :: "string \<Rightarrow> redis \<Rightarrow> exn + deviceMessage option" where
  "getMessageFromCorrelationId correlationId r =
     (case messageIdFromKey (strs r (indexCorrelationId correlationId None)) of
        None \<Rightarrow> Inr None
      | Some messageId \<Rightarrow> getMessageById messageId r)"

text \<open>One key's contribution to \<open>getAllMessagesForCorrelationId\<close>: skip a vanished hash or a foreign
  key, keep the message, or throw.\<close>

fun collect_messages :: "string list \<Rightarrow> redis \<Rightarrow> exn + deviceMessage list" where
  "collect_messages [] r = Inr []"
| "collect_messages (k # ks) r =
     (case hashes r k of
        None \<Rightarrow> collect_messages ks r
      | Some raw \<Rightarrow>
          (case messageIdFromKey (Some k) of
             None \<Rightarrow> collect_messages ks r
           | Some messageId \<Rightarrow>
               (case deserializeMessage messageId raw of
                  Inl e \<Rightarrow> Inl e
                | Inr m \<Rightarrow> map_sum id ((#) m) (collect_messages ks r))))"

definition getAllMessagesForCorrelationId :: "string \<Rightarrow> redis \<Rightarrow> exn + deviceMessage list" where
  "getAllMessagesForCorrelationId correlationId r =
     (let indexKeys = map (indexCorrelationId correlationId) (None # map Some PHASES);
          messageKeys = List.map_filter
            (\<lambda>k. case strs r k of Some v \<Rightarrow> if v = [] then None else Some v | None \<Rightarrow> None) indexKeys
      in collect_messages messageKeys r)"

section \<open>\<open>stage-store.ts\<close>\<close>

definition QUEUE_SCAN_BATCH_SIZE :: nat where
  "QUEUE_SCAN_BATCH_SIZE = 50"

definition getExpiredMessagesInQueue :: "string \<Rightarrow> time \<Rightarrow> redis \<Rightarrow> msg_id list" where
  "getExpiredMessagesInQueue queueKey cutoffDate r =
     zrangebyscore cutoffDate QUEUE_SCAN_BATCH_SIZE (zsets r queueKey)"

definition removeMessageFromQueue :: "string \<Rightarrow> msg_id \<Rightarrow> redis \<Rightarrow> nat \<times> redis" where
  "removeMessageFromQueue queueKey messageId r =
     (if in_queue r queueKey messageId then (1, r_zrem queueKey messageId r) else (0, r))"

definition requeueMessage ::
  "msg_id \<Rightarrow> string \<Rightarrow> string \<Rightarrow> num \<Rightarrow> time \<Rightarrow> redis \<Rightarrow> bool \<times> redis" where
  "requeueMessage messageId fromQueueKey toQueueKey priority now r =
     (case moveMessageBetweenQueues fromQueueKey toQueueKey (messageKey messageId) [] messageId
             (- priority) QUEUED [] (ttl_instant now 0) r of
        (moved, r1) \<Rightarrow>
          if moved = 1 then (True, sadd listOfInitialQueuesToDistributeFrom toQueueKey r1)
          else (False, r1))"

definition messageFullCleanup :: "deviceMessage \<Rightarrow> string list \<Rightarrow> redis \<Rightarrow> redis" where
  "messageFullCleanup message queueKeys r =
     (let r1 = del_hash (messageKey (m_id message)) r;
          r2 = fold (\<lambda>queueKey. r_zrem queueKey (m_id message)) queueKeys r1;
          r3 = (case m_concurrencyRateLimitKey message of
                  None \<Rightarrow> r2
                | Some k \<Rightarrow> if k = [] then r2 else srem k (m_id message) r2);
          r4 = (case m_correlationId message of
                  None \<Rightarrow> r3
                | Some cid \<Rightarrow>
                    if cid = [] then r3 else del_str (indexCorrelationId cid (m_phase message)) r3)
      in if m_deliveryQueueId message = [] then r4
         else del_str (indexExternalDeliveryId (m_deliveryQueueId message)) r4)"

definition fetchQueuesWithMessages :: "redis \<Rightarrow> string list" where
  "fetchQueuesWithMessages r = sets r listOfInitialQueuesToDistributeFrom"

section \<open>\<open>admission-store.ts\<close>\<close>

definition lockQueueForTimeMs :: "string \<Rightarrow> nat \<Rightarrow> time \<Rightarrow> redis \<Rightarrow> bool \<times> redis" where
  "lockQueueForTimeMs lockKey durationMs now r =
     (if strs r lockKey \<noteq> None then (False, r)
      else (True, set_ex lockKey ''locked'' (now + of_nat durationMs) r))"

definition getConcurrencyRateLimitCount :: "string \<Rightarrow> redis \<Rightarrow> nat" where
  "getConcurrencyRateLimitCount concurrencyRateLimitKey r = length (sets r concurrencyRateLimitKey)"

definition validateAndCleanConcurrencyRateLimit :: "string \<Rightarrow> redis \<Rightarrow> nat \<times> redis" where
  "validateAndCleanConcurrencyRateLimit concurrencyRateLimitKey r =
     (let members = sets r concurrencyRateLimitKey;
          deadMembers = filter (\<lambda>m. hashes r (messageKey m) = None) members
      in if members = [] then (0, r)
         else (length members - length deadMembers,
               if deadMembers = [] then r else fold (srem concurrencyRateLimitKey) deadMembers r))"

end
