(* ===== verification/Stages.thy ===== *)
theory Stages
  imports Plugin_SPI Redis_Store
begin

text \<open>
  The stage table: \<open>src/engine/lifecycle/stages.ts\<close> and the types of
  \<open>src/engine/lifecycle/types.ts\<close>. A stage is a sorted set scored by the instant the engine should
  next attend to a member; the rows, the pipelines and the pure lookups are translated one by one.
\<close>

datatype stageName = St_ns | St_relayNode | St_device | St_awaitingTask | St_retry

text \<open>
  \<open>rnd\<close> in the two contexts is the value of the one \<open>Math.random()\<close> call the retry row makes.
\<close>

record stageEntryContext =
  en_tuning :: pluginTuning
  en_delivery :: deliveryConfig
  en_retryCount :: nat
  en_rnd :: num

record stageRescheduleContext =
  rs_message :: deviceMessage
  rs_messageAgeMs :: num
  rs_tuning :: pluginTuning
  rs_delivery :: deliveryConfig
  rs_rnd :: num

record stageDefinition =
  st_name :: stageName
  st_key :: "plugin_id \<Rightarrow> string"
  st_entryStatus :: deliveryStatus
  st_entryWaitMs :: "stageEntryContext \<Rightarrow> num"
  st_rescheduleWaitMs :: "(stageRescheduleContext \<Rightarrow> num) option"
  st_isPerPlugin :: bool

datatype stageOutcome = Rescheduled | MovedOn | Removed | Orphaned

record stageQueue =
  sq_stage :: stageDefinition
  sq_key :: string
  sq_pluginId :: "plugin_id option"

definition defaultPollLadderMs :: "num \<Rightarrow> num" where
  "defaultPollLadderMs messageAgeMs =
     (if messageAgeMs < 20000 then 10000
      else if messageAgeMs < 50000 then 15000
      else if messageAgeMs < 90000 then 20000
      else 30000)"

definition PULL_MAX_MESSAGE_AGE_MS :: num where
  "PULL_MAX_MESSAGE_AGE_MS = 48 * 60 * 60 * 1000"

fun STAGES :: "stageName \<Rightarrow> stageDefinition" where
  "STAGES St_ns = \<lparr>
     st_name = St_ns,
     st_key = (\<lambda>_. QUEUE_NS_KEY),
     st_entryStatus = SENT_TO_NS,
     st_entryWaitMs = (\<lambda>c. of_nat (nsInFlightTimeoutMs (en_tuning c))),
     st_rescheduleWaitMs = None,
     st_isPerPlugin = False\<rparr>"
| "STAGES St_relayNode = \<lparr>
     st_name = St_relayNode,
     st_key = (\<lambda>_. ''queue_in_flight_to_relay_node''),
     st_entryStatus = DELIVERED_TO_NS,
     st_entryWaitMs = (\<lambda>c. of_nat (relayNodeInFlightTimeoutMs (en_tuning c))),
     st_rescheduleWaitMs = None,
     st_isPerPlugin = False\<rparr>"
| "STAGES St_device = \<lparr>
     st_name = St_device,
     st_key = (\<lambda>_. ''queue_in_flight_to_device''),
     st_entryStatus = SENT_TO_DEVICE,
     st_entryWaitMs = (\<lambda>c. of_nat (deviceInFlightTimeoutMs (en_tuning c))),
     st_rescheduleWaitMs = None,
     st_isPerPlugin = False\<rparr>"
| "STAGES St_awaitingTask = \<lparr>
     st_name = St_awaitingTask,
     st_key = queueAwaitingTask,
     st_entryStatus = DELIVERED_TO_NS,
     st_entryWaitMs = (\<lambda>c. of_nat (initialPollDelayMs (en_tuning c))),
     st_rescheduleWaitMs = Some (\<lambda>c. defaultPollLadderMs (rs_messageAgeMs c)),
     st_isPerPlugin = True\<rparr>"
| "STAGES St_retry = \<lparr>
     st_name = St_retry,
     st_key = (\<lambda>_. QUEUE_RETRY_KEY),
     st_entryStatus = TO_RETRY,
     st_entryWaitMs = (\<lambda>c. calculateBackoffDelay (en_retryCount c) (en_delivery c) (en_rnd c)),
     st_rescheduleWaitMs = None,
     st_isPerPlugin = False\<rparr>"

text \<open>\<open>Object.values(STAGES)\<close>: the rows in declaration order.\<close>

definition all_stages :: "stageName list" where
  "all_stages = [St_ns, St_relayNode, St_device, St_awaitingTask, St_retry]"

fun PIPELINES :: "pipelinePattern \<Rightarrow> stageName list" where
  "PIPELINES PUSH = [St_ns, St_relayNode, St_device]"
| "PIPELINES PULL = [St_ns, St_awaitingTask]"

text \<open>\<open>pipeline.indexOf(x)\<close>, \<open>None\<close> for -1.\<close>

fun index_of :: "'a \<Rightarrow> 'a list \<Rightarrow> nat option" where
  "index_of x [] = None"
| "index_of x (y # ys) = (if x = y then Some 0 else map_option Suc (index_of x ys))"

definition nextStage :: "pipelinePattern \<Rightarrow> stageName \<Rightarrow> stageName option" where
  "nextStage pattern current =
     (let pipeline = PIPELINES pattern in
      case index_of current pipeline of
        None \<Rightarrow> None
      | Some index \<Rightarrow> if index + 1 < length pipeline then Some (pipeline ! (index + 1)) else None)"

fun stageForStatus :: "deliveryStatus \<Rightarrow> pipelinePattern \<Rightarrow> stageName option" where
  "stageForStatus SENT_TO_NS pattern = Some St_ns"
| "stageForStatus DELIVERED_TO_NS pattern =
     Some (if pattern = PUSH then St_relayNode else St_awaitingTask)"
| "stageForStatus SENT_TO_DEVICE pattern = Some St_device"
| "stageForStatus TO_RETRY pattern = Some St_retry"
| "stageForStatus QUEUED pattern = None"
| "stageForStatus DELIVERY_SUCCESSFUL pattern = None"
| "stageForStatus DELIVERY_FAILED pattern = None"

definition stageKeyFor :: "stageDefinition \<Rightarrow> plugin_id \<Rightarrow> string" where
  "stageKeyFor stage pluginId = (if st_isPerPlugin stage then st_key stage pluginId else st_key stage [])"

definition rescheduleWaitMsFor :: "stageDefinition \<Rightarrow> stageRescheduleContext \<Rightarrow> num" where
  "rescheduleWaitMsFor stage context =
     (case st_rescheduleWaitMs stage of
        Some f \<Rightarrow> f context
      | None \<Rightarrow> st_entryWaitMs stage \<lparr>en_tuning = rs_tuning context, en_delivery = rs_delivery context,
          en_retryCount = (case m_retryCount (rs_message context) of None \<Rightarrow> 0 | Some n \<Rightarrow> n),
          en_rnd = rs_rnd context\<rparr>)"

definition enumerateStageQueues :: "plugin_id list \<Rightarrow> stageQueue list" where
  "enumerateStageQueues pluginIds =
     concat (map (\<lambda>name. let stage = STAGES name in
       if \<not> st_isPerPlugin stage
       then [\<lparr>sq_stage = stage, sq_key = st_key stage [], sq_pluginId = None\<rparr>]
       else map (\<lambda>pluginId. \<lparr>sq_stage = stage, sq_key = st_key stage pluginId,
                              sq_pluginId = Some pluginId\<rparr>) pluginIds) all_stages)"

definition enumerateStageKeys :: "plugin_id list \<Rightarrow> string list" where
  "enumerateStageKeys pluginIds = map sq_key (enumerateStageQueues pluginIds)"

section \<open>Lookups\<close>

lemma stageKeyFor_simps [stage_simps]:
  "stageKeyFor (STAGES St_ns) p = QUEUE_NS_KEY"
  "stageKeyFor (STAGES St_relayNode) p = ''queue_in_flight_to_relay_node''"
  "stageKeyFor (STAGES St_device) p = ''queue_in_flight_to_device''"
  "stageKeyFor (STAGES St_awaitingTask) p = queueAwaitingTask p"
  "stageKeyFor (STAGES St_retry) p = QUEUE_RETRY_KEY"
  by (simp_all add: stageKeyFor_def)

lemma st_name_STAGES [simp]: "st_name (STAGES s) = s"
  by (cases s) simp_all

lemma nextStage_simps [stage_simps]:
  "nextStage PUSH St_ns = Some St_relayNode" "nextStage PUSH St_relayNode = Some St_device"
  "nextStage PUSH St_device = None" "nextStage PUSH St_awaitingTask = None"
  "nextStage PULL St_ns = Some St_awaitingTask" "nextStage PULL St_awaitingTask = None"
  "nextStage PULL St_relayNode = None" "nextStage PULL St_device = None"
  "nextStage pat St_retry = None"
  by (cases pat; simp add: nextStage_def)+

lemma stage_keys_distinct [stage_simps]:
  "stageKeyFor (STAGES a) p = stageKeyFor (STAGES b) q \<longleftrightarrow>
     a = b \<and> (a = St_awaitingTask \<longrightarrow> p = q)"
  by (cases a; cases b)
     (auto simp: stageKeyFor_def QUEUE_NS_KEY_def QUEUE_RETRY_KEY_def queueAwaitingTask_def)

lemma ready_key_not_stage [stage_simps]:
  "buildInitialQueueKey p k i \<noteq> stageKeyFor (STAGES s) q"
  "stageKeyFor (STAGES s) q \<noteq> buildInitialQueueKey p k i"
  by (cases s; simp add: stageKeyFor_def QUEUE_NS_KEY_def QUEUE_RETRY_KEY_def
      queueAwaitingTask_def buildInitialQueueKey_def)+

lemma enumerateStageKeys_set:
  "set (enumerateStageKeys ids) =
     (\<lambda>s. stageKeyFor (STAGES s) []) ` {St_ns, St_relayNode, St_device, St_retry} \<union>
     queueAwaitingTask ` set ids"
  by (auto simp: enumerateStageKeys_def enumerateStageQueues_def all_stages_def stageKeyFor_def)

lemma stageKeyFor_enumerated:
  "pid \<in> set ids \<Longrightarrow> stageKeyFor (STAGES s) pid \<in> set (enumerateStageKeys ids)"
  by (cases s) (auto simp: enumerateStageKeys_set stageKeyFor_def)

lemma stageName_UNIV: "(UNIV :: stageName set) = {St_ns, St_relayNode, St_device, St_awaitingTask, St_retry}"
  by (auto intro: stageName.exhaust)

lemma enumerateStageKeys_one:
  "set (enumerateStageKeys [p]) = range (\<lambda>st. stageKeyFor (STAGES st) p)"
  by (auto simp: enumerateStageKeys_set stageKeyFor_simps stageName_UNIV simp del: STAGES.simps)

lemma enumerateStageQueues_stage:
  assumes "sq \<in> set (enumerateStageQueues ids)"
  obtains s where "sq_stage sq = STAGES s"
    and "s = St_awaitingTask \<Longrightarrow> \<exists>p \<in> set ids. sq_key sq = queueAwaitingTask p"
    and "s \<noteq> St_awaitingTask \<Longrightarrow> sq_key sq = stageKeyFor (STAGES s) p"
proof -
  from assms obtain s where s: "sq \<in> set (let stage = STAGES s in
       if \<not> st_isPerPlugin stage
       then [\<lparr>sq_stage = stage, sq_key = st_key stage [], sq_pluginId = None\<rparr>]
       else map (\<lambda>pluginId. \<lparr>sq_stage = stage, sq_key = st_key stage pluginId,
                              sq_pluginId = Some pluginId\<rparr>) ids)"
    unfolding enumerateStageQueues_def by auto
  show thesis
    by (rule that [of s]; use s in \<open>cases s; auto simp: stageKeyFor_def\<close>)
qed

section \<open>Waits are positive\<close>

lemma defaultPollLadder_pos: "0 < defaultPollLadderMs a"
  by (simp add: defaultPollLadderMs_def)

lemma defaultPollLadder_mono: "a \<le> b \<Longrightarrow> defaultPollLadderMs a \<le> defaultPollLadderMs b"
  by (simp add: defaultPollLadderMs_def)

definition rnd_ok :: "num \<Rightarrow> bool" where
  "rnd_ok r \<longleftrightarrow> 0 \<le> r \<and> r < 1"

lemma calculateBackoffDelay_pos:
  "deliverySchema d \<Longrightarrow> rnd_ok r \<Longrightarrow> 0 < calculateBackoffDelay n d r"
  using calculateBackoffDelay_bounds(1) [of d r n] cappedDelay_pos [of d n]
  by (auto simp: rnd_ok_def)

lemma entryWait_pos:
  assumes "positive_tuning (en_tuning c)" and "deliverySchema (en_delivery c)"
    and "rnd_ok (en_rnd c)"
  shows "0 < st_entryWaitMs (STAGES s) c"
  using assms by (cases s) (auto simp: positive_tuning_def calculateBackoffDelay_pos)

lemma rescheduleWait_pos:
  assumes "positive_tuning (rs_tuning c)" and "deliverySchema (rs_delivery c)"
    and "rnd_ok (rs_rnd c)"
  shows "0 < rescheduleWaitMsFor (STAGES s) c"
proof (cases "st_rescheduleWaitMs (STAGES s)")
  case None
  then show ?thesis
    using assms by (auto simp: rescheduleWaitMsFor_def intro!: entryWait_pos)
next
  case (Some f)
  then have "s = St_awaitingTask" by (cases s) auto
  then show ?thesis by (simp add: rescheduleWaitMsFor_def defaultPollLadder_pos)
qed

text \<open>The stage of a status is the stage whose entry writes that status.\<close>

lemma stageForStatus_entry:
  "stageForStatus s pat = Some st \<Longrightarrow> st_entryStatus (STAGES st) = s"
  by (cases s; cases pat) auto

lemma stageForStatus_of_entry:
  "st \<in> set (PIPELINES pat) \<or> st = St_retry \<Longrightarrow>
     stageForStatus (st_entryStatus (STAGES st)) pat = Some st"
  by (cases st; cases pat) auto

lemma nextStage_in_pipeline:
  "nextStage pat a = Some b \<Longrightarrow> a \<in> set (PIPELINES pat) \<and> b \<in> set (PIPELINES pat) \<and> a \<noteq> b"
  by (cases a; cases pat) (auto simp: stage_simps)

end
