(* ===== verification/Webhook.thy ===== *)
theory Webhook
  imports Redis_Store
begin

text \<open>
  The outbound event webhook (\<open>src/engine/webhook/\<close>): building an event from a partial message,
  the store of pending notifications and dead letters, the delivery loop with its lease, retries and
  dead-letter rule, and the signature helpers. The HTTP call is outside: its reply is an argument of
  the operation that awaits it. \<open>storeAndEmit\<close> may fail to persist; that is an argument too.
\<close>

section \<open>Events\<close>

record webhookMessagePayload =
  wp_deliveryStatus :: deliveryStatus
  wp_device :: device
  wp_id :: "msg_id option"
  wp_correlationId :: "string option"
  wp_commandType :: "commandType option"
  wp_phase :: "phase option"
  wp_response :: "messageResponse option"
  wp_failureHistory :: "failureReason list option"
  wp_unsolicited :: "bool option"

record webhookEvent =
  we_eventId :: string
  we_occurredAt :: time
  we_pluginId :: plugin_id
  we_message :: webhookMessagePayload

record webhookStoredRecord =
  sr_event :: webhookEvent
  sr_attemptCount :: nat
  sr_lastError :: "string option"

text \<open>\<open>Inl reason\<close> is \<open>{ ok: false, reason }\<close>.\<close>

definition buildWebhookEvent ::
  "partialMessage \<Rightarrow> time \<Rightarrow> string \<Rightarrow> string + webhookEvent" where
  "buildWebhookEvent message occurredAt eventId =
     (let trimmed = omitInternalFields message in
      if p_pluginId trimmed = None \<or> p_pluginId trimmed = Some [] then Inl ''missing pluginId''
      else if p_deliveryStatus trimmed = None then Inl ''missing deliveryStatus''
      else if p_device trimmed = None then Inl ''missing device''
      else Inr \<lparr>we_eventId = eventId, we_occurredAt = occurredAt,
        we_pluginId = the (p_pluginId trimmed),
        we_message = \<lparr>
          wp_deliveryStatus = the (p_deliveryStatus trimmed),
          wp_device = the (p_device trimmed),
          wp_id = p_id trimmed,
          wp_correlationId = p_correlationId trimmed,
          wp_commandType = p_commandType trimmed,
          wp_phase = p_phase trimmed,
          wp_response = p_response trimmed,
          wp_failureHistory = p_failureHistory trimmed,
          wp_unsolicited = p_unsolicited trimmed\<rparr>\<rparr>)"

text \<open>The wire body does not depend on the internal rate-limit key.\<close>

lemma buildWebhookEvent_ignores_internal:
  "buildWebhookEvent (message\<lparr>p_concurrencyRateLimitKey := k\<rparr>) now eventId =
     buildWebhookEvent message now eventId"
  by (simp add: buildWebhookEvent_def omitInternalFields_eq Let_def)

lemma buildWebhookEvent_id: "buildWebhookEvent m now i = Inr ev \<Longrightarrow> we_eventId ev = i"
  by (auto simp: buildWebhookEvent_def Let_def split: if_splits)

lemma buildWebhookEvent_full:
  "m_pluginId m \<noteq> [] \<Longrightarrow> \<exists>ev. buildWebhookEvent (partial_of m) now i = Inr ev \<and>
     we_eventId ev = i \<and> we_pluginId ev = m_pluginId m \<and>
     wp_id (we_message ev) = Some (m_id m) \<and>
     wp_deliveryStatus (we_message ev) = m_deliveryStatus m \<and>
     wp_failureHistory (we_message ev) = m_failureHistory m \<and>
     wp_response (we_message ev) = m_response m"
  by (auto simp: buildWebhookEvent_def omitInternalFields_eq partial_of_def)

section \<open>Store\<close>

datatype webhookResult = Posted | Retried | Dlq

text \<open>\<open>wb_records\<close> holds the JSON strings by Redis key, parsed; \<open>wb_expires\<close> the \<open>EX\<close> deadlines.\<close>

record webhook_db =
  wb_records :: "string \<Rightarrow> webhookStoredRecord option"
  wb_expires :: "string \<Rightarrow> time option"
  wb_pending :: zset
  wb_results :: "webhookResult list"

definition empty_webhook_db :: webhook_db where
  "empty_webhook_db = \<lparr>wb_records = Map.empty, wb_expires = Map.empty, wb_pending = [],
     wb_results = []\<rparr>"

definition WEBHOOK_DRAIN_BATCH_SIZE :: nat where
  "WEBHOOK_DRAIN_BATCH_SIZE = 50"

definition wb_enqueue :: "webhookStoredRecord \<Rightarrow> time \<Rightarrow> webhook_db \<Rightarrow> webhook_db" where
  "wb_enqueue r nextAttemptAt db =
     (let eventId = we_eventId (sr_event r) in
      db\<lparr>wb_records := (wb_records db)(webhookPayload eventId \<mapsto> r),
         wb_pending := zadd nextAttemptAt eventId (wb_pending db)\<rparr>)"

definition wb_listDueEventIds :: "time \<Rightarrow> webhook_db \<Rightarrow> string list" where
  "wb_listDueEventIds now db = zrangebyscore now WEBHOOK_DRAIN_BATCH_SIZE (wb_pending db)"

definition wb_getRecord :: "string \<Rightarrow> webhook_db \<Rightarrow> webhookStoredRecord option" where
  "wb_getRecord eventId db = wb_records db (webhookPayload eventId)"

definition wb_reschedule :: "webhookStoredRecord \<Rightarrow> time \<Rightarrow> webhook_db \<Rightarrow> webhook_db" where
  "wb_reschedule r nextAttemptAt db =
     (let eventId = we_eventId (sr_event r) in
      db\<lparr>wb_records := (wb_records db)(webhookPayload eventId \<mapsto> r),
         wb_pending := zadd nextAttemptAt eventId (wb_pending db)\<rparr>)"

definition wb_complete :: "string \<Rightarrow> webhook_db \<Rightarrow> webhook_db" where
  "wb_complete eventId db =
     db\<lparr>wb_pending := zrem eventId (wb_pending db),
        wb_records := (wb_records db)(webhookPayload eventId := None)\<rparr>"

definition wb_deadLetter :: "webhookStoredRecord \<Rightarrow> nat \<Rightarrow> time \<Rightarrow> webhook_db \<Rightarrow> webhook_db" where
  "wb_deadLetter r ttlSeconds now db =
     (let eventId = we_eventId (sr_event r) in
      db\<lparr>wb_records := (wb_records db)(webhookDeadLetter eventId \<mapsto> r,
                                        webhookPayload eventId := None),
         wb_expires := (wb_expires db)(webhookDeadLetter eventId \<mapsto> ttl_instant now ttlSeconds),
         wb_pending := zrem eventId (wb_pending db)\<rparr>)"

definition recordWebhookResult :: "webhookResult \<Rightarrow> webhook_db \<Rightarrow> webhook_db" where
  "recordWebhookResult res db = db\<lparr>wb_results := wb_results db @ [res]\<rparr>"

lemmas wb_defs = wb_enqueue_def wb_getRecord_def wb_reschedule_def wb_complete_def
  wb_deadLetter_def recordWebhookResult_def Let_def

section \<open>Service\<close>

definition CLAIM_LEASE_MS :: num where
  "CLAIM_LEASE_MS = 60000"

definition isRetryableWebhookStatus :: "nat \<Rightarrow> bool" where
  "isRetryableWebhookStatus status \<longleftrightarrow> status = 408 \<or> status = 429 \<or> status \<ge> 500"

text \<open>What \<open>fetch\<close> did: rejected with a message, or resolved with a status.\<close>

datatype fetchReply = FetchThrew string | FetchStatus nat

definition response_ok :: "nat \<Rightarrow> bool" where
  "response_ok status \<longleftrightarrow> 200 \<le> status \<and> status \<le> 299"

text \<open>
  \<open>persistFails\<close> says whether the enqueue's MULTI rejects. The kick of the drain afterwards is a
  step of its own. A dropped event resolves.
\<close>

definition storeAndEmit ::
  "partialMessage \<Rightarrow> time \<Rightarrow> string \<Rightarrow> bool \<Rightarrow> webhook_db \<Rightarrow> (exn + unit) \<times> webhook_db" where
  "storeAndEmit message now eventId persistFails db =
     (case buildWebhookEvent message now eventId of
        Inl reason \<Rightarrow> (Inr (), db)
      | Inr event \<Rightarrow>
          if persistFails then (Inl (PlainError ''[WEBHOOK STORE] enqueue failed''), db)
          else (Inr (), wb_enqueue \<lparr>sr_event = event, sr_attemptCount = 0, sr_lastError = None\<rparr>
                  now db))"

definition wb_onFailure ::
  "eventWebhookConfig \<Rightarrow> webhookStoredRecord \<Rightarrow> string \<Rightarrow> time \<Rightarrow> webhook_db \<Rightarrow> webhook_db" where
  "wb_onFailure config r lastError now db =
     (let attemptCount = sr_attemptCount r + 1;
          updated = r\<lparr>sr_attemptCount := attemptCount, sr_lastError := Some lastError\<rparr>
      in if attemptCount \<ge> wh_maxAttempts config
         then recordWebhookResult Dlq
           (wb_deadLetter updated (wh_deadLetterTtlSeconds config) now db)
         else recordWebhookResult Retried
           (wb_reschedule updated (now + calculateWebhookBackoffDelay attemptCount config) db))"

text \<open>\<open>now\<close> is the clock at the lease, \<open>later\<close> the clock when the POST has settled.\<close>

definition wb_deliverOne ::
  "eventWebhookConfig \<Rightarrow> string \<Rightarrow> time \<Rightarrow> fetchReply \<Rightarrow> time \<Rightarrow> webhook_db \<Rightarrow> webhook_db" where
  "wb_deliverOne config eventId now reply later db =
     (case wb_getRecord eventId db of
        None \<Rightarrow> wb_complete eventId db
      | Some r \<Rightarrow>
          (let db1 = wb_reschedule r (now + CLAIM_LEASE_MS) db in
           case reply of
             FetchThrew msg \<Rightarrow> wb_onFailure config r msg later db1
           | FetchStatus status \<Rightarrow>
               if response_ok status then recordWebhookResult Posted (wb_complete eventId db1)
               else
                 (let errorText = ''HTTP '' @ nat_to_string status in
                  if \<not> isRetryableWebhookStatus status
                  then recordWebhookResult Dlq
                    (wb_deadLetter (r\<lparr>sr_attemptCount := sr_attemptCount r + 1,
                       sr_lastError := Some errorText\<rparr>) (wh_deadLetterTtlSeconds config) later db1)
                  else wb_onFailure config r errorText later db1)))"

text \<open>
  \<open>_drainOnce\<close>; \<open>drainChain\<close> serialises drains, so the deliveries of one drain follow each other.
  \<open>net\<close> gives, per event, the lease clock, the reply and the settle clock.
\<close>

definition wb_drainOnce ::
  "eventWebhookConfig \<Rightarrow> time \<Rightarrow> (string \<Rightarrow> time \<times> fetchReply \<times> time) \<Rightarrow> webhook_db \<Rightarrow> webhook_db" where
  "wb_drainOnce config now net db =
     fold (\<lambda>eventId db. case net eventId of (t, reply, t') \<Rightarrow>
             wb_deliverOne config eventId t reply t' db)
       (wb_listDueEventIds now db) db"

section \<open>Signature\<close>

text \<open>\<open>hmac secret body\<close> is the hex digest of Node's HMAC-SHA256, a parameter.\<close>

definition signWebhookBody :: "(string \<Rightarrow> string \<Rightarrow> string) \<Rightarrow> string \<Rightarrow> string \<Rightarrow> string" where
  "signWebhookBody hmac secret rawBody = hmac secret rawBody"

definition formatWebhookSignatureHeader :: "string \<Rightarrow> string" where
  "formatWebhookSignatureHeader hexDigest = ''sha256='' @ hexDigest"

definition verifyWebhookSignature ::
  "(string \<Rightarrow> string \<Rightarrow> string) \<Rightarrow> string \<Rightarrow> string \<Rightarrow> string \<Rightarrow> bool" where
  "verifyWebhookSignature hmac secret rawBody signatureHeader =
     (let expected = formatWebhookSignatureHeader (signWebhookBody hmac secret rawBody) in
      if length expected \<noteq> length signatureHeader then False else expected = signatureHeader)"

section \<open>The outbox interface\<close>

text \<open>
  What the engine relies on of the outbox: a persisted notification is there, is due from its
  first-attempt instant on, and an operation on one event leaves the others alone.
\<close>

locale outbox =
  fixes put :: "webhookStoredRecord \<Rightarrow> time \<Rightarrow> 'w \<Rightarrow> 'w"
    and settle :: "string \<Rightarrow> 'w \<Rightarrow> 'w"
    and lookup :: "string \<Rightarrow> 'w \<Rightarrow> webhookStoredRecord option"
    and sched :: "string \<Rightarrow> 'w \<Rightarrow> time option"
    and inv :: "'w \<Rightarrow> bool"
  assumes put_lookup: "inv w \<Longrightarrow>
      lookup e (put r t w) = (if e = we_eventId (sr_event r) then Some r else lookup e w)"
    and put_at: "inv w \<Longrightarrow> sched e (put r t w) = (if e = we_eventId (sr_event r) then Some t else sched e w)"
    and settle_lookup: "inv w \<Longrightarrow> lookup e (settle e' w) = (if e = e' then None else lookup e w)"
    and settle_at: "inv w \<Longrightarrow> sched e (settle e' w) = (if e = e' then None else sched e w)"
    and listed: "inv w \<Longrightarrow> sched e w \<noteq> None \<longleftrightarrow> lookup e w \<noteq> None"
    and put_inv: "inv w \<Longrightarrow> inv (put r t w)"
    and settle_inv: "inv w \<Longrightarrow> inv (settle e w)"
begin

lemma put_persists: "inv w \<Longrightarrow> lookup (we_eventId (sr_event r)) (put r t w) = Some r"
  by (simp add: put_lookup)

lemma put_keeps:
  "inv w \<Longrightarrow> e \<noteq> we_eventId (sr_event r) \<Longrightarrow> lookup e (put r t w) = lookup e w \<and> sched e (put r t w) = sched e w"
  by (simp add: put_lookup put_at)

lemma settle_commutes_with_put:
  "inv w \<Longrightarrow> e \<noteq> we_eventId (sr_event r) \<Longrightarrow>
     lookup e' (settle e (put r t w)) = lookup e' (put r t (settle e w))"
  by (simp add: put_lookup settle_lookup put_inv settle_inv)

end

definition webhook_ok :: "webhook_db \<Rightarrow> bool" where
  "webhook_ok db \<longleftrightarrow> zset_ok (wb_pending db) \<and>
     (\<forall>e. zscore (wb_pending db) e \<noteq> None \<longleftrightarrow> wb_records db (webhookPayload e) \<noteq> None) \<and>
     (\<forall>e r. wb_records db (webhookPayload e) = Some r \<longrightarrow> we_eventId (sr_event r) = e)"

definition wb_due_at :: "string \<Rightarrow> webhook_db \<Rightarrow> time option" where
  "wb_due_at e db = zscore (wb_pending db) e"

lemma webhook_ok_enqueue: "webhook_ok db \<Longrightarrow> webhook_ok (wb_enqueue r t db)"
  by (auto simp: webhook_ok_def wb_defs zset_ok_zadd zscore_zadd)

lemma webhook_ok_reschedule: "webhook_ok db \<Longrightarrow> webhook_ok (wb_reschedule r t db)"
  by (auto simp: webhook_ok_def wb_defs zset_ok_zadd zscore_zadd)

lemma webhook_ok_complete: "webhook_ok db \<Longrightarrow> webhook_ok (wb_complete e db)"
  by (auto simp: webhook_ok_def wb_defs zset_ok_zrem zscore_zrem)

lemma webhook_ok_deadLetter: "webhook_ok db \<Longrightarrow> webhook_ok (wb_deadLetter r ttl t db)"
  by (auto simp: webhook_ok_def wb_defs zset_ok_zrem zscore_zrem)

lemma webhook_ok_record [simp]: "webhook_ok (recordWebhookResult res db) = webhook_ok db"
  by (simp add: webhook_ok_def recordWebhookResult_def)

interpretation pending: outbox wb_enqueue wb_complete wb_getRecord wb_due_at webhook_ok
  by unfold_locales
     (auto simp: wb_defs wb_due_at_def zscore_zadd zscore_zrem zset_ok_zadd
        zset_ok_zrem webhook_ok_def)

section \<open>Delivery of one event\<close>

lemma wb_onFailure_cases:
  "wb_onFailure config r err now db =
     (if sr_attemptCount r + 1 \<ge> wh_maxAttempts config
      then recordWebhookResult Dlq (wb_deadLetter
        (r\<lparr>sr_attemptCount := sr_attemptCount r + 1, sr_lastError := Some err\<rparr>)
        (wh_deadLetterTtlSeconds config) now db)
      else recordWebhookResult Retried (wb_reschedule
        (r\<lparr>sr_attemptCount := sr_attemptCount r + 1, sr_lastError := Some err\<rparr>)
        (now + calculateWebhookBackoffDelay (sr_attemptCount r + 1) config) db))"
  by (simp add: wb_onFailure_def Let_def)

lemma webhook_ok_onFailure: "webhook_ok db \<Longrightarrow> webhook_ok (wb_onFailure config r err now db)"
  by (simp add: wb_onFailure_cases webhook_ok_deadLetter webhook_ok_reschedule)

lemma webhook_ok_deliverOne:
  "webhook_ok db \<Longrightarrow> webhook_ok (wb_deliverOne config e now reply later db)"
  by (auto simp: wb_deliverOne_def Let_def webhook_ok_complete webhook_ok_reschedule
      webhook_ok_onFailure webhook_ok_deadLetter split: option.split fetchReply.split)

lemma webhook_ok_drainOnce:
  "webhook_ok db \<Longrightarrow> webhook_ok (wb_drainOnce config now net db)"
proof -
  have "webhook_ok db \<Longrightarrow> webhook_ok (fold (\<lambda>eventId db. case net eventId of (t, reply, t') \<Rightarrow>
      wb_deliverOne config eventId t reply t' db) es db)" for es
    by (induction es arbitrary: db) (auto simp: webhook_ok_deliverOne split: prod.split)
  then show "webhook_ok db \<Longrightarrow> webhook_ok (wb_drainOnce config now net db)"
    by (simp add: wb_drainOnce_def)
qed

lemma webhook_ok_storeAndEmit:
  "webhook_ok db \<Longrightarrow> webhook_ok (snd (storeAndEmit m now e fails db))"
  by (auto simp: storeAndEmit_def webhook_ok_enqueue split: sum.split)

text \<open>What delivering one event does to that event; nothing happens to the others.\<close>

lemma deliverOne_other:
  assumes "webhook_ok db" and "e \<noteq> eventId"
  shows "wb_getRecord e (wb_deliverOne config eventId now reply later db) = wb_getRecord e db"
    and "wb_due_at e (wb_deliverOne config eventId now reply later db) = wb_due_at e db"
proof -
  have id: "we_eventId (sr_event r) = eventId" if "wb_getRecord eventId db = Some r" for r
    using assms(1) that by (simp add: webhook_ok_def wb_getRecord_def)
  show "wb_getRecord e (wb_deliverOne config eventId now reply later db) = wb_getRecord e db"
    using assms(2) id
    by (auto simp: wb_deliverOne_def wb_onFailure_def wb_defs split: option.split fetchReply.split)
  show "wb_due_at e (wb_deliverOne config eventId now reply later db) = wb_due_at e db"
    using assms(2) id
    by (auto simp: wb_deliverOne_def wb_onFailure_def wb_defs wb_due_at_def zscore_zadd zscore_zrem
        split: option.split fetchReply.split)
qed

text \<open>Retryable replies: no response at all, 408, 429, or 5xx.\<close>

definition retryable_reply :: "fetchReply \<Rightarrow> bool" where
  "retryable_reply reply = (case reply of FetchThrew _ \<Rightarrow> True
     | FetchStatus s \<Rightarrow> \<not> response_ok s \<and> isRetryableWebhookStatus s)"

definition reply_error :: "fetchReply \<Rightarrow> string" where
  "reply_error reply = (case reply of FetchThrew m \<Rightarrow> m | FetchStatus s \<Rightarrow> ''HTTP '' @ nat_to_string s)"

lemma deliverOne_retryable:
  assumes "wb_getRecord eventId db = Some r" and "retryable_reply reply"
  shows "wb_deliverOne config eventId now reply later db =
    wb_onFailure config r (reply_error reply) later (wb_reschedule r (now + CLAIM_LEASE_MS) db)"
  using assms by (auto simp: wb_deliverOne_def retryable_reply_def reply_error_def Let_def
      split: fetchReply.splits)

lemma deliverOne_retry_again:
  assumes "webhook_ok db" and "wb_getRecord eventId db = Some r" and "retryable_reply reply"
    and "sr_attemptCount r + 1 < wh_maxAttempts config"
  shows "wb_getRecord eventId (wb_deliverOne config eventId now reply later db) =
      Some (r\<lparr>sr_attemptCount := sr_attemptCount r + 1, sr_lastError := Some (reply_error reply)\<rparr>)"
    and "wb_due_at eventId (wb_deliverOne config eventId now reply later db) =
      Some (later + calculateWebhookBackoffDelay (sr_attemptCount r + 1) config)"
proof -
  have id: "we_eventId (sr_event r) = eventId"
    using assms(1,2) by (simp add: webhook_ok_def wb_getRecord_def)
  show "wb_getRecord eventId (wb_deliverOne config eventId now reply later db) =
      Some (r\<lparr>sr_attemptCount := sr_attemptCount r + 1, sr_lastError := Some (reply_error reply)\<rparr>)"
    using assms id by (simp add: deliverOne_retryable wb_onFailure_cases wb_defs)
  show "wb_due_at eventId (wb_deliverOne config eventId now reply later db) =
      Some (later + calculateWebhookBackoffDelay (sr_attemptCount r + 1) config)"
    using assms id
    by (simp add: deliverOne_retryable wb_onFailure_cases wb_defs wb_due_at_def zscore_zadd)
qed

lemma deliverOne_exhausted:
  assumes "webhook_ok db" and "wb_getRecord eventId db = Some r" and "retryable_reply reply"
    and "wh_maxAttempts config \<le> sr_attemptCount r + 1"
  shows "wb_getRecord eventId (wb_deliverOne config eventId now reply later db) = None"
    and "wb_due_at eventId (wb_deliverOne config eventId now reply later db) = None"
    and "wb_records (wb_deliverOne config eventId now reply later db) (webhookDeadLetter eventId) =
      Some (r\<lparr>sr_attemptCount := sr_attemptCount r + 1, sr_lastError := Some (reply_error reply)\<rparr>)"
proof -
  have id: "we_eventId (sr_event r) = eventId"
    using assms(1,2) by (simp add: webhook_ok_def wb_getRecord_def)
  show "wb_getRecord eventId (wb_deliverOne config eventId now reply later db) = None"
    and "wb_due_at eventId (wb_deliverOne config eventId now reply later db) = None"
    and "wb_records (wb_deliverOne config eventId now reply later db) (webhookDeadLetter eventId) =
      Some (r\<lparr>sr_attemptCount := sr_attemptCount r + 1, sr_lastError := Some (reply_error reply)\<rparr>)"
    using assms id
    by (simp_all add: deliverOne_retryable wb_onFailure_cases wb_defs wb_due_at_def zscore_zrem)
qed

lemma deliverOne_rejected:
  assumes "webhook_ok db" and "wb_getRecord eventId db = Some r"
    and "\<not> response_ok s" and "\<not> isRetryableWebhookStatus s"
  shows "wb_getRecord eventId (wb_deliverOne config eventId now (FetchStatus s) later db) = None"
    and "wb_records (wb_deliverOne config eventId now (FetchStatus s) later db)
      (webhookDeadLetter eventId) =
      Some (r\<lparr>sr_attemptCount := sr_attemptCount r + 1,
              sr_lastError := Some (''HTTP '' @ nat_to_string s)\<rparr>)"
  using assms by (auto simp: wb_deliverOne_def wb_defs webhook_ok_def)

lemma deliverOne_posted:
  assumes "webhook_ok db" and "wb_getRecord eventId db = Some r" and "response_ok s"
  shows "wb_getRecord eventId (wb_deliverOne config eventId now (FetchStatus s) later db) = None"
    and "wb_due_at eventId (wb_deliverOne config eventId now (FetchStatus s) later db) = None"
    and "wb_results (wb_deliverOne config eventId now (FetchStatus s) later db) =
      wb_results db @ [Posted]"
  using assms by (auto simp: wb_deliverOne_def wb_defs wb_due_at_def webhook_ok_def zscore_zrem)

section \<open>The whole life of an undeliverable event\<close>

text \<open>\<open>n\<close> deliveries of one event, each started when the event is due and failing at once.\<close>

fun fail_n :: "eventWebhookConfig \<Rightarrow> string \<Rightarrow> fetchReply \<Rightarrow> nat \<Rightarrow> time \<Rightarrow> webhook_db \<Rightarrow> time \<times> webhook_db" where
  "fail_n config e reply 0 t db = (t, db)"
| "fail_n config e reply (Suc n) t db =
     (let db' = wb_deliverOne config e t reply t db in
      fail_n config e reply n (case wb_due_at e db' of None \<Rightarrow> t | Some t' \<Rightarrow> t') db')"

lemma fail_n_state:
  assumes "webhook_ok db" and "wb_getRecord e db = Some r" and "retryable_reply reply"
    and "n + sr_attemptCount r < wh_maxAttempts config"
  shows "\<exists>r'. webhook_ok (snd (fail_n config e reply n t db)) \<and>
      wb_getRecord e (snd (fail_n config e reply n t db)) = Some r' \<and>
      sr_attemptCount r' = sr_attemptCount r + n \<and> sr_event r' = sr_event r \<and>
      fst (fail_n config e reply n t db) =
        t + (\<Sum>k = sr_attemptCount r + 1..sr_attemptCount r + n. calculateWebhookBackoffDelay k config)"
  using assms
proof (induction n arbitrary: t db r)
  case 0
  then show ?case by auto
next
  case (Suc n)
  let ?db = "wb_deliverOne config e t reply t db"
  let ?r = "r\<lparr>sr_attemptCount := sr_attemptCount r + 1, sr_lastError := Some (reply_error reply)\<rparr>"
  let ?a = "sr_attemptCount r"
  have next_record: "wb_getRecord e ?db = Some ?r"
    and due: "wb_due_at e ?db = Some (t + calculateWebhookBackoffDelay (?a + 1) config)"
    using Suc.prems by (simp_all add: deliverOne_retry_again)
  have ok: "webhook_ok ?db" using Suc.prems(1) by (rule webhook_ok_deliverOne)
  have "n + sr_attemptCount ?r < wh_maxAttempts config" using Suc.prems(4) by simp
  from Suc.IH [OF ok next_record Suc.prems(3) this, of "t + calculateWebhookBackoffDelay (?a + 1) config"]
  have ih: "\<exists>r'. webhook_ok (snd (fail_n config e reply (Suc n) t db)) \<and>
      wb_getRecord e (snd (fail_n config e reply (Suc n) t db)) = Some r' \<and>
      sr_attemptCount r' = ?a + Suc n \<and> sr_event r' = sr_event r \<and>
      fst (fail_n config e reply (Suc n) t db) = t + calculateWebhookBackoffDelay (?a + 1) config +
        (\<Sum>k = ?a + 2..?a + Suc n. calculateWebhookBackoffDelay k config)"
    using due by (simp add: Let_def)
  have "(\<Sum>k = ?a + 1..?a + Suc n. calculateWebhookBackoffDelay k config) =
      calculateWebhookBackoffDelay (?a + 1) config +
      (\<Sum>k = ?a + 2..?a + Suc n. calculateWebhookBackoffDelay k config)"
    by (subst sum.atLeast_Suc_atMost) auto
  with ih show ?case by (simp only: add.assoc)
qed

lemma fail_n_Suc_outer:
  "fail_n config e reply (Suc n) t db =
     (case fail_n config e reply n t db of (t', db') \<Rightarrow>
        let db'' = wb_deliverOne config e t' reply t' db' in
        (case wb_due_at e db'' of None \<Rightarrow> t' | Some t'' \<Rightarrow> t'', db''))"
  by (induction n arbitrary: t db) (auto simp: Let_def)

end
