(* ===== verification/Redis_Laws.thy ===== *)
theory Redis_Laws
  imports Redis_Store
begin

text \<open>
  What the Redis operations leave behind, in the terms the engine's invariants use: which message is
  in which queue, which hash a message has, what the string and set keys hold. The locale
  \<open>claim_gate\<close> is the ownership contract that every queue-leaving operation shares.
\<close>

section \<open>Commands\<close>

lemma redis_view [redis_simps]:
  "hashes (r_zadd k s m r) = hashes r" "strs (r_zadd k s m r) = strs r" "sets (r_zadd k s m r) = sets r"
  "hashes (r_zaddXx k s m r) = hashes r" "strs (r_zaddXx k s m r) = strs r"
  "sets (r_zaddXx k s m r) = sets r"
  "hashes (r_zrem k m r) = hashes r" "strs (r_zrem k m r) = strs r" "sets (r_zrem k m r) = sets r"
  "zsets (hset k f r) = zsets r" "strs (hset k f r) = strs r" "sets (hset k f r) = sets r"
  "zsets (hdel k f r) = zsets r" "strs (hdel k f r) = strs r" "sets (hdel k f r) = sets r"
  "zsets (expire k t r) = zsets r" "strs (expire k t r) = strs r" "sets (expire k t r) = sets r"
  "hashes (expire k t r) = hashes r"
  "zsets (del_hash k r) = zsets r" "strs (del_hash k r) = strs r" "sets (del_hash k r) = sets r"
  "zsets (del_str k r) = zsets r" "hashes (del_str k r) = hashes r" "sets (del_str k r) = sets r"
  "zsets (set_ex k v t r) = zsets r" "hashes (set_ex k v t r) = hashes r"
  "sets (set_ex k v t r) = sets r"
  "zsets (sadd k m r) = zsets r" "hashes (sadd k m r) = hashes r" "strs (sadd k m r) = strs r"
  "zsets (srem k m r) = zsets r" "hashes (srem k m r) = hashes r" "strs (srem k m r) = strs r"
  by (simp_all add: redis_command_defs split: option.split)

lemma redis_write [redis_simps]:
  "hashes (del_hash k r) = (hashes r)(k := None)"
  "strs (del_str k r) = (strs r)(k := None)"
  "strs (set_ex k v t r) = (strs r)(k \<mapsto> v)"
  "x \<in> set (sets (sadd c m r) k) \<longleftrightarrow> x \<in> set (sets r k) \<or> k = c \<and> x = m"
  "x \<in> set (sets (srem c m r) k) \<longleftrightarrow> x \<in> set (sets r k) \<and> \<not> (k = c \<and> x = m)"
  by (auto simp: redis_command_defs)

lemma hset_existing [redis_simps]: "hashes r k = Some h \<Longrightarrow> hashes (hset k f r) = (hashes r)(k \<mapsto> f h)"
  by (simp add: hset_def)

lemma hdel_existing: "hashes r k = Some h \<Longrightarrow> f h \<noteq> empty_hash \<Longrightarrow>
    hashes (hdel k f r) = (hashes r)(k \<mapsto> f h)"
  by (simp add: hdel_def)

lemma in_queue_commands [redis_simps]:
  "in_queue (r_zadd k s m r) q x \<longleftrightarrow> q = k \<and> x = m \<or> in_queue r q x"
  "in_queue (r_zaddXx k s m r) q x \<longleftrightarrow> in_queue r q x"
  "in_queue (r_zrem k m r) q x \<longleftrightarrow> in_queue r q x \<and> \<not> (q = k \<and> x = m)"
  "in_queue (hset k' f r) q x = in_queue r q x"
  "in_queue (hdel k' f r) q x = in_queue r q x"
  "in_queue (expire k' t r) q x = in_queue r q x"
  "in_queue (del_hash k' r) q x = in_queue r q x"
  "in_queue (del_str k' r) q x = in_queue r q x"
  "in_queue (set_ex k' v t r) q x = in_queue r q x"
  "in_queue (sadd k' v r) q x = in_queue r q x"
  "in_queue (srem k' v r) q x = in_queue r q x"
  by (auto simp: in_queue_def redis_view r_zadd_def r_zaddXx_def r_zrem_def zscore_zadd zscore_zrem
      zaddXx_def)

lemma redis_ok_commands [redis_simps]:
  "redis_ok r \<Longrightarrow> redis_ok (r_zadd k s m r)" "redis_ok r \<Longrightarrow> redis_ok (r_zaddXx k s m r)"
  "redis_ok r \<Longrightarrow> redis_ok (r_zrem k m r)" "redis_ok (hset k f r) = redis_ok r"
  "redis_ok (hdel k f r) = redis_ok r" "redis_ok (expire k t r) = redis_ok r"
  "redis_ok (del_hash k r) = redis_ok r" "redis_ok (del_str k r) = redis_ok r"
  "redis_ok (set_ex k v t r) = redis_ok r" "redis_ok r \<Longrightarrow> redis_ok (sadd k m r)"
  "redis_ok r \<Longrightarrow> redis_ok (srem k m r)"
  by (auto simp: redis_ok_def redis_command_defs zset_ok_zadd zset_ok_zaddXx zset_ok_zrem
      split: option.split)

lemma redis_ok_empty [simp]: "redis_ok empty_redis"
  by (simp add: redis_ok_def empty_redis_def)

lemma redis_at_view [redis_simps]:
  "in_queue (redis_at now r) q x = in_queue r q x" "zsets (redis_at now r) = zsets r"
  "sets (redis_at now r) = sets r" "redis_ok (redis_at now r) = redis_ok r"
  by (simp_all add: redis_at_def in_queue_def redis_ok_def)

lemma redis_at_shrinks:
  "hashes (redis_at now r) k = Some h \<Longrightarrow> hashes r k = Some h"
  "strs (redis_at now r) k = Some v \<Longrightarrow> strs r k = Some v"
  by (auto simp: redis_at_def split: if_splits)

lemma fold_zrem [redis_simps]:
  "in_queue (fold (\<lambda>k. r_zrem k m) ks r) q x \<longleftrightarrow> in_queue r q x \<and> \<not> (q \<in> set ks \<and> x = m)"
  "hashes (fold (\<lambda>k. r_zrem k m) ks r) = hashes r" "strs (fold (\<lambda>k. r_zrem k m) ks r) = strs r"
  "sets (fold (\<lambda>k. r_zrem k m) ks r) = sets r"
  "redis_ok r \<Longrightarrow> redis_ok (fold (\<lambda>k. r_zrem k m) ks r)"
  by (induction ks arbitrary: r) (auto simp: redis_simps)

lemma fold_srem [redis_simps]:
  "x \<in> set (sets (fold (srem c) ms r) k) \<longleftrightarrow> x \<in> set (sets r k) \<and> \<not> (k = c \<and> x \<in> set ms)"
  "hashes (fold (srem c) ms r) = hashes r" "strs (fold (srem c) ms r) = strs r"
  "zsets (fold (srem c) ms r) = zsets r" "in_queue (fold (srem c) ms r) q y = in_queue r q y"
  "redis_ok r \<Longrightarrow> redis_ok (fold (srem c) ms r)"
  by (induction ms arbitrary: r) (auto simp: redis_simps)

lemma length_srem: "length (sets (srem c m r) k) \<le> length (sets r k)"
  by (simp add: srem_def)

lemma length_srem_le: "length (sets r k) \<le> n \<Longrightarrow> length (sets (srem c m r) k) \<le> n"
  using length_srem [of c m r k] by simp

lemma length_fold_srem: "length (sets (fold (srem c) ms r) k) \<le> length (sets r k)"
  by (induction ms arbitrary: r) (auto intro: order_trans length_srem)

section \<open>Moving between queues\<close>

lemma move_miss:
  "\<not> in_queue r src m \<Longrightarrow> moveMessageBetweenQueues src dst key ikey m sc st dq ex r = (0, r)"
  by (simp add: moveMessageBetweenQueues_def)

lemma move_orphan:
  "in_queue r src m \<Longrightarrow> hashes r key = None \<Longrightarrow>
     moveMessageBetweenQueues src dst key ikey m sc st dq ex r = (0, r_zrem src m r)"
  by (simp add: moveMessageBetweenQueues_def redis_simps)

definition moved_hash :: "deliveryStatus \<Rightarrow> string \<Rightarrow> mhash \<Rightarrow> mhash" where
  "moved_hash st dq h =
     (if dq = [] then h\<lparr>h_deliveryStatus := Some st\<rparr>
      else h\<lparr>h_deliveryStatus := Some st, h_deliveryQueueId := Some dq\<rparr>)"

lemma move_hit:
  assumes "in_queue r src m" and "hashes r key = Some h"
  obtains r' where "moveMessageBetweenQueues src dst key ikey m sc st dq ex r = (1, r')"
    and "hashes r' = (hashes r)(key \<mapsto> moved_hash st dq h)"
    and "\<And>q x. in_queue r' q x \<longleftrightarrow> q = dst \<and> x = m \<or> in_queue r q x \<and> \<not> (q = src \<and> x = m)"
    and "strs r' = (if ikey = [] then strs r else (strs r)(ikey \<mapsto> key))"
    and "sets r' = sets r"
    and "redis_ok r \<Longrightarrow> redis_ok r'"
    and "zscore (zsets r' dst) m = Some sc"
proof -
  let ?r2 = "r_zadd dst sc m (r_zrem src m r)"
  let ?r3 = "if dq \<noteq> [] then hset key (\<lambda>h. h\<lparr>h_deliveryStatus := Some st,
      h_deliveryQueueId := Some dq\<rparr>) ?r2 else hset key (\<lambda>h. h\<lparr>h_deliveryStatus := Some st\<rparr>) ?r2"
  let ?r4 = "if ikey \<noteq> [] then set_ex ikey key ex ?r3 else ?r3"
  show thesis
  proof (rule that [of ?r4])
    show "moveMessageBetweenQueues src dst key ikey m sc st dq ex r = (1, ?r4)"
      using assms by (simp add: moveMessageBetweenQueues_def redis_simps Let_def)
    show "hashes ?r4 = (hashes r)(key \<mapsto> moved_hash st dq h)"
      using assms(2) by (simp add: redis_simps moved_hash_def)
    show "\<And>q x. in_queue ?r4 q x \<longleftrightarrow> q = dst \<and> x = m \<or> in_queue r q x \<and> \<not> (q = src \<and> x = m)"
      by (simp add: redis_simps)
    show "zscore (zsets ?r4 dst) m = Some sc"
      by (simp add: redis_simps) (simp add: r_zadd_def zscore_zadd)
  qed (auto simp: redis_simps)
qed

text \<open>Nothing but the claimed message, its hash and its index changes, whatever the outcome.\<close>

lemma move_result_le: "fst (moveMessageBetweenQueues src dst key ikey m sc st dq ex r) \<le> 1"
  by (simp add: moveMessageBetweenQueues_def Let_def)

section \<open>The ownership gate\<close>

text \<open>
  An operation that takes a member out of a queue succeeds only when the member was there, and
  after it the member is not there; when the member is not there it changes nothing. So of any
  number of claims on one membership at most one succeeds, in any order.
\<close>

locale claim_gate =
  fixes claim :: "'d \<Rightarrow> bool \<times> 'd"
    and here :: "'d \<Rightarrow> bool"
  assumes wins_only_here: "fst (claim d) \<Longrightarrow> here d"
    and leaves: "\<not> here (snd (claim d))"
    and miss_idle: "\<not> here d \<Longrightarrow> snd (claim d) = d"
begin

lemma misses_when_gone: "\<not> here d \<Longrightarrow> claim d = (False, d)"
  using wins_only_here [of d] miss_idle [of d] by (cases "claim d") auto

lemma at_most_one_winner: "\<not> fst (claim (snd (claim d)))"
  using leaves wins_only_here by blast

lemma claim_idempotent: "claim (snd (claim d)) = (False, snd (claim d))"
  using misses_when_gone [OF leaves] .

end

locale two_claims = a: claim_gate claim here + b: claim_gate claim' here
  for claim :: "'d \<Rightarrow> bool \<times> 'd" and here :: "'d \<Rightarrow> bool" and claim' :: "'d \<Rightarrow> bool \<times> 'd"
begin

lemma exclusive: "\<not> (fst (claim d) \<and> fst (claim' (snd (claim d))))"
  using a.leaves b.wins_only_here by blast

lemma second_claim_idle: "claim' (snd (claim d)) = (False, snd (claim d))"
  using b.misses_when_gone [OF a.leaves] .

end

interpretation removeGate: claim_gate
  "\<lambda>r. map_prod (\<lambda>n. n \<noteq> 0) id (removeMessageFromQueue q m r)" "\<lambda>r. in_queue r q m"
  for q m
  by unfold_locales (auto simp: removeMessageFromQueue_def redis_simps split: if_splits)

lemma move_gate_leaves:
  "src \<noteq> dst \<Longrightarrow>
     \<not> in_queue (snd (moveMessageBetweenQueues src dst key ikey m sc st dq ex r)) src m"
  by (auto simp: moveMessageBetweenQueues_def redis_simps Let_def)

lemma move_claim_gate:
  assumes "src \<noteq> dst"
  shows "claim_gate (\<lambda>r. map_prod (\<lambda>n. n = 1) id
      (moveMessageBetweenQueues src dst key ikey m sc st dq ex r)) (\<lambda>r. in_queue r src m)"
  using assms move_gate_leaves [OF assms]
  by unfold_locales (auto simp: move_miss intro: ccontr)

lemma requeue_claim_gate:
  assumes "src \<noteq> dst"
  shows "claim_gate (requeueMessage m src dst prio now) (\<lambda>r. in_queue r src m)"
proof
  let ?mv = "moveMessageBetweenQueues src dst (messageKey m) [] m (- prio) QUEUED []
      (ttl_instant now 0)"
  fix r
  have "\<not> in_queue (snd (?mv r)) src m" using assms by (rule move_gate_leaves)
  then show "\<not> in_queue (snd (requeueMessage m src dst prio now r)) src m"
    by (cases "?mv r") (simp add: requeueMessage_def redis_simps)
  show "in_queue r src m" if "fst (requeueMessage m src dst prio now r)"
    using that by (rule contrapos_pp) (simp add: requeueMessage_def move_miss)
  show "snd (requeueMessage m src dst prio now r) = r" if "\<not> in_queue r src m"
    using that by (simp add: requeueMessage_def move_miss)
qed

text \<open>Cancel and the retry requeue race for the member of the retry queue; one of them wins.\<close>

interpretation requeueVsCancel: two_claims
  "requeueMessage m QUEUE_RETRY_KEY (buildInitialQueueKey p k i) prio now"
  "\<lambda>r. in_queue r QUEUE_RETRY_KEY m"
  "\<lambda>r. map_prod (\<lambda>n. n \<noteq> 0) id (removeMessageFromQueue QUEUE_RETRY_KEY m r)"
  for m p k i prio now
  using removeGate.claim_gate_axioms
  by (intro two_claims.intro requeue_claim_gate) (auto simp: key_simps)

section \<open>Picking the next message\<close>

definition picked_hash :: "deliveryStatus \<Rightarrow> string \<Rightarrow> mhash \<Rightarrow> mhash" where
  "picked_hash st c h =
     (if c = [] then h\<lparr>h_deliveryStatus := Some st\<rparr>
      else h\<lparr>h_deliveryStatus := Some st, h_concurrencyRateLimitKey := Some c\<rparr>)"

text \<open>The popped store: the head is gone, and an emptied queue has left the work list.\<close>

definition popped :: "string \<Rightarrow> string \<Rightarrow> zset \<Rightarrow> redis \<Rightarrow> redis" where
  "popped src L rest r =
     (let r1 = r\<lparr>zsets := (zsets r)(src := rest)\<rparr> in if rest = [] then srem L src r1 else r1)"

lemma popped_effect:
  assumes ok: "redis_ok r" and pop: "zpopmin (zsets r src) = Some ((i, s), rest)"
  shows "in_queue (popped src L rest r) q x \<longleftrightarrow> in_queue r q x \<and> \<not> (q = src \<and> x = i)"
    and "in_queue r src i" and "hashes (popped src L rest r) = hashes r"
    and "strs (popped src L rest r) = strs r"
    and "y \<in> set (sets (popped src L rest r) k) \<longleftrightarrow>
      y \<in> set (sets r k) \<and> \<not> (k = L \<and> y = src \<and> rest = [])"
    and "k \<noteq> L \<Longrightarrow> sets (popped src L rest r) k = sets r k"
    and "redis_ok (popped src L rest r)"
proof -
  have z: "zset_ok (zsets r src)" using ok by (simp add: redis_ok_def)
  have sc: "zscore (zsets r src) i = Some s" "zscore rest = (zscore (zsets r src))(i := None)"
    using zs.pop_Some [OF z pop] by auto
  have rest: "zset_ok rest" using zs.invar_pop [OF z pop] .
  let ?r1 = "r\<lparr>zsets := (zsets r)(src := rest)\<rparr>"
  have q1: "in_queue ?r1 q x \<longleftrightarrow> in_queue r q x \<and> \<not> (q = src \<and> x = i)"
    using sc by (auto simp: in_queue_def)
  have ok1: "redis_ok ?r1" using ok rest by (simp add: redis_ok_def)
  show "in_queue (popped src L rest r) q x \<longleftrightarrow> in_queue r q x \<and> \<not> (q = src \<and> x = i)"
    using q1 by (cases "rest = []") (simp_all add: popped_def redis_simps Let_def)
  show "in_queue r src i" using sc by (simp add: in_queue_def)
  show "redis_ok (popped src L rest r)" 
    using ok1 by (cases "rest = []") (simp_all add: popped_def redis_simps Let_def)
  show "k \<noteq> L \<Longrightarrow> sets (popped src L rest r) k = sets r k"
    by (simp add: popped_def srem_def Let_def)
  show "y \<in> set (sets (popped src L rest r) k) \<longleftrightarrow>
      y \<in> set (sets r k) \<and> \<not> (k = L \<and> y = src \<and> rest = [])"
    by (auto simp: popped_def redis_simps Let_def)
qed (simp_all add: popped_def redis_simps Let_def)

lemma popped_worklist:
  assumes ok: "redis_ok r" and pop: "zpopmin (zsets r src) = Some ((i, s), rest)"
    and drop: "y \<in> set (sets r L)" "y \<notin> set (sets (popped src L rest r) L)"
  shows "y = src \<and> \<not> in_queue (popped src L rest r) src x"
proof -
  have "y = src" "rest = []" using drop popped_effect(5) [OF ok pop, of y L L] by auto
  then show ?thesis by (simp add: popped_def redis_simps Let_def) (simp add: in_queue_def)
qed

text \<open>The script's outcomes.\<close>

definition at_cap :: "string \<Rightarrow> nat \<Rightarrow> redis \<Rightarrow> bool" where
  "at_cap c mx r \<longleftrightarrow> c \<noteq> [] \<and> mx > 0 \<and> length (sets r c) \<ge> mx"

definition take_picked ::
  "string \<Rightarrow> string \<Rightarrow> time \<Rightarrow> deliveryStatus \<Rightarrow> msg_id \<Rightarrow> redis \<Rightarrow> redis" where
  "take_picked dst c t st i r =
     (let r4 = hset (messageKey i) (\<lambda>h. h\<lparr>h_deliveryStatus := Some st\<rparr>) (r_zadd dst t i r)
      in if c \<noteq> [] then hset (messageKey i) (\<lambda>h. h\<lparr>h_concurrencyRateLimitKey := Some c\<rparr>)
           (sadd c i r4) else r4)"

lemma fetch_unfold:
  "fetchNextMessageInQueueAndMove src dst L c t st mx r =
     (if at_cap c mx r then (None, r)
      else (case zpopmin (zsets r src) of
          None \<Rightarrow> (None, srem L src r)
        | Some ((i, s), rest) \<Rightarrow>
            (let r2 = popped src L rest r in
             if hashes r (messageKey i) = None then (None, r2)
             else (Some (i, the (hashes (take_picked dst c t st i r2) (messageKey i))),
                   take_picked dst c t st i r2))))"
  unfolding fetchNextMessageInQueueAndMove_def at_cap_def popped_def take_picked_def Let_def
  by (auto simp: redis_simps split: option.split prod.split)

lemma take_picked_effect:
  assumes "hashes r (messageKey i) = Some h"
  shows "hashes (take_picked dst c t st i r) = (hashes r)(messageKey i \<mapsto> picked_hash st c h)"
    and "strs (take_picked dst c t st i r) = strs r"
    and "in_queue (take_picked dst c t st i r) q x \<longleftrightarrow> q = dst \<and> x = i \<or> in_queue r q x"
    and "y \<in> set (sets (take_picked dst c t st i r) k) \<longleftrightarrow>
      y \<in> set (sets r k) \<or> c \<noteq> [] \<and> k = c \<and> y = i"
    and "redis_ok r \<Longrightarrow> redis_ok (take_picked dst c t st i r)"
    and "zscore (zsets (take_picked dst c t st i r) dst) i = Some t"
proof -
  show "hashes (take_picked dst c t st i r) = (hashes r)(messageKey i \<mapsto> picked_hash st c h)"
    using assms by (auto simp: take_picked_def redis_simps Let_def picked_hash_def fun_eq_iff)
  show "zscore (zsets (take_picked dst c t st i r) dst) i = Some t"
    by (simp add: take_picked_def redis_simps Let_def) (simp add: r_zadd_def zscore_zadd)
qed (auto simp: take_picked_def redis_simps Let_def)

lemma take_picked_other_sets:
  "k \<noteq> c \<Longrightarrow> sets (take_picked dst c t st i r) k = sets r k"
  by (simp add: take_picked_def Let_def redis_simps) (simp add: sadd_def redis_simps)

lemma take_picked_slot_count:
  "length (sets (take_picked dst c t st i r) c) \<le> Suc (length (sets r c))"
  by (simp add: take_picked_def Let_def redis_simps) (simp add: sadd_def redis_simps)

lemma fetch_Some:
  assumes ok: "redis_ok r"
    and f: "fetchNextMessageInQueueAndMove src dst L c t st mx r = (Some (i, h'), r')"
  obtains h s rest where "hashes r (messageKey i) = Some h" and "h' = picked_hash st c h"
    and "zpopmin (zsets r src) = Some ((i, s), rest)" and "\<not> at_cap c mx r"
    and "r' = take_picked dst c t st i (popped src L rest r)"
    and "hashes r' = (hashes r)(messageKey i \<mapsto> picked_hash st c h)"
    and "in_queue r src i"
proof -
  have cap: "\<not> at_cap c mx r" using f by (auto simp: fetch_unfold)
  obtain j s rest where pop: "zpopmin (zsets r src) = Some ((j, s), rest)"
    using f cap by (cases "zpopmin (zsets r src)") (auto simp: fetch_unfold)
  have ex: "hashes r (messageKey j) \<noteq> None"
    using f cap pop by (auto simp: fetch_unfold Let_def split: if_splits)
  let ?p = "popped src L rest r"
  have ji: "j = i" and h': "h' = the (hashes (take_picked dst c t st i ?p) (messageKey i))"
    and r': "r' = take_picked dst c t st i ?p"
    using f cap pop ex by (auto simp: fetch_unfold Let_def)
  from ex ji obtain h where h: "hashes r (messageKey i) = Some h" by auto
  note pop = pop [unfolded ji]
  have hp: "hashes ?p = hashes r" using popped_effect(3) [OF ok pop] .
  with h have h2: "hashes ?p (messageKey i) = Some h" by simp
  have hr: "hashes r' = (hashes r)(messageKey i \<mapsto> picked_hash st c h)"
    unfolding r' take_picked_effect(1) [OF h2] hp by (rule refl)
  have "h' = picked_hash st c h"
    unfolding h' take_picked_effect(1) [OF h2] by simp
  moreover have "in_queue r src i" using popped_effect(2) [OF ok pop] .
  ultimately show thesis using that [OF h _ pop cap r' hr] by blast
qed

lemma fetch_None:
  assumes ok: "redis_ok r"
    and f: "fetchNextMessageInQueueAndMove src dst L c t st mx r = (None, r')"
  shows "r' = r \<or> zsets r src = [] \<and> r' = srem L src r \<or>
    (\<exists>i s rest. zpopmin (zsets r src) = Some ((i, s), rest) \<and> hashes r (messageKey i) = None \<and>
       r' = popped src L rest r)"
  using f unfolding fetch_unfold Let_def
  by (auto split: if_splits option.splits simp: zpopmin_def split: list.splits)

text \<open>The cap: a pick that claims a slot leaves at most \<open>mx\<close> members in the set.\<close>

lemma fetch_slot_cap:
  assumes ok: "redis_ok r" and "c \<noteq> L" and "c \<noteq> []" and "mx > 0" and "length (sets r c) \<le> mx"
  shows "length (sets (snd (fetchNextMessageInQueueAndMove src dst L c t st mx r)) c) \<le> mx"
proof (cases "at_cap c mx r")
  case True
  then show ?thesis using assms by (simp add: fetch_unfold)
next
  case False
  then have lt: "length (sets r c) < mx" using assms by (simp add: at_cap_def)
  show ?thesis
  proof (cases "zpopmin (zsets r src)")
    case None
    then show ?thesis using False assms by (simp add: fetch_unfold srem_def)
  next
    case (Some p)
    obtain i s rest where p: "p = ((i, s), rest)" by (cases p) auto
    have same: "sets (popped src L rest r) c = sets r c"
      using popped_effect(6) [OF ok Some [unfolded p] \<open>c \<noteq> L\<close>] .
    show ?thesis
      using False Some p same lt
        take_picked_slot_count [of dst c t st i "popped src L rest r"]
      by (simp add: fetch_unfold Let_def)
  qed
qed

section \<open>Enqueue and cleanup\<close>

lemma enqueue_effect:
  assumes r'_def: "r' = snd (enqueueDeviceMessage dto qk ttl i now r)"
  shows "hashes r' = (hashes r)(messageKey i \<mapsto> serializeCreateDeviceMessage dto)"
    and "in_queue r' q x \<longleftrightarrow> q = qk \<and> x = i \<or> in_queue r q x"
    and "y \<in> set (sets r' k) \<longleftrightarrow>
      y \<in> set (sets r k) \<or> k = listOfInitialQueuesToDistributeFrom \<and> y = qk"
    and "strs r' (indexExternalDeliveryId d) = strs r (indexExternalDeliveryId d)"
    and "redis_ok r \<Longrightarrow> redis_ok r'"
    and "fst (enqueueDeviceMessage dto qk ttl i now r) =
      deserializeMessage i (serializeCreateDeviceMessage dto)"
    and "zscore (zsets r' qk) i = Some (- c_priority dto)"
proof -
  let ?r4 = "sadd listOfInitialQueuesToDistributeFrom qk (r_zadd qk (- c_priority dto) i
      (expire (messageKey i) (ttl_instant now ttl)
        (hset (messageKey i) (\<lambda>_. serializeCreateDeviceMessage dto) r)))"
  have hs: "hashes (hset k (\<lambda>_. v) r) = (hashes r)(k \<mapsto> v)" for k v by (simp add: hset_def)
  show "hashes r' = (hashes r)(messageKey i \<mapsto> serializeCreateDeviceMessage dto)"
    by (auto simp: r'_def enqueueDeviceMessage_def redis_simps Let_def hs split: option.split)
  show "zscore (zsets r' qk) i = Some (- c_priority dto)"
    by (auto simp: r'_def enqueueDeviceMessage_def redis_simps Let_def split: option.split)
       (simp_all add: r_zadd_def zscore_zadd)
qed (auto simp: r'_def enqueueDeviceMessage_def redis_simps Let_def key_simps split: option.split)

lemma cleanup_effect:
  assumes r'_def: "r' = messageFullCleanup msg ks r"
  shows "hashes r' = (hashes r)(messageKey (m_id msg) := None)"
    and "in_queue r' q x \<longleftrightarrow> in_queue r q x \<and> \<not> (q \<in> set ks \<and> x = m_id msg)"
    and "y \<in> set (sets r' k) \<longleftrightarrow> y \<in> set (sets r k) \<and>
      \<not> (m_concurrencyRateLimitKey msg = Some k \<and> k \<noteq> [] \<and> y = m_id msg)"
    and "strs r' k = Some v \<Longrightarrow> strs r k = Some v"
    and "m_deliveryQueueId msg \<noteq> [] \<Longrightarrow> strs r' (indexExternalDeliveryId (m_deliveryQueueId msg)) = None"
    and "m_correlationId msg = Some cid \<Longrightarrow> cid \<noteq> [] \<Longrightarrow>
      strs r' (indexCorrelationId cid (m_phase msg)) = None"
    and "redis_ok r \<Longrightarrow> redis_ok r'"
    and "length (sets r' k) \<le> length (sets r k)"
  by (auto simp: r'_def messageFullCleanup_def redis_simps Let_def split: option.splits if_splits
      intro!: length_srem_le)

end
