(* ===== verification/Moves.thy ===== *)
theory Moves
  imports Stages Webhook Redis_Laws
begin

text \<open>
  The engine's state and its stage transitions (\<open>src/engine/lifecycle/moves.ts\<close>). An operation
  takes the engine's configuration and a \<open>world\<close>, the values it reads from outside while it runs
  (the clock, \<open>Math.random()\<close>, the next ULID, whether the webhook persist rejects), and returns what
  the asynchronous function settled with, \<open>Inl\<close> for a rejection, together with the new state.
\<close>

section \<open>State\<close>

datatype terminalOutcome = Terminal deliveryStatus | Terminal_CANCELLED

text \<open>
  A send in progress: the promise (its number tells two promises of one id apart) with the plugin
  and the message its closure holds.
\<close>

record send =
  sd_token :: nat
  sd_plugin :: deliveryPlugin
  sd_message :: deviceMessage

record engine =
  db :: redis
  whdb :: webhook_db
  sends :: "(msg_id \<times> nat) list"
  running :: "send list"
  next_token :: nat
  terminals :: "(terminalOutcome \<times> nat) list"
  claimMisses :: "stageName list"
  ingressUnhandled :: "plugin_id list"
  canKickDistribute :: bool
  kicks :: nat

definition empty_engine :: "bool \<Rightarrow> engine" where
  "empty_engine engineEnabled = \<lparr>db = empty_redis, whdb = empty_webhook_db, sends = [],
     running = [], next_token = 0, terminals = [], claimMisses = [], ingressUnhandled = [],
     canKickDistribute = engineEnabled, kicks = 0\<rparr>"

record engineConfig =
  cf_registry :: registry
  cf_delivery :: deliveryConfig
  cf_webhook :: "eventWebhookConfig option"
  cf_decodeTime :: "msg_id \<Rightarrow> time"

record world =
  w_now :: time
  w_random :: num
  w_eventId :: string
  w_persistFails :: bool

definition with_db :: "(redis \<Rightarrow> redis) \<Rightarrow> engine \<Rightarrow> engine" where
  "with_db f s = s\<lparr>db := f (db s)\<rparr>"

definition recordStageClaimMiss :: "stageName \<Rightarrow> engine \<Rightarrow> engine" where
  "recordStageClaimMiss st s = s\<lparr>claimMisses := claimMisses s @ [st]\<rparr>"

definition recordMessageTerminal :: "terminalOutcome \<Rightarrow> nat \<Rightarrow> engine \<Rightarrow> engine" where
  "recordMessageTerminal outcome n s = s\<lparr>terminals := terminals s @ [(outcome, n)]\<rparr>"

definition recordIngressUnhandled :: "plugin_id \<Rightarrow> engine \<Rightarrow> engine" where
  "recordIngressUnhandled i s = s\<lparr>ingressUnhandled := ingressUnhandled s @ [i]\<rparr>"

lemma metric_frame [simp]:
  "db (recordStageClaimMiss st s) = db s" "db (recordMessageTerminal o' n s) = db s"
  "db (recordIngressUnhandled i s) = db s"
  "whdb (recordStageClaimMiss st s) = whdb s" "whdb (recordMessageTerminal o' n s) = whdb s"
  "whdb (recordIngressUnhandled i s) = whdb s"
  "sends (recordStageClaimMiss st s) = sends s" "sends (recordMessageTerminal o' n s) = sends s"
  "sends (recordIngressUnhandled i s) = sends s"
  "running (recordStageClaimMiss st s) = running s" "running (recordMessageTerminal o' n s) = running s"
  "running (recordIngressUnhandled i s) = running s"
  "next_token (recordStageClaimMiss st s) = next_token s"
  "next_token (recordMessageTerminal o' n s) = next_token s"
  "next_token (recordIngressUnhandled i s) = next_token s"
  "canKickDistribute (recordStageClaimMiss st s) = canKickDistribute s"
  "canKickDistribute (recordMessageTerminal o' n s) = canKickDistribute s"
  "canKickDistribute (recordIngressUnhandled i s) = canKickDistribute s"
  by (simp_all add: recordStageClaimMiss_def recordMessageTerminal_def recordIngressUnhandled_def)

lemma with_db_frame [simp]:
  "db (with_db f s) = f (db s)" "whdb (with_db f s) = whdb s" "sends (with_db f s) = sends s"
  "running (with_db f s) = running s" "next_token (with_db f s) = next_token s"
  "terminals (with_db f s) = terminals s" "claimMisses (with_db f s) = claimMisses s"
  "canKickDistribute (with_db f s) = canKickDistribute s"
  by (simp_all add: with_db_def)

section \<open>Operations\<close>

record concurrencyRateLimit =
  crl_key :: string
  crl_max :: nat

definition entry_context :: "engineConfig \<Rightarrow> world \<Rightarrow> deliveryPlugin \<Rightarrow> nat \<Rightarrow> stageEntryContext" where
  "entry_context cfg w plugin n =
     \<lparr>en_tuning = d_tuning plugin, en_delivery = cf_delivery cfg, en_retryCount = n,
      en_rnd = w_random w\<rparr>"

definition pickIntoNs ::
  "engineConfig \<Rightarrow> world \<Rightarrow> string \<Rightarrow> deliveryPlugin \<Rightarrow> concurrencyRateLimit option \<Rightarrow> engine \<Rightarrow>
   (exn + deviceMessage option) \<times> engine" where
  "pickIntoNs cfg w readyQueueKey plugin limit s =
     (let dueAt = w_now w + st_entryWaitMs (STAGES St_ns) (entry_context cfg w plugin 0);
          (raw, r) = fetchNextMessageInQueueAndMove readyQueueKey (st_key (STAGES St_ns) [])
            listOfInitialQueuesToDistributeFrom
            (case limit of None \<Rightarrow> [] | Some l \<Rightarrow> crl_key l) dueAt
            (st_entryStatus (STAGES St_ns))
            (case limit of None \<Rightarrow> 0 | Some l \<Rightarrow> crl_max l) (db s)
      in (case raw of
            None \<Rightarrow> Inr None
          | Some (i, rawHash) \<Rightarrow> map_sum id Some (deserializeMessage i rawHash),
          s\<lparr>db := r\<rparr>))"

text \<open>\<open>_move\<close>.\<close>

definition move ::
  "engineConfig \<Rightarrow> world \<Rightarrow> msg_id \<Rightarrow> string \<Rightarrow> string \<Rightarrow> time \<Rightarrow> deliveryStatus \<Rightarrow> string option \<Rightarrow>
   string option \<Rightarrow> redis \<Rightarrow> bool \<times> redis" where
  "move cfg w messageId fromKey toKey dueAt status deliveryQueueId indexKey r =
     (let (result, r') = moveMessageBetweenQueues fromKey toKey (messageKey messageId)
            (case indexKey of None \<Rightarrow> [] | Some k \<Rightarrow> k) messageId dueAt status
            (case deliveryQueueId of None \<Rightarrow> [] | Some d \<Rightarrow> d)
            (ttl_instant (w_now w) (messageTtlSeconds (cf_delivery cfg))) r
      in (result = 1, r'))"

fun stage_text :: "stageName \<Rightarrow> string" where
  "stage_text St_ns = ''ns''"
| "stage_text St_relayNode = ''relayNode''"
| "stage_text St_device = ''device''"
| "stage_text St_awaitingTask = ''awaitingTask''"
| "stage_text St_retry = ''retry''"

fun pattern_text :: "pipelinePattern \<Rightarrow> string" where
  "pattern_text PUSH = ''PUSH''"
| "pattern_text PULL = ''PULL''"

definition advance ::
  "engineConfig \<Rightarrow> world \<Rightarrow> msg_id \<Rightarrow> deliveryPlugin \<Rightarrow> stageName \<Rightarrow> string option \<Rightarrow> nat \<Rightarrow> engine \<Rightarrow>
   (exn + bool) \<times> engine" where
  "advance cfg w messageId plugin from_stage deliveryQueueId retryCount s =
     (case nextStage (d_pattern plugin) from_stage of
        None \<Rightarrow> 
          (Inl (PlainError (''No stage after '' @ CHR 0x22 # stage_text from_stage @ CHR 0x22 #
             '' on the '' @ pattern_text (d_pattern plugin) @ '' pipeline'')), s)
      | Some next \<Rightarrow>
          (let target = STAGES next;
               dueAt = w_now w + st_entryWaitMs target (entry_context cfg w plugin retryCount);
               (claimed, r) = move cfg w messageId
                 (stageKeyFor (STAGES from_stage) (d_id plugin)) (stageKeyFor target (d_id plugin))
                 dueAt (st_entryStatus target) deliveryQueueId
                 (case deliveryQueueId of
                    None \<Rightarrow> None
                  | Some d \<Rightarrow> if d = [] then None else Some (indexExternalDeliveryId d)) (db s);
               s1 = s\<lparr>db := r\<rparr>
           in (Inr claimed, if claimed then s1 else recordStageClaimMiss from_stage s1)))"

text \<open>
  \<open>enterRetry\<close> is not one Redis command: the ZSCORE guard and the HMGET are reads, the MULTI is one
  atomic write. \<open>enterRetry_write\<close> is the MULTI, over what was read before it.
\<close>

definition enterRetry_write ::
  "msg_id \<Rightarrow> string \<Rightarrow> nat \<Rightarrow> failureReason list \<Rightarrow> time \<Rightarrow> string option \<Rightarrow> string option \<Rightarrow>
   redis \<Rightarrow> redis" where
  "enterRetry_write messageId fromKey currentRetryCount history dueAt stale rateKey r =
     (let key = messageKey messageId;
          r1 = hset key (\<lambda>h. h\<lparr>h_retryCount := Some (currentRetryCount + 1),
                 h_deliveryStatus := Some (st_entryStatus (STAGES St_retry)),
                 h_failureHistory := Some history\<rparr>) r;
          r2 = hdel key (\<lambda>h. h\<lparr>h_deliveryQueueId := None\<rparr>) r1;
          r3 = r_zrem fromKey messageId r2;
          r4 = r_zadd (st_key (STAGES St_retry) []) dueAt messageId r3;
          r5 = (case stale of
                  None \<Rightarrow> r4
                | Some d \<Rightarrow> if d = [] then r4 else del_str (indexExternalDeliveryId d) r4)
      in case rateKey of
           None \<Rightarrow> r5
         | Some k \<Rightarrow>
             if k = [] then r5
             else hdel key (\<lambda>h. h\<lparr>h_concurrencyRateLimitKey := None\<rparr>) (srem k messageId r5))"

definition enterRetry ::
  "engineConfig \<Rightarrow> world \<Rightarrow> msg_id \<Rightarrow> string \<Rightarrow> nat \<Rightarrow> failureReason list \<Rightarrow> deliveryPlugin \<Rightarrow> engine \<Rightarrow>
   bool \<times> engine" where
  "enterRetry cfg w messageId fromKey currentRetryCount history plugin s =
     (if \<not> in_queue (db s) fromKey messageId
      then (False, recordStageClaimMiss St_retry s)
      else
        (let key = messageKey messageId;
             dueAt = w_now w +
               st_entryWaitMs (STAGES St_retry) (entry_context cfg w plugin currentRetryCount);
             stale = Option.bind (hashes (db s) key) h_deliveryQueueId;
             rateKey = Option.bind (hashes (db s) key) h_concurrencyRateLimitKey
         in (True, with_db (enterRetry_write messageId fromKey currentRetryCount history dueAt
                      stale rateKey) s)))"

text \<open>
  \<open>exec()\<close> and \<open>assertExecSucceeded\<close>. A MULTI is applied as a whole or not at all; either way its
  reply can be lost, and then the caller sees a rejection. The operations of this file are the runs whose
  transaction is confirmed; \<open>purge_exec\<close> and \<open>enterRetry_exec\<close> take the outcome as an argument.
\<close>

datatype execOutcome = Committed | Discarded | Unconfirmed

definition exec_result :: "execOutcome \<Rightarrow> string \<Rightarrow> 'a \<Rightarrow> engine \<Rightarrow> engine \<Rightarrow> (exn + 'a) \<times> engine" where
  "exec_result ex operation result before after =
     (case ex of
        Committed \<Rightarrow> (Inr result, after)
      | Discarded \<Rightarrow> (Inl (PlainError (''[REDIS] '' @ operation @ '' failed'')), before)
      | Unconfirmed \<Rightarrow> (Inl (PlainError (''[REDIS] '' @ operation @ '' failed'')), after))"

definition enterRetry_exec ::
  "execOutcome \<Rightarrow> engineConfig \<Rightarrow> world \<Rightarrow> msg_id \<Rightarrow> string \<Rightarrow> nat \<Rightarrow> failureReason list \<Rightarrow>
   deliveryPlugin \<Rightarrow> engine \<Rightarrow> (exn + bool) \<times> engine" where
  "enterRetry_exec ex cfg w messageId fromKey currentRetryCount history plugin s =
     (case enterRetry cfg w messageId fromKey currentRetryCount history plugin s of
        (False, s1) \<Rightarrow> (Inr False, s1)
      | (True, s1) \<Rightarrow> exec_result ex ''enterRetry'' True s s1)"

definition reschedule ::
  "engineConfig \<Rightarrow> world \<Rightarrow> stageDefinition \<Rightarrow> deviceMessage \<Rightarrow> num \<Rightarrow> deliveryPlugin \<Rightarrow> engine \<Rightarrow> engine" where
  "reschedule cfg w stage message messageAgeMs plugin s =
     (let waitMs = rescheduleWaitMsFor stage \<lparr>rs_message = message, rs_messageAgeMs = messageAgeMs,
            rs_tuning = d_tuning plugin, rs_delivery = cf_delivery cfg, rs_rnd = w_random w\<rparr>
      in with_db (r_zaddXx (stageKeyFor stage (d_id plugin)) (w_now w + waitMs) (m_id message)) s)"

definition ready_key :: "deliveryPlugin \<Rightarrow> deviceMessage \<Rightarrow> string" where
  "ready_key plugin message = d_initialQueueKey plugin (m_networkId message) (m_device message)"

definition purge :: "deviceMessage \<Rightarrow> deliveryPlugin \<Rightarrow> engine \<Rightarrow> engine" where
  "purge message plugin s =
     with_db (messageFullCleanup message
       (enumerateStageKeys [m_pluginId message] @ [ready_key plugin message])) s"

definition purge_exec ::
  "execOutcome \<Rightarrow> deviceMessage \<Rightarrow> deliveryPlugin \<Rightarrow> engine \<Rightarrow> (exn + unit) \<times> engine" where
  "purge_exec ex message plugin s =
     exec_result ex ''messageFullCleanup'' () s (purge message plugin s)"

lemma exec_committed [simp]:
  "enterRetry_exec Committed cfg w i k n hist p s =
     (case enterRetry cfg w i k n hist p s of (entered, s1) \<Rightarrow> (Inr entered, s1))"
  "purge_exec Committed m p s = (Inr (), purge m p s)"
  by (simp_all add: enterRetry_exec_def purge_exec_def exec_result_def split: prod.split bool.split)

definition listReadyQueues :: "engine \<Rightarrow> string list" where
  "listReadyQueues s = fetchQueuesWithMessages (db s)"

definition claimFromQueue :: "string \<Rightarrow> msg_id \<Rightarrow> engine \<Rightarrow> bool \<times> engine" where
  "claimFromQueue queueKey messageId s =
     (let (removed, r) = removeMessageFromQueue queueKey messageId (db s)
      in (removed \<noteq> 0, s\<lparr>db := r\<rparr>))"

definition requeue :: "world \<Rightarrow> msg_id \<Rightarrow> string \<Rightarrow> string \<Rightarrow> num \<Rightarrow> engine \<Rightarrow> bool \<times> engine" where
  "requeue w messageId fromKey toKey priority s =
     (let (claimed, r) = requeueMessage messageId fromKey toKey priority (w_now w) (db s);
          s1 = s\<lparr>db := r\<rparr>
      in (claimed, if claimed then s1 else recordStageClaimMiss St_retry s1))"

end
