(* ===== verification/Base_Service.thy ===== *)
theory Base_Service
  imports Moves
begin

text \<open>
  \<open>src/engine/base.ts\<close>: notifying the adopter and the retry-or-fail decision, with what each branch
  of the decision leaves behind.
\<close>

definition emitDeliveryEvent ::
  "engineConfig \<Rightarrow> world \<Rightarrow> partialMessage \<Rightarrow> engine \<Rightarrow> (exn + unit) \<times> engine" where
  "emitDeliveryEvent cfg w message s =
     (case cf_webhook cfg of
        None \<Rightarrow> (Inr (), s)
      | Some _ \<Rightarrow>
          (let (result, h) = storeAndEmit message (w_now w) (w_eventId w) (w_persistFails w) (whdb s)
           in (result, s\<lparr>whdb := h\<rparr>)))"

text \<open>The stored form of a failure; an empty \<open>details\<close> text is omitted, as in the code.\<close>

definition failure_entry :: "time \<Rightarrow> deliveryStatus \<Rightarrow> failureContext \<Rightarrow> bool \<Rightarrow> failureReason" where
  "failure_entry now status context final = \<lparr>
     fr_reason = fc_reason context,
     fr_errorCode = fc_errorCode context,
     fr_details = (if fc_details context = Some [] then None else fc_details context),
     fr_status = status,
     fr_timestamp = now,
     fr_isFinal = Some final\<rparr>"

definition is_final_failure :: "engineConfig \<Rightarrow> failureContext \<Rightarrow> nat \<Rightarrow> bool" where
  "is_final_failure cfg context currentRetryCount \<longleftrightarrow>
     fc_skipRetry context = Some True \<or> currentRetryCount \<ge> maxRetries (cf_delivery cfg)"

definition retry_count :: "deviceMessage \<Rightarrow> nat" where
  "retry_count m = (case m_retryCount m of None \<Rightarrow> 0 | Some n \<Rightarrow> n)"

definition failure_history :: "deviceMessage \<Rightarrow> failureReason list" where
  "failure_history m = (case m_failureHistory m of None \<Rightarrow> [] | Some h \<Rightarrow> h)"

definition retryOrFail_exec ::
  "execOutcome \<Rightarrow> engineConfig \<Rightarrow> world \<Rightarrow> msg_id \<Rightarrow> string \<Rightarrow> failureContext \<Rightarrow> deliveryPlugin \<Rightarrow> engine \<Rightarrow>
   (exn + stageOutcome) \<times> engine" where
  "retryOrFail_exec ex cfg w messageId currentQueueKey context plugin s =
     (case getMessageById messageId (db s) of
        Inl e \<Rightarrow> (Inl e, s)
      | Inr None \<Rightarrow> (Inr Orphaned, s)
      | Inr (Some message) \<Rightarrow>
          (let currentRetryCount = retry_count message;
               isFinalFailure = is_final_failure cfg context currentRetryCount;
               newFailureHistory =
                 failure_entry (w_now w) (m_deliveryStatus message) context isFinalFailure #
                 failure_history message
           in if isFinalFailure then
                (case emitDeliveryEvent cfg w
                        (partial_of (message\<lparr>m_failureHistory := Some newFailureHistory,
                                             m_deliveryStatus := DELIVERY_FAILED\<rparr>)) s of
                   (Inl e, s1) \<Rightarrow> (Inl e, s1)
                 | (Inr _, s1) \<Rightarrow>
                     (case purge_exec ex message plugin
                             (recordMessageTerminal (Terminal DELIVERY_FAILED) currentRetryCount s1) of
                        (Inl e, s2) \<Rightarrow> (Inl e, s2)
                      | (Inr _, s2) \<Rightarrow> (Inr Removed, s2)))
              else
                (case enterRetry_exec ex cfg w messageId currentQueueKey currentRetryCount
                        newFailureHistory plugin s of
                   (Inl e, s1) \<Rightarrow> (Inl e, s1)
                 | (Inr entered, s1) \<Rightarrow> (Inr (if entered then MovedOn else Orphaned), s1))))"

text \<open>The run whose transaction is confirmed, without the branches of the others.\<close>

definition retryOrFail ::
  "engineConfig \<Rightarrow> world \<Rightarrow> msg_id \<Rightarrow> string \<Rightarrow> failureContext \<Rightarrow> deliveryPlugin \<Rightarrow> engine \<Rightarrow>
   (exn + stageOutcome) \<times> engine" where
  retryOrFail_committed: "retryOrFail = retryOrFail_exec Committed"

lemma retryOrFail_def:
  "retryOrFail cfg w messageId currentQueueKey context plugin s =
     (case getMessageById messageId (db s) of
        Inl e \<Rightarrow> (Inl e, s)
      | Inr None \<Rightarrow> (Inr Orphaned, s)
      | Inr (Some message) \<Rightarrow>
          (let currentRetryCount = retry_count message;
               isFinalFailure = is_final_failure cfg context currentRetryCount;
               newFailureHistory =
                 failure_entry (w_now w) (m_deliveryStatus message) context isFinalFailure #
                 failure_history message
           in if isFinalFailure then
                (case emitDeliveryEvent cfg w
                        (partial_of (message\<lparr>m_failureHistory := Some newFailureHistory,
                                             m_deliveryStatus := DELIVERY_FAILED\<rparr>)) s of
                   (Inl e, s1) \<Rightarrow> (Inl e, s1)
                 | (Inr _, s1) \<Rightarrow>
                     (Inr Removed, purge message plugin
                        (recordMessageTerminal (Terminal DELIVERY_FAILED) currentRetryCount s1)))
              else
                (case enterRetry cfg w messageId currentQueueKey currentRetryCount
                        newFailureHistory plugin s of
                   (entered, s1) \<Rightarrow> (Inr (if entered then MovedOn else Orphaned), s1))))"
  by (simp add: retryOrFail_committed retryOrFail_exec_def Let_def case_prod_beta split: option.split sum.split)

section \<open>Notification\<close>

lemma emit_db [simp]:
  "db (snd (emitDeliveryEvent cfg w m s)) = db s"
  "sends (snd (emitDeliveryEvent cfg w m s)) = sends s"
  "running (snd (emitDeliveryEvent cfg w m s)) = running s"
  "terminals (snd (emitDeliveryEvent cfg w m s)) = terminals s"
  "next_token (snd (emitDeliveryEvent cfg w m s)) = next_token s"
  "canKickDistribute (snd (emitDeliveryEvent cfg w m s)) = canKickDistribute s"
  by (auto simp: emitDeliveryEvent_def split: option.split prod.split)

lemma emit_webhook_ok:
  "webhook_ok (whdb s) \<Longrightarrow> webhook_ok (whdb (snd (emitDeliveryEvent cfg w m s)))"
  using webhook_ok_storeAndEmit [of "whdb s" m "w_now w" "w_eventId w" "w_persistFails w"]
  by (auto simp: emitDeliveryEvent_def split: option.split prod.split)

text \<open>Durability: an emit that resolves with a webhook configured has persisted the event.\<close>

lemma emit_persists:
  assumes "cf_webhook cfg = Some c" and "m_pluginId m \<noteq> []"
    and "emitDeliveryEvent cfg w (partial_of m) s = (Inr (), s')" and "webhook_ok (whdb s)"
  shows "\<exists>r. wb_getRecord (w_eventId w) (whdb s') = Some r \<and> sr_attemptCount r = 0 \<and>
      wb_due_at (w_eventId w) (whdb s') = Some (w_now w) \<and>
      wp_id (we_message (sr_event r)) = Some (m_id m) \<and>
      wp_deliveryStatus (we_message (sr_event r)) = m_deliveryStatus m \<and>
      wp_failureHistory (we_message (sr_event r)) = m_failureHistory m \<and>
      wp_response (we_message (sr_event r)) = m_response m"
proof -
  from buildWebhookEvent_full [OF assms(2), of "w_now w" "w_eventId w"] obtain ev where
    ev: "buildWebhookEvent (partial_of m) (w_now w) (w_eventId w) = Inr ev"
      "we_eventId ev = w_eventId w" "wp_id (we_message ev) = Some (m_id m)"
      "wp_deliveryStatus (we_message ev) = m_deliveryStatus m"
      "wp_failureHistory (we_message ev) = m_failureHistory m"
      "wp_response (we_message ev) = m_response m" by blast
  let ?r = "\<lparr>sr_event = ev, sr_attemptCount = 0, sr_lastError = None\<rparr>"
  have s': "whdb s' = wb_enqueue ?r (w_now w) (whdb s)"
    using assms(1,3) ev(1)
    by (auto simp: emitDeliveryEvent_def storeAndEmit_def split: if_splits)
  have id: "we_eventId (sr_event ?r) = w_eventId w" using ev(2) by simp
  show ?thesis
    using pending.put_lookup [OF assms(4), of "w_eventId w" ?r "w_now w"]
      pending.put_at [OF assms(4), of "w_eventId w" ?r "w_now w"] ev id
    by (auto simp: s')
qed

lemma emit_full_result:
  "m_pluginId m \<noteq> [] \<Longrightarrow>
     fst (emitDeliveryEvent cfg w (partial_of m) s) = Inr () \<longleftrightarrow>
       cf_webhook cfg = None \<or> \<not> w_persistFails w"
  using buildWebhookEvent_full [of m "w_now w" "w_eventId w"]
  by (auto simp: emitDeliveryEvent_def storeAndEmit_def split: option.split)

text \<open>A failed persist leaves everything as it was.\<close>

lemma emit_failed: "emitDeliveryEvent cfg w m s = (Inl e, s') \<Longrightarrow> s' = s"
  by (auto simp: emitDeliveryEvent_def storeAndEmit_def split: option.splits sum.splits if_splits)

section \<open>What \<open>purge\<close> leaves\<close>

lemma purge_frame [simp]:
  "whdb (purge m p s) = whdb s" "sends (purge m p s) = sends s" "running (purge m p s) = running s"
  "terminals (purge m p s) = terminals s" "next_token (purge m p s) = next_token s"
  "canKickDistribute (purge m p s) = canKickDistribute s"
  by (simp_all add: purge_def)

lemma purge_hash: "hashes (db (purge m p s)) = (hashes (db s))(messageKey (m_id m) := None)"
  using cleanup_effect(1) [OF refl] by (simp add: purge_def)

lemma purge_queue:
  "in_queue (db (purge m p s)) q x \<longleftrightarrow> in_queue (db s) q x \<and>
     \<not> (x = m_id m \<and> (q = ready_key p m \<or> (\<exists>st. q = stageKeyFor (STAGES st) (m_pluginId m))))"
proof -
  have "q \<in> set (enumerateStageKeys [m_pluginId m] @ [ready_key p m]) \<longleftrightarrow>
      q = ready_key p m \<or> (\<exists>st. q = stageKeyFor (STAGES st) (m_pluginId m))"
    unfolding set_append enumerateStageKeys_one by (simp add: image_iff del: STAGES.simps)
  then show ?thesis
    unfolding purge_def with_db_frame cleanup_effect(2) [OF refl] by blast
qed

lemma purge_sets:
  "y \<in> set (sets (db (purge m p s)) k) \<longleftrightarrow> y \<in> set (sets (db s) k) \<and>
      \<not> (m_concurrencyRateLimitKey m = Some k \<and> k \<noteq> [] \<and> y = m_id m)"
  using cleanup_effect(3) [OF refl] by (simp add: purge_def)

lemma purge_strs:
  "strs (db (purge m p s)) k = Some v \<Longrightarrow> strs (db s) k = Some v"
  "m_deliveryQueueId m \<noteq> [] \<Longrightarrow>
     strs (db (purge m p s)) (indexExternalDeliveryId (m_deliveryQueueId m)) = None"
  "m_correlationId m = Some cid \<Longrightarrow> cid \<noteq> [] \<Longrightarrow>
     strs (db (purge m p s)) (indexCorrelationId cid (m_phase m)) = None"
  using cleanup_effect(4) [OF refl, of m "enumerateStageKeys [m_pluginId m] @ [ready_key p m]" "db s"]
    cleanup_effect(5) [OF refl, of m "enumerateStageKeys [m_pluginId m] @ [ready_key p m]" "db s"]
    cleanup_effect(6) [OF refl, of m _ "enumerateStageKeys [m_pluginId m] @ [ready_key p m]" "db s"]
  unfolding purge_def with_db_frame by blast+

lemma purge_redis_ok: "redis_ok (db s) \<Longrightarrow> redis_ok (db (purge m p s))"
  using cleanup_effect(7) [OF refl] by (simp add: purge_def)

lemma purge_set_length: "length (sets (db (purge m p s)) k) \<le> length (sets (db s) k)"
  using cleanup_effect(8) [OF refl] by (simp add: purge_def)

section \<open>What \<open>enterRetry\<close> leaves\<close>

definition retried_hash :: "nat \<Rightarrow> failureReason list \<Rightarrow> mhash \<Rightarrow> mhash" where
  "retried_hash n history h =
     (let h1 = h\<lparr>h_retryCount := Some (n + 1), h_deliveryStatus := Some TO_RETRY,
            h_failureHistory := Some history, h_deliveryQueueId := None\<rparr>
      in if h_concurrencyRateLimitKey h = None \<or> h_concurrencyRateLimitKey h = Some [] then h1
         else h1\<lparr>h_concurrencyRateLimitKey := None\<rparr>)"

lemma retried_hash_fields:
  "h_deliveryStatus (retried_hash n history h) = Some TO_RETRY"
  "h_retryCount (retried_hash n history h) = Some (n + 1)"
  "h_failureHistory (retried_hash n history h) = Some history"
  "h_deliveryQueueId (retried_hash n history h) = None"
  "h_commandType (retried_hash n history h) = h_commandType h"
  "h_priority (retried_hash n history h) = h_priority h"
  "h_pluginId (retried_hash n history h) = h_pluginId h"
  "h_device (retried_hash n history h) = h_device h"
  "h_networkId (retried_hash n history h) = h_networkId h"
  "h_concurrencyRateLimitKey (retried_hash n history h) =
     (if h_concurrencyRateLimitKey h = Some [] then Some [] else None)"
  by (auto simp: retried_hash_def Let_def)

lemma retried_not_empty [simp]:
  "h\<lparr>h_retryCount := Some n, h_deliveryStatus := x, h_failureHistory := y,
     h_deliveryQueueId := z\<rparr> \<noteq> empty_hash"
  "h\<lparr>h_retryCount := Some n, h_deliveryStatus := x, h_failureHistory := y,
     h_deliveryQueueId := z, h_concurrencyRateLimitKey := k\<rparr> \<noteq> empty_hash"
  by (auto simp: empty_hash_def dest: arg_cong [where f = h_retryCount])

text \<open>The MULTI over the hash that its reads saw.\<close>

lemma enterRetry_write_hash:
  assumes h: "hashes r (messageKey m) = Some h"
  shows "hashes (enterRetry_write m fk n history due (h_deliveryQueueId h) (h_concurrencyRateLimitKey h) r) =
    (hashes r)(messageKey m \<mapsto> retried_hash n history h)"
proof -
  let ?h1 = "h\<lparr>h_retryCount := Some (n + 1), h_deliveryStatus := Some TO_RETRY,
      h_failureHistory := Some history\<rparr>"
  let ?r4 = "r_zadd QUEUE_RETRY_KEY due m (r_zrem fk m
      (hdel (messageKey m) (\<lambda>h. h\<lparr>h_deliveryQueueId := None\<rparr>) (hset (messageKey m)
        (\<lambda>h. h\<lparr>h_retryCount := Some (n + 1), h_deliveryStatus := Some TO_RETRY,
           h_failureHistory := Some history\<rparr>) r)))"
  let ?r5 = "case h_deliveryQueueId h of None \<Rightarrow> ?r4
      | Some d \<Rightarrow> if d = [] then ?r4 else del_str (indexExternalDeliveryId d) ?r4"
  have W: "enterRetry_write m fk n history due (h_deliveryQueueId h) (h_concurrencyRateLimitKey h) r =
      (case h_concurrencyRateLimitKey h of None \<Rightarrow> ?r5
       | Some k \<Rightarrow> if k = [] then ?r5
          else hdel (messageKey m) (\<lambda>h. h\<lparr>h_concurrencyRateLimitKey := None\<rparr>) (srem k m ?r5))"
    by (auto simp: enterRetry_write_def Let_def split: option.split)
  have "hashes (hset (messageKey m) (\<lambda>h. h\<lparr>h_retryCount := Some (n + 1), h_deliveryStatus := Some TO_RETRY,
      h_failureHistory := Some history\<rparr>) r) = (hashes r)(messageKey m \<mapsto> ?h1)"
    using h by (simp add: hset_existing)
  then have hash5: "hashes ?r5 = (hashes r)(messageKey m \<mapsto> ?h1\<lparr>h_deliveryQueueId := None\<rparr>)"
    by (simp add: redis_view hdel_existing [where h = ?h1] split: option.split del: One_nat_def)
  show ?thesis
  proof (cases "h_concurrencyRateLimitKey h = None \<or> h_concurrencyRateLimitKey h = Some []")
    case True
    then show ?thesis unfolding W using hash5 by (auto simp: retried_hash_def)
  next
    case False
    then obtain k where k: "h_concurrencyRateLimitKey h = Some k" "k \<noteq> []" by auto
    have "hashes (srem k m ?r5) (messageKey m) = Some (?h1\<lparr>h_deliveryQueueId := None\<rparr>)"
      using hash5 by (simp add: redis_view)
    then have "hashes (hdel (messageKey m) (\<lambda>h. h\<lparr>h_concurrencyRateLimitKey := None\<rparr>) (srem k m ?r5)) =
        (hashes (srem k m ?r5))(messageKey m \<mapsto> ?h1\<lparr>h_deliveryQueueId := None, h_concurrencyRateLimitKey := None\<rparr>)"
      by (subst hdel_existing) auto
    then show ?thesis unfolding W using k hash5 by (simp add: redis_view retried_hash_def)
  qed
qed

lemma enterRetry_write_effect:
  fixes m fk n history due stale rate r
  defines "r' \<equiv> enterRetry_write m fk n history due stale rate r"
  shows "in_queue r' k x \<longleftrightarrow> k = QUEUE_RETRY_KEY \<and> x = m \<or> in_queue r k x \<and> \<not> (k = fk \<and> x = m)"
    and "strs r' (indexExternalDeliveryId d) = Some v \<longleftrightarrow>
      strs r (indexExternalDeliveryId d) = Some v \<and> \<not> (stale = Some d \<and> d \<noteq> [])"
    and "y \<in> set (sets r' k) \<longleftrightarrow> y \<in> set (sets r k) \<and> \<not> (rate = Some k \<and> k \<noteq> [] \<and> y = m)"
    and "length (sets r' k) \<le> length (sets r k)"
    and "redis_ok r \<Longrightarrow> redis_ok r'"
    and "zscore (zsets r' QUEUE_RETRY_KEY) m = Some due"
  unfolding r'_def enterRetry_write_def Let_def
       apply (auto simp: in_queue_commands split: option.split)[1]
      apply (auto simp: redis_simps split: option.split)[1]
     apply (auto simp: redis_simps split: option.split)[1]
    apply (auto simp: redis_simps split: option.split intro!: length_srem_le)[1]
   apply (auto simp: redis_simps split: option.split)[1]
  apply (auto simp: redis_view r_zadd_def zscore_zadd split: option.split)[1]
  done

lemma enterRetry_hit:
  assumes q: "in_queue (db s) fromKey m" and h: "hashes (db s) (messageKey m) = Some h"
  obtains s' where "enterRetry cfg w m fromKey n history p s = (True, s')"
    and "hashes (db s') = (hashes (db s))(messageKey m \<mapsto> retried_hash n history h)"
    and "\<And>k x. in_queue (db s') k x \<longleftrightarrow> k = QUEUE_RETRY_KEY \<and> x = m \<or>
      in_queue (db s) k x \<and> \<not> (k = fromKey \<and> x = m)"
    and "\<And>d v. strs (db s') (indexExternalDeliveryId d) = Some v \<longleftrightarrow>
      strs (db s) (indexExternalDeliveryId d) = Some v \<and> \<not> (h_deliveryQueueId h = Some d \<and> d \<noteq> [])"
    and "\<And>k y. y \<in> set (sets (db s') k) \<longleftrightarrow> y \<in> set (sets (db s) k) \<and>
      \<not> (h_concurrencyRateLimitKey h = Some k \<and> k \<noteq> [] \<and> y = m)"
    and "\<And>k. length (sets (db s') k) \<le> length (sets (db s) k)"
    and "redis_ok (db s) \<Longrightarrow> redis_ok (db s')"
    and "zscore (zsets (db s') QUEUE_RETRY_KEY) m =
      Some (w_now w + calculateBackoffDelay n (cf_delivery cfg) (w_random w))"
    and "whdb s' = whdb s" and "sends s' = sends s" and "running s' = running s"
    and "next_token s' = next_token s" and "terminals s' = terminals s"
    and "canKickDistribute s' = canKickDistribute s"
proof -
  let ?due = "w_now w + calculateBackoffDelay n (cf_delivery cfg) (w_random w)"
  let ?s' = "with_db (enterRetry_write m fromKey n history ?due (h_deliveryQueueId h)
      (h_concurrencyRateLimitKey h)) s"
  note hash = enterRetry_write_hash [OF h] and eff = enterRetry_write_effect [where fk = fromKey and m = m]
  have "enterRetry cfg w m fromKey n history p s = (True, ?s')"
    using q h by (simp add: enterRetry_def Let_def entry_context_def)
  then show thesis by (rule that) (simp_all add: hash eff)
qed

lemma enterRetry_miss:
  "\<not> in_queue (db s) fromKey m \<Longrightarrow>
     enterRetry cfg w m fromKey n history p s = (False, recordStageClaimMiss St_retry s)"
  by (simp add: enterRetry_def)

end
