(* ===== verification/Incoming_Service.thy ===== *)
theory Incoming_Service
  imports Base_Service
begin

text \<open>
  \<open>src/engine/incoming.ts\<close>: applying one parsed event to the message it refers to, and the PUSH
  ingress entry. What the plugin's parser returned (or threw) is an argument of \<open>handle\<close>.
\<close>

definition unsolicited_message :: "deliveryPlugin \<Rightarrow> parsedIncomingEvent \<Rightarrow> partialMessage" where
  "unsolicited_message plugin e = \<lparr>
     p_id = None, p_commandType = e_commandType e, p_priority = None,
     p_pluginId = Some (d_id plugin), p_requestData = None, p_phase = None, p_networkId = None,
     p_correlationId = None, p_device = Some (e_device e), p_deliveryQueueId = None,
     p_deliveryStatus = Some (e_deliveryStatus e), p_response = e_response e,
     p_unsolicited = Some True, p_retryCount = None, p_failureHistory = None,
     p_concurrencyRateLimitKey = None\<rparr>"

text \<open>The message that a successful event announces.\<close>

definition resolved_message ::
  "time \<Rightarrow> parsedIncomingEvent \<Rightarrow> deviceMessage \<Rightarrow> deviceMessage" where
  "resolved_message now e stored =
     (let updated = stored\<lparr>m_deliveryStatus := e_deliveryStatus e, m_response := e_response e,
                           m_device := e_device e\<rparr>
      in case e_failureContext e of
           None \<Rightarrow> updated
         | Some context \<Rightarrow>
             updated\<lparr>m_failureHistory := Some
               (failure_entry now (e_deliveryStatus e) context True # failure_history updated)\<rparr>)"

definition default_nack :: failureContext where
  "default_nack = \<lparr>fc_reason = ''Unable to deliver message after negative remote response'',
     fc_errorCode = None, fc_details = None, fc_skipRetry = None\<rparr>"

definition processEvent_exec ::
  "execOutcome \<Rightarrow> engineConfig \<Rightarrow> world \<Rightarrow> parsedIncomingEvent \<Rightarrow> deliveryPlugin \<Rightarrow> engine \<Rightarrow>
   (exn + stageOutcome) \<times> engine" where
  "processEvent_exec ex cfg w e plugin s =
     (if e_unsolicited e then
        (case emitDeliveryEvent cfg w (unsolicited_message plugin e) s of
           (Inl err, s1) \<Rightarrow> (Inl err, s1)
         | (Inr _, s1) \<Rightarrow> (Inr Rescheduled, s1))
      else if e_deliveryQueueId e = None \<or> e_deliveryQueueId e = Some [] then (Inr Rescheduled, s)
      else
        (case getMessageIdFromDeliveryQueueId (the (e_deliveryQueueId e)) (db s) of
           None \<Rightarrow> (Inr Orphaned, s)
         | Some messageId \<Rightarrow>
             if e_deliveryStatus e = SENT_TO_DEVICE \<and> d_pattern plugin = PUSH then
               (case advance cfg w messageId plugin St_relayNode None 0 s of
                  (Inl err, s1) \<Rightarrow> (Inl err, s1)
                | (Inr _, s1) \<Rightarrow> (Inr MovedOn, s1))
             else if e_deliveryStatus e = DELIVERY_FAILED then
               (let context = (case e_failureContext e of None \<Rightarrow> default_nack | Some c \<Rightarrow> c) in
                case getMessageById messageId (db s) of
                  Inl err \<Rightarrow> (Inl err, s)
                | Inr None \<Rightarrow> (Inr Orphaned, s)
                | Inr (Some stored) \<Rightarrow>
                    (case stageForStatus (m_deliveryStatus stored) (d_pattern plugin) of
                       None \<Rightarrow> (Inr Orphaned, s)
                     | Some stage \<Rightarrow>
                         retryOrFail_exec ex cfg w messageId (stageKeyFor (STAGES stage) (d_id plugin))
                           context plugin s))
             else if e_deliveryStatus e \<noteq> DELIVERY_SUCCESSFUL then (Inr Rescheduled, s)
             else
               (case getMessageById messageId (db s) of
                  Inl err \<Rightarrow> (Inl err, s)
                | Inr None \<Rightarrow> (Inr Orphaned, s)
                | Inr (Some stored) \<Rightarrow>
                    (case emitDeliveryEvent cfg w
                            (partial_of (resolved_message (w_now w) e stored)) s of
                       (Inl err, s1) \<Rightarrow> (Inl err, s1)
                     | (Inr _, s1) \<Rightarrow>
                         (case purge_exec ex stored plugin
                                 (recordMessageTerminal (Terminal DELIVERY_SUCCESSFUL)
                                    (retry_count stored) s1) of
                            (Inl err, s2) \<Rightarrow> (Inl err, s2)
                          | (Inr _, s2) \<Rightarrow> (Inr Removed, s2))))))"

definition processEvent ::
  "engineConfig \<Rightarrow> world \<Rightarrow> parsedIncomingEvent \<Rightarrow> deliveryPlugin \<Rightarrow> engine \<Rightarrow>
   (exn + stageOutcome) \<times> engine" where
  processEvent_committed: "processEvent = processEvent_exec Committed"

lemma processEvent_def:
  "processEvent cfg w e plugin s =
     (if e_unsolicited e then
        (case emitDeliveryEvent cfg w (unsolicited_message plugin e) s of
           (Inl err, s1) \<Rightarrow> (Inl err, s1)
         | (Inr _, s1) \<Rightarrow> (Inr Rescheduled, s1))
      else if e_deliveryQueueId e = None \<or> e_deliveryQueueId e = Some [] then (Inr Rescheduled, s)
      else
        (case getMessageIdFromDeliveryQueueId (the (e_deliveryQueueId e)) (db s) of
           None \<Rightarrow> (Inr Orphaned, s)
         | Some messageId \<Rightarrow>
             if e_deliveryStatus e = SENT_TO_DEVICE \<and> d_pattern plugin = PUSH then
               (case advance cfg w messageId plugin St_relayNode None 0 s of
                  (Inl err, s1) \<Rightarrow> (Inl err, s1)
                | (Inr _, s1) \<Rightarrow> (Inr MovedOn, s1))
             else if e_deliveryStatus e = DELIVERY_FAILED then
               (let context = (case e_failureContext e of None \<Rightarrow> default_nack | Some c \<Rightarrow> c) in
                case getMessageById messageId (db s) of
                  Inl err \<Rightarrow> (Inl err, s)
                | Inr None \<Rightarrow> (Inr Orphaned, s)
                | Inr (Some stored) \<Rightarrow>
                    (case stageForStatus (m_deliveryStatus stored) (d_pattern plugin) of
                       None \<Rightarrow> (Inr Orphaned, s)
                     | Some stage \<Rightarrow>
                         retryOrFail cfg w messageId (stageKeyFor (STAGES stage) (d_id plugin))
                           context plugin s))
             else if e_deliveryStatus e \<noteq> DELIVERY_SUCCESSFUL then (Inr Rescheduled, s)
             else
               (case getMessageById messageId (db s) of
                  Inl err \<Rightarrow> (Inl err, s)
                | Inr None \<Rightarrow> (Inr Orphaned, s)
                | Inr (Some stored) \<Rightarrow>
                    (case emitDeliveryEvent cfg w
                            (partial_of (resolved_message (w_now w) e stored)) s of
                       (Inl err, s1) \<Rightarrow> (Inl err, s1)
                     | (Inr _, s1) \<Rightarrow>
                         (Inr Removed, purge stored plugin
                            (recordMessageTerminal (Terminal DELIVERY_SUCCESSFUL)
                               (retry_count stored) s1))))))"
  unfolding processEvent_committed processEvent_exec_def retryOrFail_committed exec_committed prod.case sum.case ..

definition handle_exec ::
  "execOutcome \<Rightarrow> engineConfig \<Rightarrow> world \<Rightarrow> (exn + parsedIncomingEvent option) \<Rightarrow> deliveryPlugin \<Rightarrow> engine \<Rightarrow>
   (exn + unit) \<times> engine" where
  "handle_exec ex cfg w parsed plugin s =
     (case parsed of
        Inl err \<Rightarrow> (Inl err, s)
      | Inr None \<Rightarrow> (Inr (), recordIngressUnhandled (d_id plugin) s)
      | Inr (Some e) \<Rightarrow>
          (case processEvent_exec ex cfg w e plugin s of (res, s1) \<Rightarrow> (map_sum id (\<lambda>_. ()) res, s1)))"

definition handle ::
  "engineConfig \<Rightarrow> world \<Rightarrow> (exn + parsedIncomingEvent option) \<Rightarrow> deliveryPlugin \<Rightarrow> engine \<Rightarrow>
   (exn + unit) \<times> engine" where
  handle_committed: "handle = handle_exec Committed"

lemma handle_def:
  "handle cfg w parsed plugin s =
     (case parsed of
        Inl err \<Rightarrow> (Inl err, s)
      | Inr None \<Rightarrow> (Inr (), recordIngressUnhandled (d_id plugin) s)
      | Inr (Some e) \<Rightarrow>
          (case processEvent cfg w e plugin s of (res, s1) \<Rightarrow> (map_sum id (\<lambda>_. ()) res, s1)))"
  unfolding handle_committed handle_exec_def processEvent_committed ..

end
