(* ===== verification/In_Flight_Sends.thy ===== *)
theory In_Flight_Sends
  imports Moves
begin

text \<open>
  The registry of outstanding sends (\<open>src/engine/in-flight-sends.ts\<close>). A promise is a token; the
  map from message ids to tokens is the \<open>sends\<close> field of the engine. \<open>drain\<close> is modelled over the
  list of what happens while it waits.
\<close>

section \<open>The map\<close>

type_synonym sendMap = "(msg_id \<times> nat) list"

definition send_set :: "msg_id \<Rightarrow> nat \<Rightarrow> sendMap \<Rightarrow> sendMap" where
  "send_set i tok m =
     (if map_of m i = None then m @ [(i, tok)]
      else map (\<lambda>(j, t). if j = i then (j, tok) else (j, t)) m)"

text \<open>The \<open>finally\<close> handler: delete the entry only while it is still this promise's.\<close>

definition send_settled :: "msg_id \<Rightarrow> nat \<Rightarrow> sendMap \<Rightarrow> sendMap" where
  "send_settled i tok m = (if map_of m i = Some tok then filter (\<lambda>(j, t). j \<noteq> i) m else m)"

definition sends_has :: "msg_id \<Rightarrow> sendMap \<Rightarrow> bool" where
  "sends_has i m \<longleftrightarrow> map_of m i \<noteq> None"

definition sends_size :: "sendMap \<Rightarrow> nat" where
  "sends_size m = length m"

lemma map_of_send_set: "map_of (send_set i tok m) = (map_of m)(i \<mapsto> tok)"
proof (cases "map_of m i")
  case None
  then show ?thesis
    by (auto simp: send_set_def map_add_def fun_eq_iff split: option.split)
next
  case (Some t)
  have "map_of (map (\<lambda>(j, t). if j = i then (j, tok) else (j, t)) m) j =
      (if j = i \<and> map_of m i \<noteq> None then Some tok else map_of m j)" for j
    by (induction m) auto
  then show ?thesis using Some by (auto simp: send_set_def fun_eq_iff)
qed

lemma map_of_send_settled:
  "map_of (send_settled i tok m) = (if map_of m i = Some tok then (map_of m)(i := None) else map_of m)"
proof -
  have "map_of (filter (\<lambda>(j, t). j \<noteq> i) m) = (map_of m)(i := None)"
    by (rule ext, induction m) auto
  then show ?thesis by (simp add: send_settled_def)
qed

text \<open>A stale promise never removes its successor's entry.\<close>

lemma stale_settle_keeps: "map_of m i = Some tok \<Longrightarrow> tok' \<noteq> tok \<Longrightarrow> send_settled i tok' m = m"
  by (simp add: send_settled_def)

lemma sends_has_set [simp]: "sends_has j (send_set i tok m) \<longleftrightarrow> j = i \<or> sends_has j m"
  by (simp add: sends_has_def map_of_send_set)

lemma distinct_send_set: "distinct (map fst m) \<Longrightarrow> distinct (map fst (send_set i tok m))"
proof -
  have same: "map fst (map (\<lambda>(j, t). if j = i then (j, tok) else (j, t)) m) = map fst m"
    by (induction m) auto
  assume "distinct (map fst m)"
  then show ?thesis
    unfolding send_set_def if_distrib [of "map fst"] same by (auto simp: map_of_eq_None_iff)
qed

lemma distinct_send_settled: "distinct (map fst m) \<Longrightarrow> distinct (map fst (send_settled i tok m))"
  by (simp add: send_settled_def distinct_map_filter)

section \<open>Tracking in the engine's state\<close>

definition track :: "deliveryPlugin \<Rightarrow> deviceMessage \<Rightarrow> engine \<Rightarrow> engine" where
  "track plugin message s = s\<lparr>
     sends := send_set (m_id message) (next_token s) (sends s),
     running := running s @ [\<lparr>sd_token = next_token s, sd_plugin = plugin, sd_message = message\<rparr>],
     next_token := next_token s + 1\<rparr>"

definition untrack :: "send \<Rightarrow> engine \<Rightarrow> engine" where
  "untrack sd s = s\<lparr>
     sends := send_settled (m_id (sd_message sd)) (sd_token sd) (sends s),
     running := filter (\<lambda>x. sd_token x \<noteq> sd_token sd) (running s)\<rparr>"

lemma track_frame [simp]:
  "db (track p m s) = db s" "whdb (track p m s) = whdb s" "terminals (track p m s) = terminals s"
  "db (untrack sd s) = db s" "whdb (untrack sd s) = whdb s" "terminals (untrack sd s) = terminals s"
  by (simp_all add: track_def untrack_def)

section \<open>Drain\<close>

text \<open>
  While \<open>drain\<close> waits, sends settle and new ones are tracked. Each such event carries its instant.
\<close>

datatype sendEvent = Settles msg_id nat | Tracks msg_id nat

fun send_event :: "sendEvent \<Rightarrow> sendMap \<Rightarrow> sendMap" where
  "send_event (Settles i tok) m = send_settled i tok m"
| "send_event (Tracks i tok) m = send_set i tok m"

fun awaited :: "sendEvent \<Rightarrow> nat list \<Rightarrow> nat list" where
  "awaited (Settles i tok) toks = filter (\<lambda>t. t \<noteq> tok) toks"
| "awaited (Tracks i tok) toks = toks"

text \<open>
  \<open>waiting\<close> is the snapshot that the current \<open>Promise.all\<close> awaits. When it has settled, the loop looks
  at the map again; the budget timer ends the wait with whatever is left.
\<close>

fun drain_wait :: "time \<Rightarrow> nat list \<Rightarrow> (time \<times> sendEvent) list \<Rightarrow> sendMap \<Rightarrow> nat" where
  "drain_wait deadline waiting [] m = sends_size m"
| "drain_wait deadline waiting ((t, ev) # evs) m =
     (if deadline \<le> t then sends_size m
      else
        (let m' = send_event ev m; waiting' = awaited ev waiting in
         if waiting' \<noteq> [] then drain_wait deadline waiting' evs m'
         else if sends_size m' > 0 then drain_wait deadline (map snd m') evs m'
         else 0))"

definition drain :: "time \<Rightarrow> num \<Rightarrow> (time \<times> sendEvent) list \<Rightarrow> sendMap \<Rightarrow> nat" where
  "drain now budgetMs evs m =
     (let deadline = now + budgetMs in
      if sends_size m = 0 then 0
      else if deadline - now \<le> 0 then sends_size m
      else drain_wait deadline (map snd m) evs m)"

text \<open>
  What \<open>drain\<close> reports is the size of the map at the instant it returned: after some prefix of the
  events that happened before the deadline.
\<close>

lemma drain_wait_reports:
  "\<exists>n \<le> length evs. (\<forall>(t, ev) \<in> set (take n evs). t < deadline) \<and>
     drain_wait deadline waiting evs m = sends_size (fold send_event (map snd (take n evs)) m)"
proof (induction deadline waiting evs m rule: drain_wait.induct)
  case (1 deadline waiting m)
  then show ?case by auto
next
  case (2 deadline waiting t ev evs m)
  let ?m = "send_event ev m" and ?w = "awaited ev waiting"
  have step: "\<exists>n \<le> length ((t, ev) # evs). (\<forall>(t, ev) \<in> set (take n ((t, ev) # evs)). t < deadline) \<and>
      v = sends_size (fold send_event (map snd (take n ((t, ev) # evs))) m)"
    if "t < deadline" and "\<exists>n \<le> length evs. (\<forall>(t, ev) \<in> set (take n evs). t < deadline) \<and>
        v = sends_size (fold send_event (map snd (take n evs)) ?m)" for v
  proof -
    from that(2) obtain n where "n \<le> length evs" "\<forall>(t, ev) \<in> set (take n evs). t < deadline"
      "v = sends_size (fold send_event (map snd (take n evs)) ?m)" by blast
    then show ?thesis using that(1) by (intro exI [of _ "Suc n"]) auto
  qed
  show ?case
  proof (cases "deadline \<le> t")
    case True
    then show ?thesis by (intro exI [of _ 0]) simp
  next
    case late: False
    then have t: "t < deadline" by simp
    show ?thesis
    proof (cases "?w = [] \<and> sends_size ?m = 0")
      case True
      then have "drain_wait deadline waiting ((t, ev) # evs) m = sends_size (fold send_event [] ?m)"
        using late by simp
      then show ?thesis using t by (intro step) (auto intro!: exI [of _ 0])
    next
      case False
      show ?thesis
      proof (cases "?w = []")
        case True
        with False late have "drain_wait deadline waiting ((t, ev) # evs) m =
            drain_wait deadline (map snd ?m) evs ?m" by (simp add: Let_def)
        then show ?thesis
          using "2.IH"(2) [OF late refl refl] True False t by (intro step) auto
      next
        case False
        with late have "drain_wait deadline waiting ((t, ev) # evs) m =
            drain_wait deadline ?w evs ?m" by (simp add: Let_def)
        then show ?thesis
          using "2.IH"(1) [OF late refl refl] False t by (intro step) auto
      qed
    qed
  qed
qed

end
