(* ===== verification/Stage_Actions.thy ===== *)
theory Stage_Actions
  imports Incoming_Service In_Flight_Sends
begin

text \<open>
  \<open>src/engine/lifecycle/actions.ts\<close>: what to do with a message whose wait in a stage has run out.
  The vendor's replies (\<open>getRemoteStatus\<close>, \<open>fetchStatus\<close>) are arguments.
\<close>

record vendorReplies =
  v_remoteStatus :: "exn + deliveryStatus"
  v_fetchStatus :: "exn + parsedIncomingEvent option"

definition TIMEOUT_NS :: string where
  "TIMEOUT_NS = ''Timed out waiting for Network Server to accept message''"

definition TIMEOUT_RELAY_NODE :: "string option \<Rightarrow> string" where
  "TIMEOUT_RELAY_NODE noun = ''Timed out waiting for '' @
     (case noun of None \<Rightarrow> ''relay node'' | Some n \<Rightarrow> n) @ '' to transmit message to device''"

definition TIMEOUT_DEVICE :: string where
  "TIMEOUT_DEVICE = ''Timed out waiting for device response after transmission''"

definition TIMEOUT_AWAITING_TASK :: string where
  "TIMEOUT_AWAITING_TASK = ''Timed out waiting for remote task completion''"

definition timeout_context :: "string \<Rightarrow> failureContext" where
  "timeout_context reason =
     \<lparr>fc_reason = reason, fc_errorCode = None, fc_details = None, fc_skipRetry = None\<rparr>"

definition expired_message :: "time \<Rightarrow> deviceMessage \<Rightarrow> deviceMessage" where
  "expired_message now message = message\<lparr>
     m_deliveryStatus := DELIVERY_FAILED,
     m_failureHistory := Some (\<lparr>fr_reason = TIMEOUT_AWAITING_TASK, fr_errorCode = None,
       fr_details = None, fr_status = DELIVERED_TO_NS, fr_timestamp = now,
       fr_isFinal = Some True\<rparr> # failure_history message)\<rparr>"

definition failPermanently_exec ::
  "execOutcome \<Rightarrow> engineConfig \<Rightarrow> world \<Rightarrow> deviceMessage \<Rightarrow> deliveryPlugin \<Rightarrow> engine \<Rightarrow> (exn + unit) \<times> engine" where
  "failPermanently_exec ex cfg w message plugin s =
     (let failed = expired_message (w_now w) message in
      case emitDeliveryEvent cfg w (partial_of failed) s of
        (Inl err, s1) \<Rightarrow> (Inl err, s1)
      | (Inr _, s1) \<Rightarrow>
          purge_exec ex failed plugin
            (recordMessageTerminal (Terminal DELIVERY_FAILED) (retry_count message) s1))"

definition failPermanently ::
  "engineConfig \<Rightarrow> world \<Rightarrow> deviceMessage \<Rightarrow> deliveryPlugin \<Rightarrow> engine \<Rightarrow> (exn + unit) \<times> engine" where
  failPermanently_committed: "failPermanently = failPermanently_exec Committed"

lemma failPermanently_def:
  "failPermanently cfg w message plugin s =
     (let failed = expired_message (w_now w) message in
      case emitDeliveryEvent cfg w (partial_of failed) s of
        (Inl err, s1) \<Rightarrow> (Inl err, s1)
      | (Inr _, s1) \<Rightarrow>
          (Inr (), purge failed plugin
             (recordMessageTerminal (Terminal DELIVERY_FAILED) (retry_count message) s1)))"
  unfolding failPermanently_committed failPermanently_exec_def exec_committed ..

definition action_ns_exec ::
  "execOutcome \<Rightarrow> engineConfig \<Rightarrow> world \<Rightarrow> deviceMessage \<Rightarrow> deliveryPlugin \<Rightarrow> engine \<Rightarrow>
   (exn + stageOutcome) \<times> engine" where
  "action_ns_exec ex cfg w message plugin s =
     (if sends_has (m_id message) (sends s) then (Inr Rescheduled, s)
      else retryOrFail_exec ex cfg w (m_id message) QUEUE_NS_KEY (timeout_context TIMEOUT_NS) plugin s)"

definition action_ns ::
  "engineConfig \<Rightarrow> world \<Rightarrow> deviceMessage \<Rightarrow> deliveryPlugin \<Rightarrow> engine \<Rightarrow>
   (exn + stageOutcome) \<times> engine" where
  action_ns_committed: "action_ns = action_ns_exec Committed"

lemma action_ns_def:
  "action_ns cfg w message plugin s =
     (if sends_has (m_id message) (sends s) then (Inr Rescheduled, s)
      else retryOrFail cfg w (m_id message) QUEUE_NS_KEY (timeout_context TIMEOUT_NS) plugin s)"
  unfolding action_ns_committed action_ns_exec_def retryOrFail_committed ..

definition action_relayNode_exec ::
  "execOutcome \<Rightarrow> engineConfig \<Rightarrow> world \<Rightarrow> vendorReplies \<Rightarrow> string \<Rightarrow> deviceMessage \<Rightarrow> deliveryPlugin \<Rightarrow> engine \<Rightarrow>
   (exn + stageOutcome) \<times> engine" where
  "action_relayNode_exec ex cfg w v queueKey message plugin s =
     (let has = d_pattern plugin = PUSH \<and> d_hasGetRemoteStatus plugin;
          still_there = (case v_remoteStatus v of Inl _ \<Rightarrow> False | Inr st \<Rightarrow> st \<noteq> DELIVERY_FAILED)
      in if has \<and> still_there then (Inr Rescheduled, s)
         else retryOrFail_exec ex cfg w (m_id message) queueKey
           (timeout_context (TIMEOUT_RELAY_NODE (d_relayNodeNoun plugin))) plugin s)"

definition action_relayNode ::
  "engineConfig \<Rightarrow> world \<Rightarrow> vendorReplies \<Rightarrow> string \<Rightarrow> deviceMessage \<Rightarrow> deliveryPlugin \<Rightarrow> engine \<Rightarrow>
   (exn + stageOutcome) \<times> engine" where
  action_relayNode_committed: "action_relayNode = action_relayNode_exec Committed"

lemma action_relayNode_def:
  "action_relayNode cfg w v queueKey message plugin s =
     (let has = d_pattern plugin = PUSH \<and> d_hasGetRemoteStatus plugin;
          still_there = (case v_remoteStatus v of Inl _ \<Rightarrow> False | Inr st \<Rightarrow> st \<noteq> DELIVERY_FAILED)
      in if has \<and> still_there then (Inr Rescheduled, s)
         else retryOrFail cfg w (m_id message) queueKey
           (timeout_context (TIMEOUT_RELAY_NODE (d_relayNodeNoun plugin))) plugin s)"
  unfolding action_relayNode_committed action_relayNode_exec_def retryOrFail_committed ..

definition action_device_exec ::
  "execOutcome \<Rightarrow> engineConfig \<Rightarrow> world \<Rightarrow> string \<Rightarrow> deviceMessage \<Rightarrow> deliveryPlugin \<Rightarrow> engine \<Rightarrow>
   (exn + stageOutcome) \<times> engine" where
  "action_device_exec ex cfg w queueKey message plugin s =
     retryOrFail_exec ex cfg w (m_id message) queueKey (timeout_context TIMEOUT_DEVICE) plugin s"

definition action_device ::
  "engineConfig \<Rightarrow> world \<Rightarrow> string \<Rightarrow> deviceMessage \<Rightarrow> deliveryPlugin \<Rightarrow> engine \<Rightarrow>
   (exn + stageOutcome) \<times> engine" where
  action_device_committed: "action_device = action_device_exec Committed"

lemma action_device_def:
  "action_device cfg w queueKey message plugin s =
     retryOrFail cfg w (m_id message) queueKey (timeout_context TIMEOUT_DEVICE) plugin s"
  unfolding action_device_committed action_device_exec_def retryOrFail_committed ..

definition action_awaitingTask_exec ::
  "execOutcome \<Rightarrow> engineConfig \<Rightarrow> world \<Rightarrow> vendorReplies \<Rightarrow> deviceMessage \<Rightarrow> deliveryPlugin \<Rightarrow> num \<Rightarrow> engine \<Rightarrow>
   (exn + stageOutcome) \<times> engine" where
  "action_awaitingTask_exec ex cfg w v message plugin messageAgeMs s =
     (if messageAgeMs \<ge> PULL_MAX_MESSAGE_AGE_MS then
        (case failPermanently_exec ex cfg w message plugin s of
           (Inl err, s1) \<Rightarrow> (Inl err, s1)
         | (Inr _, s1) \<Rightarrow> (Inr Removed, s1))
      else if d_pattern plugin \<noteq> PULL then (Inr Rescheduled, s)
      else if m_deliveryQueueId message = [] then (Inr Rescheduled, s)
      else
        (case v_fetchStatus v of
           Inl err \<Rightarrow> (Inl err, s)
         | Inr None \<Rightarrow> (Inr Rescheduled, s)
         | Inr (Some e) \<Rightarrow> processEvent_exec ex cfg w e plugin s))"

definition action_awaitingTask ::
  "engineConfig \<Rightarrow> world \<Rightarrow> vendorReplies \<Rightarrow> deviceMessage \<Rightarrow> deliveryPlugin \<Rightarrow> num \<Rightarrow> engine \<Rightarrow>
   (exn + stageOutcome) \<times> engine" where
  action_awaitingTask_committed: "action_awaitingTask = action_awaitingTask_exec Committed"

lemma action_awaitingTask_def:
  "action_awaitingTask cfg w v message plugin messageAgeMs s =
     (if messageAgeMs \<ge> PULL_MAX_MESSAGE_AGE_MS then
        (case failPermanently cfg w message plugin s of
           (Inl err, s1) \<Rightarrow> (Inl err, s1)
         | (Inr _, s1) \<Rightarrow> (Inr Removed, s1))
      else if d_pattern plugin \<noteq> PULL then (Inr Rescheduled, s)
      else if m_deliveryQueueId message = [] then (Inr Rescheduled, s)
      else
        (case v_fetchStatus v of
           Inl err \<Rightarrow> (Inl err, s)
         | Inr None \<Rightarrow> (Inr Rescheduled, s)
         | Inr (Some e) \<Rightarrow> processEvent cfg w e plugin s))"
  unfolding action_awaitingTask_committed action_awaitingTask_exec_def failPermanently_committed processEvent_committed ..

definition action_retry ::
  "engineConfig \<Rightarrow> world \<Rightarrow> deviceMessage \<Rightarrow> deliveryPlugin \<Rightarrow> engine \<Rightarrow>
   (exn + stageOutcome) \<times> engine" where
  "action_retry cfg w message plugin s =
     (let destination = ready_key plugin message;
          (moved, s1) = requeue w (m_id message) QUEUE_RETRY_KEY destination (m_priority message) s
      in (Inr (if moved then MovedOn else Orphaned), s1))"

fun stage_action ::
  "stageName \<Rightarrow> engineConfig \<Rightarrow> world \<Rightarrow> vendorReplies \<Rightarrow> string \<Rightarrow> deviceMessage \<Rightarrow> deliveryPlugin \<Rightarrow>
   num \<Rightarrow> engine \<Rightarrow> (exn + stageOutcome) \<times> engine" where
  "stage_action St_ns cfg w v queueKey message plugin age s = action_ns cfg w message plugin s"
| "stage_action St_relayNode cfg w v queueKey message plugin age s =
     action_relayNode cfg w v queueKey message plugin s"
| "stage_action St_device cfg w v queueKey message plugin age s =
     action_device cfg w queueKey message plugin s"
| "stage_action St_awaitingTask cfg w v queueKey message plugin age s =
     action_awaitingTask cfg w v message plugin age s"
| "stage_action St_retry cfg w v queueKey message plugin age s = action_retry cfg w message plugin s"

fun stage_action_exec ::
  "stageName \<Rightarrow> execOutcome \<Rightarrow> engineConfig \<Rightarrow> world \<Rightarrow> vendorReplies \<Rightarrow> string \<Rightarrow> deviceMessage \<Rightarrow> deliveryPlugin \<Rightarrow>
   num \<Rightarrow> engine \<Rightarrow> (exn + stageOutcome) \<times> engine" where
  "stage_action_exec St_ns ex cfg w v queueKey message plugin age s = action_ns_exec ex cfg w message plugin s"
| "stage_action_exec St_relayNode ex cfg w v queueKey message plugin age s =
     action_relayNode_exec ex cfg w v queueKey message plugin s"
| "stage_action_exec St_device ex cfg w v queueKey message plugin age s =
     action_device_exec ex cfg w queueKey message plugin s"
| "stage_action_exec St_awaitingTask ex cfg w v queueKey message plugin age s =
     action_awaitingTask_exec ex cfg w v message plugin age s"
| "stage_action_exec St_retry ex cfg w v queueKey message plugin age s = action_retry cfg w message plugin s"

lemma stage_action_committed: "stage_action_exec st Committed = stage_action st"
  by (rule ext)+
     (cases st, simp_all add: action_ns_committed action_relayNode_committed action_device_committed
        action_awaitingTask_committed)

end
