(* ===== verification/Runner.thy ===== *)
theory Runner
  imports Stage_Actions
begin

text \<open>
  \<open>src/engine/lifecycle/runner.ts\<close>: the loop that drives the stage table. One member's turn is
  \<open>drain_member\<close>; the world and the vendor's replies of each turn are arguments, because turns are
  separated by awaits.
\<close>

type_synonym turn = "msg_id \<Rightarrow> world \<times> vendorReplies"

text \<open>\<open>_act\<close>: a throwing action is "still waiting".\<close>

definition act ::
  "engineConfig \<Rightarrow> world \<Rightarrow> vendorReplies \<Rightarrow> stageQueue \<Rightarrow> deviceMessage \<Rightarrow> deliveryPlugin \<Rightarrow> num \<Rightarrow>
   engine \<Rightarrow> stageOutcome \<times> engine" where
  "act cfg w v queue message plugin messageAgeMs s =
     (case stage_action (st_name (sq_stage queue)) cfg w v (sq_key queue) message plugin
             messageAgeMs s of
        (Inl err, s1) \<Rightarrow> (Rescheduled, s1)
      | (Inr outcome, s1) \<Rightarrow> (outcome, s1))"

definition drop_member :: "string \<Rightarrow> msg_id \<Rightarrow> engine \<Rightarrow> engine" where
  "drop_member queueKey messageId s = with_db (\<lambda>r. snd (removeMessageFromQueue queueKey messageId r)) s"

text \<open>
  One iteration of \<open>_drain\<close>, \<open>now\<close> being the tick's clock reading. The left result is the error that
  ends the drain (the hash cannot be read).
\<close>

definition drain_member ::
  "engineConfig \<Rightarrow> time \<Rightarrow> stageQueue \<Rightarrow> world \<Rightarrow> vendorReplies \<Rightarrow> msg_id \<Rightarrow> engine \<Rightarrow>
   (exn + unit) \<times> engine" where
  "drain_member cfg now queue w v messageId s =
     (case getMessageById messageId (db s) of
        Inl err \<Rightarrow> (Inl err, s)
      | Inr None \<Rightarrow> (Inr (), drop_member (sq_key queue) messageId s)
      | Inr (Some message) \<Rightarrow>
          (case Option.bind (registry_get (cf_registry cfg) (m_pluginId message)) delivery_of of
             None \<Rightarrow> (Inr (), drop_member (sq_key queue) messageId s)
           | Some plugin \<Rightarrow>
               (let messageAgeMs = now - cf_decodeTime cfg messageId;
                    (outcome, s1) = act cfg w v queue message plugin messageAgeMs s
                in if outcome = Orphaned then (Inr (), drop_member (sq_key queue) messageId s1)
                   else if outcome = Rescheduled
                   then (Inr (), reschedule cfg w (sq_stage queue) message messageAgeMs plugin s1)
                   else (Inr (), s1))))"

fun drain_members ::
  "engineConfig \<Rightarrow> time \<Rightarrow> stageQueue \<Rightarrow> turn \<Rightarrow> msg_id list \<Rightarrow> engine \<Rightarrow> (exn + unit) \<times> engine" where
  "drain_members cfg now queue turns [] s = (Inr (), s)"
| "drain_members cfg now queue turns (i # is) s =
     (case turns i of (w, v) \<Rightarrow>
        (case drain_member cfg now queue w v i s of
           (Inl err, s1) \<Rightarrow> (Inl err, s1)
         | (Inr _, s1) \<Rightarrow> drain_members cfg now queue turns is s1))"

definition drain_queue ::
  "engineConfig \<Rightarrow> time \<Rightarrow> stageQueue \<Rightarrow> turn \<Rightarrow> engine \<Rightarrow> (exn + unit) \<times> engine" where
  "drain_queue cfg now queue turns s =
     drain_members cfg now queue turns (getExpiredMessagesInQueue (sq_key queue) now (db s)) s"

text \<open>
  \<open>tick\<close>: every row whose key is not already draining, in the order the rows are started; a failed
  drain is logged and the other rows still run.
\<close>

definition pull_plugin_ids :: "engineConfig \<Rightarrow> plugin_id list" where
  "pull_plugin_ids cfg = map d_id (getByDeliveryPattern (cf_registry cfg) PULL)"

definition tick ::
  "engineConfig \<Rightarrow> time \<Rightarrow> string list \<Rightarrow> (string \<Rightarrow> turn) \<Rightarrow> engine \<Rightarrow> engine" where
  "tick cfg now draining turns s =
     fold (\<lambda>queue s. if sq_key queue \<in> set draining then s
             else snd (drain_queue cfg now queue (turns (sq_key queue)) s))
       (enumerateStageQueues (pull_plugin_ids cfg)) s"

end
