(* ===== verification/Outgoing_Service.thy ===== *)
theory Outgoing_Service
  imports Stage_Actions
begin

text \<open>
  \<open>src/engine/outgoing.ts\<close>: enqueue, lookup, cancel, admission and distribution, and the send. A
  send is two steps of the model: \<open>distribute_queue\<close> ends with the promise registered, and
  \<open>settle_send\<close> runs what follows the vendor's reply.
\<close>

definition canAdmit :: "world \<Rightarrow> deliveryPlugin \<Rightarrow> string \<Rightarrow> redis \<Rightarrow> bool \<times> redis" where
  "canAdmit w plugin queueKey r =
     (case d_admission plugin of
        Spacing minIntervalMs \<Rightarrow>
          lockQueueForTimeMs (lockForQueue queueKey) minIntervalMs (w_now w) r
      | Concurrency maxInFlight \<Rightarrow>
          (case buildConcurrencyRateLimitKey queueKey of
             None \<Rightarrow> (False, r)
           | Some rateLimitKey \<Rightarrow>
               (let tracked = getConcurrencyRateLimitCount rateLimitKey r in
                if tracked \<ge> maxInFlight
                then (let (liveCount, r1) = validateAndCleanConcurrencyRateLimit rateLimitKey r in
                      (if liveCount \<ge> maxInFlight then (False, r1) else (True, r1)))
                else (True, r))))"

definition concurrency_limit :: "deliveryPlugin \<Rightarrow> string \<Rightarrow> concurrencyRateLimit option" where
  "concurrency_limit plugin queueKey =
     (case d_admission plugin of
        Spacing _ \<Rightarrow> None
      | Concurrency maxInFlight \<Rightarrow>
          Some \<lparr>crl_key = (case buildConcurrencyRateLimitKey queueKey of None \<Rightarrow> [] | Some k \<Rightarrow> k),
                crl_max = maxInFlight\<rparr>)"

text \<open>One queue's share of \<open>distributeToNetworkServers\<close>, up to the registered promise.\<close>

definition distribute_queue ::
  "engineConfig \<Rightarrow> world \<Rightarrow> string \<Rightarrow> engine \<Rightarrow> (exn + unit) \<times> engine" where
  "distribute_queue cfg w queueKey s =
     (case Option.bind (getPluginIdFromInitialQueueKey queueKey) (registry_get (cf_registry cfg)) of
        None \<Rightarrow> (Inr (), s)
      | Some (TokenOnly _) \<Rightarrow> (Inr (), s)
      | Some (ObjectMember _) \<Rightarrow> (Inl (undefined_field ''strategy''), s)
      | Some (Delivery plugin) \<Rightarrow>
          (case canAdmit w plugin queueKey (db s) of
             (False, r) \<Rightarrow> (Inr (), s\<lparr>db := r\<rparr>)
           | (True, r) \<Rightarrow>
               (case pickIntoNs cfg w queueKey plugin (concurrency_limit plugin queueKey)
                       (s\<lparr>db := r\<rparr>) of
                  (Inl err, s1) \<Rightarrow> (Inl err, s1)
                | (Inr None, s1) \<Rightarrow> (Inr (), s1)
                | (Inr (Some message), s1) \<Rightarrow>
                    (case (if retry_count message = 0
                           then emitDeliveryEvent cfg w (partial_of message) s1
                           else (Inr (), s1)) of
                       (Inl err, s2) \<Rightarrow> (Inl err, s2)
                     | (Inr _, s2) \<Rightarrow> (Inr (), track plugin message s2)))))"

lemma distribute_owned:
  "Option.bind (getPluginIdFromInitialQueueKey q)
     (\<lambda>i. Option.bind (registry_get (cf_registry cfg) i) delivery_of) = Some p \<Longrightarrow>
   Option.bind (getPluginIdFromInitialQueueKey q) (registry_get (cf_registry cfg)) = Some (Delivery p)"
  by (auto simp: bind_eq_Some_conv elim!: delivery_of.elims)

lemma distribute_not_owned:
  "Option.bind (getPluginIdFromInitialQueueKey q)
     (\<lambda>i. Option.bind (registry_get (cf_registry cfg) i) delivery_of) = None \<Longrightarrow>
   distribute_queue cfg w q s = (Inr (), s) \<or>
   distribute_queue cfg w q s = (Inl (undefined_field ''strategy''), s)"
proof (cases "Option.bind (getPluginIdFromInitialQueueKey q) (registry_get (cf_registry cfg))")
  case (Some dp)
  moreover assume "Option.bind (getPluginIdFromInitialQueueKey q)
      (\<lambda>i. Option.bind (registry_get (cf_registry cfg) i) delivery_of) = None"
  ultimately have "delivery_of dp = None" by (auto simp: bind_eq_Some_conv bind_eq_None_conv)
  then show ?thesis using Some by (cases dp) (simp_all add: distribute_queue_def)
qed (simp add: distribute_queue_def)

definition distributeToNetworkServers ::
  "engineConfig \<Rightarrow> (string \<Rightarrow> world) \<Rightarrow> engine \<Rightarrow> (exn + unit) \<times> engine" where
  "distributeToNetworkServers cfg worlds s =
     fold (\<lambda>queueKey (res, s).
             case distribute_queue cfg (worlds queueKey) queueKey s of
               (res', s') \<Rightarrow> (if raises res then res else res', s'))
       (listReadyQueues s) (Inr (), s)"

definition EMPTY_DELIVERY_ID :: failureContext where
  "EMPTY_DELIVERY_ID = \<lparr>fc_reason = ''Plugin returned an empty deliveryQueueId after sendOne'',
     fc_errorCode = None, fc_details = None, fc_skipRetry = Some True\<rparr>"

text \<open>What follows the await of \<open>plugin.outgoing.sendOne\<close>.\<close>

definition sendOneToNetworkServer ::
  "engineConfig \<Rightarrow> world \<Rightarrow> deliveryPlugin \<Rightarrow> deviceMessage \<Rightarrow> (exn + string) \<Rightarrow> engine \<Rightarrow>
   (exn + unit) \<times> engine" where
  "sendOneToNetworkServer cfg w plugin message reply s =
     (case reply of
        Inl err \<Rightarrow>
          (case retryOrFail cfg w (m_id message) QUEUE_NS_KEY (d_parseError plugin err) plugin s of
             (res, s1) \<Rightarrow> (map_sum id (\<lambda>_. ()) res, s1))
      | Inr deliveryQueueId \<Rightarrow>
          if deliveryQueueId = [] then
            (case retryOrFail cfg w (m_id message) QUEUE_NS_KEY EMPTY_DELIVERY_ID plugin s of
               (res, s1) \<Rightarrow> (map_sum id (\<lambda>_. ()) res, s1))
          else
            (case advance cfg w (m_id message) plugin St_ns (Some deliveryQueueId)
                    (retry_count message) s of
               (res, s1) \<Rightarrow> (map_sum id (\<lambda>_. ()) res, s1)))"

text \<open>The tracked promise settles: the transition, then the \<open>finally\<close> of \<open>track\<close>.\<close>

definition settle_send ::
  "engineConfig \<Rightarrow> world \<Rightarrow> send \<Rightarrow> (exn + string) \<Rightarrow> engine \<Rightarrow> (exn + unit) \<times> engine" where
  "settle_send cfg w sd reply s =
     (case sendOneToNetworkServer cfg w (sd_plugin sd) (sd_message sd) reply s of
        (res, s1) \<Rightarrow> (res, untrack sd s1))"

definition cancelOneMessage ::
  "engineConfig \<Rightarrow> deviceMessage \<Rightarrow> engine \<Rightarrow> bool \<times> engine" where
  "cancelOneMessage cfg message s =
     (if m_deliveryStatus message \<noteq> QUEUED \<and> m_deliveryStatus message \<noteq> TO_RETRY then (False, s)
      else
        (case Option.bind (registry_get (cf_registry cfg) (m_pluginId message)) delivery_of of
           None \<Rightarrow> (False, s)
         | Some plugin \<Rightarrow>
             (let queueKey = (if m_deliveryStatus message = TO_RETRY then QUEUE_RETRY_KEY
                              else ready_key plugin message)
              in case claimFromQueue queueKey (m_id message) s of
                   (False, s1) \<Rightarrow> (False, s1)
                 | (True, s1) \<Rightarrow>
                     (True, recordMessageTerminal Terminal_CANCELLED (retry_count message)
                        (purge message plugin s1)))))"

fun cancel_messages :: "engineConfig \<Rightarrow> deviceMessage list \<Rightarrow> engine \<Rightarrow> bool list \<times> engine" where
  "cancel_messages cfg [] s = ([], s)"
| "cancel_messages cfg (m # ms) s =
     (case cancelOneMessage cfg m s of (ok, s1) \<Rightarrow>
        (case cancel_messages cfg ms s1 of (oks, s2) \<Rightarrow> (ok # oks, s2)))"

definition cancelOne ::
  "engineConfig \<Rightarrow> string \<Rightarrow> engine \<Rightarrow> (exn + cancelMessageResult) \<times> engine" where
  "cancelOne cfg correlationId s =
     (case getAllMessagesForCorrelationId correlationId (db s) of
        Inl err \<Rightarrow> (Inl err, s)
      | Inr messages \<Rightarrow>
          if messages = []
          then (Inr \<lparr>cr_correlationId = correlationId, cr_result = NOT_FOUND\<rparr>, s)
          else
            (case cancel_messages cfg messages s of
               (outcomes, s1) \<Rightarrow>
                 (Inr \<lparr>cr_correlationId = correlationId,
                       cr_result = (if list_all id outcomes then CANCELLED else NOT_CANCELLABLE)\<rparr>,
                  s1)))"

text \<open>\<open>Promise.all\<close>: every id is processed; one rejection rejects the whole.\<close>

fun cancelMany ::
  "engineConfig \<Rightarrow> string list \<Rightarrow> engine \<Rightarrow> (exn + cancelMessageResult list) \<times> engine" where
  "cancelMany cfg [] s = (Inr [], s)"
| "cancelMany cfg (i # is) s =
     (case cancelOne cfg i s of (res, s1) \<Rightarrow>
        (case cancelMany cfg is s1 of (ress, s2) \<Rightarrow>
           (case res of Inl err \<Rightarrow> Inl err | Inr x \<Rightarrow> map_sum id ((#) x) ress, s2)))"

definition enqueue ::
  "engineConfig \<Rightarrow> world \<Rightarrow> msg_id \<Rightarrow> createDeviceMessage \<Rightarrow> engine \<Rightarrow> (exn + deviceMessage) \<times> engine" where
  "enqueue cfg w messageId create s =
     (case registry_get (cf_registry cfg) (c_pluginId create) of
        None \<Rightarrow> (Inl (UnknownPluginError (c_pluginId create)), s)
      | Some (TokenOnly _) \<Rightarrow>
          (Inl (UnsupportedCommandTypeError (c_pluginId create) (c_commandType create)), s)
      | Some (ObjectMember _) \<Rightarrow> (Inl (undefined_field ''includes''), s)
      | Some (Delivery plugin) \<Rightarrow>
          if c_commandType create \<notin> set (d_supportedCommandTypes plugin)
          then (Inl (UnsupportedCommandTypeError (c_pluginId create) (c_commandType create)), s)
          else
            (case Option.bind (d_validateEnqueue plugin) (\<lambda>validate. validate create) of
               Some issue \<Rightarrow> (Inl (InvalidEnqueueError (c_pluginId create) issue), s)
             | None \<Rightarrow>
                 (let queueKey = d_initialQueueKey plugin (c_networkId create) (c_device create);
                      (res, r) = enqueueDeviceMessage create queueKey
                        (messageTtlSeconds (cf_delivery cfg)) messageId (w_now w) (db s);
                      s1 = s\<lparr>db := r\<rparr>
                  in (res, if \<not> raises res \<and> canKickDistribute s
                           then s1\<lparr>kicks := kicks s1 + 1\<rparr> else s1))))"

definition getByCorrelationId :: "string \<Rightarrow> engine \<Rightarrow> exn + deviceMessage option" where
  "getByCorrelationId correlationId s = getMessageFromCorrelationId correlationId (db s)"

definition stopEnqueueKick :: "engine \<Rightarrow> engine" where
  "stopEnqueueKick s = s\<lparr>canKickDistribute := False\<rparr>"

end
