(* ===== verification/Engine_Invariant.thy ===== *)
theory Engine_Invariant
  imports Runner Outgoing_Service
begin

text \<open>
  The invariant of the engine's state and its preservation by the store-level operations. For every
  message: it is a member of at most one queue; a member whose hash exists sits in the queue that its
  status names; a delivery-id index leads only to the message that carries that id; a concurrency
  slot is held exactly by the messages that recorded it. Globally: every non-empty ready queue is in
  the work list, no concurrency set exceeds its cap, and a send in progress belongs to a message that
  is still in the \<open>ns\<close> stage (or whose hash has expired).
\<close>

section \<open>Definitions\<close>

definition config_ok :: "engineConfig \<Rightarrow> bool" where
  "config_ok cfg \<longleftrightarrow> registry_ok (cf_registry cfg) \<and> deliverySchema (cf_delivery cfg) \<and>
     (\<forall>i p. registry_get (cf_registry cfg) i = Some (Delivery p) \<longrightarrow>
        (\<exists>kind. delivery_plugin_contract p kind))"

definition plugin_for :: "engineConfig \<Rightarrow> plugin_id \<Rightarrow> deliveryPlugin option" where
  "plugin_for cfg i = Option.bind (registry_get (cf_registry cfg) i) delivery_of"

definition hash_plugin :: "engineConfig \<Rightarrow> mhash \<Rightarrow> deliveryPlugin option" where
  "hash_plugin cfg h = Option.bind (h_pluginId h) (plugin_for cfg)"

text \<open>The queue a stored message belongs in.\<close>

definition home_of :: "deliveryPlugin \<Rightarrow> mhash \<Rightarrow> string" where
  "home_of p h = (case stageForStatus (the (h_deliveryStatus h)) (d_pattern p) of
     Some st \<Rightarrow> stageKeyFor (STAGES st) (d_id p)
   | None \<Rightarrow> d_initialQueueKey p (h_networkId h) (the (h_device h)))"

definition rate_key :: "string \<Rightarrow> bool" where
  "rate_key k \<longleftrightarrow> starts_with ''rate_limit:'' k"

definition ready_queue :: "string \<Rightarrow> bool" where
  "ready_queue k \<longleftrightarrow> starts_with ''queue:'' k"

definition before_send :: "deliveryStatus \<Rightarrow> bool" where
  "before_send st \<longleftrightarrow> st \<in> {QUEUED, SENT_TO_NS, TO_RETRY}"

definition hash_ok :: "engineConfig \<Rightarrow> mhash \<Rightarrow> bool" where
  "hash_ok cfg h \<longleftrightarrow> complete_hash h \<and> hash_plugin cfg h \<noteq> None \<and>
     \<not> terminal_status (the (h_deliveryStatus h)) \<and>
     (before_send (the (h_deliveryStatus h)) \<longrightarrow> h_deliveryQueueId h = None) \<and>
     (\<not> before_send (the (h_deliveryStatus h)) \<longrightarrow> (\<exists>d. d \<noteq> [] \<and> h_deliveryQueueId h = Some d)) \<and>
     pred_option rate_key (h_concurrencyRateLimitKey h) \<and>
     (the (h_deliveryStatus h) \<in> {QUEUED, TO_RETRY} \<longrightarrow> h_concurrencyRateLimitKey h = None) \<and>
     pred_option (\<lambda>n. n \<le> maxRetries (cf_delivery cfg)) (h_retryCount h)"

definition hash_at :: "redis \<Rightarrow> msg_id \<Rightarrow> mhash option" where
  "hash_at r m = hashes r (messageKey m)"

definition one_queue :: "redis \<Rightarrow> msg_id \<Rightarrow> bool" where
  "one_queue r m \<longleftrightarrow> (\<forall>k k'. in_queue r k m \<longrightarrow> in_queue r k' m \<longrightarrow> k = k')"

definition stored_ok :: "engineConfig \<Rightarrow> redis \<Rightarrow> msg_id \<Rightarrow> mhash \<Rightarrow> bool" where
  "stored_ok cfg r m h \<longleftrightarrow> hash_ok cfg h \<and>
     (\<forall>k. in_queue r k m \<longrightarrow> k = home_of (the (hash_plugin cfg h)) h) \<and>
     (\<forall>d. strs r (indexExternalDeliveryId d) = Some (messageKey m) \<longrightarrow> h_deliveryQueueId h = Some d) \<and>
     (\<forall>c. rate_key c \<longrightarrow> (m \<in> set (sets r c) \<longleftrightarrow> h_concurrencyRateLimitKey h = Some c))"

definition msg_ok :: "engineConfig \<Rightarrow> redis \<Rightarrow> msg_id \<Rightarrow> bool" where
  "msg_ok cfg r m \<longleftrightarrow> one_queue r m \<and> (\<forall>h. hash_at r m = Some h \<longrightarrow> stored_ok cfg r m h)"

definition work_ok :: "redis \<Rightarrow> bool" where
  "work_ok r \<longleftrightarrow> (\<forall>k m. in_queue r k m \<longrightarrow> ready_queue k \<longrightarrow>
     k \<in> set (sets r listOfInitialQueuesToDistributeFrom))"

definition queue_cap :: "engineConfig \<Rightarrow> string \<Rightarrow> nat option" where
  "queue_cap cfg k =
     (case Option.bind (getPluginIdFromInitialQueueKey k) (plugin_for cfg) of
        None \<Rightarrow> None
      | Some p \<Rightarrow> (case d_admission p of
          Spacing _ \<Rightarrow> None
        | Concurrency n \<Rightarrow> if 0 < n then Some n else None))"

definition caps_ok :: "engineConfig \<Rightarrow> redis \<Rightarrow> bool" where
  "caps_ok cfg r \<longleftrightarrow> (\<forall>k c n. buildConcurrencyRateLimitKey k = Some c \<longrightarrow> queue_cap cfg k = Some n \<longrightarrow>
     length (sets r c) \<le> n)"

definition db_ok :: "engineConfig \<Rightarrow> redis \<Rightarrow> bool" where
  "db_ok cfg r \<longleftrightarrow> redis_ok r \<and> (\<forall>m. msg_ok cfg r m) \<and> work_ok r \<and> caps_ok cfg r"

definition send_id :: "send \<Rightarrow> msg_id" where
  "send_id sd = m_id (sd_message sd)"

definition sends_ok :: "engineConfig \<Rightarrow> engine \<Rightarrow> bool" where
  "sends_ok cfg s \<longleftrightarrow> distinct (map send_id (running s)) \<and>
     distinct (map sd_token (running s)) \<and>
     (\<forall>sd \<in> set (running s). sd_token sd < next_token s \<and>
        map_of (sends s) (send_id sd) = Some (sd_token sd) \<and>
        (\<forall>h. hash_at (db s) (send_id sd) = Some h \<longrightarrow>
           in_queue (db s) QUEUE_NS_KEY (send_id sd) \<and> hash_plugin cfg h = Some (sd_plugin sd)))"

definition engine_ok :: "engineConfig \<Rightarrow> engine \<Rightarrow> bool" where
  "engine_ok cfg s \<longleftrightarrow> db_ok cfg (db s) \<and> webhook_ok (whdb s) \<and> sends_ok cfg s"

section \<open>Keys\<close>

lemma rate_not_work [simp]:
  "rate_key k \<Longrightarrow> k \<noteq> listOfInitialQueuesToDistributeFrom"
  "\<not> rate_key listOfInitialQueuesToDistributeFrom"
  by (auto simp: rate_key_def listOfInitialQueuesToDistributeFrom_def starts_with_def)

lemma rate_key_Nil [simp]: "\<not> rate_key []"
  by (simp add: rate_key_def starts_with_def)

lemma rate_key_nonempty: "rate_key k \<Longrightarrow> k \<noteq> []"
  by auto

lemma rate_key_build: "buildConcurrencyRateLimitKey k = Some c \<Longrightarrow> rate_key c"
  by (auto simp: rate_key_def starts_with_def dest!: buildConcurrencyRateLimitKey_Some)

lemma stage_not_ready [simp]: "\<not> ready_queue (stageKeyFor (STAGES st) p)"
  by (cases st) (simp_all add: stageKeyFor_def ready_queue_def starts_with_def QUEUE_NS_KEY_def
      QUEUE_RETRY_KEY_def queueAwaitingTask_def)

lemma ns_key: "QUEUE_NS_KEY = stageKeyFor (STAGES St_ns) p"
  by (simp add: stageKeyFor_def)

lemma retry_key: "QUEUE_RETRY_KEY = stageKeyFor (STAGES St_retry) p"
  by (simp add: stageKeyFor_def)

lemma literal_not_ready [simp]: "\<not> ready_queue QUEUE_NS_KEY" "\<not> ready_queue QUEUE_RETRY_KEY"
  by (simp_all add: ready_queue_def starts_with_def QUEUE_NS_KEY_def QUEUE_RETRY_KEY_def)

context delivery_plugin_contract begin

lemma ready_shape: "ready_queue (d_initialQueueKey p networkId dev)"
  using queue_shape [of networkId dev]
  by (auto simp: ready_queue_def buildInitialQueueKey_def starts_with_def)

lemma ready_differs_from_stages: "d_initialQueueKey p networkId dev \<noteq> stageKeyFor (STAGES st) q"
  using ready_shape [of networkId dev] stage_not_ready by metis

end

lemma config_contract:
  "config_ok cfg \<Longrightarrow> plugin_for cfg i = Some p \<Longrightarrow> (\<exists>kind. delivery_plugin_contract p kind) \<and> d_id p = i"
proof -
  assume cfg: "config_ok cfg" and p: "plugin_for cfg i = Some p"
  then obtain dp where dp: "registry_get (cf_registry cfg) i = Some dp" "delivery_of dp = Some p"
    by (auto simp: plugin_for_def bind_eq_Some_conv)
  then have "dp = Delivery p" by (cases dp) auto
  with dp cfg show ?thesis by (auto simp: config_ok_def dest: registry_ok_id)
qed

lemma hash_plugin_ready:
  assumes "config_ok cfg" and "hash_plugin cfg h = Some p"
  shows "ready_queue (d_initialQueueKey p n d)" and "d_initialQueueKey p n d \<noteq> stageKeyFor (STAGES st) q"
    and "getPluginIdFromInitialQueueKey (d_initialQueueKey p n d) = Some (d_id p)"
    and "h_pluginId h = Some (d_id p)" and "plugin_for cfg (d_id p) = Some p"
    and "\<exists>c. buildConcurrencyRateLimitKey (d_initialQueueKey p n d) = Some c"
proof -
  from assms(2) obtain i where i: "h_pluginId h = Some i" "plugin_for cfg i = Some p"
    by (auto simp: hash_plugin_def bind_eq_Some_conv)
  from config_contract [OF assms(1) i(2)] obtain kind where c: "delivery_plugin_contract p kind"
    and id: "d_id p = i" by blast
  show "ready_queue (d_initialQueueKey p n d)" by (rule delivery_plugin_contract.ready_shape [OF c])
  show "d_initialQueueKey p n d \<noteq> stageKeyFor (STAGES st) q"
    by (rule delivery_plugin_contract.ready_differs_from_stages [OF c])
  show "getPluginIdFromInitialQueueKey (d_initialQueueKey p n d) = Some (d_id p)"
    by (rule delivery_plugin_contract.owner_recovered [OF c])
  show "\<exists>c. buildConcurrencyRateLimitKey (d_initialQueueKey p n d) = Some c"
    using delivery_plugin_contract.rate_limit_key_exists [OF c] by auto
  show "h_pluginId h = Some (d_id p)" "plugin_for cfg (d_id p) = Some p" using i id by simp_all
qed

text \<open>Where a message is tells its status.\<close>

lemma home_stage:
  assumes "config_ok cfg" and "hash_plugin cfg h = Some p"
  shows "home_of p h = stageKeyFor (STAGES st) q \<longleftrightarrow>
    stageForStatus (the (h_deliveryStatus h)) (d_pattern p) = Some st \<and>
    (st = St_awaitingTask \<longrightarrow> d_id p = q)"
  using hash_plugin_ready(2) [OF assms]
  by (auto simp: home_of_def stage_keys_distinct simp del: STAGES.simps split: option.splits)

lemma home_ns:
  assumes "config_ok cfg" and "hash_plugin cfg h = Some p"
  shows "home_of p h = QUEUE_NS_KEY \<longleftrightarrow> the (h_deliveryStatus h) = SENT_TO_NS"
  unfolding ns_key [of "d_id p"] home_stage [OF assms]
  by (cases "the (h_deliveryStatus h)"; cases "d_pattern p") simp_all

lemma home_retry:
  assumes "config_ok cfg" and "hash_plugin cfg h = Some p"
  shows "home_of p h = QUEUE_RETRY_KEY \<longleftrightarrow> the (h_deliveryStatus h) = TO_RETRY"
  unfolding retry_key [of "d_id p"] home_stage [OF assms]
  by (cases "the (h_deliveryStatus h)"; cases "d_pattern p") simp_all

section \<open>Frames\<close>

definition untouched :: "redis \<Rightarrow> redis \<Rightarrow> msg_id \<Rightarrow> bool" where
  "untouched r r' m \<longleftrightarrow> hash_at r' m = None \<or>
     hash_at r' m = hash_at r m \<and> (\<forall>k. in_queue r' k m = in_queue r k m) \<and>
     (\<forall>c. rate_key c \<longrightarrow> (m \<in> set (sets r' c) \<longleftrightarrow> m \<in> set (sets r c)))"

definition msg_le :: "redis \<Rightarrow> redis \<Rightarrow> msg_id \<Rightarrow> bool" where
  "msg_le r r' m \<longleftrightarrow> untouched r r' m \<and> (\<forall>k. in_queue r' k m \<longrightarrow> in_queue r k m) \<and>
     (\<forall>d. strs r' (indexExternalDeliveryId d) = Some (messageKey m) \<longrightarrow>
        strs r (indexExternalDeliveryId d) = Some (messageKey m))"

lemma msg_le_refl [simp]: "msg_le r r m"
  by (simp add: msg_le_def untouched_def)

lemma untouched_refl [simp]: "untouched r r m"
  by (simp add: untouched_def)

lemma msg_ok_mono:
  assumes "msg_ok cfg r m" and "msg_le r r' m"
  shows "msg_ok cfg r' m"
proof -
  have "one_queue r' m" using assms unfolding msg_ok_def msg_le_def one_queue_def by blast
  moreover have "stored_ok cfg r' m h" if h: "hash_at r' m = Some h" for h
    using assms h unfolding msg_ok_def msg_le_def untouched_def stored_ok_def by simp
  ultimately show ?thesis by (simp add: msg_ok_def)
qed

text \<open>The work list may lose only queues that are empty.\<close>

definition work_le :: "redis \<Rightarrow> redis \<Rightarrow> bool" where
  "work_le r r' \<longleftrightarrow> (\<forall>k. k \<in> set (sets r listOfInitialQueuesToDistributeFrom) \<longrightarrow>
     k \<notin> set (sets r' listOfInitialQueuesToDistributeFrom) \<longrightarrow> (\<forall>m. \<not> in_queue r' k m))"

lemma work_le_same:
  "sets r' listOfInitialQueuesToDistributeFrom = sets r listOfInitialQueuesToDistributeFrom \<Longrightarrow> work_le r r'"
  by (simp add: work_le_def)

definition caps_le :: "redis \<Rightarrow> redis \<Rightarrow> bool" where
  "caps_le r r' \<longleftrightarrow> (\<forall>c. rate_key c \<longrightarrow> length (sets r' c) \<le> length (sets r c))"

lemma caps_le_ok: "caps_ok cfg r \<Longrightarrow> caps_le r r' \<Longrightarrow> caps_ok cfg r'"
  unfolding caps_ok_def caps_le_def by (meson le_trans rate_key_build)

lemma db_ok_change:
  assumes "db_ok cfg r" and "redis_ok r'" and "\<And>m. m \<noteq> mo \<Longrightarrow> msg_le r r' m"
    and "msg_ok cfg r' mo" and "work_le r r'" and "caps_ok cfg r'"
    and "\<And>k. in_queue r' k mo \<Longrightarrow> ready_queue k \<Longrightarrow>
      in_queue r k mo \<or> k \<in> set (sets r' listOfInitialQueuesToDistributeFrom)"
  shows "db_ok cfg r'"
proof -
  have "msg_ok cfg r' m" for m
    using assms(1,4) msg_ok_mono [OF _ assms(3) [of m], of cfg]
    by (cases "m = mo") (auto simp: db_ok_def)
  moreover have "work_ok r'"
    unfolding work_ok_def
  proof (intro allI impI)
    fix k m assume q: "in_queue r' k m" and rq: "ready_queue k"
    show "k \<in> set (sets r' listOfInitialQueuesToDistributeFrom)"
    proof (rule ccontr)
      assume out: "k \<notin> set (sets r' listOfInitialQueuesToDistributeFrom)"
      have "in_queue r k m"
        using assms(3) [of m] assms(7) [of k] q rq out by (cases "m = mo") (auto simp: msg_le_def)
      then have "k \<in> set (sets r listOfInitialQueuesToDistributeFrom)"
        using assms(1) rq by (auto simp: db_ok_def work_ok_def)
      then show False using assms(5) out q by (auto simp: work_le_def)
    qed
  qed
  ultimately show ?thesis using assms(2,6) by (simp add: db_ok_def)
qed

lemma db_ok_shrink:
  assumes "db_ok cfg r" and "redis_ok r'" and "\<And>m. msg_le r r' m" and "work_le r r'" and "caps_le r r'"
  shows "db_ok cfg r'"
proof (rule db_ok_change [OF assms(1,2) assms(3) _ assms(4)])
  show "msg_ok cfg r' []" using assms(1) msg_ok_mono [OF _ assms(3)] by (simp add: db_ok_def)
  show "caps_ok cfg r'" using assms(1) caps_le_ok [OF _ assms(5)] by (simp add: db_ok_def)
qed (use assms(3) [of "[]"] in \<open>simp add: msg_le_def\<close>)

lemma sends_ok_frame:
  assumes "sends_ok cfg s" and "running s' = running s" and "sends s' = sends s"
    and "next_token s' = next_token s"
    and "\<And>sd. sd \<in> set (running s) \<Longrightarrow> untouched (db s) (db s') (send_id sd)"
  shows "sends_ok cfg s'"
  using assms by (fastforce simp: sends_ok_def untouched_def)

section \<open>The store operations keep it\<close>

text \<open>Expiry, and the moves that change no membership.\<close>

lemma msg_le_redis_at: "msg_le r (redis_at now r) m"
  using redis_at_shrinks [of now r]
  by (auto simp: msg_le_def untouched_def hash_at_def redis_at_view)
     (simp_all add: redis_at_def split: if_splits)

lemma db_ok_redis_at: "db_ok cfg r \<Longrightarrow> db_ok cfg (redis_at now r)"
  by (rule db_ok_shrink)
     (auto simp: msg_le_redis_at work_le_def caps_le_def redis_simps db_ok_def)

lemma msg_le_zaddXx: "msg_le r (r_zaddXx k s i r) m"
  by (simp add: msg_le_def untouched_def hash_at_def redis_simps)

lemma db_ok_zaddXx: "db_ok cfg r \<Longrightarrow> db_ok cfg (r_zaddXx k s i r)"
  by (rule db_ok_shrink)
     (auto simp: msg_le_zaddXx work_le_def caps_le_def redis_simps db_ok_def)

text \<open>Dropping a member.\<close>

lemma remove_effect:
  "snd (removeMessageFromQueue k i r) = r \<and> \<not> in_queue r k i \<or>
   snd (removeMessageFromQueue k i r) = r_zrem k i r \<and> in_queue r k i"
  by (simp add: removeMessageFromQueue_def)

lemma drop_msg_le:
  "m \<noteq> i \<or> hash_at r i = None \<Longrightarrow> msg_le r (snd (removeMessageFromQueue k i r)) m"
  using remove_effect [of k i r]
  by (auto simp: msg_le_def untouched_def hash_at_def redis_simps)

lemma db_ok_remove:
  assumes "db_ok cfg r"
  shows "db_ok cfg (snd (removeMessageFromQueue k i r))"
proof (rule db_ok_change [OF assms, where mo = i])
  let ?r = "snd (removeMessageFromQueue k i r)"
  show "redis_ok ?r" using assms remove_effect [of k i r] by (auto simp: db_ok_def redis_simps)
  show "msg_le r ?r m" if "m \<noteq> i" for m using that by (intro drop_msg_le) simp
  have "msg_ok cfg r i" using assms by (simp add: db_ok_def)
  then show "msg_ok cfg ?r i"
    using remove_effect [of k i r]
    by (auto simp: msg_ok_def one_queue_def stored_ok_def hash_at_def redis_simps)
  show "work_le r ?r" "caps_ok cfg ?r"
    using assms remove_effect [of k i r]
    by (auto simp: work_le_def db_ok_def redis_simps intro: caps_le_ok simp: caps_le_def)
qed (use remove_effect [of k i r] in \<open>auto simp: redis_simps\<close>)

text \<open>Admission.\<close>

lemma lock_effect:
  "hashes (snd (lockQueueForTimeMs (lockForQueue q) n now r)) = hashes r"
  "sets (snd (lockQueueForTimeMs (lockForQueue q) n now r)) = sets r"
  "in_queue (snd (lockQueueForTimeMs (lockForQueue q) n now r)) k m = in_queue r k m"
  "redis_ok (snd (lockQueueForTimeMs (lockForQueue q) n now r)) = redis_ok r"
  "strs (snd (lockQueueForTimeMs (lockForQueue q) n now r)) (indexExternalDeliveryId d) =
     strs r (indexExternalDeliveryId d)"
  by (auto simp: lockQueueForTimeMs_def redis_simps key_simps)

lemma clean_effect:
  fixes r c
  defines "r' \<equiv> snd (validateAndCleanConcurrencyRateLimit c r)"
  shows "hashes r' = hashes r" and "in_queue r' k m = in_queue r k m" and "strs r' = strs r"
    and "redis_ok r \<Longrightarrow> redis_ok r'"
    and "x \<in> set (sets r' k) \<longleftrightarrow> x \<in> set (sets r k) \<and> \<not> (k = c \<and> hash_at r x = None)"
    and "length (sets r' k) \<le> length (sets r k)"
    and "fst (validateAndCleanConcurrencyRateLimit c r) = length (filter (\<lambda>m. hash_at r m \<noteq> None) (sets r c))"
proof -
  let ?dead = "filter (\<lambda>m. hashes r (messageKey m) = None) (sets r c)"
  have r': "r' = fold (srem c) ?dead r"
    by (auto simp: r'_def validateAndCleanConcurrencyRateLimit_def Let_def)
  show "hashes r' = hashes r" "in_queue r' k m = in_queue r k m" "strs r' = strs r"
    "redis_ok r \<Longrightarrow> redis_ok r'"
    unfolding r' by (simp_all add: redis_simps)
  show "x \<in> set (sets r' k) \<longleftrightarrow> x \<in> set (sets r k) \<and> \<not> (k = c \<and> hash_at r x = None)"
    unfolding r' by (auto simp: redis_simps hash_at_def)
  show "length (sets r' k) \<le> length (sets r k)" unfolding r' by (rule length_fold_srem)
  have "length (sets r c) - length ?dead = length (filter (\<lambda>m. hash_at r m \<noteq> None) (sets r c))"
    using sum_length_filter_compl [of "\<lambda>m. hashes r (messageKey m) = None" "sets r c"]
    by (simp add: hash_at_def)
  then show "fst (validateAndCleanConcurrencyRateLimit c r) =
      length (filter (\<lambda>m. hash_at r m \<noteq> None) (sets r c))"
    by (auto simp: validateAndCleanConcurrencyRateLimit_def Let_def)
qed

lemma canAdmit_cases:
  "snd (canAdmit w p q r) = r \<or>
   (\<exists>n. snd (canAdmit w p q r) = snd (lockQueueForTimeMs (lockForQueue q) n (w_now w) r)) \<or>
   (\<exists>c. buildConcurrencyRateLimitKey q = Some c \<and>
      snd (canAdmit w p q r) = snd (validateAndCleanConcurrencyRateLimit c r))"
  by (auto simp: canAdmit_def Let_def split: admission.split option.split prod.split)

lemma canAdmit_msg_le: "msg_le r (snd (canAdmit w p q r)) m"
  using canAdmit_cases [of w p q r]
  by (elim disjE exE conjE)
     (auto simp: msg_le_def untouched_def hash_at_def lock_effect clean_effect)

lemma db_ok_canAdmit:
  assumes "db_ok cfg r"
  shows "db_ok cfg (snd (canAdmit w p q r))"
proof (rule db_ok_shrink [OF assms _ canAdmit_msg_le])
  show "redis_ok (snd (canAdmit w p q r))"
    using canAdmit_cases [of w p q r] assms
    by (auto simp: lock_effect db_ok_def intro: clean_effect(4))
  show "work_le r (snd (canAdmit w p q r))" "caps_le r (snd (canAdmit w p q r))"
    using canAdmit_cases [of w p q r]
    by (auto simp: work_le_def caps_le_def lock_effect clean_effect dest: rate_key_build)
qed

end
