(* ===== verification/Engine_Preservation.thy ===== *)
theory Engine_Preservation
  imports Engine_Invariant
begin

text \<open>
  The invariant is kept by the operations that move a message, and from them by every handler: the
  retry decision, incoming events, the stage actions, a member's turn in the runner, distribution,
  the settling of a send, cancel and enqueue.
\<close>

section \<open>Loading a message\<close>

text \<open>What \<open>getMessageById\<close> reads of a well-formed hash.\<close>

definition message_of :: "msg_id \<Rightarrow> mhash \<Rightarrow> deviceMessage" where
  "message_of i h = projr (deserializeMessage i h)"

lemma load_hash:
  assumes "db_ok cfg r" and "hash_at r i = Some h"
  shows "getMessageById i r = Inr (Some (message_of i h))"
proof -
  have "complete_hash h" using assms by (auto simp: db_ok_def msg_ok_def stored_ok_def hash_ok_def)
  then show ?thesis
    using assms(2) by (simp add: getMessageById_def hash_at_def message_of_def deserializeMessage_def)
qed

lemma load_none: "hash_at r i = None \<Longrightarrow> getMessageById i r = Inr None"
  by (simp add: getMessageById_def hash_at_def)

lemma message_of_fields:
  assumes "hash_ok cfg h"
  shows "m_id (message_of i h) = i" and "m_pluginId (message_of i h) = the (h_pluginId h)"
    and "m_deliveryStatus (message_of i h) = the (h_deliveryStatus h)"
    and "m_device (message_of i h) = the (h_device h)"
    and "m_networkId (message_of i h) = h_networkId h"
    and "m_deliveryQueueId (message_of i h) = (case h_deliveryQueueId h of None \<Rightarrow> [] | Some d \<Rightarrow> d)"
    and "retry_count (message_of i h) = (case h_retryCount h of None \<Rightarrow> 0 | Some n \<Rightarrow> n)"
    and "failure_history (message_of i h) = (case h_failureHistory h of None \<Rightarrow> [] | Some x \<Rightarrow> x)"
    and "m_concurrencyRateLimitKey (message_of i h) = h_concurrencyRateLimitKey h"
    and "m_priority (message_of i h) = of_int (parseInt_num (the (h_priority h)))"
    and "m_phase (message_of i h) = h_phase h"
    and "m_correlationId (message_of i h) =
      (if h_correlationId h = Some [] then None else h_correlationId h)"
proof -
  have c: "complete_hash h" using assms by (simp add: hash_ok_def)
  have k: "h_concurrencyRateLimitKey h \<noteq> Some []"
    using assms by (auto simp: hash_ok_def)
  show "m_id (message_of i h) = i" "m_pluginId (message_of i h) = the (h_pluginId h)"
    "m_deliveryStatus (message_of i h) = the (h_deliveryStatus h)"
    "m_device (message_of i h) = the (h_device h)"
    "m_networkId (message_of i h) = h_networkId h"
    "m_deliveryQueueId (message_of i h) = (case h_deliveryQueueId h of None \<Rightarrow> [] | Some d \<Rightarrow> d)"
    "retry_count (message_of i h) = (case h_retryCount h of None \<Rightarrow> 0 | Some n \<Rightarrow> n)"
    "failure_history (message_of i h) = (case h_failureHistory h of None \<Rightarrow> [] | Some x \<Rightarrow> x)"
    "m_concurrencyRateLimitKey (message_of i h) = h_concurrencyRateLimitKey h"
    "m_priority (message_of i h) = of_int (parseInt_num (the (h_priority h)))"
    "m_phase (message_of i h) = h_phase h"
    "m_correlationId (message_of i h) =
      (if h_correlationId h = Some [] then None else h_correlationId h)"
    using c k by (simp_all add: message_of_def deserializeMessage_def retry_count_def
        failure_history_def)
qed

lemma stored:
  assumes "db_ok cfg r" and "hash_at r i = Some h"
  shows "stored_ok cfg r i h" and "hash_ok cfg h" and "one_queue r i"
  using assms by (auto simp: db_ok_def msg_ok_def stored_ok_def)

lemma message_plugin:
  assumes cfg: "config_ok cfg" and db: "db_ok cfg r" and h: "hash_at r i = Some h"
  obtains p where "hash_plugin cfg h = Some p"
    and "Option.bind (registry_get (cf_registry cfg) (m_pluginId (message_of i h))) delivery_of = Some p"
    and "m_pluginId (message_of i h) = d_id p" and "plugin_for cfg (d_id p) = Some p"
    and "ready_key p (message_of i h) = d_initialQueueKey p (h_networkId h) (the (h_device h))"
proof -
  note ok = stored(2) [OF db h]
  from ok obtain p where p: "hash_plugin cfg h = Some p" by (auto simp: hash_ok_def)
  note pf = hash_plugin_ready [OF cfg p]
  show thesis
    using that [OF p] pf(4,5) message_of_fields [OF ok]
    by (simp add: ready_key_def plugin_for_def)
qed

text \<open>Membership and status agree.\<close>

lemma queue_is_home:
  assumes "db_ok cfg r" and "hash_at r i = Some h" and "in_queue r k i" and "hash_plugin cfg h = Some p"
  shows "k = home_of p h"
  using stored(1) [OF assms(1,2)] assms(3,4) by (simp add: stored_ok_def)

section \<open>Relocating one message\<close>

lemma relocate:
  assumes db: "db_ok cfg r" and ok: "redis_ok r'"
    and hs: "hashes r' = (hashes r)(messageKey m \<mapsto> h')"
    and qs: "\<And>k x. in_queue r' k x \<longleftrightarrow> (if x = m then k = dst else in_queue r k x)"
    and idx: "\<forall>d x. strs r' (indexExternalDeliveryId d) = Some (messageKey x) \<longrightarrow>
      (if x = m then h_deliveryQueueId h' = Some d
       else strs r (indexExternalDeliveryId d) = Some (messageKey x))"
    and slots: "\<forall>c x. rate_key c \<longrightarrow> x \<in> set (sets r' c) \<longleftrightarrow>
      (if x = m then h_concurrencyRateLimitKey h' = Some c else x \<in> set (sets r c))"
    and h': "hash_ok cfg h'" and home: "home_of (the (hash_plugin cfg h')) h' = dst"
    and work: "work_le r r'" and caps: "caps_ok cfg r'"
    and ready: "ready_queue dst \<longrightarrow> dst \<in> set (sets r' listOfInitialQueuesToDistributeFrom)"
  shows "db_ok cfg r'" and "\<And>x. x \<noteq> m \<Longrightarrow> msg_le r r' x"
proof -
  show le: "msg_le r r' x" if "x \<noteq> m" for x
    unfolding msg_le_def untouched_def hash_at_def hs using that qs slots idx by simp
  have mo: "msg_ok cfg r' m"
    unfolding msg_ok_def one_queue_def stored_ok_def hash_at_def hs
    using qs slots idx h' home by simp
  show "db_ok cfg r'"
  proof (rule db_ok_change [of cfg r r' m])
    show "in_queue r k m \<or> k \<in> set (sets r' listOfInitialQueuesToDistributeFrom)"
      if "in_queue r' k m" "ready_queue k" for k
      using that qs [of k m] ready by simp
  qed (use db ok le mo work caps in simp_all)
qed

lemma one_queue_in:
  "one_queue r m \<Longrightarrow> in_queue r src m \<Longrightarrow> in_queue r k m \<longleftrightarrow> k = src"
  unfolding one_queue_def by blast

lemma moved_hash_fields [simp]:
  "h_deliveryStatus (moved_hash st dq h) = Some st"
  "h_deliveryQueueId (moved_hash st dq h) = (if dq = [] then h_deliveryQueueId h else Some dq)"
  "h_pluginId (moved_hash st dq h) = h_pluginId h" "h_device (moved_hash st dq h) = h_device h"
  "h_networkId (moved_hash st dq h) = h_networkId h"
  "h_priority (moved_hash st dq h) = h_priority h"
  "h_commandType (moved_hash st dq h) = h_commandType h"
  "h_retryCount (moved_hash st dq h) = h_retryCount h"
  "h_concurrencyRateLimitKey (moved_hash st dq h) = h_concurrencyRateLimitKey h"
  by (simp_all add: moved_hash_def)

lemma hash_plugin_moved [simp]: "hash_plugin cfg (moved_hash st dq h) = hash_plugin cfg h"
  by (simp add: hash_plugin_def)

text \<open>A move that cannot find the message changes at most an orphan's membership.\<close>

lemma move_no_hash:
  assumes "hash_at r m = None \<or> \<not> in_queue r src m"
  shows "fst (moveMessageBetweenQueues src dst (messageKey m) ikey m sc st dq ex r) = 0"
    and "msg_le r (snd (moveMessageBetweenQueues src dst (messageKey m) ikey m sc st dq ex r)) x"
    and "db_ok cfg r \<Longrightarrow>
      db_ok cfg (snd (moveMessageBetweenQueues src dst (messageKey m) ikey m sc st dq ex r))"
proof -
  let ?mv = "moveMessageBetweenQueues src dst (messageKey m) ikey m sc st dq ex r"
  have mv: "?mv = (0, r) \<or> hash_at r m = None \<and> in_queue r src m \<and> ?mv = (0, r_zrem src m r)"
    using assms move_miss [of r src m] move_orphan [of r src m "messageKey m"]
    by (cases "in_queue r src m") (auto simp: hash_at_def)
  then show "fst ?mv = 0" by auto
  show "msg_le r (snd ?mv) x"
    using mv drop_msg_le [of x m r src] remove_effect [of src m r] by (cases "x = m") auto
  show "db_ok cfg r \<Longrightarrow> db_ok cfg (snd ?mv)"
    using mv db_ok_remove [of cfg r src m] remove_effect [of src m r] by auto
qed

lemma move_with_hash:
  assumes cfg: "config_ok cfg" and db: "db_ok cfg r" and h: "hash_at r m = Some h"
    and q: "in_queue r src m" and p: "hash_plugin cfg h = Some p"
    and dst: "home_of p (moved_hash st dq h) = dst" and ok': "hash_ok cfg (moved_hash st dq h)"
    and fresh: "dq = [] \<or> (\<forall>d. strs r (indexExternalDeliveryId d) \<noteq> Some (messageKey m))"
    and ikey: "ikey = (if dq = [] then [] else indexExternalDeliveryId dq)"
    and r': "r' = snd (moveMessageBetweenQueues src dst (messageKey m) ikey m sc st dq ex r)"
    and r2: "r2 = (if ready_queue dst then sadd listOfInitialQueuesToDistributeFrom dst r' else r')"
  shows "fst (moveMessageBetweenQueues src dst (messageKey m) ikey m sc st dq ex r) = 1"
    and "hash_at r2 m = Some (moved_hash st dq h)" and "in_queue r2 k m \<longleftrightarrow> k = dst"
    and "db_ok cfg r2" and "x \<noteq> m \<Longrightarrow> msg_le r r2 x" and "zscore (zsets r2 dst) m = Some sc"
proof -
  let ?h = "moved_hash st dq h"
  from h have hk: "hashes r (messageKey m) = Some h" by (simp add: hash_at_def)
  obtain r1 where mv: "moveMessageBetweenQueues src dst (messageKey m) ikey m sc st dq ex r = (1, r1)"
    and hs: "hashes r1 = (hashes r)(messageKey m \<mapsto> ?h)"
    and qs: "\<And>q x. in_queue r1 q x \<longleftrightarrow> q = dst \<and> x = m \<or> in_queue r q x \<and> \<not> (q = src \<and> x = m)"
    and st: "strs r1 = (if ikey = [] then strs r else (strs r)(ikey \<mapsto> messageKey m))"
    and se: "sets r1 = sets r" and ok: "redis_ok r \<Longrightarrow> redis_ok r1"
    and sc: "zscore (zsets r1 dst) m = Some sc"
    using move_hit [OF q hk, of dst ikey sc st dq ex] by blast
  have r1: "r' = r1" using r' mv by simp
  note s = stored [OF db h]
  have ikey_iff: "ikey = [] \<longleftrightarrow> dq = []" by (simp add: ikey indexExternalDeliveryId_def)
  have qs': "in_queue r2 k x \<longleftrightarrow> (if x = m then k = dst else in_queue r k x)" for k x
    using qs [of k x] one_queue_in [OF s(3) q, of k] by (auto simp: r2 r1 redis_simps)
  have hs2: "hashes r2 = (hashes r)(messageKey m \<mapsto> ?h)" by (simp add: r2 r1 redis_simps hs)
  have idx: "\<forall>d x. strs r2 (indexExternalDeliveryId d) = Some (messageKey x) \<longrightarrow>
      (if x = m then h_deliveryQueueId ?h = Some d
       else strs r (indexExternalDeliveryId d) = Some (messageKey x))"
    using fresh s(1) unfolding stored_ok_def
    by (auto simp: r2 r1 redis_simps st ikey split: if_splits)
  have slots: "\<forall>c x. rate_key c \<longrightarrow> x \<in> set (sets r2 c) \<longleftrightarrow>
      (if x = m then h_concurrencyRateLimitKey ?h = Some c else x \<in> set (sets r c))"
    using s(1) by (auto simp: r2 r1 redis_simps se stored_ok_def)
  have caps: "caps_ok cfg r2"
    using db by (auto simp: db_ok_def r2 r1 se sadd_def intro: caps_le_ok simp: caps_le_def)
  have work: "work_le r r2" by (auto simp: work_le_def r2 r1 redis_simps se)
  have okr: "redis_ok r2" using db ok by (simp add: db_ok_def r2 r1 redis_simps)
  have home: "home_of (the (hash_plugin cfg ?h)) ?h = dst" using p dst by simp
  have ready: "ready_queue dst \<longrightarrow> dst \<in> set (sets r2 listOfInitialQueuesToDistributeFrom)"
    by (simp add: r2 redis_simps)
  note rel = relocate [OF db okr hs2 qs' idx slots ok' home work caps ready]
  show "fst (moveMessageBetweenQueues src dst (messageKey m) ikey m sc st dq ex r) = 1"
    using mv by simp
  show "hash_at r2 m = Some ?h" by (simp add: hash_at_def hs2)
  show "in_queue r2 k m \<longleftrightarrow> k = dst" using qs' by simp
  show "db_ok cfg r2" by (rule rel(1))
  show "msg_le r r2 x" if "x \<noteq> m" by (rule rel(2) [OF that])
  show "zscore (zsets r2 dst) m = Some sc" using sc by (simp add: r2 r1 redis_simps)
qed

section \<open>What a handler keeps\<close>

text \<open>
  \<open>kept cfg X s s'\<close>: the store and the outbox are well formed after the step, the registry of sends
  is as before, and no message of a running send outside \<open>X\<close> is touched.
\<close>

definition kept :: "engineConfig \<Rightarrow> msg_id set \<Rightarrow> engine \<Rightarrow> engine \<Rightarrow> bool" where
  "kept cfg X s s' \<longleftrightarrow> db_ok cfg (db s') \<and> webhook_ok (whdb s') \<and> running s' = running s \<and>
     sends s' = sends s \<and> next_token s' = next_token s \<and>
     (\<forall>sd \<in> set (running s). send_id sd \<notin> X \<longrightarrow> untouched (db s) (db s') (send_id sd))"

lemma untouched_trans: "untouched r r' m \<Longrightarrow> untouched r' r'' m \<Longrightarrow> untouched r r'' m"
  by (auto simp: untouched_def)

lemma kept_refl: "engine_ok cfg s \<Longrightarrow> kept cfg X s s"
  by (simp add: kept_def engine_ok_def)

lemma kept_trans: "kept cfg X s s' \<Longrightarrow> kept cfg X s' s'' \<Longrightarrow> kept cfg X s s''"
  unfolding kept_def by (auto intro: untouched_trans)

lemma kept_engine_ok:
  assumes "engine_ok cfg s" and "kept cfg {} s s'"
  shows "engine_ok cfg s'"
proof -
  have "sends_ok cfg s" using assms(1) by (simp add: engine_ok_def)
  then have "sends_ok cfg s'"
    by (rule sends_ok_frame) (use assms(2) in \<open>auto simp: kept_def\<close>)
  then show ?thesis using assms(2) by (simp add: kept_def engine_ok_def)
qed

text \<open>A message outside the \<open>ns\<close> stage has no running send.\<close>

lemma not_running:
  assumes "engine_ok cfg s" and "hash_at (db s) m = Some h" and "\<not> in_queue (db s) QUEUE_NS_KEY m"
  shows "m \<notin> send_id ` set (running s)"
  using assms by (auto simp: engine_ok_def sends_ok_def)

lemma in_other_queue:
  assumes "engine_ok cfg s" and "in_queue (db s) k m" and "k \<noteq> QUEUE_NS_KEY"
  shows "\<not> in_queue (db s) QUEUE_NS_KEY m"
  using assms by (auto simp: engine_ok_def db_ok_def msg_ok_def one_queue_def)

lemma kept_one:
  assumes "engine_ok cfg s" and "db_ok cfg r'" and "\<And>x. x \<noteq> m \<Longrightarrow> msg_le (db s) r' x"
    and "m \<notin> send_id ` set (running s) \<or> m \<in> X \<or> msg_le (db s) r' m"
    and "db s' = r'" and "whdb s' = whdb s" and "running s' = running s" and "sends s' = sends s"
    and "next_token s' = next_token s"
  shows "kept cfg X s s'"
  unfolding kept_def
proof (intro conjI ballI impI)
  fix sd assume "sd \<in> set (running s)" and "send_id sd \<notin> X"
  then show "untouched (db s) (db s') (send_id sd)"
    using assms(3) [of "send_id sd"] assms(4,5) by (cases "send_id sd = m") (auto simp: msg_le_def)
qed (use assms in \<open>simp_all add: engine_ok_def\<close>)

lemma kept_all:
  assumes "engine_ok cfg s" and "db_ok cfg r'" and "\<And>x. msg_le (db s) r' x"
    and "db s' = r'" and "whdb s' = whdb s" and "running s' = running s" and "sends s' = sends s"
    and "next_token s' = next_token s"
  shows "kept cfg X s s'"
  by (rule kept_one [OF assms(1,2) assms(3) _ assms(4-8)]) (use assms(3) in blast)

lemma kept_emit:
  "engine_ok cfg s \<Longrightarrow> kept cfg X s (snd (emitDeliveryEvent cfg w m s))"
  by (simp add: kept_def engine_ok_def emit_webhook_ok)

lemma kept_metrics:
  "engine_ok cfg s \<Longrightarrow> kept cfg X s (recordStageClaimMiss st s)"
  "engine_ok cfg s \<Longrightarrow> kept cfg X s (recordMessageTerminal o' n s)"
  "engine_ok cfg s \<Longrightarrow> kept cfg X s (recordIngressUnhandled i s)"
  by (simp_all add: kept_def engine_ok_def)

lemma engine_ok_metrics:
  "engine_ok cfg (recordMessageTerminal o' n s) = engine_ok cfg s"
  "engine_ok cfg (recordStageClaimMiss st s) = engine_ok cfg s"
  by (simp_all add: engine_ok_def sends_ok_def)

section \<open>Purge and drop\<close>

lemma purge_msg_le: "msg_le (db s) (db (purge m p s)) x"
proof -
  have "untouched (db s) (db (purge m p s)) x"
    by (cases "x = m_id m")
       (simp_all add: untouched_def hash_at_def purge_hash purge_queue purge_sets del: STAGES.simps)
  moreover have "in_queue (db s) q x" if "in_queue (db (purge m p s)) q x" for q
    using that by (simp add: purge_queue)
  moreover have "strs (db s) k = Some v" if "strs (db (purge m p s)) k = Some v" for k v
    using that by (rule purge_strs(1))
  ultimately show ?thesis unfolding msg_le_def by blast
qed

lemma purge_work: "work_le (db s) (db (purge m p s)) \<or>
    m_concurrencyRateLimitKey m = Some listOfInitialQueuesToDistributeFrom"
  by (auto simp: work_le_def purge_sets)

lemma kept_purge:
  assumes "engine_ok cfg s" and "pred_option rate_key (m_concurrencyRateLimitKey m)"
  shows "kept cfg X s (purge m p s)"
proof (rule kept_all [OF assms(1) _ _ refl])
  show "db_ok cfg (db (purge m p s))"
  proof (rule db_ok_shrink)
    show "db_ok cfg (db s)" using assms(1) by (simp add: engine_ok_def)
    then show "redis_ok (db (purge m p s))" by (simp add: db_ok_def purge_redis_ok)
    show "work_le (db s) (db (purge m p s))" using purge_work [of s m p] assms(2) by auto
    show "caps_le (db s) (db (purge m p s))" by (simp add: caps_le_def purge_set_length)
  qed (rule purge_msg_le)
qed (simp_all add: purge_msg_le)

lemma kept_drop:
  assumes "engine_ok cfg s"
    and "m \<notin> send_id ` set (running s) \<or> \<not> in_queue (db s) k m \<or> hash_at (db s) m = None"
  shows "kept cfg X s (drop_member k m s)"
proof (rule kept_one [OF assms(1) _ _ _ refl])
  let ?r = "snd (removeMessageFromQueue k m (db s))"
  have r: "db (drop_member k m s) = ?r" by (simp add: drop_member_def)
  show "db_ok cfg (db (drop_member k m s))"
    using assms(1) by (simp add: r db_ok_remove engine_ok_def)
  show "msg_le (db s) (db (drop_member k m s)) x" if "x \<noteq> m" for x
    using that unfolding r by (intro drop_msg_le) simp
  show "m \<notin> send_id ` set (running s) \<or> m \<in> X \<or> msg_le (db s) (db (drop_member k m s)) m"
    using assms(2) drop_msg_le [of m m "db s" k] remove_effect [of k m "db s"] unfolding r by auto
qed (simp_all add: drop_member_def)

lemma kept_reschedule: "engine_ok cfg s \<Longrightarrow> kept cfg X s (reschedule cfg w st msg age p s)"
  by (rule kept_all [OF _ _ _ refl])
     (auto simp: reschedule_def Let_def msg_le_zaddXx db_ok_zaddXx engine_ok_def)

section \<open>Advance and requeue\<close>

lemma advance_unfold:
  assumes "nextStage (d_pattern p) from_stage = Some nx"
  shows "\<exists>mv. mv = moveMessageBetweenQueues (stageKeyFor (STAGES from_stage) (d_id p))
        (stageKeyFor (STAGES nx) (d_id p)) (messageKey m)
        (case dq of None \<Rightarrow> [] | Some d \<Rightarrow> if d = [] then [] else indexExternalDeliveryId d) m
        (w_now w + st_entryWaitMs (STAGES nx) (entry_context cfg w p n))
        (st_entryStatus (STAGES nx)) (case dq of None \<Rightarrow> [] | Some d \<Rightarrow> d)
        (ttl_instant (w_now w) (messageTtlSeconds (cf_delivery cfg))) (db s) \<and>
      advance cfg w m p from_stage dq n s = (Inr (fst mv = 1),
        (if fst mv = 1 then s\<lparr>db := snd mv\<rparr> else recordStageClaimMiss from_stage (s\<lparr>db := snd mv\<rparr>)))"
  using assms
  by (auto simp: advance_def move_def Let_def split: prod.splits option.splits
      simp del: STAGES.simps)

lemma advance_fields:
  "whdb (snd (advance cfg w m p st dq n s)) = whdb s"
  "running (snd (advance cfg w m p st dq n s)) = running s"
  "sends (snd (advance cfg w m p st dq n s)) = sends s"
  "next_token (snd (advance cfg w m p st dq n s)) = next_token s"
  by (auto simp: advance_def Let_def split: option.split prod.split simp del: STAGES.simps)

end
