(* ===== verification/Handler_Preservation.thy ===== *)
theory Handler_Preservation
  imports Engine_Preservation
begin

text \<open>
  Every handler keeps the invariant: the transitions first, then the retry decision, incoming events,
  the stage actions and a member's turn, distribution, the settling of a send, cancel and enqueue.
\<close>

section \<open>Transitions\<close>

text \<open>A status change of a well-formed hash.\<close>

lemma hash_ok_moved:
  assumes "hash_ok cfg h" and "\<not> terminal_status st"
    and "before_send st \<longrightarrow> dq = [] \<and> before_send (the (h_deliveryStatus h))"
    and "\<not> before_send st \<longrightarrow> dq \<noteq> [] \<or> \<not> before_send (the (h_deliveryStatus h))"
    and "st \<in> {QUEUED, TO_RETRY} \<longrightarrow> h_concurrencyRateLimitKey h = None"
  shows "hash_ok cfg (moved_hash st dq h)"
  using assms by (auto simp: hash_ok_def complete_hash_def)

text \<open>The side conditions of a move that carries no external id.\<close>

lemma no_id: "[] = [] \<or> P" and no_key: "[] = (if [] = [] then [] else k)"
  by simp_all

lemma kept_move:
  assumes ok: "engine_ok cfg s"
    and miss: "hash_at (db s) m = None \<or> \<not> in_queue (db s) src m \<Longrightarrow>
      db s' = snd (moveMessageBetweenQueues src dst (messageKey m) ikey m sc st dq ex (db s))"
    and hit: "\<And>h. hash_at (db s) m = Some h \<Longrightarrow> in_queue (db s) src m \<Longrightarrow>
      (m \<notin> send_id ` set (running s) \<or> m \<in> X) \<and> db_ok cfg (db s') \<and>
      (\<forall>x. x \<noteq> m \<longrightarrow> msg_le (db s) (db s') x)"
    and "whdb s' = whdb s" and "running s' = running s" and "sends s' = sends s"
    and "next_token s' = next_token s"
  shows "kept cfg X s s'"
proof (cases "hash_at (db s) m = None \<or> \<not> in_queue (db s) src m")
  case True
  have db: "db_ok cfg (db s)" using ok by (simp add: engine_ok_def)
  show ?thesis
    by (rule kept_all [OF ok _ _ refl assms(4-7)])
       (use move_no_hash(2) [OF True] move_no_hash(3) [OF True db] miss [OF True] in simp_all)
next
  case False
  then obtain h where h: "hash_at (db s) m = Some h" "in_queue (db s) src m" by auto
  from hit [OF this] show ?thesis
    by (intro kept_one [OF ok _ _ _ refl assms(4-7)]) auto
qed

lemma in_stage_status:
  assumes "config_ok cfg" and "db_ok cfg r" and "hash_at r m = Some h"
    and "in_queue r (stageKeyFor (STAGES st) q) m" and "hash_plugin cfg h = Some p"
  shows "stageForStatus (the (h_deliveryStatus h)) (d_pattern p) = Some st \<and>
    (st = St_awaitingTask \<longrightarrow> d_id p = q)"
  using queue_is_home [OF assms(2-5)] home_stage [OF assms(1,5), of st q] by simp

lemma home_moved:
  assumes "stageForStatus st (d_pattern p) = Some sg"
  shows "home_of p (moved_hash st dq h) = stageKeyFor (STAGES sg) (d_id p)"
  using assms by (simp add: home_of_def)

text \<open>PUSH mid-hop: relay-node wait to device wait, whatever plugin the event came through.\<close>

lemma kept_advance_relayNode:
  assumes cfg: "config_ok cfg" and ok: "engine_ok cfg s" and push: "d_pattern p = PUSH"
  shows "kept cfg X s (snd (advance cfg w m p St_relayNode None n s))"
proof -
  let ?src = "stageKeyFor (STAGES St_relayNode) (d_id p)"
  let ?dst = "stageKeyFor (STAGES St_device) (d_id p)"
  have nx: "nextStage (d_pattern p) St_relayNode = Some St_device" by (simp add: push nextStage_simps)
  have db: "db_ok cfg (db s)" using ok by (simp add: engine_ok_def)
  obtain sc ex where adv: "db (snd (advance cfg w m p St_relayNode None n s)) =
      snd (moveMessageBetweenQueues ?src ?dst (messageKey m) [] m sc SENT_TO_DEVICE [] ex (db s))"
    using advance_unfold [OF nx, of m None w cfg n s] by (auto split: if_splits)
  show ?thesis
  proof (rule kept_move [OF ok, where src = ?src])
    show "db (snd (advance cfg w m p St_relayNode None n s)) =
      snd (moveMessageBetweenQueues ?src ?dst (messageKey m) [] m sc SENT_TO_DEVICE [] ex (db s))"
      by (rule adv)
    fix h assume h: "hash_at (db s) m = Some h" and q: "in_queue (db s) ?src m"
    note s = stored [OF db h]
    from s(2) obtain pm where pm: "hash_plugin cfg h = Some pm" by (auto simp: hash_ok_def)
    from in_stage_status [OF cfg db h q pm]
    have st: "stageForStatus (the (h_deliveryStatus h)) (d_pattern pm) = Some St_relayNode" by simp
    then have st1: "the (h_deliveryStatus h) = DELIVERED_TO_NS"
      by (cases "the (h_deliveryStatus h)"; cases "d_pattern pm") auto
    have dst: "home_of pm (moved_hash SENT_TO_DEVICE [] h) = ?dst"
      by (subst home_moved [where sg = St_device]) (simp_all add: stageKeyFor_simps del: STAGES.simps)
    have h': "hash_ok cfg (moved_hash SENT_TO_DEVICE [] h)"
      by (rule hash_ok_moved [OF s(2)]) (simp_all add: terminal_status_def before_send_def st1)
    note mv = move_with_hash [OF cfg db h q pm dst h' no_id no_key refl refl,
        where sc = sc and ex = ex]
    have notns: "?src \<noteq> QUEUE_NS_KEY" by (simp add: stageKeyFor_def QUEUE_NS_KEY_def)
    have r2: "(if ready_queue ?dst then sadd listOfInitialQueuesToDistributeFrom ?dst
        (snd (moveMessageBetweenQueues ?src ?dst (messageKey m) [] m sc SENT_TO_DEVICE [] ex (db s)))
      else snd (moveMessageBetweenQueues ?src ?dst (messageKey m) [] m sc SENT_TO_DEVICE [] ex (db s)))
      = db (snd (advance cfg w m p St_relayNode None n s))"
      by (simp add: adv del: STAGES.simps)
    show "(m \<notin> send_id ` set (running s) \<or> m \<in> X) \<and>
        db_ok cfg (db (snd (advance cfg w m p St_relayNode None n s))) \<and>
        (\<forall>x. x \<noteq> m \<longrightarrow> msg_le (db s) (db (snd (advance cfg w m p St_relayNode None n s))) x)"
      using mv(4,5) [unfolded r2] not_running [OF ok h in_other_queue [OF ok q notns]] by simp
  qed (simp_all add: advance_fields)
qed

text \<open>After a send: \<open>ns\<close> to the next stage of the owner's pipeline, with the external id.\<close>

lemma kept_advance_ns:
  assumes cfg: "config_ok cfg" and ok: "engine_ok cfg s" and d: "d \<noteq> []" and X: "m \<in> X"
    and own: "\<And>h. hash_at (db s) m = Some h \<Longrightarrow> hash_plugin cfg h = Some p"
  shows "kept cfg X s (snd (advance cfg w m p St_ns (Some d) n s))"
proof -
  obtain nx where nx: "nextStage (d_pattern p) St_ns = Some nx"
    and sg: "stageForStatus DELIVERED_TO_NS (d_pattern p) = Some nx"
    and est: "st_entryStatus (STAGES nx) = DELIVERED_TO_NS"
    by (cases "d_pattern p") (simp_all add: nextStage_simps)
  let ?src = "stageKeyFor (STAGES St_ns) (d_id p)" and ?dst = "stageKeyFor (STAGES nx) (d_id p)"
  let ?s' = "snd (advance cfg w m p St_ns (Some d) n s)"
  have db: "db_ok cfg (db s)" using ok by (simp add: engine_ok_def)
  obtain sc ex where adv: "db ?s' =
      snd (moveMessageBetweenQueues ?src ?dst (messageKey m) (indexExternalDeliveryId d) m sc
        DELIVERED_TO_NS d ex (db s))"
    using advance_unfold [OF nx, of m "Some d" w cfg n s] d est by (auto split: if_splits)
  show ?thesis
  proof (rule kept_move [OF ok, where src = ?src])
    show "db ?s' = snd (moveMessageBetweenQueues ?src ?dst (messageKey m)
        (indexExternalDeliveryId d) m sc DELIVERED_TO_NS d ex (db s))" by (rule adv)
    fix h assume h: "hash_at (db s) m = Some h" and q: "in_queue (db s) ?src m"
    note s = stored [OF db h] and pm = own [OF h]
    from in_stage_status [OF cfg db h q pm]
    have st1: "the (h_deliveryStatus h) = SENT_TO_NS"
      by (cases "the (h_deliveryStatus h)"; cases "d_pattern p") auto
    have dst: "home_of p (moved_hash DELIVERED_TO_NS d h) = ?dst"
      by (rule home_moved) (rule sg)
    have h': "hash_ok cfg (moved_hash DELIVERED_TO_NS d h)"
      by (rule hash_ok_moved [OF s(2)]) (use d in \<open>simp_all add: terminal_status_def before_send_def\<close>)
    have "h_deliveryQueueId h = None" using s(2) st1 by (simp add: hash_ok_def before_send_def)
    then have fresh: "d = [] \<or> (\<forall>d'. strs (db s) (indexExternalDeliveryId d') \<noteq> Some (messageKey m))"
      using s(1) by (auto simp: stored_ok_def)
    have ikey: "indexExternalDeliveryId d = (if d = [] then [] else indexExternalDeliveryId d)"
      using d by simp
    note mv = move_with_hash [OF cfg db h q pm dst h' fresh ikey refl refl,
        where sc = sc and ex = ex]
    show "(m \<notin> send_id ` set (running s) \<or> m \<in> X) \<and> db_ok cfg (db ?s') \<and>
        (\<forall>x. x \<noteq> m \<longrightarrow> msg_le (db s) (db ?s') x)"
      using mv(4,5) X by (simp add: adv del: STAGES.simps)
  qed (simp_all add: advance_fields)
qed

lemma kept_requeue:
  assumes cfg: "config_ok cfg" and ok: "engine_ok cfg s" and h: "hash_at (db s) m = Some h"
    and p: "hash_plugin cfg h = Some p"
    and dst: "dst = d_initialQueueKey p (h_networkId h) (the (h_device h))"
  shows "kept cfg X s (snd (requeue w m QUEUE_RETRY_KEY dst prio s))"
proof -
  let ?s' = "snd (requeue w m QUEUE_RETRY_KEY dst prio s)"
  let ?mv = "moveMessageBetweenQueues QUEUE_RETRY_KEY dst (messageKey m) [] m (- prio) QUEUED []
      (ttl_instant (w_now w) 0) (db s)"
  have db: "db_ok cfg (db s)" using ok by (simp add: engine_ok_def)
  have req: "db ?s' = (if fst ?mv = 1 then sadd listOfInitialQueuesToDistributeFrom dst (snd ?mv)
      else snd ?mv)"
    by (cases ?mv) (simp add: requeue_def requeueMessage_def Let_def)
  have frame: "whdb ?s' = whdb s" "running ?s' = running s" "sends ?s' = sends s"
    "next_token ?s' = next_token s"
    by (auto simp: requeue_def Let_def split: prod.split)
  show ?thesis
  proof (rule kept_move [OF ok, where src = QUEUE_RETRY_KEY])
    assume "hash_at (db s) m = None \<or> \<not> in_queue (db s) QUEUE_RETRY_KEY m"
    from move_no_hash(1) [OF this, of dst "[]" "- prio" QUEUED "[]" "ttl_instant (w_now w) 0"]
    show "db ?s' = snd ?mv" unfolding req by simp
  next
    fix h1 assume "hash_at (db s) m = Some h1" and q: "in_queue (db s) QUEUE_RETRY_KEY m"
    note s = stored [OF db h]
    have st: "the (h_deliveryStatus h) = TO_RETRY"
      using queue_is_home [OF db h q p] home_retry [OF cfg p] by simp
    have home: "home_of p (moved_hash QUEUED [] h) = dst"
      by (simp add: home_of_def dst)
    have rq: "ready_queue dst" using hash_plugin_ready(1) [OF cfg p] by (simp add: dst)
    have h': "hash_ok cfg (moved_hash QUEUED [] h)"
      by (rule hash_ok_moved [OF s(2)])
         (use s(2) st in \<open>simp_all add: terminal_status_def before_send_def hash_ok_def\<close>)
    note mv = move_with_hash [OF cfg db h q p home h' no_id no_key refl refl,
        where sc = "- prio" and ex = "ttl_instant (w_now w) 0"]
    have "QUEUE_RETRY_KEY \<noteq> QUEUE_NS_KEY" by (simp add: key_simps)
    note nr = not_running [OF ok h in_other_queue [OF ok q this]]
    show "(m \<notin> send_id ` set (running s) \<or> m \<in> X) \<and> db_ok cfg (db ?s') \<and>
        (\<forall>x. x \<noteq> m \<longrightarrow> msg_le (db s) (db ?s') x)"
      using mv(1,4,5) rq nr by (simp add: req)
  qed (simp_all add: frame)
qed

text \<open>Entering retry, which is only reached with retries left.\<close>

lemma hash_ok_retried:
  assumes "hash_ok cfg h" and "n < maxRetries (cf_delivery cfg)"
  shows "hash_ok cfg (retried_hash n history h)"
  using assms
  by (auto simp: hash_ok_def complete_hash_def hash_plugin_def retried_hash_fields
      terminal_status_def before_send_def)

lemma kept_enterRetry:
  assumes cfg: "config_ok cfg" and ok: "engine_ok cfg s"
    and h: "hash_at (db s) m = Some h" and n: "n < maxRetries (cf_delivery cfg)"
    and nr: "m \<notin> send_id ` set (running s) \<or> m \<in> X \<or> \<not> in_queue (db s) fromKey m"
  shows "kept cfg X s (snd (enterRetry cfg w m fromKey n history p s))"
proof (cases "in_queue (db s) fromKey m")
  case False
  then show ?thesis using ok by (simp add: enterRetry_miss kept_metrics)
next
  case q: True
  have db: "db_ok cfg (db s)" using ok by (simp add: engine_ok_def)
  note s = stored [OF db h]
  from s(2) obtain pm where pm: "hash_plugin cfg h = Some pm" by (auto simp: hash_ok_def)
  let ?h = "retried_hash n history h"
  have pm': "hash_plugin cfg ?h = Some pm" using pm by (simp add: hash_plugin_def retried_hash_fields)
  from h have hk: "hashes (db s) (messageKey m) = Some h" by (simp add: hash_at_def)
  obtain s' where s': "enterRetry cfg w m fromKey n history p s = (True, s')"
    and hs: "hashes (db s') = (hashes (db s))(messageKey m \<mapsto> ?h)"
    and qs: "\<And>k x. in_queue (db s') k x \<longleftrightarrow> k = QUEUE_RETRY_KEY \<and> x = m \<or>
      in_queue (db s) k x \<and> \<not> (k = fromKey \<and> x = m)"
    and idx: "\<And>d v. strs (db s') (indexExternalDeliveryId d) = Some v \<longleftrightarrow>
      strs (db s) (indexExternalDeliveryId d) = Some v \<and> \<not> (h_deliveryQueueId h = Some d \<and> d \<noteq> [])"
    and se: "\<And>k y. y \<in> set (sets (db s') k) \<longleftrightarrow> y \<in> set (sets (db s) k) \<and>
      \<not> (h_concurrencyRateLimitKey h = Some k \<and> k \<noteq> [] \<and> y = m)"
    and len: "\<And>k. length (sets (db s') k) \<le> length (sets (db s) k)"
    and rok: "redis_ok (db s) \<Longrightarrow> redis_ok (db s')"
    and frame: "whdb s' = whdb s" "sends s' = sends s" "running s' = running s"
      "next_token s' = next_token s"
    by (rule enterRetry_hit [OF q hk, of cfg w n history p], rule that, assumption+)
  have qs': "in_queue (db s') k x \<longleftrightarrow> (if x = m then k = QUEUE_RETRY_KEY else in_queue (db s) k x)"
    for k x using qs [of k x] one_queue_in [OF s(3) q, of k] by auto
  have idx': "\<forall>d x. strs (db s') (indexExternalDeliveryId d) = Some (messageKey x) \<longrightarrow>
      (if x = m then h_deliveryQueueId ?h = Some d
       else strs (db s) (indexExternalDeliveryId d) = Some (messageKey x))"
  proof (intro allI impI)
    fix d x assume a: "strs (db s') (indexExternalDeliveryId d) = Some (messageKey x)"
    have "h_deliveryQueueId h = Some d" if "x = m"
      using s(1) a that unfolding idx by (simp add: stored_ok_def)
    moreover have "h_deliveryQueueId h \<noteq> Some []"
      using s(2) by (auto simp: hash_ok_def before_send_def)
    ultimately show "if x = m then h_deliveryQueueId ?h = Some d
       else strs (db s) (indexExternalDeliveryId d) = Some (messageKey x)"
      using a unfolding idx by auto
  qed
  have slots: "\<forall>c x. rate_key c \<longrightarrow> x \<in> set (sets (db s') c) \<longleftrightarrow>
      (if x = m then h_concurrencyRateLimitKey ?h = Some c else x \<in> set (sets (db s) c))"
    using s(1) by (auto simp: se stored_ok_def retried_hash_fields split: if_splits)
  have conc: "h_concurrencyRateLimitKey h \<noteq> Some listOfInitialQueuesToDistributeFrom"
    using s(2) by (auto simp: hash_ok_def)
  have work: "work_le (db s) (db s')" using conc by (auto simp: work_le_def se)
  have caps: "caps_ok cfg (db s')"
    using db caps_le_ok [of cfg "db s" "db s'"] len by (simp add: db_ok_def caps_le_def)
  have home: "home_of (the (hash_plugin cfg ?h)) ?h = QUEUE_RETRY_KEY"
    by (simp add: pm' home_of_def retried_hash_fields stageKeyFor_def)
  have "redis_ok (db s')" using db rok by (simp add: db_ok_def)
  note rel = relocate [OF db this hs qs' idx' slots hash_ok_retried [OF s(2) n] home work caps]
  show ?thesis
    unfolding s' snd_conv
    by (rule kept_one [OF ok _ _ _ refl, where m = m])
       (use rel nr q frame in auto)
qed

end
