(* ===== verification/Handler_Invariants.thy ===== *)
theory Handler_Invariants
  imports Handler_Preservation
begin

text \<open>
  The handlers themselves: the retry decision, incoming events, the stage actions, a member's turn,
  distribution, the settling of a send, cancel and enqueue keep \<open>engine_ok\<close>.
\<close>

section \<open>Retry or fail\<close>

lemma kept_then:
  assumes "engine_ok cfg s" and "kept cfg {} s s1" and "engine_ok cfg s1 \<Longrightarrow> kept cfg X s1 s2"
  shows "kept cfg X s s2"
proof -
  have "kept cfg X s s1" using assms(2) by (simp add: kept_def)
  then show ?thesis using kept_trans assms(3) [OF kept_engine_ok [OF assms(1,2)]] by blast
qed

lemma kept_notify_purge:
  assumes "engine_ok cfg s" and "pred_option rate_key (m_concurrencyRateLimitKey m)"
  shows "kept cfg X s (purge m p (recordMessageTerminal o' n (snd (emitDeliveryEvent cfg w ev s))))"
proof (rule kept_then [OF assms(1) kept_emit [OF assms(1)]])
  assume "engine_ok cfg (snd (emitDeliveryEvent cfg w ev s))"
  then show "kept cfg X (snd (emitDeliveryEvent cfg w ev s))
      (purge m p (recordMessageTerminal o' n (snd (emitDeliveryEvent cfg w ev s))))"
    using kept_purge [of cfg "recordMessageTerminal o' n (snd (emitDeliveryEvent cfg w ev s))" m X p]
      assms(2)
    by (simp add: engine_ok_metrics kept_def)
qed

lemma message_of_rate:
  "hash_ok cfg h \<Longrightarrow> pred_option rate_key (m_concurrencyRateLimitKey (message_of i h))"
  by (subst message_of_fields(9), assumption) (simp add: hash_ok_def)

lemma engine_db: "engine_ok cfg s \<Longrightarrow> db_ok cfg (db s)"
  by (simp add: engine_ok_def)

lemma kept_retryOrFail:
  assumes cfg: "config_ok cfg" and ok: "engine_ok cfg s"
    and nr: "m \<notin> send_id ` set (running s) \<or> m \<in> X \<or> \<not> in_queue (db s) q m"
  shows "kept cfg X s (snd (retryOrFail cfg w m q context p s))"
proof (cases "hash_at (db s) m")
  case None
  then show ?thesis using ok by (simp add: retryOrFail_def load_none kept_refl)
next
  case h: (Some h)
  note s = stored [OF engine_db [OF ok] h]
  let ?msg = "message_of m h"
  note load = load_hash [OF engine_db [OF ok] h]
  show ?thesis
  proof (cases "is_final_failure cfg context (retry_count ?msg)")
    case True
    let ?ev = "partial_of (?msg\<lparr>m_failureHistory := Some
        (failure_entry (w_now w) (m_deliveryStatus ?msg) context True # failure_history ?msg),
        m_deliveryStatus := DELIVERY_FAILED\<rparr>)"
    show ?thesis
      using kept_notify_purge [OF ok message_of_rate [OF s(2), of m], where X = X and p = p
          and o' = "Terminal DELIVERY_FAILED" and n = "retry_count ?msg" and w = w and ev = ?ev] kept_emit [OF ok, of X w ?ev]
      by (auto simp: retryOrFail_def load Let_def True split: prod.split sum.split)
  next
    case False
    then have "retry_count ?msg < maxRetries (cf_delivery cfg)"
      by (simp add: is_final_failure_def)
    note er = kept_enterRetry [OF cfg ok h this nr]
    show ?thesis
      using er [where w = w and p = p and history = "failure_entry (w_now w) (m_deliveryStatus ?msg) context False #
          failure_history ?msg"]
      by (auto simp: retryOrFail_def load Let_def False split: prod.split)
  qed
qed

section \<open>Incoming events\<close>

lemma indexed_not_running:
  assumes cfg: "config_ok cfg" and ok: "engine_ok cfg s"
    and i: "getMessageIdFromDeliveryQueueId d (db s) = Some m" and h: "hash_at (db s) m = Some h"
  shows "m \<notin> send_id ` set (running s)"
proof -
  have "strs (db s) (indexExternalDeliveryId d) = Some (messageKey m)"
    using i messageIdFromKey_Some
    by (cases "strs (db s) (indexExternalDeliveryId d)")
       (auto simp: getMessageIdFromDeliveryQueueId_def)
  note s = stored [OF engine_db [OF ok] h]
  have "h_deliveryQueueId h = Some d"
    using s(1) \<open>strs (db s) (indexExternalDeliveryId d) = Some (messageKey m)\<close>
    by (simp add: stored_ok_def)
  then have st: "the (h_deliveryStatus h) \<noteq> SENT_TO_NS" using s(2) by (auto simp: hash_ok_def before_send_def)
  from s(2) obtain p where p: "hash_plugin cfg h = Some p" by (auto simp: hash_ok_def)
  have "\<not> in_queue (db s) QUEUE_NS_KEY m"
    using queue_is_home [OF engine_db [OF ok] h _ p, of QUEUE_NS_KEY] home_ns [OF cfg p] st by auto
  then show ?thesis by (rule not_running [OF ok h])
qed

lemma kept_nack:
  assumes cfg: "config_ok cfg" and ok: "engine_ok cfg s" and sol: "\<not> e_unsolicited e"
    and d: "e_deliveryQueueId e = Some d" "d \<noteq> []" and m: "getMessageIdFromDeliveryQueueId d (db s) = Some m"
    and nack: "e_deliveryStatus e = DELIVERY_FAILED"
  shows "kept cfg X s (snd (processEvent cfg w e p s))"
proof (cases "hash_at (db s) m")
  case None
  then show ?thesis using sol d m nack kept_refl [OF ok, of X] by (simp add: processEvent_def load_none Let_def)
next
  case h: (Some h)
  note load = load_hash [OF engine_db [OF ok] h]
  show ?thesis
  proof (cases "stageForStatus (m_deliveryStatus (message_of m h)) (d_pattern p)")
    case None
    then show ?thesis using sol d m nack kept_refl [OF ok, of X] by (simp add: processEvent_def load Let_def)
  next
    case (Some st)
    then show ?thesis
      using kept_retryOrFail [OF cfg ok, of m X "stageKeyFor (STAGES st) (d_id p)" w
          "case e_failureContext e of None \<Rightarrow> default_nack | Some c \<Rightarrow> c" p]
        indexed_not_running [OF cfg ok m h] sol d m nack
      by (simp add: processEvent_def load Let_def del: STAGES.simps)
  qed
qed

lemma kept_success:
  assumes ok: "engine_ok cfg s" and sol: "\<not> e_unsolicited e"
    and d: "e_deliveryQueueId e = Some d" "d \<noteq> []" and m: "getMessageIdFromDeliveryQueueId d (db s) = Some m"
    and success: "e_deliveryStatus e = DELIVERY_SUCCESSFUL"
  shows "kept cfg X s (snd (processEvent cfg w e p s))"
proof (cases "hash_at (db s) m")
  case None
  then show ?thesis using sol d m success kept_refl [OF ok, of X] by (simp add: processEvent_def load_none)
next
  case h: (Some h)
  note load = load_hash [OF engine_db [OF ok] h]
  note s = stored [OF engine_db [OF ok] h]
  let ?ev = "partial_of (resolved_message (w_now w) e (message_of m h))"
  show ?thesis
    using kept_notify_purge [OF ok message_of_rate [OF s(2), of m], where X = X
        and p = p and o' = "Terminal DELIVERY_SUCCESSFUL" and w = w and ev = ?ev
        and n = "retry_count (message_of m h)"]
      kept_emit [OF ok, of X w ?ev] sol d m success
    by (auto simp: processEvent_def load split: prod.split sum.split)
qed

lemma kept_processEvent:
  assumes cfg: "config_ok cfg" and ok: "engine_ok cfg s"
  shows "kept cfg X s (snd (processEvent cfg w e p s))"
proof -
  note refl' = kept_refl [OF ok, of X]
  consider (unsolicited) "e_unsolicited e"
    | (unnamed) "\<not> e_unsolicited e" "e_deliveryQueueId e = None \<or> e_deliveryQueueId e = Some []"
    | (unknown) d where "\<not> e_unsolicited e" "e_deliveryQueueId e = Some d" "d \<noteq> []"
        "getMessageIdFromDeliveryQueueId d (db s) = None"
    | (known) d m where "\<not> e_unsolicited e" "e_deliveryQueueId e = Some d" "d \<noteq> []"
        "getMessageIdFromDeliveryQueueId d (db s) = Some m"
    by (metis not_Some_eq)
  then show ?thesis
  proof cases
    case unsolicited
    then show ?thesis
      using kept_emit [OF ok, of X w "unsolicited_message p e"]
      by (auto simp: processEvent_def split: prod.split sum.split)
  next
    case known
    consider (mid) "e_deliveryStatus e = SENT_TO_DEVICE" "d_pattern p = PUSH"
      | (nack) "e_deliveryStatus e = DELIVERY_FAILED" | (success) "e_deliveryStatus e = DELIVERY_SUCCESSFUL"
      | (other) "\<not> (e_deliveryStatus e = SENT_TO_DEVICE \<and> d_pattern p = PUSH)"
          "e_deliveryStatus e \<noteq> DELIVERY_FAILED" "e_deliveryStatus e \<noteq> DELIVERY_SUCCESSFUL" by blast
    then show ?thesis
    proof cases
      case mid
      then show ?thesis
        using kept_advance_relayNode [OF cfg ok mid(2), of X w m 0] known
        by (auto simp: processEvent_def split: prod.split sum.split)
    next
      case nack
      show ?thesis by (rule kept_nack [OF cfg ok known nack])
    next
      case success
      show ?thesis by (rule kept_success [OF ok known success])
    next
      case other
      then show ?thesis using known refl' by (auto simp: processEvent_def)
    qed
  qed (use refl' in \<open>auto simp: processEvent_def\<close>)
qed

lemma kept_handle:
  assumes "config_ok cfg" and "engine_ok cfg s"
  shows "kept cfg X s (snd (handle cfg w parsed p s))"
  using kept_processEvent [OF assms, of X w _ p] kept_refl [OF assms(2), of X]
    kept_metrics(3) [OF assms(2), of X "d_id p"]
  by (auto simp: handle_def split: sum.split option.split prod.split) (metis snd_conv)

section \<open>A member's turn\<close>

lemma kept_failPermanently:
  assumes ok: "engine_ok cfg s" and "pred_option rate_key (m_concurrencyRateLimitKey msg)"
  shows "kept cfg X s (snd (failPermanently cfg w msg p s))"
  using kept_notify_purge [OF ok, of "expired_message (w_now w) msg" X p "Terminal DELIVERY_FAILED"
      "retry_count msg" w "partial_of (expired_message (w_now w) msg)"]
    kept_emit [OF ok, of X w "partial_of (expired_message (w_now w) msg)"] assms(2)
  by (auto simp: failPermanently_def Let_def expired_message_def split: prod.split sum.split)

lemma running_has_entry:
  assumes "engine_ok cfg s" and "\<not> sends_has m (sends s)"
  shows "m \<notin> send_id ` set (running s)"
  using assms by (force simp: engine_ok_def sends_ok_def sends_has_def)

lemma other_stage_not_running:
  assumes ok: "engine_ok cfg s" and h: "hash_at (db s) m = Some h" and k: "k \<noteq> QUEUE_NS_KEY"
  shows "m \<notin> send_id ` set (running s) \<or> \<not> in_queue (db s) k m"
  using not_running [OF ok h in_other_queue [OF ok _ k]] by blast

lemma kept_stage_action:
  assumes cfg: "config_ok cfg" and ok: "engine_ok cfg s" and h: "hash_at (db s) m = Some h"
    and p: "hash_plugin cfg h = Some p"
    and k: "st \<noteq> St_ns \<longrightarrow> k \<noteq> QUEUE_NS_KEY"
  shows "kept cfg X s (snd (stage_action st cfg w v k (message_of m h) p age s))"
proof -
  note s = stored [OF engine_db [OF ok] h]
  have id: "m_id (message_of m h) = m" using message_of_fields(1) [OF s(2)] .
  note refl' = kept_refl [OF ok, of X]
  show ?thesis
  proof (cases st)
    case St_ns
    then show ?thesis
      using refl' kept_retryOrFail [OF cfg ok, of m X QUEUE_NS_KEY w "timeout_context TIMEOUT_NS" p]
        running_has_entry [OF ok, of m]
      by (simp add: action_ns_def id)
  next
    case St_relayNode
    then show ?thesis
      using refl' other_stage_not_running [OF ok h, of k] k
        kept_retryOrFail [OF cfg ok, of m X k w _ p]
      by (simp add: action_relayNode_def id Let_def)
  next
    case St_device
    then show ?thesis
      using other_stage_not_running [OF ok h, of k] k kept_retryOrFail [OF cfg ok, of m X k w _ p]
      by (simp add: action_device_def id)
  next
    case St_awaitingTask
    then show ?thesis
      using refl' kept_failPermanently [OF ok message_of_rate [OF s(2), of m], where X = X and w = w and p = p]
        kept_processEvent [OF cfg ok, of X w _ p]
      by (auto simp: action_awaitingTask_def split: prod.split sum.split option.split)
  next
    case St_retry
    have "ready_key p (message_of m h) = d_initialQueueKey p (h_networkId h) (the (h_device h))"
      by (simp add: ready_key_def message_of_fields [OF s(2)])
    from kept_requeue [OF cfg ok h p this, of X w "m_priority (message_of m h)"] St_retry
    show ?thesis by (auto simp: action_retry_def id Let_def split: prod.split)
  qed
qed

lemma kept_act:
  assumes "config_ok cfg" and "engine_ok cfg s" and "hash_at (db s) m = Some h"
    and "hash_plugin cfg h = Some p"
    and "st_name (sq_stage queue) \<noteq> St_ns \<longrightarrow> sq_key queue \<noteq> QUEUE_NS_KEY"
  shows "kept cfg X s (snd (act cfg w v queue (message_of m h) p age s))"
  using kept_stage_action [OF assms, of X w v age]
  by (auto simp: act_def split: prod.split sum.split)

lemma act_ns_orphaned:
  assumes "st_name (sq_stage queue) = St_ns"
    and "act cfg w v queue msg p age s = (Orphaned, s1)"
  shows "\<not> sends_has (m_id msg) (sends s)"
  using assms by (auto simp: act_def action_ns_def split: prod.splits sum.splits)

lemma enumerated_key:
  "sq \<in> set (enumerateStageQueues ids) \<Longrightarrow>
     st_name (sq_stage sq) \<noteq> St_ns \<longrightarrow> sq_key sq \<noteq> QUEUE_NS_KEY"
  by (erule enumerateStageQueues_stage [where p = "[]"])
     (metis st_name_STAGES ns_key stage_keys_distinct queue_keys_disjoint(3))

lemma kept_drain_member:
  assumes cfg: "config_ok cfg" and ok: "engine_ok cfg s"
    and q: "queue \<in> set (enumerateStageQueues ids)"
  shows "kept cfg {} s (snd (drain_member cfg now queue w v m s))"
proof (cases "hash_at (db s) m")
  case None
  then show ?thesis
    using kept_drop [OF ok, of m "sq_key queue" "{}"] by (simp add: drain_member_def load_none)
next
  case h: (Some h)
  note load = load_hash [OF engine_db [OF ok] h]
  note s = stored [OF engine_db [OF ok] h]
  obtain p where p: "hash_plugin cfg h = Some p"
    and reg: "Option.bind (registry_get (cf_registry cfg) (m_pluginId (message_of m h))) delivery_of = Some p"
    by (rule message_plugin [OF cfg engine_db [OF ok] h]) (rule that)
  let ?age = "now - cf_decodeTime cfg m"
  obtain oc s1 where act: "act cfg w v queue (message_of m h) p ?age s = (oc, s1)"
    by (cases "act cfg w v queue (message_of m h) p ?age s")
  have k1: "kept cfg {} s s1"
    using kept_act [OF cfg ok h p enumerated_key [OF q], of "{}" w v ?age] by (simp add: act)
  have ok1: "engine_ok cfg s1" by (rule kept_engine_ok [OF ok k1])
  have run: "running s1 = running s" using k1 by (simp add: kept_def)
  have dropped: "kept cfg {} s (drop_member (sq_key queue) m s1)" if "oc = Orphaned"
  proof (rule kept_then [OF ok k1])
    show "kept cfg {} s1 (drop_member (sq_key queue) m s1)"
    proof (rule kept_drop [OF ok1])
      show "m \<notin> send_id ` set (running s1) \<or> \<not> in_queue (db s1) (sq_key queue) m \<or>
          hash_at (db s1) m = None"
      proof (cases "st_name (sq_stage queue) = St_ns")
        case True
        from act_ns_orphaned [OF True act [unfolded that]] show ?thesis
          using running_has_entry [OF ok, of m] by (simp add: run message_of_fields(1) [OF s(2)])
      next
        case False
        then show ?thesis
          using other_stage_not_running [OF ok1, of m _ "sq_key queue"] enumerated_key [OF q]
          by (cases "hash_at (db s1) m") auto
      qed
    qed
  qed
  have resched: "kept cfg {} s (reschedule cfg w (sq_stage queue) (message_of m h) ?age p s1)"
    by (rule kept_then [OF ok k1 kept_reschedule])
  show ?thesis
    using dropped resched k1 by (simp add: drain_member_def load reg act Let_def)
qed

end
