(* ===== verification/Outgoing_Invariants.thy ===== *)
theory Outgoing_Invariants
  imports Handler_Invariants
begin

text \<open>
  Distribution, the settling of a send, cancel and enqueue keep the invariant of the engine.
\<close>

section \<open>The pick\<close>

lemma ready_owner:
  "getPluginIdFromInitialQueueKey q = Some i \<Longrightarrow> ready_queue q"
  by (auto simp: getPluginIdFromInitialQueueKey_def ready_queue_def starts_with_def
      dest!: parseInitialQueueKey_Some)

lemma ready_queue_message:
  assumes cfg: "config_ok cfg" and db: "db_ok cfg r" and h: "hash_at r m = Some h"
    and q: "in_queue r q m" and i: "getPluginIdFromInitialQueueKey q = Some i"
    and p: "plugin_for cfg i = Some p"
  shows "hash_plugin cfg h = Some p" and "the (h_deliveryStatus h) = QUEUED"
    and "h_concurrencyRateLimitKey h = None" and "h_deliveryQueueId h = None"
proof -
  note s = stored [OF db h]
  from s(2) obtain pm where pm: "hash_plugin cfg h = Some pm" by (auto simp: hash_ok_def)
  have home: "q = home_of pm h" using queue_is_home [OF db h q pm] .
  have "stageForStatus (the (h_deliveryStatus h)) (d_pattern pm) = None"
    using home ready_owner [OF i]
    by (auto simp: home_of_def simp del: STAGES.simps split: option.splits)
  then show st: "the (h_deliveryStatus h) = QUEUED"
    using s(2) by (cases "the (h_deliveryStatus h)") (auto simp: hash_ok_def terminal_status_def)
  then have "q = d_initialQueueKey pm (h_networkId h) (the (h_device h))"
    using home by (simp add: home_of_def)
  with i hash_plugin_ready(3,5) [OF cfg pm] p pm
  show "hash_plugin cfg h = Some p" by auto
  show "h_concurrencyRateLimitKey h = None" "h_deliveryQueueId h = None"
    using s(2) st by (auto simp: hash_ok_def before_send_def)
qed

definition pick_key :: "deliveryPlugin \<Rightarrow> string \<Rightarrow> string" where
  "pick_key p q = (case concurrency_limit p q of None \<Rightarrow> [] | Some l \<Rightarrow> crl_key l)"

definition pick_max :: "deliveryPlugin \<Rightarrow> string \<Rightarrow> nat" where
  "pick_max p q = (case concurrency_limit p q of None \<Rightarrow> 0 | Some l \<Rightarrow> crl_max l)"

lemma pick_key_rate: "pick_key p q \<noteq> [] \<Longrightarrow> buildConcurrencyRateLimitKey q = Some (pick_key p q)"
  by (auto simp: pick_key_def concurrency_limit_def split: admission.splits option.splits)

lemma pickIntoNs_unfold:
  "pickIntoNs cfg w q p (concurrency_limit p q) s =
     (let f = fetchNextMessageInQueueAndMove q QUEUE_NS_KEY listOfInitialQueuesToDistributeFrom
            (pick_key p q) (w_now w + of_nat (nsInFlightTimeoutMs (d_tuning p))) SENT_TO_NS
            (pick_max p q) (db s)
      in (case fst f of None \<Rightarrow> Inr None
          | Some (i, h) \<Rightarrow> map_sum id Some (deserializeMessage i h), s\<lparr>db := snd f\<rparr>))"
  by (simp add: pickIntoNs_def pick_key_def pick_max_def entry_context_def Let_def
      split: prod.split option.split)

lemma pick_caps:
  assumes db: "db_ok cfg r" and i: "getPluginIdFromInitialQueueKey q = Some i"
    and p: "plugin_for cfg i = Some p"
  shows "caps_ok cfg (snd (fetchNextMessageInQueueAndMove q dst listOfInitialQueuesToDistributeFrom
    (pick_key p q) t st (pick_max p q) r))"
  unfolding caps_ok_def
proof (intro allI impI)
  fix k c n assume k: "buildConcurrencyRateLimitKey k = Some c" and n: "queue_cap cfg k = Some n"
  let ?L = "listOfInitialQueuesToDistributeFrom"
  let ?r = "snd (fetchNextMessageInQueueAndMove q dst ?L (pick_key p q) t st (pick_max p q) r)"
  have old: "length (sets r c) \<le> n" using db k n by (auto simp: db_ok_def caps_ok_def)
  have rok: "redis_ok r" using db by (simp add: db_ok_def)
  have cL: "c \<noteq> ?L" using rate_key_build [OF k] by auto
  show "length (sets ?r c) \<le> n"
  proof (cases "c = pick_key p q")
    case True
    have ne: "c \<noteq> []" using rate_key_build [OF k] by auto
    have "k = q" using buildConcurrencyRateLimitKey_inject k pick_key_rate [of p q] True ne by simp
    then have "pick_max p q = n" "0 < n"
      using n i p ne True
      by (auto simp: queue_cap_def pick_max_def pick_key_def concurrency_limit_def
          split: admission.splits if_splits option.splits)
    then show ?thesis using fetch_slot_cap [OF rok cL ne, of n q dst t st] old True by simp
  next
    case False
    have pop: "sets (popped q ?L rest r) c = sets r c" if "zpopmin (zsets r q) = Some ((j, s), rest)"
      for j s rest using popped_effect(6) [OF rok that cL] .
    have "sets ?r c = sets r c"
      using take_picked_other_sets [OF False] pop cL
      by (auto simp: fetch_unfold Let_def srem_def split: option.split)
    then show ?thesis using old by simp
  qed
qed

lemma work_le_srem_empty:
  "zsets r q = [] \<Longrightarrow> work_le r (srem listOfInitialQueuesToDistributeFrom q r)"
  by (auto simp: work_le_def redis_simps) (simp add: in_queue_def redis_simps)

lemma db_ok_pick_none:
  assumes db: "db_ok cfg r" and i: "getPluginIdFromInitialQueueKey q = Some i"
    and p: "plugin_for cfg i = Some p"
    and f: "fetchNextMessageInQueueAndMove q dst listOfInitialQueuesToDistributeFrom
      (pick_key p q) t st (pick_max p q) r = (None, r')"
  shows "db_ok cfg r'" and "msg_le r r' x"
proof -
  let ?L = "listOfInitialQueuesToDistributeFrom"
  have rok: "redis_ok r" using db by (simp add: db_ok_def)
  consider (same) "r' = r" | (empty) "zsets r q = []" "r' = srem ?L q r"
    | (orphan) j s rest where "zpopmin (zsets r q) = Some ((j, s), rest)"
        "hashes r (messageKey j) = None" "r' = popped q ?L rest r"
    using fetch_None [OF rok f] by blast
  then have le: "(\<forall>x. msg_le r r' x) \<and> redis_ok r' \<and> work_le r r'"
  proof cases
    case same
    then show ?thesis using rok by (simp add: work_le_same)
  next
    case empty
    then show ?thesis using rok
      by (auto simp: msg_le_def untouched_def hash_at_def redis_simps work_le_srem_empty)
  next
    case orphan
    note e = popped_effect [OF rok orphan(1)]
    have "msg_le r r' x" for x
      unfolding msg_le_def untouched_def hash_at_def orphan(3) e
      using orphan(2) by (cases "x = j") auto
    moreover have "work_le r r'"
      unfolding work_le_def orphan(3) using popped_worklist [OF rok orphan(1)] by blast
    ultimately show ?thesis using e(7) orphan(3) by simp
  qed
  have "caps_ok cfg r'" using pick_caps [OF db i p, of dst t st] f by simp
  then show "db_ok cfg r'"
    by (intro db_ok_change [OF db, where mo = "[]"])
       (use le db in \<open>auto simp: db_ok_def msg_le_def intro: msg_ok_mono\<close>)
  show "msg_le r r' x" using le by blast
qed

lemma hash_ok_picked:
  assumes "hash_ok cfg h" and "the (h_deliveryStatus h) = QUEUED" and "c = [] \<or> rate_key c"
  shows "hash_ok cfg (picked_hash SENT_TO_NS c h)"
  using assms
  by (auto simp: hash_ok_def complete_hash_def hash_plugin_def picked_hash_def terminal_status_def
      before_send_def)

lemma slots_after_pick:
  assumes st: "stored_ok cfg r m h" and none: "h_concurrencyRateLimitKey h = None" and rc: "rate_key k"
    and sets: "x \<in> set (sets r' k) \<longleftrightarrow> x \<in> set (sets r k) \<or> c \<noteq> [] \<and> k = c \<and> x = m"
  shows "x \<in> set (sets r' k) \<longleftrightarrow>
    (if x = m then h_concurrencyRateLimitKey (picked_hash s c h) = Some k else x \<in> set (sets r k))"
proof -
  have "h_concurrencyRateLimitKey (picked_hash s c h) = (if c = [] then None else Some c)"
    using none by (simp add: picked_hash_def)
  moreover have "m \<notin> set (sets r k)" using st rc none by (simp add: stored_ok_def)
  ultimately show ?thesis using sets by auto
qed

lemma work_after_pick:
  fixes c q rest r t m
  defines "L \<equiv> listOfInitialQueuesToDistributeFrom"
  defines "r' \<equiv> take_picked QUEUE_NS_KEY c t SENT_TO_NS m (popped q L rest r)"
  assumes rok: "redis_ok r" and pop: "zpopmin (zsets r q) = Some ((m, s), rest)"
    and i: "getPluginIdFromInitialQueueKey q = Some i"
    and h: "hashes (popped q L rest r) (messageKey m) = Some h"
  shows "work_le r r'"
  unfolding work_le_def L_def [symmetric]
proof (intro allI impI)
  note tp = take_picked_effect [OF h, where dst = QUEUE_NS_KEY and c = c and t = t and st = SENT_TO_NS]
  fix k x assume k: "k \<in> set (sets r L)" and "k \<notin> set (sets r' L)"
  then have "k \<notin> set (sets (popped q L rest r) L)" using tp(4) [of k L] by (auto simp: r'_def)
  then have kq: "k = q" and none: "\<not> in_queue (popped q L rest r) q x"
    using popped_worklist [OF rok pop k, of x] by auto
  have "q \<noteq> QUEUE_NS_KEY" using ready_owner [OF i] by auto
  then show "\<not> in_queue r' k x" using none tp(3) [of q x] by (simp add: r'_def kq)
qed

lemma db_ok_pick_some:
  assumes cfg: "config_ok cfg" and db: "db_ok cfg r"
    and i: "getPluginIdFromInitialQueueKey q = Some i" and p: "plugin_for cfg i = Some p"
    and f: "fetchNextMessageInQueueAndMove q QUEUE_NS_KEY listOfInitialQueuesToDistributeFrom
      (pick_key p q) t SENT_TO_NS (pick_max p q) r = (Some (m, h'), r')"
  shows "db_ok cfg r'" and "x \<noteq> m \<Longrightarrow> msg_le r r' x"
    and "hash_at r' m = Some h'" and "hash_plugin cfg h' = Some p" and "in_queue r' k m \<longleftrightarrow> k = QUEUE_NS_KEY"
    and "in_queue r q m" and "hash_at r m \<noteq> None" and "hash_ok cfg h'"
    and "zscore (zsets r' QUEUE_NS_KEY) m = Some t"
proof -
  let ?L = "listOfInitialQueuesToDistributeFrom" and ?c = "pick_key p q"
  have rok: "redis_ok r" using db by (simp add: db_ok_def)
  obtain h s rest where hk: "hashes r (messageKey m) = Some h"
    and h': "h' = picked_hash SENT_TO_NS ?c h"
    and pop: "zpopmin (zsets r q) = Some ((m, s), rest)" and cap: "\<not> at_cap ?c (pick_max p q) r"
    and r': "r' = take_picked QUEUE_NS_KEY ?c t SENT_TO_NS m (popped q ?L rest r)"
    and hs: "hashes r' = (hashes r)(messageKey m \<mapsto> picked_hash SENT_TO_NS ?c h)"
    and q: "in_queue r q m"
    by (rule fetch_Some [OF rok f], rule that, assumption+)
  have h: "hash_at r m = Some h" using hk by (simp add: hash_at_def)
  note st = stored [OF db h] and rm = ready_queue_message [OF cfg db h q i p] and e = popped_effect [OF rok pop]
  have hk2: "hashes (popped q ?L rest r) (messageKey m) = Some h" using hk e(3) by simp
  note tp = take_picked_effect [OF hk2, where dst = QUEUE_NS_KEY and c = ?c and t = t and st = SENT_TO_NS]
  have c: "?c = [] \<or> rate_key ?c" using pick_key_rate [of p q] rate_key_build by blast
  have qs: "in_queue r' k x \<longleftrightarrow> (if x = m then k = QUEUE_NS_KEY else in_queue r k x)" for k x
    using one_queue_in [OF st(3) q, of k] tp(3) [of k x] e(1) [where L = ?L and q = k and x = x] by (auto simp: r')
  have strs: "strs r' = strs r" using tp(2) e(4) by (simp add: r')
  have idx: "\<forall>d x. strs r' (indexExternalDeliveryId d) = Some (messageKey x) \<longrightarrow>
      (if x = m then h_deliveryQueueId h' = Some d
       else strs r (indexExternalDeliveryId d) = Some (messageKey x))"
    using st(1) rm(4) unfolding strs stored_ok_def by auto
  have "x \<in> set (sets r' c) \<longleftrightarrow> x \<in> set (sets r c) \<or> ?c \<noteq> [] \<and> c = ?c \<and> x = m" if "rate_key c" for c x
    using tp(4) [of x c] e(5) [where L = ?L and y = x and k = c] that by (auto simp: r')
  from slots_after_pick [OF st(1) rm(3) _ this]
  have slots: "\<forall>c x. rate_key c \<longrightarrow> x \<in> set (sets r' c) \<longleftrightarrow>
      (if x = m then h_concurrencyRateLimitKey h' = Some c else x \<in> set (sets r c))" unfolding h' by blast
  have plug: "hash_plugin cfg h' = Some p" using rm(1) by (simp add: h' picked_hash_def hash_plugin_def)
  have h'ok: "hash_ok cfg h'" unfolding h' by (rule hash_ok_picked [OF st(2) rm(2) c])
  have home: "home_of (the (hash_plugin cfg h')) h' = QUEUE_NS_KEY"
    by (simp add: plug home_of_def) (simp add: h' picked_hash_def stageKeyFor_def)
  have caps: "caps_ok cfg r'" using pick_caps [OF db i p, of QUEUE_NS_KEY t SENT_TO_NS] f by simp
  have r'ok: "redis_ok r'" using tp(5) e(7) by (simp add: r')
  have ready: "ready_queue QUEUE_NS_KEY \<longrightarrow> QUEUE_NS_KEY \<in> set (sets r' ?L)" by simp
  note rel = relocate [OF db r'ok hs [folded h'] qs idx slots h'ok home
      work_after_pick [OF rok pop i hk2, of ?c t, folded r'] caps ready]
  show "db_ok cfg r'" by (rule rel(1))
  show "msg_le r r' x" if "x \<noteq> m" by (rule rel(2) [OF that])
  show "hash_at r' m = Some h'" by (simp add: hash_at_def hs h')
  show "in_queue r' k m \<longleftrightarrow> k = QUEUE_NS_KEY" using qs by simp
  show "zscore (zsets r' QUEUE_NS_KEY) m = Some t" using tp(6) by (simp add: r')
  show "hash_at r m \<noteq> None" using h by simp
  show "hash_plugin cfg h' = Some p" by (rule plug)
  show "in_queue r q m" by (rule q)
  show "hash_ok cfg h'" by (rule h'ok)
qed

section \<open>Distribution\<close>

lemma kept_set_db:
  assumes "engine_ok cfg s" and "db_ok cfg r" and "\<And>x. msg_le (db s) r x"
  shows "kept cfg X s (s\<lparr>db := r\<rparr>)"
  by (rule kept_all [OF assms(1,2) assms(3)]) simp_all

lemma track_engine_ok:
  assumes ok: "engine_ok cfg s" and new: "m_id msg \<notin> send_id ` set (running s)"
    and h: "hash_at (db s) (m_id msg) = Some h" and q: "in_queue (db s) QUEUE_NS_KEY (m_id msg)"
    and p: "hash_plugin cfg h = Some p"
  shows "engine_ok cfg (track p msg s)"
proof -
  have so: "sends_ok cfg s" using ok by (simp add: engine_ok_def)
  have "sends_ok cfg (track p msg s)"
    unfolding sends_ok_def
  proof (intro conjI ballI)
    show "distinct (map send_id (running (track p msg s)))"
      using so new by (auto simp: sends_ok_def track_def send_id_def)
    show "distinct (map sd_token (running (track p msg s)))"
      using so by (fastforce simp: sends_ok_def track_def)
    fix sd assume sd: "sd \<in> set (running (track p msg s))"
    show "sd_token sd < next_token (track p msg s)"
      using sd so by (fastforce simp: sends_ok_def track_def)
    show "map_of (sends (track p msg s)) (send_id sd) = Some (sd_token sd)"
    proof (cases "sd \<in> set (running s)")
      case True
      then have "send_id sd \<noteq> m_id msg" using new by (metis imageI)
      then show ?thesis using True so by (simp add: sends_ok_def track_def map_of_send_set)
    next
      case False
      then show ?thesis using sd by (auto simp: track_def map_of_send_set send_id_def)
    qed
    show "\<forall>h. hash_at (db (track p msg s)) (send_id sd) = Some h \<longrightarrow>
        in_queue (db (track p msg s)) QUEUE_NS_KEY (send_id sd) \<and> hash_plugin cfg h = Some (sd_plugin sd)"
      using sd so h q p by (auto simp: sends_ok_def track_def send_id_def)
  qed
  then show ?thesis using ok by (simp add: engine_ok_def)
qed

lemma started_send_ok:
  assumes cfg: "config_ok cfg" and ok1: "engine_ok cfg s1"
    and i: "getPluginIdFromInitialQueueKey q = Some i" and p: "plugin_for cfg i = Some p"
    and f: "fetchNextMessageInQueueAndMove q QUEUE_NS_KEY listOfInitialQueuesToDistributeFrom (pick_key p q) t
      SENT_TO_NS (pick_max p q) (db s1) = (Some (m, h'), r2)"
  shows "deserializeMessage m h' = Inr (message_of m h')"
    and "engine_ok cfg (s1\<lparr>db := r2\<rparr>)"
    and "engine_ok cfg s' \<Longrightarrow> db s' = r2 \<Longrightarrow> running s' = running s1 \<Longrightarrow>
      engine_ok cfg (track p (message_of m h') s')"
proof -
  note d = db_ok_pick_some [OF cfg engine_db [OF ok1] i p f]
  obtain h where h: "hash_at (db s1) m = Some h" using d(7) by auto
  have "q \<noteq> QUEUE_NS_KEY" using ready_owner [OF i] by auto
  then have new: "m \<notin> send_id ` set (running s1)"
    using not_running [OF ok1 h in_other_queue [OF ok1 d(6)]] by simp
  have id: "m_id (message_of m h') = m" using message_of_fields(1) [OF d(8)] .
  show "deserializeMessage m h' = Inr (message_of m h')"
    using d(8) by (simp add: message_of_def hash_ok_def deserializeMessage_def)
  have "kept cfg {} s1 (s1\<lparr>db := r2\<rparr>)" by (rule kept_one [OF ok1 d(1) d(2) disjI1 [OF new]]) simp_all
  then show "engine_ok cfg (s1\<lparr>db := r2\<rparr>)" by (rule kept_engine_ok [OF ok1])
  show "engine_ok cfg (track p (message_of m h') s')"
    if "engine_ok cfg s'" "db s' = r2" "running s' = running s1"
    by (rule track_engine_ok [OF that(1)]) (use that id new d in simp_all)
qed

lemma engine_ok_distribute:
  assumes cfg: "config_ok cfg" and ok: "engine_ok cfg s"
  shows "engine_ok cfg (snd (distribute_queue cfg w q s))"
proof (cases "Option.bind (getPluginIdFromInitialQueueKey q) (plugin_for cfg)")
  case None
  then show ?thesis
    using ok distribute_not_owned [of q cfg w s] by (auto simp: plugin_for_def [abs_def])
next
  case (Some p)
  then obtain i where i: "getPluginIdFromInitialQueueKey q = Some i" and p: "plugin_for cfg i = Some p"
    by (auto simp: bind_eq_Some_conv)
  obtain adm r where adm: "canAdmit w p q (db s) = (adm, r)" by fastforce
  let ?s1 = "s\<lparr>db := r\<rparr>" and ?t = "w_now w + of_nat (nsInFlightTimeoutMs (d_tuning p))"
  have "kept cfg {} s ?s1"
    by (rule kept_set_db [OF ok])
       (use db_ok_canAdmit [OF engine_db [OF ok], of w p q] canAdmit_msg_le [of "db s" w p q] in
         \<open>simp_all add: adm\<close>)
  then have ok1: "engine_ok cfg ?s1" by (rule kept_engine_ok [OF ok])
  have db1: "db_ok cfg (db ?s1)" by (rule engine_db [OF ok1])
  obtain res r2 where f: "fetchNextMessageInQueueAndMove q QUEUE_NS_KEY listOfInitialQueuesToDistributeFrom
      (pick_key p q) ?t SENT_TO_NS (pick_max p q) (db ?s1) = (res, r2)" by fastforce
  have plug: "Option.bind (getPluginIdFromInitialQueueKey q)
      (\<lambda>i. Option.bind (registry_get (cf_registry cfg) i) delivery_of) = Some p"
    using i p by (simp add: plugin_for_def)
  note unfold = distribute_queue_def distribute_owned [OF plug] adm pickIntoNs_unfold Let_def
  consider (refused) "\<not> adm" | (empty) adm "res = None" | (picked) m h' where adm "res = Some (m, h')"
    by (cases res) auto
  then show ?thesis
  proof cases
    case refused
    then show ?thesis using ok1 by (simp add: unfold)
  next
    case empty
    have "engine_ok cfg (?s1\<lparr>db := r2\<rparr>)"
      using kept_engine_ok [OF ok1 kept_set_db [OF ok1 db_ok_pick_none [OF db1 i p f [unfolded empty(2)]]]] .
    then show ?thesis using f empty by (simp add: unfold)
  next
    case picked
    note started = started_send_ok [OF cfg ok1 i p f [unfolded picked(2)]]
    let ?em = "emitDeliveryEvent cfg w (partial_of (message_of m h')) (?s1\<lparr>db := r2\<rparr>)"
    have "engine_ok cfg (snd ?em)" by (rule kept_engine_ok [OF started(2) kept_emit [OF started(2)]])
    then show ?thesis using f picked started(1,2) started(3) [of "snd ?em"] started(3) [OF started(2)]
      by (cases "retry_count (message_of m h') = 0") (auto simp: unfold split: prod.split sum.split)
  qed
qed

section \<open>Settling\<close>

lemma untrack_engine_ok:
  assumes db: "db_ok cfg (db s')" and wh: "webhook_ok (whdb s')" and so: "sends_ok cfg s"
    and sd: "sd \<in> set (running s)" and k: "kept cfg {send_id sd} s s'"
  shows "engine_ok cfg (untrack sd s')"
proof -
  have run: "running s' = running s" "sends s' = sends s" "next_token s' = next_token s"
    using k by (simp_all add: kept_def)
  have other: "send_id x \<noteq> send_id sd" if "x \<in> set (running s)" "sd_token x \<noteq> sd_token sd" for x
    using so sd that by (auto simp: sends_ok_def distinct_map inj_on_def)
  have "sends_ok cfg (untrack sd s')"
    unfolding sends_ok_def
  proof (intro conjI ballI)
    show "distinct (map send_id (running (untrack sd s')))"
      "distinct (map sd_token (running (untrack sd s')))"
      using so by (auto simp: sends_ok_def untrack_def run distinct_map_filter)
    fix x assume "x \<in> set (running (untrack sd s'))"
    then have x: "x \<in> set (running s)" "sd_token x \<noteq> sd_token sd" by (auto simp: untrack_def run)
    show "sd_token x < next_token (untrack sd s')"
      using so x by (auto simp: sends_ok_def untrack_def run)
    show "map_of (sends (untrack sd s')) (send_id x) = Some (sd_token x)"
      using so x other [OF x]
      by (simp add: sends_ok_def untrack_def run map_of_send_settled send_id_def)
    have "untouched (db s) (db s') (send_id x)" using k x other [OF x] by (simp add: kept_def)
    then show "\<forall>h. hash_at (db (untrack sd s')) (send_id x) = Some h \<longrightarrow>
        in_queue (db (untrack sd s')) QUEUE_NS_KEY (send_id x) \<and>
        hash_plugin cfg h = Some (sd_plugin x)"
      using so x(1) by (auto simp: sends_ok_def untouched_def)
  qed
  then show ?thesis using db wh by (simp add: engine_ok_def)
qed

lemma engine_ok_settle:
  assumes cfg: "config_ok cfg" and ok: "engine_ok cfg s" and sd: "sd \<in> set (running s)"
  shows "engine_ok cfg (snd (settle_send cfg w sd reply s))"
proof -
  let ?m = "m_id (sd_message sd)"
  have so: "sends_ok cfg s" using ok by (simp add: engine_ok_def)
  have own: "hash_plugin cfg h = Some (sd_plugin sd)" if "hash_at (db s) ?m = Some h" for h
    using so sd that by (auto simp: sends_ok_def send_id_def)
  have "kept cfg {?m} s (snd (sendOneToNetworkServer cfg w (sd_plugin sd) (sd_message sd) reply s))"
    using kept_retryOrFail [OF cfg ok, of ?m "{?m}" QUEUE_NS_KEY w _ "sd_plugin sd"]
      kept_advance_ns [OF cfg ok, of _ ?m "{?m}" "sd_plugin sd" w] own
    by (auto simp: sendOneToNetworkServer_def split: sum.split prod.split) (metis snd_conv)+
  then have k: "kept cfg {send_id sd} s
      (snd (sendOneToNetworkServer cfg w (sd_plugin sd) (sd_message sd) reply s))"
    by (simp add: send_id_def)
  then show ?thesis
    using untrack_engine_ok [OF _ _ so sd k]
    by (cases "sendOneToNetworkServer cfg w (sd_plugin sd) (sd_message sd) reply s")
       (simp add: kept_def settle_send_def)
qed

section \<open>Cancel\<close>

lemma kept_cancelOneMessage:
  assumes cfg: "config_ok cfg" and ok: "engine_ok cfg s"
    and rate: "pred_option rate_key (m_concurrencyRateLimitKey msg)"
  shows "kept cfg {} s (snd (cancelOneMessage cfg msg s))"
proof (cases "m_deliveryStatus msg \<noteq> QUEUED \<and> m_deliveryStatus msg \<noteq> TO_RETRY")
  case True
  then show ?thesis using ok by (simp add: cancelOneMessage_def kept_refl)
next
  case st: False
  show ?thesis
  proof (cases "plugin_for cfg (m_pluginId msg)")
    case None
    then show ?thesis using ok st
      by (auto simp: cancelOneMessage_def plugin_for_def [symmetric] kept_refl)
  next
    case (Some p)
    let ?k = "if m_deliveryStatus msg = TO_RETRY then QUEUE_RETRY_KEY else ready_key p msg"
    obtain kind where "delivery_plugin_contract p kind" using config_contract [OF cfg Some] by blast
    then have "ready_queue (ready_key p msg)"
      unfolding ready_key_def by (rule delivery_plugin_contract.ready_shape)
    then have k: "?k \<noteq> QUEUE_NS_KEY" by (auto simp: key_simps)
    let ?s1 = "drop_member ?k (m_id msg) s"
    have claim: "claimFromQueue ?k (m_id msg) s = (in_queue (db s) ?k (m_id msg), ?s1)"
      by (simp add: claimFromQueue_def drop_member_def with_db_def removeMessageFromQueue_def)
    have k1: "kept cfg {} s ?s1"
      using other_stage_not_running [OF ok _ k, of "m_id msg"]
      by (intro kept_drop [OF ok]) (cases "hash_at (db s) (m_id msg)"; auto)
    have k2: "kept cfg {} s (recordMessageTerminal Terminal_CANCELLED (retry_count msg) (purge msg p ?s1))"
      by (rule kept_then [OF ok k1])
         (use kept_purge [of cfg ?s1 msg "{}" p] rate in \<open>simp add: kept_def\<close>)
    show ?thesis
      using st Some claim k1 k2
      by (cases "in_queue (db s) ?k (m_id msg)")
         (auto simp: cancelOneMessage_def plugin_for_def [symmetric] Let_def kept_refl [OF ok])
  qed
qed

lemma kept_cancel_messages:
  assumes cfg: "config_ok cfg"
  shows "engine_ok cfg s \<Longrightarrow> \<forall>m \<in> set ms. pred_option rate_key (m_concurrencyRateLimitKey m) \<Longrightarrow>
    kept cfg {} s (snd (cancel_messages cfg ms s))"
proof (induction ms arbitrary: s)
  case Nil
  then show ?case by (simp add: kept_refl)
next
  case (Cons m ms)
  obtain b s1 where c: "cancelOneMessage cfg m s = (b, s1)" by fastforce
  have k1: "kept cfg {} s s1"
    using kept_cancelOneMessage [OF cfg Cons.prems(1), of m] Cons.prems(2) by (simp add: c)
  have "kept cfg {} s (snd (cancel_messages cfg ms s1))"
    by (rule kept_then [OF Cons.prems(1) k1]) (use Cons in simp)
  then show ?case by (cases "cancel_messages cfg ms s1") (simp add: c)
qed

lemma collect_messages_ok:
  "db_ok cfg r \<Longrightarrow> collect_messages ks r = Inr ms \<Longrightarrow> m \<in> set ms \<Longrightarrow>
     \<exists>i h. hash_at r i = Some h \<and> m = message_of i h"
proof (induction ks arbitrary: ms)
  case (Cons k ks)
  show ?case
  proof (cases "hashes r k")
    case None
    then show ?thesis using Cons by simp
  next
    case h: (Some h)
    show ?thesis
    proof (cases "messageIdFromKey (Some k)")
      case None
      then show ?thesis using Cons h by simp
    next
      case (Some i)
      then have k: "k = messageKey i" using messageIdFromKey_Some by blast
      have hi: "hash_at r i = Some h" using h k by (simp add: hash_at_def)
      have "complete_hash h" using stored(2) [OF Cons.prems(1) hi] by (simp add: hash_ok_def)
      then have d: "deserializeMessage i h = Inr (message_of i h)"
        by (simp add: message_of_def deserializeMessage_def)
      from Cons.prems(2) h Some d obtain ms' where "collect_messages ks r = Inr ms'"
        and "ms = message_of i h # ms'" by (cases "collect_messages ks r") auto
      then show ?thesis using Cons.IH [OF Cons.prems(1)] Cons.prems(3) hi by auto
    qed
  qed
qed simp

lemma kept_cancelOne:
  assumes cfg: "config_ok cfg" and ok: "engine_ok cfg s"
  shows "kept cfg {} s (snd (cancelOne cfg c s))"
proof (cases "getAllMessagesForCorrelationId c (db s)")
  case (Inl e)
  then show ?thesis using ok by (simp add: cancelOne_def kept_refl)
next
  case (Inr ms)
  have "\<forall>m \<in> set ms. pred_option rate_key (m_concurrencyRateLimitKey m)"
  proof
    fix m assume "m \<in> set ms"
    then obtain i h where "hash_at (db s) i = Some h" "m = message_of i h"
      using collect_messages_ok [OF engine_db [OF ok]] Inr
      unfolding getAllMessagesForCorrelationId_def Let_def by blast
    then show "pred_option rate_key (m_concurrencyRateLimitKey m)"
      using message_of_rate [OF stored(2) [OF engine_db [OF ok]]] by simp
  qed
  then show ?thesis
    using kept_cancel_messages [OF cfg ok, of ms] ok Inr
    by (auto simp: cancelOne_def kept_refl split: prod.split)
qed

lemma engine_ok_cancelMany:
  assumes cfg: "config_ok cfg"
  shows "engine_ok cfg s \<Longrightarrow> engine_ok cfg (snd (cancelMany cfg is s))"
proof (induction "is" arbitrary: s)
  case (Cons i "is")
  have "engine_ok cfg (snd (cancelOne cfg i s))"
    by (rule kept_engine_ok [OF Cons.prems kept_cancelOne [OF cfg Cons.prems]])
  from Cons.IH [OF this] show ?case by (auto split: prod.split sum.split)
qed simp

section \<open>Enqueue\<close>

definition fresh_id :: "engine \<Rightarrow> msg_id \<Rightarrow> bool" where
  "fresh_id s i \<longleftrightarrow> hash_at (db s) i = None \<and> (\<forall>k. \<not> in_queue (db s) k i) \<and>
     (\<forall>d. strs (db s) (indexExternalDeliveryId d) \<noteq> Some (messageKey i)) \<and>
     (\<forall>c. rate_key c \<longrightarrow> i \<notin> set (sets (db s) c)) \<and> i \<notin> send_id ` set (running s)"

lemma serialize_hash_ok:
  assumes "plugin_for cfg (c_pluginId dto) = Some p"
  shows "hash_ok cfg (serializeCreateDeviceMessage dto)"
    and "hash_plugin cfg (serializeCreateDeviceMessage dto) = Some p"
  using assms
  by (simp_all add: hash_ok_def hash_plugin_def terminal_status_def before_send_def)
     (simp_all add: serializeCreateDeviceMessage_def empty_hash_def)

lemma engine_ok_enqueue:
  assumes cfg: "config_ok cfg" and ok: "engine_ok cfg s" and fresh: "fresh_id s i"
  shows "engine_ok cfg (snd (enqueue cfg w i dto s))"
proof (cases "registry_get (cf_registry cfg) (c_pluginId dto)")
  case None
  then show ?thesis using ok by (simp add: enqueue_def)
next
  case (Some dp)
  show ?thesis
  proof (cases dp)
    case (TokenOnly j)
    then show ?thesis using Some ok by (simp add: enqueue_def)
  next
    case (ObjectMember j)
    then show ?thesis using Some ok by (simp add: enqueue_def)
  next
    case (Delivery p)
    have p: "plugin_for cfg (c_pluginId dto) = Some p" using Some Delivery by (simp add: plugin_for_def)
    let ?q = "d_initialQueueKey p (c_networkId dto) (c_device dto)"
    let ?h = "serializeCreateDeviceMessage dto"
    let ?ttl = "messageTtlSeconds (cf_delivery cfg)"
    let ?r = "snd (enqueueDeviceMessage dto ?q ?ttl i (w_now w) (db s))"
    note e = enqueue_effect [OF refl, where dto = dto and qk = ?q and ttl = ?ttl and i = i
        and now = "w_now w" and r = "db s"]
    note db = engine_db [OF ok] and sh = serialize_hash_ok [OF p]
    have home: "home_of (the (hash_plugin cfg ?h)) ?h = ?q"
      by (simp add: sh(2) home_of_def) (simp add: serializeCreateDeviceMessage_def empty_hash_def)
    have rq: "ready_queue ?q"
      using config_contract [OF cfg p] delivery_plugin_contract.ready_shape by blast
    have sets': "\<forall>c x. rate_key c \<longrightarrow> x \<in> set (sets ?r c) \<longleftrightarrow>
        (if x = i then h_concurrencyRateLimitKey ?h = Some c else x \<in> set (sets (db s) c))"
      using fresh e(3)
      by (auto simp: fresh_id_def serializeCreateDeviceMessage_def empty_hash_def)
    have idx: "\<forall>d x. strs ?r (indexExternalDeliveryId d) = Some (messageKey x) \<longrightarrow>
        (if x = i then h_deliveryQueueId ?h = Some d
         else strs (db s) (indexExternalDeliveryId d) = Some (messageKey x))"
      using fresh e(4) by (auto simp: fresh_id_def)
    have qs: "in_queue ?r k x \<longleftrightarrow> (if x = i then k = ?q else in_queue (db s) k x)" for k x
      using fresh e(2) by (auto simp: fresh_id_def)
    have work: "work_le (db s) ?r" using e(3) by (auto simp: work_le_def)
    have "sets ?r c = sets (db s) c" if "rate_key c" for c
      using that by (auto simp: enqueueDeviceMessage_def Let_def sadd_def redis_simps split: option.split)
    then have caps: "caps_ok cfg ?r"
      using db caps_le_ok [of cfg "db s" ?r] by (simp add: db_ok_def caps_le_def)
    have ready: "ready_queue ?q \<longrightarrow> ?q \<in> set (sets ?r listOfInitialQueuesToDistributeFrom)"
      using e(3) by simp
    have rok: "redis_ok ?r" using db e(5) by (simp add: db_ok_def)
    note rel = relocate [OF db rok e(1) qs idx sets' sh(1) home work caps ready]
    have new: "i \<notin> send_id ` set (running s)" using fresh by (simp add: fresh_id_def)
    have k: "kept cfg {} s s'" if "db s' = ?r" "whdb s' = whdb s" "running s' = running s"
      "sends s' = sends s" "next_token s' = next_token s" for s'
      by (rule kept_one [OF ok rel(1) rel(2) disjI1 [OF new] that])
    show ?thesis
      using Some Delivery ok kept_engine_ok [OF ok k]
      by (auto simp: enqueue_def Let_def split: option.split prod.split)
  qed
qed

end
