(* ===== verification/Stub_Plugin.thy ===== *)
theory Stub_Plugin
  imports Plugin_SPI
begin

text \<open>
  The two bundled no-op plugins (\<open>src/plugins/stub/index.ts\<close>): a PUSH stub with spacing admission
  and a PULL stub with concurrency admission. Both satisfy the delivery-plugin contract.
\<close>

definition STUB_PUSH_ID :: plugin_id where
  "STUB_PUSH_ID = ''stub-push''"

definition STUB_PULL_ID :: plugin_id where
  "STUB_PULL_ID = ''stub-pull''"

definition STUB_PUSH_NODE_KIND :: string where
  "STUB_PUSH_NODE_KIND = ''network''"

definition STUB_PULL_NODE_KIND :: string where
  "STUB_PULL_NODE_KIND = ''relayNode''"

definition STUB_PUSH_ADMISSION :: admission where
  "STUB_PUSH_ADMISSION = Spacing 2000"

definition STUB_PULL_ADMISSION :: admission where
  "STUB_PULL_ADMISSION = Concurrency 5"

definition id_segment :: "nat option \<Rightarrow> string" where
  "id_segment n = (case n of None \<Rightarrow> ''unassigned'' | Some i \<Rightarrow> nat_to_string i)"

definition parseStubError :: "exn \<Rightarrow> failureContext" where
  "parseStubError err = \<lparr>fc_reason = exn_message err, fc_errorCode = None, fc_details = None,
     fc_skipRetry = None\<rparr>"

text \<open>\<open>stubSendOne\<close>, over the ULID it draws.\<close>

definition stubSendOne :: "string \<Rightarrow> string" where
  "stubSendOne ulid = ''stub-ext-'' @ ulid"

definition stubPushInitialQueueKey :: "plugin_id \<Rightarrow> string \<Rightarrow> nat option \<Rightarrow> device \<Rightarrow> string" where
  "stubPushInitialQueueKey i nodeKind networkId dev =
     buildInitialQueueKey i nodeKind (id_segment networkId)"

definition stubPullInitialQueueKey :: "plugin_id \<Rightarrow> string \<Rightarrow> nat option \<Rightarrow> device \<Rightarrow> string" where
  "stubPullInitialQueueKey i nodeKind networkId dev =
     buildInitialQueueKey i nodeKind (id_segment (Option.bind (dev_relayNode dev) rn_id))"

definition buildStubPush :: "pluginTuning \<Rightarrow> deliveryPlugin" where
  "buildStubPush tuning = \<lparr>
     d_id = STUB_PUSH_ID, d_pattern = PUSH, d_supportedCommandTypes = ENQUEUEABLE_COMMAND_TYPES,
     d_initialQueueKey = stubPushInitialQueueKey STUB_PUSH_ID STUB_PUSH_NODE_KIND,
     d_validateEnqueue = None, d_admission = STUB_PUSH_ADMISSION, d_tuning = tuning,
     d_relayNodeNoun = None, d_parseError = parseStubError, d_hasGetRemoteStatus = True,
     d_hasToken = True, d_hasProvisioning = False\<rparr>"

definition buildStubPull :: "pluginTuning \<Rightarrow> deliveryPlugin" where
  "buildStubPull tuning = \<lparr>
     d_id = STUB_PULL_ID, d_pattern = PULL, d_supportedCommandTypes = ENQUEUEABLE_COMMAND_TYPES,
     d_initialQueueKey = stubPullInitialQueueKey STUB_PULL_ID STUB_PULL_NODE_KIND,
     d_validateEnqueue = None, d_admission = STUB_PULL_ADMISSION, d_tuning = tuning,
     d_relayNodeNoun = None, d_parseError = parseStubError, d_hasGetRemoteStatus = False,
     d_hasToken = False, d_hasProvisioning = False\<rparr>"

definition createStubPushPlugin :: "pluginEntry \<Rightarrow> exn + devicePlugin" where
  "createStubPushPlugin entry =
     map_sum id (\<lambda>t. Delivery (buildStubPush t)) (mergePluginTuning entry no_override)"

definition createStubPullPlugin :: "pluginEntry \<Rightarrow> exn + devicePlugin" where
  "createStubPullPlugin entry =
     map_sum id (\<lambda>t. Delivery (buildStubPull t)) (mergePluginTuning entry no_override)"

lemma stub_push_contract:
  "positive_tuning t \<Longrightarrow> delivery_plugin_contract (buildStubPush t) STUB_PUSH_NODE_KIND"
  by unfold_locales
     (auto simp: buildStubPush_def STUB_PUSH_ID_def STUB_PUSH_NODE_KIND_def good_segment_def
        stubPushInitialQueueKey_def isEnqueueableCommand_def isTypeIn_def)

lemma stub_pull_contract:
  "positive_tuning t \<Longrightarrow> delivery_plugin_contract (buildStubPull t) STUB_PULL_NODE_KIND"
  by unfold_locales
     (auto simp: buildStubPull_def STUB_PULL_ID_def STUB_PULL_NODE_KIND_def good_segment_def
        stubPullInitialQueueKey_def isEnqueueableCommand_def isTypeIn_def)

interpretation stubPush: delivery_plugin_contract "buildStubPush DEFAULT_PLUGIN_TUNING" STUB_PUSH_NODE_KIND
  using default_tuning_positive by (rule stub_push_contract)

interpretation stubPull: delivery_plugin_contract "buildStubPull DEFAULT_PLUGIN_TUNING" STUB_PULL_NODE_KIND
  using default_tuning_positive by (rule stub_pull_contract)

end
