(* ===== verification/Engine_Steps.thy ===== *)
theory Engine_Steps
  imports Outgoing_Invariants Stub_Plugin
begin

text \<open>
  The engine as a transition system: its steps are the handlers, in any order, with any clock
  readings, vendor replies, parsed events and due members; time may pass (keys expire) and the
  process may die and restart between any two steps. Every state reachable from the empty database
  satisfies the invariant.
\<close>

inductive engine_step :: "engineConfig \<Rightarrow> engine \<Rightarrow> engine \<Rightarrow> bool" for cfg where
  step_time: "engine_step cfg s (with_db (redis_at now) s)"
| step_enqueue: "fresh_id s i \<Longrightarrow> engine_step cfg s (snd (enqueue cfg w i dto s))"
| step_distribute: "engine_step cfg s (snd (distribute_queue cfg w q s))"
| step_settle: "sd \<in> set (running s) \<Longrightarrow> engine_step cfg s (snd (settle_send cfg w sd reply s))"
| step_member: "queue \<in> set (enumerateStageQueues (pull_plugin_ids cfg)) \<Longrightarrow>
    engine_step cfg s (snd (drain_member cfg now queue w v m s))"
| step_ingress: "engine_step cfg s (snd (handle cfg w parsed p s))"
| step_cancel: "engine_step cfg s (snd (cancelOne cfg c s))"
| step_webhook: "engine_step cfg s (s\<lparr>whdb := wb_deliverOne wcfg e now reply later (whdb s)\<rparr>)"
| step_stop: "engine_step cfg s (stopEnqueueKick s)"
| step_restart: "engine_step cfg s (s\<lparr>running := [], sends := [], canKickDistribute := b\<rparr>)"

inductive reachable :: "engineConfig \<Rightarrow> engine \<Rightarrow> bool" for cfg where
  reach_empty: "reachable cfg (empty_engine b)"
| reach_step: "reachable cfg s \<Longrightarrow> engine_step cfg s s' \<Longrightarrow> reachable cfg s'"

inductive_cases engine_step_cases: "engine_step cfg s s'"

lemma empty_engine_ok: "engine_ok cfg (empty_engine b)"
  by (auto simp: engine_ok_def empty_engine_def db_ok_def redis_ok_def empty_redis_def msg_ok_def
      one_queue_def stored_ok_def work_ok_def caps_ok_def sends_ok_def webhook_ok_def
      empty_webhook_db_def in_queue_def hash_at_def)

lemma engine_step_ok:
  assumes cfg: "config_ok cfg" and ok: "engine_ok cfg s" and st: "engine_step cfg s s'"
  shows "engine_ok cfg s'"
  using st
proof cases
  case (step_time now)
  have "kept cfg {} s (with_db (redis_at now) s)"
    by (rule kept_all [OF ok db_ok_redis_at [OF engine_db [OF ok]] msg_le_redis_at]) simp_all
  then show ?thesis using kept_engine_ok [OF ok] step_time by simp
next
  case (step_enqueue i w dto)
  then show ?thesis using engine_ok_enqueue [OF cfg ok] by simp
next
  case (step_distribute w q)
  then show ?thesis using engine_ok_distribute [OF cfg ok] by simp
next
  case (step_settle sd w reply)
  then show ?thesis using engine_ok_settle [OF cfg ok] by simp
next
  case (step_member queue now w v m)
  then show ?thesis using kept_engine_ok [OF ok kept_drain_member [OF cfg ok]] by simp
next
  case (step_ingress w parsed p)
  then show ?thesis using kept_engine_ok [OF ok kept_handle [OF cfg ok]] by simp
next
  case (step_cancel c)
  then show ?thesis using kept_engine_ok [OF ok kept_cancelOne [OF cfg ok]] by simp
next
  case (step_webhook wcfg e now reply later)
  then show ?thesis using ok by (simp add: engine_ok_def webhook_ok_deliverOne sends_ok_def)
next
  case step_stop
  then show ?thesis using ok by (simp add: engine_ok_def stopEnqueueKick_def sends_ok_def)
next
  case (step_restart b)
  then show ?thesis using ok by (simp add: engine_ok_def sends_ok_def)
qed

lemma reachable_ok:
  assumes "config_ok cfg" and "reachable cfg s"
  shows "engine_ok cfg s"
  using assms(2) by (induction rule: reachable.induct) (auto intro: empty_engine_ok engine_step_ok assms(1))

text \<open>A whole tick, a whole distribution and a bulk cancel are sequences of steps.\<close>

lemma reachable_drain_members:
  assumes q: "queue \<in> set (enumerateStageQueues (pull_plugin_ids cfg))"
  shows "reachable cfg s \<Longrightarrow> reachable cfg (snd (drain_members cfg now queue turns is s))"
proof (induction "is" arbitrary: s)
  case (Cons i "is")
  obtain w v where t: "turns i = (w, v)" by fastforce
  have r1: "reachable cfg (snd (drain_member cfg now queue w v i s))"
    using reach_step [OF Cons.prems step_member [OF q]] .
  show ?case
  proof (cases "drain_member cfg now queue w v i s")
    case (Pair res s1)
    show ?thesis
    proof (cases res)
      case (Inl err)
      then show ?thesis using r1 by (simp add: t Pair)
    next
      case (Inr u)
      then show ?thesis using Cons.IH [of s1] r1 by (simp add: t Pair)
    qed
  qed
qed simp

lemma reachable_tick:
  assumes "reachable cfg s"
  shows "reachable cfg (tick cfg now draining turns s)"
proof -
  let ?f = "\<lambda>queue s. if sq_key queue \<in> set draining then s
      else snd (drain_queue cfg now queue (turns (sq_key queue)) s)"
  have "set qs \<subseteq> set (enumerateStageQueues (pull_plugin_ids cfg)) \<Longrightarrow> reachable cfg s \<Longrightarrow>
      reachable cfg (fold ?f qs s)" for qs s
    by (induction qs arbitrary: s) (auto simp: drain_queue_def reachable_drain_members)
  then show ?thesis using assms by (simp add: tick_def)
qed

lemma reachable_distribute:
  assumes "reachable cfg s"
  shows "reachable cfg (snd (distributeToNetworkServers cfg worlds s))"
proof -
  have "reachable cfg (snd rs) \<Longrightarrow> reachable cfg (snd (fold (\<lambda>queueKey (res, s).
      case distribute_queue cfg (worlds queueKey) queueKey s of
        (res', s') \<Rightarrow> (if raises res then res else res', s')) qs rs))" for qs rs
  proof (induction qs arbitrary: rs)
    case (Cons q qs)
    obtain res s where rs: "rs = (res, s)" by fastforce
    obtain res' s' where d: "distribute_queue cfg (worlds q) q s = (res', s')" by fastforce
    have "reachable cfg s'"
      using reach_step [OF _ step_distribute, of cfg s "worlds q" q] Cons.prems by (simp add: rs d)
    then show ?case by (simp add: rs d Cons.IH)
  qed simp
  then show ?thesis using assms by (simp add: distributeToNetworkServers_def)
qed

end
