(* ===== verification/Engine_Outcomes.thy ===== *)
theory Engine_Outcomes
  imports Engine_Steps
begin

text \<open>
  What each outcome of a handler means for the message it is about: a purge leaves no trace, entering
  retry leaves the message in the retry queue only, and a member's turn in the runner leaves the
  member either out of its queue or rescored past the tick.
\<close>

section \<open>Purge leaves no trace\<close>

definition no_trace :: "engine \<Rightarrow> msg_id \<Rightarrow> bool" where
  "no_trace s m \<longleftrightarrow> hash_at (db s) m = None \<and> (\<forall>k. \<not> in_queue (db s) k m) \<and>
     (\<forall>c. rate_key c \<longrightarrow> m \<notin> set (sets (db s) c)) \<and>
     (\<forall>d. strs (db s) (indexExternalDeliveryId d) \<noteq> Some (messageKey m))"

lemma purge_no_trace:
  assumes ok: "engine_ok cfg s" and h: "hash_at (db s) m = Some h"
    and pm: "hash_plugin cfg h = Some pm" "h_pluginId h = Some (d_id pm)"
    and fields: "m_id msg = m" "m_pluginId msg = d_id pm"
      "m_concurrencyRateLimitKey msg = h_concurrencyRateLimitKey h"
      "m_deliveryQueueId msg = (case h_deliveryQueueId h of None \<Rightarrow> [] | Some d \<Rightarrow> d)"
    and ready: "the (h_deliveryStatus h) = QUEUED \<Longrightarrow>
      ready_key p msg = d_initialQueueKey pm (h_networkId h) (the (h_device h))"
  shows "no_trace (purge msg p s) m"
proof -
  note st = stored [OF engine_db [OF ok] h]
  have "\<not> in_queue (db (purge msg p s)) k m" for k
  proof
    assume a: "in_queue (db (purge msg p s)) k m"
    then have "in_queue (db s) k m" by (simp add: purge_queue)
    then have home: "k = home_of pm h" by (rule queue_is_home [OF engine_db [OF ok] h _ pm(1)])
    show False
    proof (cases "stageForStatus (the (h_deliveryStatus h)) (d_pattern pm)")
      case None
      then have "the (h_deliveryStatus h) = QUEUED"
        using st(2) by (cases "the (h_deliveryStatus h)") (auto simp: hash_ok_def terminal_status_def)
      then show False using a home None ready by (simp add: purge_queue fields home_of_def)
    next
      case (Some sg)
      then have "k = stageKeyFor (STAGES sg) (m_pluginId msg)" using home by (simp add: home_of_def fields)
      then show False using a unfolding purge_queue fields by blast
    qed
  qed
  moreover have "m \<notin> set (sets (db (purge msg p s)) c)" if "rate_key c" for c
    using st(1) that by (auto simp: purge_sets fields stored_ok_def)
  moreover have "strs (db (purge msg p s)) (indexExternalDeliveryId d) \<noteq> Some (messageKey m)" for d
  proof
    assume a: "strs (db (purge msg p s)) (indexExternalDeliveryId d) = Some (messageKey m)"
    then have "h_deliveryQueueId h = Some d"
      using purge_strs(1) [OF a] st(1) by (simp add: stored_ok_def)
    moreover have "h_deliveryQueueId h \<noteq> Some []" using st(2) by (auto simp: hash_ok_def)
    ultimately show False using a purge_strs(2) [of msg p s] fields by auto
  qed
  ultimately show ?thesis by (simp add: no_trace_def hash_at_def purge_hash fields)
qed

lemma message_of_purge:
  assumes cfg: "config_ok cfg" and ok: "engine_ok cfg s" and h: "hash_at (db s) m = Some h"
    and pm: "hash_plugin cfg h = Some pm"
  shows "no_trace (purge (message_of m h) pm s) m"
    and "the (h_deliveryStatus h) \<noteq> QUEUED \<Longrightarrow> no_trace (purge (message_of m h) p s) m"
proof -
  note f = message_of_fields [OF stored(2) [OF engine_db [OF ok] h]]
  have i: "h_pluginId h = Some (d_id pm)" using hash_plugin_ready(4) [OF cfg pm] .
  note pn = purge_no_trace [OF ok h pm i f(1) _ f(9) f(6)]
  show "no_trace (purge (message_of m h) pm s) m"
    by (rule pn) (simp_all add: f i ready_key_def)
  show "no_trace (purge (message_of m h) p s) m" if "the (h_deliveryStatus h) \<noteq> QUEUED"
    by (rule pn) (use that in \<open>simp_all add: f i\<close>)
qed

lemma no_trace_metric [simp]: "no_trace (recordMessageTerminal o' n s) m = no_trace s m"
  by (simp add: no_trace_def)

section \<open>Retry or fail\<close>

lemma retryOrFail_Inr:
  assumes ok: "engine_ok cfg s" and h: "hash_at (db s) m = Some h"
    and r: "retryOrFail cfg w m q context p s = (Inr oc, s1)"
  obtains (failed) ev s0 where "oc = Removed"
      "is_final_failure cfg context (retry_count (message_of m h))"
      "emitDeliveryEvent cfg w ev s = (Inr (), s0)"
      "s1 = purge (message_of m h) p (recordMessageTerminal (Terminal DELIVERY_FAILED)
         (retry_count (message_of m h)) s0)"
  | (retried) n hist where "oc = MovedOn" "\<not> is_final_failure cfg context (retry_count (message_of m h))"
      "enterRetry cfg w m q n hist p s = (True, s1)" "in_queue (db s) q m"
  | (missed) "oc = Orphaned" "\<not> is_final_failure cfg context (retry_count (message_of m h))"
      "\<not> in_queue (db s) q m" "s1 = recordStageClaimMiss St_retry s"
proof -
  note load = load_hash [OF engine_db [OF ok] h]
  show thesis
  proof (cases "is_final_failure cfg context (retry_count (message_of m h))")
    case True
    then show thesis using r failed
      by (auto simp: retryOrFail_def load Let_def split: prod.splits sum.splits)
  next
    case False
    show thesis
    proof (cases "in_queue (db s) q m")
      case True
      then show thesis using r False retried
        by (auto simp: retryOrFail_def load Let_def enterRetry_def)
    next
      case nq: False
      then show thesis using r False missed
        by (auto simp: retryOrFail_def load Let_def enterRetry_miss)
    qed
  qed
qed

lemma emit_ok_state:
  "engine_ok cfg s \<Longrightarrow> emitDeliveryEvent cfg w ev s = (res, s0) \<Longrightarrow>
     engine_ok cfg s0 \<and> db s0 = db s \<and> running s0 = running s"
  using kept_engine_ok [OF _ kept_emit, of cfg s w ev] emit_db(1,3) [of cfg w ev s] by simp

lemma enterRetry_moves:
  assumes ok: "engine_ok cfg s" and h: "hash_at (db s) m = Some h"
    and e: "enterRetry cfg w m q n hist p s = (True, s1)"
  shows "in_queue (db s1) k m \<longleftrightarrow> k = QUEUE_RETRY_KEY"
    and "hash_at (db s1) m = Some (retried_hash n hist h)"
    and "zscore (zsets (db s1) QUEUE_RETRY_KEY) m =
      Some (w_now w + calculateBackoffDelay n (cf_delivery cfg) (w_random w))"
proof -
  have q: "in_queue (db s) q m" using e enterRetry_miss [of s q m] by (cases "in_queue (db s) q m") auto
  have hk: "hashes (db s) (messageKey m) = Some h" using h by (simp add: hash_at_def)
  obtain s' where s': "enterRetry cfg w m q n hist p s = (True, s')"
    and hs: "hashes (db s') = (hashes (db s))(messageKey m \<mapsto> retried_hash n hist h)"
    and qs: "\<And>k x. in_queue (db s') k x \<longleftrightarrow> k = QUEUE_RETRY_KEY \<and> x = m \<or>
      in_queue (db s) k x \<and> \<not> (k = q \<and> x = m)"
    and sc: "zscore (zsets (db s') QUEUE_RETRY_KEY) m =
      Some (w_now w + calculateBackoffDelay n (cf_delivery cfg) (w_random w))"
    by (rule enterRetry_hit [OF q hk, of cfg w n hist p], rule that, assumption+)
  have eq: "s1 = s'" using e s' by simp
  show "in_queue (db s1) k m \<longleftrightarrow> k = QUEUE_RETRY_KEY"
    using qs [of k m] one_queue_in [OF stored(3) [OF engine_db [OF ok] h] q, of k] by (auto simp: eq)
  show "hash_at (db s1) m = Some (retried_hash n hist h)" by (simp add: eq hash_at_def hs)
  show "zscore (zsets (db s1) QUEUE_RETRY_KEY) m =
      Some (w_now w + calculateBackoffDelay n (cf_delivery cfg) (w_random w))" using sc by (simp add: eq)
qed

text \<open>A member in a stage queue that the decision moved on or removed is not in that queue.\<close>

lemma retryOrFail_leaves:
  assumes cfg: "config_ok cfg" and ok: "engine_ok cfg s" and h: "hash_at (db s) m = Some h"
    and r: "retryOrFail cfg w m q context p s = (Inr oc, s1)" and oc: "oc = MovedOn \<or> oc = Removed"
    and k: "\<not> ready_queue k" "k \<noteq> QUEUE_RETRY_KEY"
  shows "\<not> in_queue (db s1) k m"
proof (rule retryOrFail_Inr [OF ok h r])
  fix n hist assume "enterRetry cfg w m q n hist p s = (True, s1)"
  then show ?thesis using enterRetry_moves(1) [OF ok h] k(2) by simp
next
  fix ev s0 assume em: "emitDeliveryEvent cfg w ev s = (Inr (), s0)"
    and s1: "s1 = purge (message_of m h) p (recordMessageTerminal (Terminal DELIVERY_FAILED)
         (retry_count (message_of m h)) s0)"
  note e0 = emit_ok_state [OF ok em]
  let ?s0 = "recordMessageTerminal (Terminal DELIVERY_FAILED) (retry_count (message_of m h)) s0"
  have ok0: "engine_ok cfg ?s0" using e0 by (simp add: engine_ok_metrics)
  have h0: "hash_at (db ?s0) m = Some h" using e0 h by simp
  obtain pm where pm: "hash_plugin cfg h = Some pm"
    using stored(2) [OF engine_db [OF ok] h] by (auto simp: hash_ok_def)
  show ?thesis
  proof
    assume q: "in_queue (db s1) k m"
    then have "in_queue (db ?s0) k m" unfolding s1 by (simp add: purge_queue)
    then have "k = home_of pm h" by (rule queue_is_home [OF engine_db [OF ok0] h0 _ pm])
    then have "the (h_deliveryStatus h) \<noteq> QUEUED"
      using k(1) hash_plugin_ready(1) [OF cfg pm] by (auto simp: home_of_def)
    then have "no_trace s1 m" unfolding s1 by (rule message_of_purge(2) [OF cfg ok0 h0 pm])
    then show False using q by (simp add: no_trace_def)
  qed
qed (use oc in simp_all)

section \<open>Rescheduled means unchanged\<close>

lemma retryOrFail_not_rescheduled:
  "retryOrFail cfg w m q context p s \<noteq> (Inr Rescheduled, s1)"
  by (auto simp: retryOrFail_def Let_def split: sum.splits option.splits prod.splits if_splits)

lemma retryOrFail_raises: "retryOrFail cfg w m q context p s = (Inl e, s1) \<Longrightarrow> s1 = s"
  by (auto simp: retryOrFail_def Let_def split: sum.splits option.splits prod.splits if_splits
      dest: emit_failed)

lemma retryOrFail_fails:
  "retryOrFail cfg w m q context p s = (res, s1) \<Longrightarrow> raises res \<Longrightarrow> db s1 = db s"
  by (cases res) (auto dest: retryOrFail_raises)

lemma advance_raises: "advance cfg w m p st d n s = (Inl e, s1) \<Longrightarrow> s1 = s"
  by (auto simp: advance_def Let_def split: option.splits prod.splits simp del: STAGES.simps)

lemma processEvent_unchanged:
  assumes "processEvent cfg w e p s = (res, s1)" and "raises res \<or> res = Inr Rescheduled"
  shows "db s1 = db s"
proof -
  have em: "emitDeliveryEvent cfg w ev s = (x, s2) \<Longrightarrow> db s2 = db s" for ev x s2
    using emit_db(1) [of cfg w ev s] by simp
  show ?thesis
    using assms
    by (auto simp: processEvent_def Let_def dest: em advance_raises retryOrFail_fails
        split: sum.splits option.splits prod.splits if_splits
        simp: retryOrFail_not_rescheduled)
qed

lemma stage_action_unchanged:
  assumes "stage_action st cfg w v k msg p age s = (res, s1)" and "raises res \<or> res = Inr Rescheduled"
  shows "db s1 = db s"
proof (cases st)
  case St_awaitingTask
  then show ?thesis
    using assms processEvent_unchanged [of cfg w _ p s res s1]
      emit_failed [of cfg w "partial_of (expired_message (w_now w) msg)" s]
    by (auto simp: action_awaitingTask_def failPermanently_def Let_def
        split: sum.splits option.splits prod.splits if_splits)
next
  case St_retry
  then show ?thesis using assms
    by (auto simp: action_retry_def Let_def split: prod.splits if_splits)
qed (use assms in
    \<open>auto simp: action_ns_def action_relayNode_def action_device_def Let_def raises_def
      retryOrFail_not_rescheduled split: if_splits sum.splits dest: retryOrFail_raises\<close>)

section \<open>A member's turn\<close>

text \<open>
  What the runner relies on of \<open>fetchStatus\<close>: the event it returns for a message names that message,
  or no message at all.
\<close>

definition own_event :: "engine \<Rightarrow> msg_id \<Rightarrow> vendorReplies \<Rightarrow> bool" where
  "own_event s m v = (case v_fetchStatus v of
     Inr (Some e) \<Rightarrow> e_unsolicited e \<or> (case e_deliveryQueueId e of
         None \<Rightarrow> True
       | Some d \<Rightarrow> getMessageIdFromDeliveryQueueId d (db s) \<in> {None, Some m})
   | _ \<Rightarrow> True)"

lemma processEvent_leaves:
  assumes cfg: "config_ok cfg" and ok: "engine_ok cfg s" and h: "hash_at (db s) m = Some h"
    and pe: "processEvent cfg w e p s = (Inr oc, s1)" and oc: "oc = MovedOn \<or> oc = Removed"
    and pull: "d_pattern p = PULL"
    and own: "e_unsolicited e \<or> (case e_deliveryQueueId e of None \<Rightarrow> True
      | Some d \<Rightarrow> getMessageIdFromDeliveryQueueId d (db s) \<in> {None, Some m})"
    and k: "\<not> ready_queue k" "k \<noteq> QUEUE_RETRY_KEY"
  shows "\<not> in_queue (db s1) k m"
proof -
  note load = load_hash [OF engine_db [OF ok] h]
  have sol: "\<not> e_unsolicited e" using pe oc by (auto simp: processEvent_def split: prod.splits sum.splits)
  obtain d where d: "e_deliveryQueueId e = Some d" "d \<noteq> []"
    using pe oc sol by (cases "e_deliveryQueueId e") (auto simp: processEvent_def split: if_splits)
  have id: "getMessageIdFromDeliveryQueueId d (db s) = Some m"
    using own sol d pe oc by (auto simp: processEvent_def)
  consider (nack) "e_deliveryStatus e = DELIVERY_FAILED" | (success) "e_deliveryStatus e = DELIVERY_SUCCESSFUL"
    using pe oc sol d id pull by (auto simp: processEvent_def split: if_splits)
  then show ?thesis
  proof cases
    case nack
    then obtain st ctx where
      "retryOrFail cfg w m (stageKeyFor (STAGES st) (d_id p)) ctx p s = (Inr oc, s1)"
      using pe oc sol d id load
      by (auto simp: processEvent_def Let_def simp del: STAGES.simps split: option.splits)
    then show ?thesis by (rule retryOrFail_leaves [OF cfg ok h _ oc k])
  next
    case success
    then obtain ev s0 where em: "emitDeliveryEvent cfg w ev s = (Inr (), s0)"
      and s1: "s1 = purge (message_of m h) p (recordMessageTerminal (Terminal DELIVERY_SUCCESSFUL)
        (retry_count (message_of m h)) s0)"
      using pe oc sol d id load by (auto simp: processEvent_def split: prod.splits sum.splits)
    note e0 = emit_ok_state [OF ok em]
    let ?s0 = "recordMessageTerminal (Terminal DELIVERY_SUCCESSFUL) (retry_count (message_of m h)) s0"
    have ok0: "engine_ok cfg ?s0" using e0 by (simp add: engine_ok_metrics)
    have h0: "hash_at (db ?s0) m = Some h" using e0 h by simp
    note st = stored [OF engine_db [OF ok] h]
    obtain pm where pm: "hash_plugin cfg h = Some pm" using st(2) by (auto simp: hash_ok_def)
    have "strs (db s) (indexExternalDeliveryId d) = Some (messageKey m)"
      using id messageIdFromKey_Some
      by (cases "strs (db s) (indexExternalDeliveryId d)") (auto simp: getMessageIdFromDeliveryQueueId_def)
    then have "the (h_deliveryStatus h) \<noteq> QUEUED"
      using st by (auto simp: stored_ok_def hash_ok_def before_send_def)
    then have "no_trace s1 m" unfolding s1 by (rule message_of_purge(2) [OF cfg ok0 h0 pm])
    then show ?thesis by (simp add: no_trace_def)
  qed
qed

lemma retry_action_leaves:
  assumes cfg: "config_ok cfg" and pm: "hash_plugin cfg h = Some p" and id: "m_id (message_of m h) = m"
    and a: "action_retry cfg w (message_of m h) p s = (res, s1)"
  shows "\<not> in_queue (db s1) QUEUE_RETRY_KEY m"
proof -
  let ?dst = "ready_key p (message_of m h)"
  have "ready_queue ?dst" using hash_plugin_ready(1) [OF cfg pm] by (simp add: ready_key_def)
  then have "QUEUE_RETRY_KEY \<noteq> ?dst" by auto
  then have gate: "claim_gate (requeueMessage m QUEUE_RETRY_KEY ?dst prio now)
      (\<lambda>r. in_queue r QUEUE_RETRY_KEY m)" for prio now by (rule requeue_claim_gate)
  have "\<not> in_queue (snd (requeueMessage m QUEUE_RETRY_KEY ?dst prio now r)) QUEUE_RETRY_KEY m"
    for prio now r by (rule claim_gate.leaves [OF gate])
  then have "\<not> in_queue (db (snd (requeue w m QUEUE_RETRY_KEY ?dst prio s))) QUEUE_RETRY_KEY m" for prio
    by (auto simp: requeue_def Let_def split: prod.split) (metis snd_conv)+
  then show ?thesis using a id
    by (auto simp: action_retry_def Let_def split: prod.splits if_splits) (metis snd_conv)+
qed

lemma expired_leaves:
  assumes cfg: "config_ok cfg" and ok: "engine_ok cfg s" and h: "hash_at (db s) m = Some h"
    and pm: "hash_plugin cfg h = Some p"
    and a: "failPermanently cfg w (message_of m h) p s = (Inr u, s1)"
  shows "\<not> in_queue (db s1) k m"
proof -
  let ?failed = "expired_message (w_now w) (message_of m h)"
  obtain s0 where em: "emitDeliveryEvent cfg w (partial_of ?failed) s = (Inr (), s0)"
    and s1: "s1 = purge ?failed p (recordMessageTerminal (Terminal DELIVERY_FAILED)
      (retry_count (message_of m h)) s0)"
    using a by (auto simp: failPermanently_def Let_def split: prod.splits sum.splits)
  note e0 = emit_ok_state [OF ok em]
  let ?s0 = "recordMessageTerminal (Terminal DELIVERY_FAILED) (retry_count (message_of m h)) s0"
  have ok0: "engine_ok cfg ?s0" using e0 by (simp add: engine_ok_metrics)
  have h0: "hash_at (db ?s0) m = Some h" using e0 h by simp
  note f = message_of_fields [OF stored(2) [OF engine_db [OF ok] h]] and i = hash_plugin_ready(4) [OF cfg pm]
  have "no_trace s1 m"
    unfolding s1 by (rule purge_no_trace [OF ok0 h0 pm i]) (simp_all add: expired_message_def f i ready_key_def)
  then show ?thesis by (simp add: no_trace_def)
qed

lemma action_leaves:
  assumes cfg: "config_ok cfg" and ok: "engine_ok cfg s" and h: "hash_at (db s) m = Some h"
    and pm: "hash_plugin cfg h = Some p"
    and a: "stage_action st cfg w v k (message_of m h) p age s = (Inr oc, s1)"
    and oc: "oc = MovedOn \<or> oc = Removed"
    and k: "\<not> ready_queue k" "st \<noteq> St_retry \<longrightarrow> k \<noteq> QUEUE_RETRY_KEY" "st = St_retry \<longrightarrow> k = QUEUE_RETRY_KEY"
    and own: "own_event s m v"
  shows "\<not> in_queue (db s1) k m"
proof -
  have id: "m_id (message_of m h) = m" using message_of_fields(1) [OF stored(2) [OF engine_db [OF ok] h]] .
  note leaves = retryOrFail_leaves [OF cfg ok h _ oc]
  show ?thesis
  proof (cases st)
    case St_ns
    then show ?thesis using a oc id k leaves [of w QUEUE_NS_KEY _ p s1 k]
      by (auto simp: action_ns_def split: if_splits)
  next
    case St_relayNode
    then show ?thesis using a oc id k leaves [of w k _ p s1 k]
      by (auto simp: action_relayNode_def Let_def split: if_splits)
  next
    case St_device
    then show ?thesis using a oc id k leaves [of w k _ p s1 k] by (auto simp: action_device_def)
  next
    case St_retry
    then show ?thesis using a k(3) retry_action_leaves [OF cfg pm id] by simp
  next
    case St_awaitingTask
    show ?thesis
    proof (cases "PULL_MAX_MESSAGE_AGE_MS \<le> age")
      case True
      then obtain u where "failPermanently cfg w (message_of m h) p s = (Inr u, s1)"
        using a St_awaitingTask oc by (auto simp: action_awaitingTask_def split: prod.splits sum.splits)
      then show ?thesis by (rule expired_leaves [OF cfg ok h pm])
    next
      case False
      then obtain e where pe: "processEvent cfg w e p s = (Inr oc, s1)"
        and fs: "v_fetchStatus v = Inr (Some e)" and pull: "d_pattern p = PULL"
        using a St_awaitingTask oc
        by (auto simp: action_awaitingTask_def split: if_splits sum.splits option.splits)
      show ?thesis
        by (rule processEvent_leaves [OF cfg ok h pe oc pull _ k(1)])
           (use own fs k(2) St_awaitingTask in \<open>auto simp: own_event_def split: option.splits\<close>)
    qed
  qed
qed

end
