(* ===== verification/Example_Service.thy ===== *)
theory Example_Service
  imports Engine_Outcomes
begin

text \<open>
  A concrete service: the two bundled plugins under the default configuration, and one message
  followed through enqueue, distribution and a successful send. The properties are applied here.
\<close>

definition example_config :: engineConfig where
  "example_config = \<lparr>
     cf_registry = [(STUB_PUSH_ID, Delivery (buildStubPush DEFAULT_PLUGIN_TUNING)),
                    (STUB_PULL_ID, Delivery (buildStubPull DEFAULT_PLUGIN_TUNING))],
     cf_delivery = default_delivery,
     cf_webhook = Some (default_eventWebhook ''http://adopter''),
     cf_decodeTime = (\<lambda>_. 0)\<rparr>"

definition example_world :: "time \<Rightarrow> string \<Rightarrow> world" where
  "example_world now e = \<lparr>w_now = now, w_random = 0, w_eventId = e, w_persistFails = False\<rparr>"

definition example_device :: device where
  "example_device = \<lparr>dev_type = ELECTRICITY_METER, dev_externalReference = ''47000123456'',
     dev_relayNode = Some \<lparr>rn_id = Some 7, rn_externalReference = None, rn_snr = None,
       rn_rssi = None\<rparr>\<rparr>"

definition example_create :: createDeviceMessage where
  "example_create = \<lparr>c_commandType = TURN_ON, c_priority = 5, c_pluginId = STUB_PULL_ID,
     c_requestData = None, c_phase = None, c_networkId = None, c_correlationId = Some ''c1'',
     c_device = example_device\<rparr>"

definition example_queue :: string where
  "example_queue = ''queue:stub-pull:relayNode:7''"

definition example_queued :: engine where
  "example_queued = snd (enqueue example_config (example_world 1000 ''E0'') ''M1'' example_create
     (empty_engine True))"

definition example_sent :: engine where
  "example_sent = snd (distribute_queue example_config (example_world 2000 ''E1'') example_queue
     example_queued)"

definition example_waiting :: engine where
  "example_waiting = snd (settle_send example_config (example_world 3000 ''E2'')
     (hd (running example_sent)) (Inr ''stub-ext-1'') example_sent)"

lemma example_config_ok: "config_ok example_config"
  unfolding config_ok_def
proof (intro conjI allI impI)
  show "registry_ok (cf_registry example_config)"
    by (simp add: example_config_def registry_ok_def STUB_PUSH_ID_def STUB_PULL_ID_def
        buildStubPush_def buildStubPull_def)
  show "deliverySchema (cf_delivery example_config)"
    by (simp add: example_config_def default_delivery_valid)
  fix i p assume "registry_get (cf_registry example_config) i = Some (Delivery p)"
  then have "p = buildStubPush DEFAULT_PLUGIN_TUNING \<or> p = buildStubPull DEFAULT_PLUGIN_TUNING"
    by (auto simp: example_config_def registry_get_def split: if_splits)
  then show "\<exists>kind. delivery_plugin_contract p kind"
    using stubPush.delivery_plugin_contract_axioms stubPull.delivery_plugin_contract_axioms by blast
qed

lemma example_fresh: "fresh_id (empty_engine b) i"
  by (simp add: fresh_id_def empty_engine_def empty_redis_def hash_at_def in_queue_def)

lemma example_queued_reachable: "reachable example_config example_queued"
  unfolding example_queued_def by (rule reach_step [OF reach_empty step_enqueue [OF example_fresh]])

lemma example_sent_reachable: "reachable example_config example_sent"
  unfolding example_sent_def by (intro reach_step [OF example_queued_reachable] step_distribute)

text \<open>The three states, component by component.\<close>

lemmas example_defs = example_config_def example_world_def example_create_def example_device_def
  example_queue_def registry_get_def STUB_PUSH_ID_def STUB_PULL_ID_def buildStubPush_def
  buildStubPull_def STUB_PUSH_NODE_KIND_def STUB_PULL_NODE_KIND_def STUB_PULL_ADMISSION_def
  stubPullInitialQueueKey_def buildInitialQueueKey_def id_segment_def nat_to_string.simps digit_def
  listOfInitialQueuesToDistributeFrom_def

definition example_dto_hash :: mhash where
  "example_dto_hash = serializeCreateDeviceMessage example_create"

lemma example_queue_key:
  "d_initialQueueKey (buildStubPull DEFAULT_PLUGIN_TUNING) None example_device = example_queue"
  by (simp add: example_defs) code_simp

lemma example_plugin:
  "registry_get (cf_registry example_config) STUB_PULL_ID =
     Some (Delivery (buildStubPull DEFAULT_PLUGIN_TUNING))"
  by (simp add: example_config_def registry_get_def STUB_PULL_ID_def STUB_PUSH_ID_def)

lemma example_create_fields:
  "c_pluginId example_create = STUB_PULL_ID" "c_priority example_create = 5"
  "c_networkId example_create = None" "c_device example_create = example_device"
  "c_commandType example_create = TURN_ON" "c_correlationId example_create = Some ''c1''"
  "c_phase example_create = None"
  by (simp_all add: example_create_def)

lemma stub_pull_fields:
  "d_id (buildStubPull t) = STUB_PULL_ID" "d_pattern (buildStubPull t) = PULL"
  "d_supportedCommandTypes (buildStubPull t) = ENQUEUEABLE_COMMAND_TYPES"
  "d_validateEnqueue (buildStubPull t) = None" "d_admission (buildStubPull t) = Concurrency 5"
  "d_tuning (buildStubPull t) = t"
  by (simp_all add: buildStubPull_def STUB_PULL_ADMISSION_def)

lemma example_enqueue:
  "\<exists>k. example_queued = (empty_engine True)\<lparr>kicks := k, db := snd (enqueueDeviceMessage example_create
     example_queue 604800 ''M1'' 1000 empty_redis)\<rparr>"
  unfolding example_queued_def enqueue_def example_create_fields example_plugin
  by (auto simp: stub_pull_fields example_queue_key ENQUEUEABLE_COMMAND_TYPES_def
      CONTROL_COMMAND_TYPES_def Let_def example_world_def empty_engine_def example_config_def
      default_delivery_def split: prod.split)

lemma example_queued_state:
  "db example_queued = \<lparr>hashes = [messageKey ''M1'' \<mapsto> example_dto_hash],
     strs = [indexCorrelationId ''c1'' None \<mapsto> messageKey ''M1''],
     zsets = (\<lambda>_. [])(example_queue := [(''M1'', -5)]),
     sets = (\<lambda>_. [])(listOfInitialQueuesToDistributeFrom := [example_queue]),
     expires = [messageKey ''M1'' \<mapsto> 604801000, indexCorrelationId ''c1'' None \<mapsto> 604801000]\<rparr>"
  "whdb example_queued = empty_webhook_db" "running example_queued = []" "sends example_queued = []"
  "next_token example_queued = 0"
proof -
  obtain k where e: "example_queued = (empty_engine True)\<lparr>kicks := k, db := snd (enqueueDeviceMessage
      example_create example_queue 604800 ''M1'' 1000 empty_redis)\<rparr>" using example_enqueue by blast
  show "db example_queued = \<lparr>hashes = [messageKey ''M1'' \<mapsto> example_dto_hash],
     strs = [indexCorrelationId ''c1'' None \<mapsto> messageKey ''M1''],
     zsets = (\<lambda>_. [])(example_queue := [(''M1'', -5)]),
     sets = (\<lambda>_. [])(listOfInitialQueuesToDistributeFrom := [example_queue]),
     expires = [messageKey ''M1'' \<mapsto> 604801000, indexCorrelationId ''c1'' None \<mapsto> 604801000]\<rparr>"
    by (simp add: e enqueueDeviceMessage_def example_create_fields Let_def redis_command_defs
        empty_redis_def zadd_def zrem_def example_dto_hash_def ttl_instant_def)
  show "whdb example_queued = empty_webhook_db" "running example_queued = []"
    "sends example_queued = []" "next_token example_queued = 0"
    by (simp_all add: e empty_engine_def)
qed

definition example_rate_key :: string where
  "example_rate_key = ''rate_limit:stub-pull:relayNode:7''"

lemma example_keys:
  "getPluginIdFromInitialQueueKey example_queue = Some STUB_PULL_ID"
  "buildConcurrencyRateLimitKey example_queue = Some example_rate_key"
  by code_simp+

lemma example_key_distinct:
  "example_rate_key \<noteq> []" "example_rate_key \<noteq> listOfInitialQueuesToDistributeFrom"
  "example_queue \<noteq> QUEUE_NS_KEY"
  by (simp_all add: example_rate_key_def listOfInitialQueuesToDistributeFrom_def example_queue_def
      QUEUE_NS_KEY_def)

definition example_message :: deviceMessage where
  "example_message = message_of ''M1'' (picked_hash SENT_TO_NS example_rate_key example_dto_hash)"

lemma example_picked:
  "deserializeMessage ''M1'' (picked_hash SENT_TO_NS example_rate_key example_dto_hash) =
     Inr example_message"
  "m_id example_message = ''M1''" "retry_count example_message = 0"
  "m_pluginId example_message = STUB_PULL_ID"
  by (simp_all add: example_message_def message_of_def deserializeMessage_def picked_hash_def
      example_dto_hash_def serializeCreateDeviceMessage_def complete_hash_def example_create_fields
      retry_count_def empty_hash_def STUB_PULL_ID_def)

lemma default_ns_timeout: "nsInFlightTimeoutMs DEFAULT_PLUGIN_TUNING = 20000"
  by (simp add: DEFAULT_PLUGIN_TUNING_def)

lemma example_sent_state:
  "db example_sent = \<lparr>hashes = [messageKey ''M1'' \<mapsto>
       picked_hash SENT_TO_NS example_rate_key example_dto_hash],
     strs = [indexCorrelationId ''c1'' None \<mapsto> messageKey ''M1''],
     zsets = (\<lambda>_. [])(example_queue := [], QUEUE_NS_KEY := [(''M1'', 22000)]),
     sets = (\<lambda>_. [])(listOfInitialQueuesToDistributeFrom := [], example_rate_key := [''M1'']),
     expires = [messageKey ''M1'' \<mapsto> 604801000, indexCorrelationId ''c1'' None \<mapsto> 604801000]\<rparr>"
  "running example_sent = [\<lparr>sd_token = 0, sd_plugin = buildStubPull DEFAULT_PLUGIN_TUNING,
     sd_message = example_message\<rparr>]"
  "sends example_sent = [(''M1'', 0)]"
proof -
  let ?p = "buildStubPull DEFAULT_PLUGIN_TUNING"
  let ?w = "example_world 2000 ''E1''"
  have plug: "Option.bind (getPluginIdFromInitialQueueKey example_queue)
      (\<lambda>i. Option.bind (registry_get (cf_registry example_config) i) delivery_of) = Some ?p"
    by (simp add: example_keys example_plugin)
  have adm: "canAdmit ?w ?p example_queue (db example_queued) = (True, db example_queued)"
    by (simp add: canAdmit_def stub_pull_fields example_keys Let_def getConcurrencyRateLimitCount_def
        example_queued_state example_key_distinct)
  have key: "pick_key ?p example_queue = example_rate_key" "pick_max ?p example_queue = 5"
    by (simp_all add: pick_key_def pick_max_def concurrency_limit_def stub_pull_fields example_keys)
  let ?r = "\<lparr>hashes = [messageKey ''M1'' \<mapsto> picked_hash SENT_TO_NS example_rate_key example_dto_hash],
     strs = [indexCorrelationId ''c1'' None \<mapsto> messageKey ''M1''],
     zsets = (\<lambda>_. [])(example_queue := [], QUEUE_NS_KEY := [(''M1'', 22000)]),
     sets = (\<lambda>_. [])(listOfInitialQueuesToDistributeFrom := [], example_rate_key := [''M1'']),
     expires = [messageKey ''M1'' \<mapsto> 604801000, indexCorrelationId ''c1'' None \<mapsto> 604801000]\<rparr>"
  have fetch: "fetchNextMessageInQueueAndMove example_queue QUEUE_NS_KEY
      listOfInitialQueuesToDistributeFrom example_rate_key 22000 SENT_TO_NS 5 (db example_queued) =
      (Some (''M1'', picked_hash SENT_TO_NS example_rate_key example_dto_hash), ?r)"
    using example_key_distinct
    by (simp add: fetchNextMessageInQueueAndMove_def example_queued_state zpopmin_def Let_def
        redis_command_defs zadd_def zrem_def picked_hash_def)
  have pick: "pickIntoNs example_config ?w example_queue ?p (concurrency_limit ?p example_queue)
      example_queued = (Inr (Some example_message), example_queued\<lparr>db := ?r\<rparr>)"
    unfolding pickIntoNs_unfold key stub_pull_fields
    by (simp add: fetch Let_def default_ns_timeout example_picked) (simp add: example_world_def fetch
        example_picked)
  obtain s1 where em: "emitDeliveryEvent example_config ?w (partial_of example_message)
      (example_queued\<lparr>db := ?r\<rparr>) = (Inr (), s1)"
    using emit_full_result [of example_message example_config ?w "example_queued\<lparr>db := ?r\<rparr>"]
    by (cases "emitDeliveryEvent example_config ?w (partial_of example_message)
        (example_queued\<lparr>db := ?r\<rparr>)") (simp add: example_picked STUB_PULL_ID_def example_world_def)
  have sent: "example_sent = track ?p example_message s1"
    using em by (simp add: example_sent_def distribute_queue_def distribute_owned [OF plug] adm pick example_picked)
  have s1: "db s1 = ?r" "running s1 = []" "sends s1 = []" "next_token s1 = 0"
    using emit_db [of example_config ?w "partial_of example_message" "example_queued\<lparr>db := ?r\<rparr>"]
    by (simp_all add: em example_queued_state)
  show "db example_sent = ?r" by (simp add: sent s1)
  show "running example_sent = [\<lparr>sd_token = 0, sd_plugin = ?p, sd_message = example_message\<rparr>]"
    by (simp add: sent track_def s1)
  show "sends example_sent = [(''M1'', 0)]" by (simp add: sent track_def s1 send_set_def example_picked)
qed

lemma example_waiting_reachable: "reachable example_config example_waiting"
proof -
  have "running example_sent \<noteq> []" by (simp add: example_sent_state)
  then have "hd (running example_sent) \<in> set (running example_sent)" by (rule list.set_sel(1))
  then show ?thesis
    unfolding example_waiting_def by (intro reach_step [OF example_sent_reachable] step_settle)
qed

end
