(* ===== verification/Engine_Claims.thy ===== *)
theory Engine_Claims
  imports Example_Service
begin

text \<open>
  The properties of the engine over its reachable states, each applied to the example service.
\<close>

section \<open>Where a message is\<close>

text \<open>C1 (one queue): in every reachable state of the engine, whatever the order of requests, ticks,
  vendor replies, cancellations, expiries and restarts, a message id is a member of at most one
  queue, ready queues and stage queues together.\<close>

theorem reachable_one_queue:
  assumes "config_ok cfg" and "reachable cfg s"
    and "in_queue (db s) k m" and "in_queue (db s) k' m"
  shows "k = k'"
  using reachable_ok [OF assms(1,2)] assms(3,4)
  by (auto simp: engine_ok_def db_ok_def msg_ok_def one_queue_def)

lemma example_in_ns: "in_queue (db example_sent) QUEUE_NS_KEY ''M1''"
  by (simp add: in_queue_def example_sent_state zscore_def)

lemma example_hash:
  "hash_at (db example_sent) ''M1'' = Some (picked_hash SENT_TO_NS example_rate_key example_dto_hash)"
  by (simp add: hash_at_def example_sent_state)

lemma example_hash_plugin:
  "hash_plugin example_config (picked_hash SENT_TO_NS example_rate_key example_dto_hash) =
     Some (buildStubPull DEFAULT_PLUGIN_TUNING)"
  by (simp add: hash_plugin_def picked_hash_def example_dto_hash_def plugin_for_def
      serializeCreateDeviceMessage_def example_create_fields example_plugin empty_hash_def)

theorem reachable_one_queue_witness:
  "{k. in_queue (db example_sent) k ''M1''} = {QUEUE_NS_KEY}"
  using reachable_one_queue [OF example_config_ok example_sent_reachable _ example_in_ns]
    example_in_ns by auto

text \<open>C3 (status and queue agree): in every reachable state a stored message that is a member of a
  queue is in the one queue its status names: its plugin's ready queue when QUEUED, the \<open>ns\<close>, relay
  node, device, awaiting-task (its own plugin's) or retry queue otherwise.\<close>

theorem reachable_queue_matches_status:
  assumes "config_ok cfg" and "reachable cfg s"
    and "hash_at (db s) m = Some h" and "hash_plugin cfg h = Some p" and "in_queue (db s) k m"
  shows "k = home_of p h"
  using queue_is_home [OF engine_db [OF reachable_ok [OF assms(1,2)]] assms(3,5,4)] .

theorem reachable_queue_matches_status_witness:
  "home_of (buildStubPull DEFAULT_PLUGIN_TUNING)
     (picked_hash SENT_TO_NS example_rate_key example_dto_hash) = QUEUE_NS_KEY"
  using reachable_queue_matches_status [OF example_config_ok example_sent_reachable example_hash
      example_hash_plugin example_in_ns] by (rule sym)

text \<open>C2 (no duplicate command): in every reachable state the sends this process is awaiting are of
  pairwise different messages, and while such a message is stored it is still in the \<open>ns\<close> stage,
  held by the registry that the stage's deadline consults.\<close>

theorem reachable_no_double_send:
  assumes "config_ok cfg" and "reachable cfg s"
  shows "distinct (map send_id (running s)) \<and>
    list_all (\<lambda>sd. sends_has (send_id sd) (sends s) \<and>
      (hash_at (db s) (send_id sd) = None \<or> in_queue (db s) QUEUE_NS_KEY (send_id sd))) (running s)"
  using reachable_ok [OF assms] by (fastforce simp: engine_ok_def sends_ok_def list_all_iff sends_has_def)

theorem reachable_no_double_send_witness:
  "map send_id (running example_sent) = [''M1''] \<and> sends_has ''M1'' (sends example_sent) \<and>
     distinct (map send_id (running example_sent))"
  using reachable_no_double_send [OF example_config_ok example_sent_reachable]
  by (simp add: example_sent_state send_id_def example_picked)

text \<open>C8 (concurrency cap): in every reachable state the set of in-flight members of an admission
  node never exceeds the plugin's \<open>maxInFlight\<close>, and a stored message holds a slot exactly when its
  hash records it, so a slot is never leaked by a live message.\<close>

theorem reachable_concurrency_cap:
  assumes "config_ok cfg" and "reachable cfg s"
    and "buildConcurrencyRateLimitKey q = Some c" and "queue_cap cfg q = Some n"
    and "hash_at (db s) m = Some h"
  shows "length (sets (db s) c) \<le> n \<and> distinct (sets (db s) c) \<and>
    (m \<in> set (sets (db s) c) \<longleftrightarrow> h_concurrencyRateLimitKey h = Some c)"
proof -
  note ok = reachable_ok [OF assms(1,2)]
  have "length (sets (db s) c) \<le> n" using ok assms(3,4) by (auto simp: engine_ok_def db_ok_def caps_ok_def)
  moreover have "distinct (sets (db s) c)" using ok by (simp add: engine_ok_def db_ok_def redis_ok_def)
  ultimately show ?thesis
    using stored(1) [OF engine_db [OF ok] assms(5)] rate_key_build [OF assms(3)] by (simp add: stored_ok_def)
qed

lemma example_cap: "queue_cap example_config example_queue = Some 5"
  by (simp add: queue_cap_def example_keys plugin_for_def example_plugin stub_pull_fields)

theorem reachable_concurrency_cap_witness:
  "length (sets (db example_sent) example_rate_key) \<le> 5 \<and>
     ''M1'' \<in> set (sets (db example_sent) example_rate_key)"
  using reachable_concurrency_cap [OF example_config_ok example_sent_reachable example_keys(2)
      example_cap example_hash]
  by (simp add: picked_hash_def example_key_distinct)

text \<open>No forgotten queue: in every reachable state a ready queue with a member is in the work
  list that distribution reads, so no queued message is out of the distributor's sight.\<close>

lemma reachable_work_list_complete:
  assumes "config_ok cfg" and "reachable cfg s"
    and "getPluginIdFromInitialQueueKey q = Some i" and "in_queue (db s) q m"
  shows "q \<in> set (listReadyQueues s)"
  using reachable_ok [OF assms(1,2)] assms(4) ready_owner [OF assms(3)]
  by (auto simp: engine_ok_def db_ok_def work_ok_def listReadyQueues_def fetchQueuesWithMessages_def)

lemma reachable_work_list_complete_witness: "example_queue \<in> set (listReadyQueues example_queued)"
  by (rule reachable_work_list_complete [OF example_config_ok example_queued_reachable
        example_keys(1), of "''M1''"]) (simp add: in_queue_def example_queued_state zscore_def)

text \<open>Readable and bounded: in every reachable state each stored message can be read back, and
  its retry count never exceeds \<open>maxRetries\<close>, so a command is attempted at most
  \<open>maxRetries + 1\<close> times.\<close>

lemma reachable_messages_readable:
  assumes "config_ok cfg" and "reachable cfg s" and "hashes (db s) (messageKey m) \<noteq> None"
  shows "\<exists>message. getMessageById m (db s) = Inr (Some message) \<and> m_id message = m \<and>
    retry_count message \<le> maxRetries (cf_delivery cfg)"
proof -
  obtain h where h: "hash_at (db s) m = Some h" using assms(3) by (auto simp: hash_at_def)
  note db = engine_db [OF reachable_ok [OF assms(1,2)]]
  have "retry_count (message_of m h) \<le> maxRetries (cf_delivery cfg)"
    using stored(2) [OF db h] message_of_fields(7) [OF stored(2) [OF db h], of m]
    by (cases "h_retryCount h") (simp_all add: hash_ok_def)
  then show ?thesis using load_hash [OF db h] message_of_fields(1) [OF stored(2) [OF db h]] by blast
qed

lemma reachable_messages_readable_witness:
  "\<exists>message. getMessageById ''M1'' (db example_sent) = Inr (Some message) \<and> m_id message = ''M1'' \<and>
     retry_count message \<le> 11"
  using reachable_messages_readable [OF example_config_ok example_sent_reachable, of "''M1''"]
  by (simp add: example_sent_state example_config_def default_delivery_def)

section \<open>The runner\<close>

lemma reschedule_not_due:
  assumes ok: "redis_ok (db s)" and d: "deliverySchema (cf_delivery cfg)" and r: "rnd_ok (w_random w)"
    and t: "positive_tuning (d_tuning p)" and now: "now \<le> w_now w"
  shows "m_id msg \<notin> set (getExpiredMessagesInQueue (stageKeyFor (STAGES st) (d_id p)) now
    (db (reschedule cfg w (STAGES st) msg age p s)))"
proof -
  let ?k = "stageKeyFor (STAGES st) (d_id p)"
  let ?wait = "rescheduleWaitMsFor (STAGES st) \<lparr>rs_message = msg, rs_messageAgeMs = age,
      rs_tuning = d_tuning p, rs_delivery = cf_delivery cfg, rs_rnd = w_random w\<rparr>"
  have "0 < ?wait" by (rule rescheduleWait_pos) (simp_all add: t d r)
  then have lt: "now < w_now w + ?wait" using now by simp
  have z: "zset_ok (zsets (db s) ?k)" using ok by (simp add: redis_ok_def)
  have "zsets (db (reschedule cfg w (STAGES st) msg age p s)) ?k =
      zaddXx (w_now w + ?wait) (m_id msg) (zsets (db s) ?k)"
    by (simp add: reschedule_def Let_def r_zaddXx_def del: STAGES.simps)
  moreover have "m_id msg \<notin> set (zrangebyscore now n (zaddXx (w_now w + ?wait) (m_id msg)
      (zsets (db s) ?k)))" for n
  proof (cases "zscore (zsets (db s) ?k) (m_id msg)")
    case None
    then show ?thesis using zs.due_sound [OF z, of "m_id msg" now n] by (auto simp: zaddXx_def)
  next
    case Some
    then show ?thesis using zs.not_due_after_add [OF z lt, of "m_id msg" n] by (simp add: zaddXx_def)
  qed
  ultimately show ?thesis by (simp add: getExpiredMessagesInQueue_def)
qed

lemma not_in_not_due: "redis_ok r \<Longrightarrow> \<not> in_queue r k m \<Longrightarrow> m \<notin> set (getExpiredMessagesInQueue k now r)"
  using zs.due_sound [of "zsets r k" m now QUEUE_SCAN_BATCH_SIZE]
  by (auto simp: getExpiredMessagesInQueue_def redis_ok_def in_queue_def)

lemma drop_not_in: "\<not> in_queue (db (drop_member k m s)) k m"
  using remove_effect [of k m "db s"] by (auto simp: drop_member_def redis_simps)

lemma enumerated_stage:
  assumes "sq \<in> set (enumerateStageQueues ids)"
  obtains st q where "sq_stage sq = STAGES st" "sq_key sq = stageKeyFor (STAGES st) q"
    "st_name (sq_stage sq) = st"
proof -
  obtain s where s: "sq_stage sq = STAGES s"
    and a: "s = St_awaitingTask \<Longrightarrow> \<exists>p \<in> set ids. sq_key sq = queueAwaitingTask p"
    and b: "s \<noteq> St_awaitingTask \<Longrightarrow> sq_key sq = stageKeyFor (STAGES s) []"
    by (rule enumerateStageQueues_stage [OF assms, where p = "[]"], rule that, assumption+)
  show thesis
  proof (cases "s = St_awaitingTask")
    case True
    then obtain p where "sq_key sq = stageKeyFor (STAGES s) p"
      using a stageKeyFor_simps(4) by auto
    then show thesis using that s by simp
  next
    case False
    then show thesis using that s b by simp
  qed
qed

lemma turn_rescheduled:
  assumes cfg: "config_ok cfg" and ok: "engine_ok cfg s" and h: "hash_at (db s) m = Some h"
    and p: "hash_plugin cfg h = Some p" and pf: "plugin_for cfg (d_id p) = Some p"
    and key: "queue_key = stageKeyFor (STAGES st) k" and same: "db s1 = db s"
    and now: "now \<le> w_now w" and rnd: "rnd_ok (w_random w)"
    and rok: "redis_ok (db (reschedule cfg w (STAGES st) (message_of m h) age p s1))"
  shows "m \<notin> set (getExpiredMessagesInQueue queue_key now
    (db (reschedule cfg w (STAGES st) (message_of m h) age p s1)))"
proof (cases "in_queue (db (reschedule cfg w (STAGES st) (message_of m h) age p s1)) queue_key m")
  case False
  then show ?thesis by (rule not_in_not_due [OF rok])
next
  case True
  then have "in_queue (db s) queue_key m" by (simp add: reschedule_def Let_def redis_simps same)
  from queue_is_home [OF engine_db [OF ok] h this p]
  have "st = St_awaitingTask \<longrightarrow> d_id p = k" using home_stage [OF cfg p, of st k] key by simp
  then have own: "queue_key = stageKeyFor (STAGES st) (d_id p)" using key stage_keys_distinct by metis
  have id: "m_id (message_of m h) = m" using message_of_fields(1) [OF stored(2) [OF engine_db [OF ok] h]] .
  obtain kind where "delivery_plugin_contract p kind" using config_contract [OF cfg pf] by blast
  then have tun: "positive_tuning (d_tuning p)" by (rule delivery_plugin_contract.tuning_positive)
  have "redis_ok (db s1)" using ok by (simp add: same engine_ok_def db_ok_def)
  from reschedule_not_due [OF this _ rnd tun now, of cfg "message_of m h" st age] cfg
  show ?thesis unfolding own id by (simp add: config_ok_def del: STAGES.simps)
qed

lemma turn_moved:
  assumes cfg: "config_ok cfg" and ok: "engine_ok cfg s" and h: "hash_at (db s) m = Some h"
    and p: "hash_plugin cfg h = Some p" and key: "queue_key = stageKeyFor (STAGES st) k"
    and a: "stage_action st cfg w v queue_key (message_of m h) p age s = (Inr oc, s1)"
    and gone: "oc = MovedOn \<or> oc = Removed" and own: "own_event s m v"
  shows "\<not> in_queue (db s1) queue_key m"
proof -
  have "\<not> ready_queue queue_key" using key by simp
  moreover have "st \<noteq> St_retry \<longrightarrow> queue_key \<noteq> QUEUE_RETRY_KEY" using key stage_keys_distinct retry_key by metis
  moreover have "st = St_retry \<longrightarrow> queue_key = QUEUE_RETRY_KEY" using key retry_key by metis
  ultimately show ?thesis using action_leaves [OF cfg ok h p a gone _ _ _ own] by blast
qed

text \<open>C9 (every turn settles its member): after the runner has handled a due member of a stage queue,
  in any reachable state and whatever its action did or threw, the member is not due in that queue
  at the tick's instant any more: it was removed, moved on, or rescored past the tick (A1, A2).
  The vendor's poll is relied on to return events about the polled message only.\<close>

theorem member_turn_settles:
  assumes cfg: "config_ok cfg" and reach: "reachable cfg s"
    and q: "queue \<in> set (enumerateStageQueues (pull_plugin_ids cfg))"
    and now: "now \<le> w_now w" and rnd: "rnd_ok (w_random w)" and own: "own_event s m v"
  shows "m \<notin> set (getExpiredMessagesInQueue (sq_key queue) now
    (db (snd (drain_member cfg now queue w v m s))))"
proof -
  note ok = reachable_ok [OF cfg reach]
  let ?s' = "snd (drain_member cfg now queue w v m s)"
  have rok: "redis_ok (db ?s')"
    using kept_drain_member [OF cfg ok q] by (auto simp: kept_def db_ok_def)
  show ?thesis
  proof (cases "hash_at (db s) m")
    case None
    then have "?s' = drop_member (sq_key queue) m s" by (simp add: drain_member_def load_none)
    then show ?thesis using not_in_not_due [OF rok] drop_not_in by metis
  next
    case h: (Some h)
    note load = load_hash [OF engine_db [OF ok] h]
    obtain p where p: "hash_plugin cfg h = Some p" and pf: "plugin_for cfg (d_id p) = Some p"
      and reg: "Option.bind (registry_get (cf_registry cfg) (m_pluginId (message_of m h))) delivery_of = Some p"
      by (rule message_plugin [OF cfg engine_db [OF ok] h]) (rule that)
    let ?age = "now - cf_decodeTime cfg m"
    obtain oc s1 where act: "act cfg w v queue (message_of m h) p ?age s = (oc, s1)" by fastforce
    obtain st k where st: "sq_stage queue = STAGES st" "sq_key queue = stageKeyFor (STAGES st) k"
      and name: "st_name (sq_stage queue) = st" by (rule enumerated_stage [OF q])
    obtain res where a: "stage_action st cfg w v (sq_key queue) (message_of m h) p ?age s = (res, s1)"
      and oc: "oc = (case res of Inl e \<Rightarrow> Rescheduled | Inr x \<Rightarrow> x)"
      using act name by (auto simp: act_def split: prod.splits sum.splits)
    consider (orphaned) "oc = Orphaned" | (again) "oc = Rescheduled" | (gone) "oc = MovedOn \<or> oc = Removed"
      by (cases oc) auto
    then show ?thesis
    proof cases
      case orphaned
      then have "?s' = drop_member (sq_key queue) m s1" by (simp add: drain_member_def load reg act Let_def)
      then show ?thesis using not_in_not_due [OF rok] drop_not_in by metis
    next
      case again
      then have s': "?s' = reschedule cfg w (STAGES st) (message_of m h) ?age p s1"
        using st by (simp add: drain_member_def load reg act Let_def del: STAGES.simps)
      have "db s1 = db s" using stage_action_unchanged [OF a] oc again by (cases res) auto
      from turn_rescheduled [OF cfg ok h p pf st(2) this now rnd rok [unfolded s']] show ?thesis unfolding s' .
    next
      case gone
      then have s': "?s' = s1" and "res = Inr oc" using oc by (auto simp: drain_member_def load reg act Let_def split: sum.splits)
      then show ?thesis
        using not_in_not_due [OF rok] turn_moved [OF cfg ok h p st(2) _ gone own] a by metis
    qed
  qed
qed

definition ns_row :: stageQueue where
  "ns_row = \<lparr>sq_stage = STAGES St_ns, sq_key = QUEUE_NS_KEY, sq_pluginId = None\<rparr>"

definition example_no_reply :: vendorReplies where
  "example_no_reply = \<lparr>v_remoteStatus = Inl (PlainError ''down''), v_fetchStatus = Inr None\<rparr>"

lemma ns_row_enumerated: "ns_row \<in> set (enumerateStageQueues ids)"
  by (simp add: ns_row_def enumerateStageQueues_def all_stages_def)

theorem member_turn_settles_witness:
  "''M1'' \<in> set (getExpiredMessagesInQueue QUEUE_NS_KEY 30000 (db example_sent)) \<and>
   ''M1'' \<notin> set (getExpiredMessagesInQueue QUEUE_NS_KEY 30000
     (db (snd (drain_member example_config 30000 ns_row (example_world 30000 ''E3'')
        example_no_reply ''M1'' example_sent))))"
proof
  show "''M1'' \<in> set (getExpiredMessagesInQueue QUEUE_NS_KEY 30000 (db example_sent))"
    by (simp add: getExpiredMessagesInQueue_def example_sent_state zrangebyscore_def
        QUEUE_SCAN_BATCH_SIZE_def)
  show "''M1'' \<notin> set (getExpiredMessagesInQueue QUEUE_NS_KEY 30000
     (db (snd (drain_member example_config 30000 ns_row (example_world 30000 ''E3'')
        example_no_reply ''M1'' example_sent))))"
    using member_turn_settles [OF example_config_ok example_sent_reachable ns_row_enumerated,
        of 30000 "example_world 30000 ''E3''" "''M1''" example_no_reply]
    by (simp add: example_world_def rnd_ok_def own_event_def example_no_reply_def ns_row_def)
qed

end
