(* ===== verification/Delivery_Claims.thy ===== *)
theory Delivery_Claims
  imports Engine_Claims
begin

text \<open>
  What one operation of the engine does to the message it is about, in any reachable state: a send
  that is accepted, a failed attempt, a final failure, a success, an error on the way, and the
  waiting send that the deadline of the \<open>ns\<close> stage leaves alone.
\<close>

section \<open>The vendor accepts a send\<close>

lemma running_facts:
  assumes "engine_ok cfg s" and "sd \<in> set (running s)" and "hash_at (db s) (send_id sd) = Some h"
  shows "in_queue (db s) QUEUE_NS_KEY (send_id sd)" and "hash_plugin cfg h = Some (sd_plugin sd)"
    and "map_of (sends s) (send_id sd) = Some (sd_token sd)"
  using assms by (auto simp: engine_ok_def sends_ok_def)

lemma advance_from_ns:
  assumes ok: "engine_ok cfg s" and h: "hash_at (db s) m = Some h"
    and q: "in_queue (db s) QUEUE_NS_KEY m" and d: "d \<noteq> []"
    and nx: "nextStage (d_pattern p) St_ns = Some nx"
  obtains s1 where "advance cfg w m p St_ns (Some d) n s = (Inr True, s1)"
    and "hash_at (db s1) m = Some (moved_hash DELIVERED_TO_NS d h)"
    and "\<And>k. in_queue (db s1) k m \<longleftrightarrow> k = stageKeyFor (STAGES nx) (d_id p)"
    and "strs (db s1) (indexExternalDeliveryId d) = Some (messageKey m)"
    and "zscore (zsets (db s1) (stageKeyFor (STAGES nx) (d_id p))) m =
      Some (w_now w + st_entryWaitMs (STAGES nx) (entry_context cfg w p n))"
    and "sends s1 = sends s"
proof -
  let ?dst = "stageKeyFor (STAGES nx) (d_id p)"
  let ?due = "w_now w + st_entryWaitMs (STAGES nx) (entry_context cfg w p n)"
  let ?ex = "ttl_instant (w_now w) (messageTtlSeconds (cf_delivery cfg))"
  have est: "st_entryStatus (STAGES nx) = DELIVERED_TO_NS"
    using nx by (cases "d_pattern p") (auto simp: nextStage_simps)
  have hk: "hashes (db s) (messageKey m) = Some h" using h by (simp add: hash_at_def)
  obtain r' where mv: "moveMessageBetweenQueues QUEUE_NS_KEY ?dst (messageKey m)
      (indexExternalDeliveryId d) m ?due DELIVERED_TO_NS d ?ex (db s) = (1, r')"
    and hs: "hashes r' = (hashes (db s))(messageKey m \<mapsto> moved_hash DELIVERED_TO_NS d h)"
    and qs: "\<And>k x. in_queue r' k x \<longleftrightarrow> k = ?dst \<and> x = m \<or>
      in_queue (db s) k x \<and> \<not> (k = QUEUE_NS_KEY \<and> x = m)"
    and st: "strs r' = (if indexExternalDeliveryId d = [] then strs (db s)
      else (strs (db s))(indexExternalDeliveryId d \<mapsto> messageKey m))"
    and sc: "zscore (zsets r' ?dst) m = Some ?due"
    by (rule move_hit [OF q hk, of ?dst "indexExternalDeliveryId d" ?due DELIVERED_TO_NS d ?ex],
        rule that, assumption+)
  show thesis
  proof (rule that [of "s\<lparr>db := r'\<rparr>"])
    show "advance cfg w m p St_ns (Some d) n s = (Inr True, s\<lparr>db := r'\<rparr>)"
      using advance_unfold [OF nx, of m "Some d" w cfg n s] d est
      by (simp add: ns_key [symmetric] mv del: STAGES.simps)
    show "in_queue (db (s\<lparr>db := r'\<rparr>)) k m \<longleftrightarrow> k = ?dst" for k
      using qs [of k m] one_queue_in [OF stored(3) [OF engine_db [OF ok] h] q, of k] by auto
  qed (use hs st sc in \<open>simp_all add: hash_at_def indexExternalDeliveryId_def\<close>)
qed

text \<open>C10 (an accepted send moves on): in every reachable state, when a running send of a stored message
  resolves with a delivery id, the message leaves the \<open>ns\<close> stage for the next stage of its plugin's
  pipeline and for no other queue, due after that stage's wait, with status \<open>DELIVERED_TO_NS\<close> and the
  id recorded; the id leads back to the message, and the send is no longer awaited.\<close>

theorem accepted_send_advances:
  assumes cfg: "config_ok cfg" and reach: "reachable cfg s" and sd: "sd \<in> set (running s)"
    and h: "hash_at (db s) (send_id sd) = Some h" and d: "d \<noteq> []"
  shows "\<exists>s' nx. settle_send cfg w sd (Inr d) s = (Inr (), s') \<and>
    nextStage (d_pattern (sd_plugin sd)) St_ns = Some nx \<and>
    {k. in_queue (db s') k (send_id sd)} = {stageKeyFor (STAGES nx) (d_id (sd_plugin sd))} \<and>
    zscore (zsets (db s') (stageKeyFor (STAGES nx) (d_id (sd_plugin sd)))) (send_id sd) =
      Some (w_now w + st_entryWaitMs (STAGES nx)
        (entry_context cfg w (sd_plugin sd) (retry_count (sd_message sd)))) \<and>
    hash_at (db s') (send_id sd) =
      Some (h\<lparr>h_deliveryStatus := Some DELIVERED_TO_NS, h_deliveryQueueId := Some d\<rparr>) \<and>
    strs (db s') (indexExternalDeliveryId d) = Some (messageKey (send_id sd)) \<and>
    \<not> sends_has (send_id sd) (sends s')"
proof -
  note ok = reachable_ok [OF cfg reach]
  note run = running_facts [OF ok sd h]
  obtain nx where nx: "nextStage (d_pattern (sd_plugin sd)) St_ns = Some nx"
    by (cases "d_pattern (sd_plugin sd)") (simp_all add: nextStage_simps)
  obtain s1 where adv: "advance cfg w (send_id sd) (sd_plugin sd) St_ns (Some d)
      (retry_count (sd_message sd)) s = (Inr True, s1)"
    and hs: "hash_at (db s1) (send_id sd) = Some (moved_hash DELIVERED_TO_NS d h)"
    and qs: "\<And>k. in_queue (db s1) k (send_id sd) \<longleftrightarrow>
      k = stageKeyFor (STAGES nx) (d_id (sd_plugin sd))"
    and ix: "strs (db s1) (indexExternalDeliveryId d) = Some (messageKey (send_id sd))"
    and sc: "zscore (zsets (db s1) (stageKeyFor (STAGES nx) (d_id (sd_plugin sd)))) (send_id sd) =
      Some (w_now w + st_entryWaitMs (STAGES nx)
        (entry_context cfg w (sd_plugin sd) (retry_count (sd_message sd))))"
    and sn: "sends s1 = sends s"
    by (rule advance_from_ns [OF ok h run(1) d nx, of w "retry_count (sd_message sd)"], rule that,
        assumption+)
  have settle: "settle_send cfg w sd (Inr d) s = (Inr (), untrack sd s1)"
    using adv d by (simp add: settle_send_def sendOneToNetworkServer_def send_id_def)
  have "\<not> sends_has (send_id sd) (sends (untrack sd s1))"
    using run(3) by (simp add: untrack_def sn sends_has_def map_of_send_settled send_id_def)
  then show ?thesis
    using settle nx hs qs ix sc d
    by (intro exI [of _ "untrack sd s1"] exI [of _ nx])
       (simp add: moved_hash_def del: STAGES.simps)
qed

lemma example_send:
  "\<lparr>sd_token = 0, sd_plugin = buildStubPull DEFAULT_PLUGIN_TUNING, sd_message = example_message\<rparr>
     \<in> set (running example_sent)"
  by (simp add: example_sent_state)

theorem accepted_send_advances_witness:
  "zscore (zsets (db example_waiting) (queueAwaitingTask STUB_PULL_ID)) ''M1'' = Some 13000"
proof -
  let ?sd = "\<lparr>sd_token = 0, sd_plugin = buildStubPull DEFAULT_PLUGIN_TUNING, sd_message = example_message\<rparr>"
  have id: "send_id ?sd = ''M1''" by (simp add: send_id_def example_picked)
  have w: "example_waiting = snd (settle_send example_config (example_world 3000 ''E2'') ?sd
      (Inr ''stub-ext-1'') example_sent)"
    by (simp add: example_waiting_def example_sent_state)
  obtain s' nx where s': "settle_send example_config (example_world 3000 ''E2'') ?sd
      (Inr ''stub-ext-1'') example_sent = (Inr (), s')"
    and nx: "nextStage (d_pattern (sd_plugin ?sd)) St_ns = Some nx"
    and sc: "zscore (zsets (db s') (stageKeyFor (STAGES nx) (d_id (sd_plugin ?sd)))) (send_id ?sd) =
      Some (w_now (example_world 3000 ''E2'') + st_entryWaitMs (STAGES nx)
        (entry_context example_config (example_world 3000 ''E2'') (sd_plugin ?sd)
          (retry_count (sd_message ?sd))))"
    using accepted_send_advances [OF example_config_ok example_sent_reachable example_send
        example_hash [folded id], of "''stub-ext-1''" "example_world 3000 ''E2''"] by auto
  have st: "nx = St_awaitingTask" using nx by (simp add: stub_pull_fields nextStage_simps)
  have "example_waiting = s'" by (simp add: w s')
  then show ?thesis
    using sc unfolding st stageKeyFor_simps id
    by (simp add: stub_pull_fields entry_context_def example_world_def DEFAULT_PLUGIN_TUNING_def)
qed

section \<open>A failed attempt\<close>

lemma rates_only_home:
  assumes ok: "engine_ok cfg s" and h: "hash_at (db s) m = Some h"
    and c: "rate_key c" and n: "h_concurrencyRateLimitKey h \<noteq> Some c"
  shows "m \<notin> set (sets (db s) c)"
  using stored(1) [OF engine_db [OF ok] h] c n by (simp add: stored_ok_def)

text \<open>C6 (a failed attempt is retried): in every reachable state, when an attempt at a message fails
  that may be retried, the message leaves the queue it waits in for the retry queue and for no other,
  due after the backoff of its retry count; its hash records the attempt and the reason, carries no
  delivery id, and holds no concurrency slot; the adopter is not told.\<close>

theorem failed_attempt_is_retried:
  assumes cfg: "config_ok cfg" and reach: "reachable cfg s"
    and h: "hash_at (db s) m = Some h" and q: "in_queue (db s) q m"
    and nf: "\<not> is_final_failure cfg context (retry_count (message_of m h))"
  shows "\<exists>s'. retryOrFail cfg w m q context p s = (Inr MovedOn, s') \<and>
    {k. in_queue (db s') k m} = {QUEUE_RETRY_KEY} \<and>
    zscore (zsets (db s') QUEUE_RETRY_KEY) m = Some (w_now w +
      calculateBackoffDelay (retry_count (message_of m h)) (cf_delivery cfg) (w_random w)) \<and>
    hash_at (db s') m = Some (h\<lparr>h_retryCount := Some (retry_count (message_of m h) + 1),
      h_deliveryStatus := Some TO_RETRY,
      h_failureHistory := Some (failure_entry (w_now w) (the (h_deliveryStatus h)) context False #
        failure_history (message_of m h)),
      h_deliveryQueueId := None, h_concurrencyRateLimitKey := None\<rparr>) \<and>
    {c. rate_key c \<and> m \<in> set (sets (db s') c)} = {} \<and> whdb s' = whdb s"
proof -
  note ok = reachable_ok [OF cfg reach]
  note db = engine_db [OF ok]
  note f = message_of_fields [OF stored(2) [OF db h]]
  let ?n = "retry_count (message_of m h)"
  let ?hist = "failure_entry (w_now w) (the (h_deliveryStatus h)) context False #
    failure_history (message_of m h)"
  obtain s' where e: "enterRetry cfg w m q ?n ?hist p s = (True, s')"
    using q by (auto simp: enterRetry_def Let_def)
  have r: "retryOrFail cfg w m q context p s = (Inr MovedOn, s')"
    using nf e f(3) by (simp add: retryOrFail_def load_hash [OF db h] Let_def)
  have wh: "whdb s' = whdb s" using e q by (auto simp: enterRetry_def Let_def)
  note mv = enterRetry_moves [OF ok h e]
  have k: "h_concurrencyRateLimitKey h \<noteq> Some []" using stored(2) [OF db h] by (auto simp: hash_ok_def)
  have hash: "retried_hash ?n ?hist h = h\<lparr>h_retryCount := Some (?n + 1), h_deliveryStatus := Some TO_RETRY,
      h_failureHistory := Some ?hist, h_deliveryQueueId := None, h_concurrencyRateLimitKey := None\<rparr>"
    using k by (simp add: retried_hash_def Let_def)
  have "?n < maxRetries (cf_delivery cfg)" using nf by (simp add: is_final_failure_def)
  then have "kept cfg {m} s s'" using kept_enterRetry [OF cfg ok h, of ?n "{m}" q w ?hist p] e by simp
  then have "db_ok cfg (db s')" by (simp add: kept_def)
  then have "m \<notin> set (sets (db s') c)" if "rate_key c" for c
    using stored(1) [of cfg "db s'" m] mv(2) that by (simp add: stored_ok_def hash)
  then show ?thesis using r mv wh by (intro exI [of _ s']) (auto simp: hash)
qed

lemma example_message_of:
  "message_of ''M1'' (picked_hash SENT_TO_NS example_rate_key example_dto_hash) = example_message"
  by (simp add: example_message_def)

lemma example_not_final:
  "fc_skipRetry c \<noteq> Some True \<Longrightarrow> \<not> is_final_failure example_config c (retry_count example_message)"
  by (simp add: is_final_failure_def example_picked example_config_def default_delivery_def)

theorem failed_attempt_is_retried_witness:
  "{k. in_queue (db (snd (retryOrFail example_config (example_world 9000 ''E3'') ''M1'' QUEUE_NS_KEY
     (timeout_context TIMEOUT_NS) (buildStubPull DEFAULT_PLUGIN_TUNING) example_sent))) k ''M1''} =
   {QUEUE_RETRY_KEY}"
proof -
  have "\<not> is_final_failure example_config (timeout_context TIMEOUT_NS) (retry_count example_message)"
    by (rule example_not_final) (simp add: timeout_context_def)
  from failed_attempt_is_retried [OF example_config_ok example_sent_reachable example_hash example_in_ns,
      unfolded example_message_of, OF this, of "example_world 9000 ''E3''"
      "buildStubPull DEFAULT_PLUGIN_TUNING"]
  show ?thesis by auto
qed

section \<open>Announcing and forgetting\<close>

lemma emit_succeeds:
  assumes wh: "cf_webhook cfg = Some c" and p: "m_pluginId msg \<noteq> []" and nf: "\<not> w_persistFails w"
    and wok: "webhook_ok (whdb s)"
  obtains s0 r where "emitDeliveryEvent cfg w (partial_of msg) s = (Inr (), s0)"
    and "wb_getRecord (w_eventId w) (whdb s0) = Some r" and "sr_attemptCount r = 0"
    and "wb_due_at (w_eventId w) (whdb s0) = Some (w_now w)"
    and "wp_id (we_message (sr_event r)) = Some (m_id msg)"
    and "wp_deliveryStatus (we_message (sr_event r)) = m_deliveryStatus msg"
    and "wp_failureHistory (we_message (sr_event r)) = m_failureHistory msg"
    and "wp_response (we_message (sr_event r)) = m_response msg"
proof -
  obtain s0 where e: "emitDeliveryEvent cfg w (partial_of msg) s = (Inr (), s0)"
    using emit_full_result [OF p, of cfg w s] nf
    by (cases "emitDeliveryEvent cfg w (partial_of msg) s") auto
  from emit_persists [OF wh p e wok] that [OF e] show thesis by blast
qed

lemma plugin_id_nonempty:
  assumes "config_ok cfg" and "plugin_for cfg i = Some p"
  shows "d_id p \<noteq> []"
proof -
  from config_contract [OF assms] obtain kind where "delivery_plugin_contract p kind" by blast
  then have "good_segment (d_id p)" by (rule delivery_plugin_contract.id_segment)
  then show ?thesis by (auto simp: good_segment_def)
qed

lemma message_plugin_nonempty:
  assumes "config_ok cfg" and "db_ok cfg r" and "hash_at r m = Some h"
  shows "m_pluginId (message_of m h) \<noteq> []"
proof -
  obtain p where "m_pluginId (message_of m h) = d_id p" "plugin_for cfg (d_id p) = Some p"
    by (rule message_plugin [OF assms], rule that, assumption+)
  then show ?thesis using plugin_id_nonempty [OF assms(1)] by simp
qed

text \<open>C5 (a final failure is announced, then forgotten): in every reachable state, when an attempt
  fails for the last time and the outbox accepts the notification, a \<open>DELIVERY_FAILED\<close> event with the
  whole failure history is pending and due at once, and the message has left no trace in the store:
  no hash, no queue, no concurrency slot, no index.\<close>

theorem final_failure_is_announced:
  assumes cfg: "config_ok cfg" and reach: "reachable cfg s"
    and h: "hash_at (db s) m = Some h" and p: "hash_plugin cfg h = Some p"
    and fin: "is_final_failure cfg context (retry_count (message_of m h))"
    and wh: "cf_webhook cfg = Some c" and np: "\<not> w_persistFails w"
  shows "\<exists>s' r. retryOrFail cfg w m q context p s = (Inr Removed, s') \<and> no_trace s' m \<and>
    wb_getRecord (w_eventId w) (whdb s') = Some r \<and> sr_attemptCount r = 0 \<and>
    wb_due_at (w_eventId w) (whdb s') = Some (w_now w) \<and>
    wp_id (we_message (sr_event r)) = Some m \<and>
    wp_deliveryStatus (we_message (sr_event r)) = DELIVERY_FAILED \<and>
    wp_failureHistory (we_message (sr_event r)) =
      Some (failure_entry (w_now w) (the (h_deliveryStatus h)) context True #
        failure_history (message_of m h))"
proof -
  note ok = reachable_ok [OF cfg reach]
  note db = engine_db [OF ok]
  note f = message_of_fields [OF stored(2) [OF db h]]
  let ?hist = "failure_entry (w_now w) (the (h_deliveryStatus h)) context True #
    failure_history (message_of m h)"
  let ?msg = "(message_of m h)\<lparr>m_failureHistory := Some ?hist, m_deliveryStatus := DELIVERY_FAILED\<rparr>"
  have pid: "m_pluginId ?msg \<noteq> []" using message_plugin_nonempty [OF cfg db h] by simp
  have wok: "webhook_ok (whdb s)" using ok by (simp add: engine_ok_def)
  obtain s0 r where e: "emitDeliveryEvent cfg w (partial_of ?msg) s = (Inr (), s0)"
    and rec: "wb_getRecord (w_eventId w) (whdb s0) = Some r" "sr_attemptCount r = 0"
      "wb_due_at (w_eventId w) (whdb s0) = Some (w_now w)"
      "wp_id (we_message (sr_event r)) = Some (m_id ?msg)"
      "wp_deliveryStatus (we_message (sr_event r)) = m_deliveryStatus ?msg"
      "wp_failureHistory (we_message (sr_event r)) = m_failureHistory ?msg"
    by (rule emit_succeeds [OF wh pid np wok], rule that, assumption+)
  let ?s0 = "recordMessageTerminal (Terminal DELIVERY_FAILED) (retry_count (message_of m h)) s0"
  have r: "retryOrFail cfg w m q context p s = (Inr Removed, purge (message_of m h) p ?s0)"
    using fin e f(3) by (simp add: retryOrFail_def load_hash [OF db h] Let_def)
  note e0 = emit_ok_state [OF ok e]
  have "no_trace (purge (message_of m h) p ?s0) m"
    by (rule message_of_purge(1) [OF cfg _ _ p]) (use e0 h in \<open>simp_all add: engine_ok_metrics\<close>)
  then show ?thesis using r rec f(1) by (intro exI [of _ "purge (message_of m h) p ?s0"] exI [of _ r]) simp
qed

definition example_fatal :: failureContext where
  "example_fatal = \<lparr>fc_reason = ''rejected'', fc_errorCode = None, fc_details = None,
     fc_skipRetry = Some True\<rparr>"

theorem final_failure_is_announced_witness:
  "no_trace (snd (retryOrFail example_config (example_world 9000 ''E3'') ''M1'' QUEUE_NS_KEY
     example_fatal (buildStubPull DEFAULT_PLUGIN_TUNING) example_sent)) ''M1''"
proof -
  have fin: "is_final_failure example_config example_fatal (retry_count (message_of ''M1''
      (picked_hash SENT_TO_NS example_rate_key example_dto_hash)))"
    by (simp add: is_final_failure_def example_fatal_def)
  have wh: "cf_webhook example_config = Some (default_eventWebhook ''http://adopter'')"
    by (simp add: example_config_def)
  have np: "\<not> w_persistFails (example_world 9000 ''E3'')" by (simp add: example_world_def)
  show ?thesis
    using final_failure_is_announced [OF example_config_ok example_sent_reachable example_hash
        example_hash_plugin fin wh np, of QUEUE_NS_KEY] by auto
qed

section \<open>Success\<close>

lemma success_effect:
  assumes cfg: "config_ok cfg" and reach: "reachable cfg s"
    and h: "hash_at (db s) m = Some h" and p: "hash_plugin cfg h = Some p"
    and e: "\<not> e_unsolicited e" "e_deliveryQueueId e = Some d" "d \<noteq> []"
      "e_deliveryStatus e = DELIVERY_SUCCESSFUL"
    and d: "getMessageIdFromDeliveryQueueId d (db s) = Some m"
    and wh: "cf_webhook cfg = Some c" and np: "\<not> w_persistFails w"
  shows "\<exists>s' r. processEvent cfg w e p s = (Inr Removed, s') \<and> no_trace s' m \<and>
    wb_getRecord (w_eventId w) (whdb s') = Some r \<and>
    wb_due_at (w_eventId w) (whdb s') = Some (w_now w) \<and>
    wp_id (we_message (sr_event r)) = Some m \<and>
    wp_deliveryStatus (we_message (sr_event r)) = DELIVERY_SUCCESSFUL \<and>
    wp_response (we_message (sr_event r)) = e_response e \<and>
    processEvent cfg w' e p' s' = (Inr Orphaned, s')"
proof -
  note ok = reachable_ok [OF cfg reach]
  note db = engine_db [OF ok]
  note f = message_of_fields [OF stored(2) [OF db h]]
  let ?msg = "resolved_message (w_now w) e (message_of m h)"
  have fields: "m_id ?msg = m" "m_pluginId ?msg = m_pluginId (message_of m h)"
    "m_deliveryStatus ?msg = DELIVERY_SUCCESSFUL" "m_response ?msg = e_response e"
    by (simp_all add: resolved_message_def Let_def f(1) e split: option.split)
  have pid: "m_pluginId ?msg \<noteq> []" using message_plugin_nonempty [OF cfg db h] fields by simp
  have wok: "webhook_ok (whdb s)" using ok by (simp add: engine_ok_def)
  obtain s0 r where em: "emitDeliveryEvent cfg w (partial_of ?msg) s = (Inr (), s0)"
    and rec: "wb_getRecord (w_eventId w) (whdb s0) = Some r"
      "wb_due_at (w_eventId w) (whdb s0) = Some (w_now w)"
      "wp_id (we_message (sr_event r)) = Some (m_id ?msg)"
      "wp_deliveryStatus (we_message (sr_event r)) = m_deliveryStatus ?msg"
      "wp_response (we_message (sr_event r)) = m_response ?msg"
    by (rule emit_succeeds [OF wh pid np wok], rule that, assumption+)
  let ?s0 = "recordMessageTerminal (Terminal DELIVERY_SUCCESSFUL) (retry_count (message_of m h)) s0"
  let ?s1 = "purge (message_of m h) p ?s0"
  have r: "processEvent cfg w e p s = (Inr Removed, ?s1)"
    using e d em by (simp add: processEvent_def load_hash [OF db h])
  note e0 = emit_ok_state [OF ok em]
  have nt: "no_trace ?s1 m"
    by (rule message_of_purge(1) [OF cfg _ _ p]) (use e0 h in \<open>simp_all add: engine_ok_metrics\<close>)
  have ix: "strs (db s) (indexExternalDeliveryId d) = Some (messageKey m)"
    using d messageIdFromKey_Some
    by (cases "strs (db s) (indexExternalDeliveryId d)") (auto simp: getMessageIdFromDeliveryQueueId_def)
  have "strs (db ?s1) (indexExternalDeliveryId d) = None"
  proof (cases "strs (db ?s1) (indexExternalDeliveryId d)")
    case (Some v)
    then have "strs (db s) (indexExternalDeliveryId d) = Some v" using purge_strs(1) [OF Some] e0 by simp
    then show ?thesis using Some ix nt by (simp add: no_trace_def)
  qed
  then have "processEvent cfg w' e p' ?s1 = (Inr Orphaned, ?s1)"
    using e by (simp add: processEvent_def getMessageIdFromDeliveryQueueId_def)
  then show ?thesis using r nt rec fields by (intro exI [of _ ?s1] exI [of _ r]) simp
qed

text \<open>C4 (a success is announced once): in every reachable state, when a success event names a stored
  message by its delivery id and the outbox accepts the notification, a \<open>DELIVERY_SUCCESSFUL\<close> event
  with the response is pending and due at once and the message has left no trace; the same event, seen
  again by any plugin at any time, is an orphan that changes nothing, so nothing is announced twice.\<close>

theorem success_is_announced_once:
  assumes cfg: "config_ok cfg" and reach: "reachable cfg s"
    and h: "hash_at (db s) m = Some h" and p: "hash_plugin cfg h = Some p"
    and e: "\<not> e_unsolicited e" "e_deliveryQueueId e = Some d" "d \<noteq> []"
      "e_deliveryStatus e = DELIVERY_SUCCESSFUL"
    and d: "getMessageIdFromDeliveryQueueId d (db s) = Some m"
    and wh: "cf_webhook cfg = Some c" and np: "\<not> w_persistFails w"
  shows "\<exists>s' r. processEvent cfg w e p s = (Inr Removed, s') \<and> no_trace s' m \<and>
    wb_getRecord (w_eventId w) (whdb s') = Some r \<and>
    wb_due_at (w_eventId w) (whdb s') = Some (w_now w) \<and>
    wp_id (we_message (sr_event r)) = Some m \<and>
    wp_deliveryStatus (we_message (sr_event r)) = DELIVERY_SUCCESSFUL \<and>
    wp_response (we_message (sr_event r)) = e_response e \<and>
    processEvent cfg w' e p' s' = (Inr Orphaned, s')"
  by (rule success_effect [OF assms])

definition example_sent_hash :: mhash where
  "example_sent_hash = moved_hash DELIVERED_TO_NS ''stub-ext-1''
     (picked_hash SENT_TO_NS example_rate_key example_dto_hash)"

lemma example_waiting_state:
  "hash_at (db example_waiting) ''M1'' = Some example_sent_hash"
  "in_queue (db example_waiting) k ''M1'' \<longleftrightarrow> k = queueAwaitingTask STUB_PULL_ID"
  "getMessageIdFromDeliveryQueueId ''stub-ext-1'' (db example_waiting) = Some ''M1''"
  "hash_plugin example_config example_sent_hash = Some (buildStubPull DEFAULT_PLUGIN_TUNING)"
proof -
  let ?p = "buildStubPull DEFAULT_PLUGIN_TUNING" and ?w = "example_world 3000 ''E2''"
  let ?sd = "\<lparr>sd_token = 0, sd_plugin = ?p, sd_message = example_message\<rparr>"
  have nx: "nextStage (d_pattern ?p) St_ns = Some St_awaitingTask"
    by (simp add: stub_pull_fields nextStage_simps)
  have d: "''stub-ext-1'' \<noteq> []" by simp
  obtain s1 where adv: "advance example_config ?w ''M1'' ?p St_ns (Some ''stub-ext-1'') 0 example_sent =
      (Inr True, s1)"
    and hs: "hash_at (db s1) ''M1'' = Some (moved_hash DELIVERED_TO_NS ''stub-ext-1''
      (picked_hash SENT_TO_NS example_rate_key example_dto_hash))"
    and qs: "\<And>k. in_queue (db s1) k ''M1'' \<longleftrightarrow> k = stageKeyFor (STAGES St_awaitingTask) (d_id ?p)"
    and ix: "strs (db s1) (indexExternalDeliveryId ''stub-ext-1'') = Some (messageKey ''M1'')"
    by (rule advance_from_ns [OF reachable_ok [OF example_config_ok example_sent_reachable] example_hash
          example_in_ns d nx, of ?w 0], rule that, assumption+)
  have w: "db example_waiting = db s1"
    using adv by (simp add: example_waiting_def example_sent_state settle_send_def
        sendOneToNetworkServer_def example_picked)
  show "hash_at (db example_waiting) ''M1'' = Some example_sent_hash"
    by (simp add: w hs example_sent_hash_def)
  show "in_queue (db example_waiting) k ''M1'' \<longleftrightarrow> k = queueAwaitingTask STUB_PULL_ID"
    by (simp add: w qs stageKeyFor_simps stub_pull_fields del: STAGES.simps)
  show "getMessageIdFromDeliveryQueueId ''stub-ext-1'' (db example_waiting) = Some ''M1''"
    by (simp add: w ix getMessageIdFromDeliveryQueueId_def messageIdFromKey_messageKey)
  show "hash_plugin example_config example_sent_hash = Some ?p"
    using example_hash_plugin by (simp add: example_sent_hash_def)
qed

definition example_success :: parsedIncomingEvent where
  "example_success = \<lparr>e_commandType = None, e_deliveryQueueId = Some ''stub-ext-1'',
     e_deliveryStatus = DELIVERY_SUCCESSFUL, e_device = example_device, e_response = None,
     e_unsolicited = False, e_failureContext = None\<rparr>"

theorem success_is_announced_once_witness:
  "let s' = snd (processEvent example_config (example_world 20000 ''E4'') example_success
       (buildStubPull DEFAULT_PLUGIN_TUNING) example_waiting)
   in no_trace s' ''M1'' \<and>
     processEvent example_config (example_world 21000 ''E5'') example_success
       (buildStubPull DEFAULT_PLUGIN_TUNING) s' = (Inr Orphaned, s')"
proof -
  have wh: "cf_webhook example_config = Some (default_eventWebhook ''http://adopter'')"
    by (simp add: example_config_def)
  have np: "\<not> w_persistFails (example_world 20000 ''E4'')" by (simp add: example_world_def)
  have e: "\<not> e_unsolicited example_success" "e_deliveryQueueId example_success = Some ''stub-ext-1''"
    "''stub-ext-1'' \<noteq> []" "e_deliveryStatus example_success = DELIVERY_SUCCESSFUL"
    by (simp_all add: example_success_def)
  from success_is_announced_once [OF example_config_ok example_waiting_reachable
      example_waiting_state(1) example_waiting_state(4) e example_waiting_state(3) wh np,
      where w' = "example_world 21000 ''E5''" and p' = "buildStubPull DEFAULT_PLUGIN_TUNING"]
  show ?thesis by (auto simp: Let_def)
qed

section \<open>Errors\<close>

text \<open>
  What may stand after a handler rejected, by the outcome of the transaction that ends it: nothing has
  changed; or the error came from that transaction itself, and what the confirmed run would have done has
  been done up to it (the outbox and the counters, not the message) or, when only the reply was lost, completely.
\<close>

definition error_safe :: "engine \<Rightarrow> (execOutcome \<Rightarrow> (exn + 'a) \<times> engine) \<Rightarrow> bool" where
  "error_safe s run \<longleftrightarrow> (\<forall>ex. raises (fst (run ex)) \<longrightarrow>
     snd (run ex) = s \<or>
     \<not> raises (fst (run Committed)) \<and>
     (case ex of
        Committed \<Rightarrow> False
      | Discarded \<Rightarrow> snd (run ex) = s\<lparr>whdb := whdb (snd (run Committed)), terminals := terminals (snd (run Committed))\<rparr>
      | Unconfirmed \<Rightarrow> snd (run ex) = snd (run Committed)))"

lemma emit_only_outbox: "emitDeliveryEvent cfg w m s = (res, s1) \<Longrightarrow> s1 = s\<lparr>whdb := whdb s1\<rparr>"
  by (auto simp: emitDeliveryEvent_def split: option.splits prod.splits)

lemma error_safe_quiet: "snd r = s \<or> \<not> raises (fst r) \<Longrightarrow> error_safe s (\<lambda>ex. r)"
  by (auto simp: error_safe_def)

lemma error_safe_sum:
  "(\<And>v. x = Inr v \<Longrightarrow> error_safe s (\<lambda>ex. f ex v)) \<Longrightarrow>
     error_safe s (\<lambda>ex. case x of Inl e \<Rightarrow> (Inl e, s) | Inr v \<Rightarrow> f ex v)"
  by (cases x) (simp_all add: error_safe_quiet)

lemma error_safe_option:
  "(\<And>v. x = Some v \<Longrightarrow> error_safe s (\<lambda>ex. f ex v)) \<Longrightarrow>
     error_safe s (\<lambda>ex. case x of None \<Rightarrow> (Inr r, s) | Some v \<Rightarrow> f ex v)"
  by (cases x) (simp_all add: error_safe_quiet)

lemma error_safe_if:
  "(b \<Longrightarrow> error_safe s f) \<Longrightarrow> (\<not> b \<Longrightarrow> error_safe s g) \<Longrightarrow> error_safe s (\<lambda>ex. if b then f ex else g ex)"
  by (cases b) simp_all

lemmas error_safe_intros = error_safe_if error_safe_sum error_safe_option error_safe_quiet [OF disjI1]

lemma error_safe_map:
  assumes run: "error_safe s run" and same: "\<And>ex. snd (run' ex) = snd (run ex)"
    and fails: "\<And>ex. raises (fst (run' ex)) = raises (fst (run ex))"
  shows "error_safe s run'"
  unfolding error_safe_def same fails by (rule run [unfolded error_safe_def])

text \<open>The end that all terminal handlers share: announce, count, clean up.\<close>

lemma error_safe_finish:
  "error_safe s (\<lambda>ex. case emitDeliveryEvent cfg w ev s of
       (Inl e, s1) \<Rightarrow> (Inl e, s1)
     | (Inr _, s1) \<Rightarrow>
         (case purge_exec ex m p (recordMessageTerminal outcome n s1) of
            (Inl e, s2) \<Rightarrow> (Inl e, s2)
          | (Inr _, s2) \<Rightarrow> (Inr result, s2)))"
proof (cases "emitDeliveryEvent cfg w ev s")
  case (Pair res s1)
  note outbox = emit_only_outbox [OF Pair]
  show ?thesis
  proof (cases res)
    case (Inl e)
    then show ?thesis using Pair emit_failed [of cfg w ev s e s1] by (simp add: error_safe_def)
  next
    case (Inr u)
    have "recordMessageTerminal outcome n s1 =
        s\<lparr>whdb := whdb s1, terminals := terminals (recordMessageTerminal outcome n s1)\<rparr>"
      using arg_cong [OF outbox, of terminals] by (subst outbox) (simp add: recordMessageTerminal_def)
    then show ?thesis
      using Pair Inr by (auto simp: error_safe_def purge_exec_def exec_result_def split: execOutcome.split)
  qed
qed

lemma error_safe_enterRetry:
  "error_safe s (\<lambda>ex. case enterRetry_exec ex cfg w i k n hist p s of
       (Inl e, s1) \<Rightarrow> (Inl e, s1)
     | (Inr entered, s1) \<Rightarrow> (Inr (f entered), s1))"
  by (auto simp: error_safe_def enterRetry_exec_def exec_result_def split: prod.split bool.split execOutcome.split)

lemma error_safe_retryOrFail: "error_safe s (\<lambda>ex. retryOrFail_exec ex cfg w i k c p s)"
  unfolding retryOrFail_exec_def Let_def
  by (intro error_safe_intros error_safe_finish error_safe_enterRetry snd_conv)

lemma error_safe_advance:
  "error_safe s (\<lambda>ex. case advance cfg w i p st d n s of (Inl e, s1) \<Rightarrow> (Inl e, s1) | (Inr _, s1) \<Rightarrow> (Inr r, s1))"
  by (cases "advance cfg w i p st d n s") (auto intro!: error_safe_quiet dest: advance_raises split: sum.split)

lemma error_safe_emit:
  "error_safe s (\<lambda>ex. case emitDeliveryEvent cfg w ev s of (Inl e, s1) \<Rightarrow> (Inl e, s1) | (Inr _, s1) \<Rightarrow> (Inr r, s1))"
  by (cases "emitDeliveryEvent cfg w ev s") (auto intro!: error_safe_quiet dest: emit_failed split: sum.split)

lemma error_safe_processEvent: "error_safe s (\<lambda>ex. processEvent_exec ex cfg w e p s)"
  unfolding processEvent_exec_def Let_def
  by (intro error_safe_intros error_safe_emit error_safe_advance error_safe_retryOrFail error_safe_finish snd_conv)

lemma raises_map_sum [simp]: "raises (map_sum id f x) \<longleftrightarrow> raises x"
  by (cases x) simp_all

lemma error_safe_handle: "error_safe s (\<lambda>ex. handle_exec ex cfg w parsed p s)"
proof -
  consider (thrown) e where "parsed = Inl e" | (ignored) "parsed = Inr None" | (event) e where "parsed = Inr (Some e)"
    by (cases parsed) fastforce+
  then show ?thesis
  proof cases
    case (event e)
    show ?thesis
      by (rule error_safe_map [OF error_safe_processEvent [of s cfg w e p]])
         (simp_all add: handle_exec_def event split: prod.split)
  qed (auto simp: handle_exec_def intro: error_safe_quiet)
qed

lemma error_safe_failPermanently:
  "error_safe s (\<lambda>ex. case failPermanently_exec ex cfg w msg p s of
     (Inl err, s1) \<Rightarrow> (Inl err, s1) | (Inr _, s1) \<Rightarrow> (Inr Removed, s1))"
  by (rule error_safe_map [OF error_safe_finish [where cfg = cfg and w = w and m = "expired_message (w_now w) msg"
          and ev = "partial_of (expired_message (w_now w) msg)" and p = p and outcome = "Terminal DELIVERY_FAILED"
          and n = "retry_count msg" and result = Removed]])
     (auto simp: failPermanently_exec_def Let_def split: prod.split sum.split)

lemma error_safe_stage_action: "error_safe s (\<lambda>ex. stage_action_exec st ex cfg w v k msg p age s)"
proof (cases st)
  case St_retry
  then show ?thesis by (auto intro!: error_safe_quiet simp: action_retry_def Let_def split: prod.split)
qed (simp_all only: stage_action_exec.simps action_ns_exec_def action_relayNode_exec_def action_device_exec_def
    action_awaitingTask_exec_def Let_def,
  (intro error_safe_intros error_safe_failPermanently error_safe_processEvent error_safe_retryOrFail snd_conv)+)

text \<open>C7 (an error loses nothing): when the handling of an incoming event or the action of any stage rejects
  because the outbox cannot persist, the hash cannot be read or the vendor threw, the engine is exactly as
  it was. When it rejects because the closing transaction (the cleanup, or the entry into retry) failed, what
  stands depends on that transaction alone: if it was not applied, the message, its queue, its indexes and
  its slot are as they were, although the outcome may already stand in the outbox and in the counters; if it
  was applied and only its reply was lost, everything is as in the confirmed run. So no message is ever
  forgotten without its notification.\<close>

theorem error_loses_nothing:
  "error_safe s (\<lambda>ex. handle_exec ex cfg w parsed p s) \<and>
   error_safe s (\<lambda>ex. stage_action_exec st ex cfg w v k msg p age s)"
  using error_safe_handle error_safe_stage_action by blast

text \<open>
  The success of the example message, once while the outbox cannot persist and once while the cleanup is
  discarded: nothing has changed, and the notification is stored while the message stays where it is.
\<close>

definition example_down :: world where
  "example_down = (example_world 20000 ''E4'')\<lparr>w_persistFails := True\<rparr>"

definition example_report :: "execOutcome \<Rightarrow> world \<Rightarrow> (exn + unit) \<times> engine" where
  "example_report ex w = handle_exec ex example_config w (Inr (Some example_success))
     (buildStubPull DEFAULT_PLUGIN_TUNING) example_waiting"

lemma example_report_unfold:
  "example_report ex w =
     (case emitDeliveryEvent example_config w
             (partial_of (resolved_message (w_now w) example_success (message_of ''M1'' example_sent_hash))) example_waiting of
        (Inl err, s1) \<Rightarrow> (Inl err, s1)
      | (Inr _, s1) \<Rightarrow>
          purge_exec ex (message_of ''M1'' example_sent_hash) (buildStubPull DEFAULT_PLUGIN_TUNING)
            (recordMessageTerminal (Terminal DELIVERY_SUCCESSFUL) (retry_count (message_of ''M1'' example_sent_hash)) s1))"
  by (auto simp: example_report_def handle_exec_def processEvent_exec_def example_success_def example_waiting_state
      load_hash [OF engine_db [OF reachable_ok [OF example_config_ok example_waiting_reachable]] example_waiting_state(1)]
      split: prod.split sum.split)

lemma example_report_emits:
  "fst (emitDeliveryEvent example_config w
     (partial_of (resolved_message (w_now w) example_success (message_of ''M1'' example_sent_hash))) example_waiting) = Inr ()
   \<longleftrightarrow> \<not> w_persistFails w"
proof -
  have "m_pluginId (resolved_message (w_now w) example_success (message_of ''M1'' example_sent_hash)) \<noteq> []"
    using message_plugin_nonempty [OF example_config_ok
        engine_db [OF reachable_ok [OF example_config_ok example_waiting_reachable]] example_waiting_state(1)]
    by (simp add: resolved_message_def Let_def split: option.split)
  from emit_full_result [OF this] show ?thesis by (simp add: example_config_def)
qed

lemma example_report_result:
  "raises (fst (example_report Committed example_down))"
  "\<not> raises (fst (example_report Committed (example_world 20000 ''E4'')))"
  "raises (fst (example_report Discarded (example_world 20000 ''E4'')))"
  "terminals (snd (example_report Discarded (example_world 20000 ''E4''))) \<noteq> terminals example_waiting"
  using example_report_emits [of example_down] example_report_emits [of "example_world 20000 ''E4''"]
  by (auto simp: example_report_unfold example_down_def example_world_def purge_exec_def exec_result_def
      recordMessageTerminal_def dest: emit_only_outbox [THEN arg_cong [where f = terminals]] split: prod.split sum.split)

theorem error_loses_nothing_witness:
  "snd (example_report Committed example_down) = example_waiting \<and>
   db (snd (example_report Discarded (example_world 20000 ''E4''))) = db example_waiting \<and>
   whdb (snd (example_report Discarded (example_world 20000 ''E4''))) =
     whdb (snd (example_report Committed (example_world 20000 ''E4'')))"
proof -
  note safe = error_loses_nothing [THEN conjunct1, of example_waiting example_config _ "Inr (Some example_success)"
      "buildStubPull DEFAULT_PLUGIN_TUNING", folded example_report_def, unfolded error_safe_def, rule_format]
  have "snd (example_report Committed example_down) = example_waiting"
    using safe [of Committed example_down] example_report_result(1) by simp
  moreover have "snd (example_report Discarded (example_world 20000 ''E4'')) \<noteq> example_waiting"
    using example_report_result(4) by auto
  ultimately show ?thesis
    using safe [of Discarded "example_world 20000 ''E4''"] example_report_result(2,3) by auto
qed

section \<open>The deadline of the \<open>ns\<close> stage\<close>

lemma drain_ns_running:
  assumes cfg: "config_ok cfg" and ok: "engine_ok cfg s" and sd: "sd \<in> set (running s)"
    and h: "hash_at (db s) (send_id sd) = Some h"
  shows "drain_member cfg now ns_row w v (send_id sd) s =
    (Inr (), reschedule cfg w (STAGES St_ns) (message_of (send_id sd) h)
       (now - cf_decodeTime cfg (send_id sd)) (sd_plugin sd) s)"
proof -
  note db = engine_db [OF ok] and run = running_facts [OF ok sd h]
  note f = message_of_fields [OF stored(2) [OF db h]]
  have reg: "Option.bind (registry_get (cf_registry cfg) (m_pluginId (message_of (send_id sd) h)))
      delivery_of = Some (sd_plugin sd)"
    by (rule message_plugin [OF cfg db h]) (use run(2) in simp)
  have "act cfg w v ns_row (message_of (send_id sd) h) (sd_plugin sd) age s = (Rescheduled, s)" for age
    using run(3) by (simp add: act_def ns_row_def action_ns_def f(1) sends_has_def)
  then show ?thesis
    by (simp add: drain_member_def load_hash [OF db h] reg ns_row_def Let_def del: STAGES.simps)
qed

text \<open>C11 (a send in progress is not timed out): in every reachable state, the runner's turn on a
  member of the \<open>ns\<close> queue whose send this process is still awaiting leaves the message, its queue and
  its send alone and only looks again after the plugin's \<open>ns\<close> timeout, so a slow vendor call never
  becomes a second command.\<close>

theorem running_send_not_timed_out:
  assumes cfg: "config_ok cfg" and reach: "reachable cfg s" and sd: "sd \<in> set (running s)"
    and h: "hash_at (db s) (send_id sd) = Some h"
  shows "\<exists>s'. drain_member cfg now ns_row w v (send_id sd) s = (Inr (), s') \<and>
    hash_at (db s') (send_id sd) = Some h \<and> {k. in_queue (db s') k (send_id sd)} = {QUEUE_NS_KEY} \<and>
    zscore (zsets (db s') QUEUE_NS_KEY) (send_id sd) =
      Some (w_now w + of_nat (nsInFlightTimeoutMs (d_tuning (sd_plugin sd)))) \<and>
    sd \<in> set (running s') \<and> whdb s' = whdb s"
proof -
  note ok = reachable_ok [OF cfg reach]
  note db = engine_db [OF ok] and run = running_facts [OF ok sd h]
  note f = message_of_fields [OF stored(2) [OF db h]]
  let ?t = "w_now w + of_nat (nsInFlightTimeoutMs (d_tuning (sd_plugin sd)))"
  let ?s' = "with_db (r_zaddXx QUEUE_NS_KEY ?t (send_id sd)) s"
  have s': "drain_member cfg now ns_row w v (send_id sd) s = (Inr (), ?s')"
    unfolding drain_ns_running [OF cfg ok sd h]
    by (simp add: reschedule_def rescheduleWaitMsFor_def f(1) stageKeyFor_def)
  have qs: "in_queue (db ?s') k (send_id sd) \<longleftrightarrow> k = QUEUE_NS_KEY" for k
    using one_queue_in [OF stored(3) [OF db h] run(1), of k] by (simp add: redis_simps)
  have "zset_ok (zsets (db s) QUEUE_NS_KEY)" using db by (simp add: db_ok_def redis_ok_def)
  then have "zscore (zsets (db ?s') QUEUE_NS_KEY) (send_id sd) = Some ?t"
    using run(1) by (simp add: r_zaddXx_def zscore_zaddXx in_queue_def)
  then show ?thesis using s' qs h sd
    by (intro exI [of _ ?s']) (simp add: hash_at_def redis_simps)
qed

theorem running_send_not_timed_out_witness:
  "zscore (zsets (db (snd (drain_member example_config 30000 ns_row (example_world 30000 ''E3'')
     example_no_reply ''M1'' example_sent))) QUEUE_NS_KEY) ''M1'' = Some 50000"
proof -
  let ?sd = "\<lparr>sd_token = 0, sd_plugin = buildStubPull DEFAULT_PLUGIN_TUNING, sd_message = example_message\<rparr>"
  have id: "send_id ?sd = ''M1''" by (simp add: send_id_def example_picked)
  obtain s' where "drain_member example_config 30000 ns_row (example_world 30000 ''E3'') example_no_reply
      (send_id ?sd) example_sent = (Inr (), s')"
    and "zscore (zsets (db s') QUEUE_NS_KEY) (send_id ?sd) = Some (w_now (example_world 30000 ''E3'') +
      of_nat (nsInFlightTimeoutMs (d_tuning (sd_plugin ?sd))))"
    using running_send_not_timed_out [OF example_config_ok example_sent_reachable example_send
        example_hash [folded id], of 30000 "example_world 30000 ''E3''" example_no_reply] by blast
  then show ?thesis by (simp add: id stub_pull_fields default_ns_timeout example_world_def)
qed

end
