(* ===== verification/Request_Claims.thy ===== *)
theory Request_Claims
  imports Delivery_Claims
begin

text \<open>
  What a client's request does (\<open>src/engine/outgoing.ts\<close>): accepting and refusing a message, lookup
  by correlation id, cancellation, and what distribution picks when.
\<close>

section \<open>Enqueue\<close>

definition enqueue_refused :: "engineConfig \<Rightarrow> createDeviceMessage \<Rightarrow> bool" where
  "enqueue_refused cfg create =
     (case plugin_for cfg (c_pluginId create) of
        None \<Rightarrow> True
      | Some p \<Rightarrow> c_commandType create \<notin> set (d_supportedCommandTypes p) \<or>
          Option.bind (d_validateEnqueue p) (\<lambda>validate. validate create) \<noteq> None)"

lemma serialize_deserializes:
  "deserializeMessage i (serializeCreateDeviceMessage dto) =
     Inr (message_of i (serializeCreateDeviceMessage dto))"
  by (simp add: message_of_def deserializeMessage_def)

lemma plugin_for_Some:
  "plugin_for cfg i = Some p \<longleftrightarrow> registry_get (cf_registry cfg) i = Some (Delivery p)"
proof -
  have "delivery_of dp = Some p \<longleftrightarrow> dp = Delivery p" for dp by (cases dp) auto
  then show ?thesis by (auto simp: plugin_for_def bind_eq_Some_conv)
qed

lemma enqueue_accepts:
  assumes p: "plugin_for cfg (c_pluginId create) = Some p" and ok: "\<not> enqueue_refused cfg create"
  shows "enqueue cfg w i create s =
    (let q = d_initialQueueKey p (c_networkId create) (c_device create);
         r = snd (enqueueDeviceMessage create q (messageTtlSeconds (cf_delivery cfg)) i (w_now w) (db s))
     in (Inr (message_of i (serializeCreateDeviceMessage create)),
         s\<lparr>db := r, kicks := (if canKickDistribute s then kicks s + 1 else kicks s)\<rparr>))"
proof -
  let ?q = "d_initialQueueKey p (c_networkId create) (c_device create)"
  let ?e = "enqueueDeviceMessage create ?q (messageTtlSeconds (cf_delivery cfg)) i (w_now w) (db s)"
  have "fst ?e = Inr (message_of i (serializeCreateDeviceMessage create))"
    using enqueue_effect(6) [OF refl] serialize_deserializes by simp
  then show ?thesis
    using ok p by (cases ?e)
      (auto simp: enqueue_def enqueue_refused_def plugin_for_Some Let_def split: option.splits)
qed

text \<open>A request is rejected exactly when its plugin is unknown or sends no
  commands, does not support the command type, or finds an issue in the payload, and a rejected
  request changes nothing.\<close>

lemma enqueue_guards:
  "(raises (fst (enqueue cfg w i create s)) \<longleftrightarrow> enqueue_refused cfg create) \<and>
   (raises (fst (enqueue cfg w i create s)) \<longrightarrow> snd (enqueue cfg w i create s) = s)"
proof (cases "enqueue_refused cfg create")
  case True
  show ?thesis
  proof (cases "registry_get (cf_registry cfg) (c_pluginId create)")
    case None
    then show ?thesis using True by (simp add: enqueue_def)
  next
    case (Some dp)
    then show ?thesis
      using True by (cases dp) (auto simp: enqueue_def enqueue_refused_def plugin_for_def split: option.splits)
  qed
next
  case False
  then obtain p where "plugin_for cfg (c_pluginId create) = Some p"
    by (auto simp: enqueue_refused_def split: option.splits)
  from enqueue_accepts [OF this False] show ?thesis using False by (simp add: Let_def)
qed

lemma enqueue_guards_witness:
  "let create = example_create\<lparr>c_pluginId := ''nobody''\<rparr>
   in snd (enqueue example_config (example_world 1000 ''E0'') ''M9'' create example_sent) = example_sent"
  using enqueue_guards [THEN conjunct2, THEN mp, of example_config "example_world 1000 ''E0''" "''M9''"
      "example_create\<lparr>c_pluginId := ''nobody''\<rparr>" example_sent]
  by (simp add: enqueue_def example_config_def registry_get_def STUB_PUSH_ID_def STUB_PULL_ID_def)

text \<open>What an accepted request leaves behind, and that it is found again under its two ids.\<close>

lemma enqueue_then_lookup:
  assumes p: "plugin_for cfg (c_pluginId create) = Some p" and acc: "\<not> enqueue_refused cfg create"
    and i: "i \<noteq> []"
  shows "\<exists>s'. enqueue cfg w i create s = (Inr (message_of i (serializeCreateDeviceMessage create)), s') \<and>
    m_deliveryStatus (message_of i (serializeCreateDeviceMessage create)) = QUEUED \<and>
    m_id (message_of i (serializeCreateDeviceMessage create)) = i \<and>
    getMessageById i (db s') = Inr (Some (message_of i (serializeCreateDeviceMessage create))) \<and>
    (\<forall>c. c_correlationId create = Some c \<longrightarrow> c \<noteq> [] \<longrightarrow> c_phase create = None \<longrightarrow>
      getByCorrelationId c s' = Inr (Some (message_of i (serializeCreateDeviceMessage create))))"
proof -
  let ?m = "message_of i (serializeCreateDeviceMessage create)"
  let ?q = "d_initialQueueKey p (c_networkId create) (c_device create)"
  let ?r = "snd (enqueueDeviceMessage create ?q (messageTtlSeconds (cf_delivery cfg)) i (w_now w) (db s))"
  let ?s' = "s\<lparr>db := ?r, kicks := (if canKickDistribute s then kicks s + 1 else kicks s)\<rparr>"
  note f = message_of_fields [OF serialize_hash_ok(1) [OF p], of i]
  note eff = enqueue_effect [OF refl, where dto = create and qk = ?q and i = i and now = "w_now w"
      and ttl = "messageTtlSeconds (cf_delivery cfg)" and r = "db s"]
  have st: "m_deliveryStatus ?m = QUEUED" by (simp add: f) (simp add: serializeCreateDeviceMessage_def)
  have get: "getMessageById i ?r = Inr (Some ?m)"
    by (simp add: getMessageById_def eff(1) serialize_deserializes)
  have "getByCorrelationId c ?s' = Inr (Some ?m)"
    if "c_correlationId create = Some c" "c \<noteq> []" "c_phase create = None" for c
  proof -
    have "strs ?r (indexCorrelationId c None) = Some (messageKey i)"
      using that by (simp add: enqueueDeviceMessage_def Let_def redis_simps)
    then show ?thesis using get i
      by (simp add: getByCorrelationId_def getMessageFromCorrelationId_def messageIdFromKey_messageKey)
  qed
  then show ?thesis
    using enqueue_accepts [OF p acc, of w i s] get st f(1) by (simp add: Let_def)
qed

text \<open>C21 (an accepted request is queued and can be found): every accepted request under a fresh id, with or
  without a correlation id and a phase, becomes a \<open>QUEUED\<close> message with the request's command, device,
  network and phase, a member of its plugin's ready queue with score \<open>-priority\<close> and of no other queue;
  that queue is in the distributor's work list; the id reads back as the message that was returned;
  distribution is kicked while enabled; no other message changes its queue. The index of a correlation id and
  its phase, which cancel reads, leads to the message, and without a phase the lookup by correlation id gives it.\<close>

theorem accepted_request_is_queued:
  assumes p: "plugin_for cfg (c_pluginId create) = Some p" and acc: "\<not> enqueue_refused cfg create"
    and fresh: "fresh_id s i" and i: "i \<noteq> []"
  shows "\<exists>message s'. enqueue cfg w i create s = (Inr message, s') \<and>
    m_deliveryStatus message = QUEUED \<and> m_id message = i \<and> m_pluginId message = c_pluginId create \<and>
    m_commandType message = c_commandType create \<and> m_device message = c_device create \<and>
    m_networkId message = c_networkId create \<and> m_phase message = c_phase create \<and>
    {k. in_queue (db s') k i} = {ready_key p message} \<and>
    zscore (zsets (db s') (ready_key p message)) i = Some (- c_priority create) \<and>
    ready_key p message \<in> set (listReadyQueues s') \<and>
    getMessageById i (db s') = Inr (Some message) \<and>
    (\<forall>c. c_correlationId create = Some c \<and> c \<noteq> [] \<longrightarrow>
      strs (db s') (indexCorrelationId c (c_phase create)) = Some (messageKey i) \<and>
      (c_phase create = None \<longrightarrow> getByCorrelationId c s' = Inr (Some message))) \<and>
    (\<forall>k x. x \<noteq> i \<longrightarrow> in_queue (db s') k x = in_queue (db s) k x) \<and>
    kicks s' = kicks s + (if canKickDistribute s then 1 else 0)"
proof -
  let ?h = "serializeCreateDeviceMessage create" and ?m = "message_of i (serializeCreateDeviceMessage create)"
  let ?q = "d_initialQueueKey p (c_networkId create) (c_device create)"
  let ?r = "snd (enqueueDeviceMessage create ?q (messageTtlSeconds (cf_delivery cfg)) i (w_now w) (db s))"
  let ?s' = "s\<lparr>db := ?r, kicks := (if canKickDistribute s then kicks s + 1 else kicks s)\<rparr>"
  note f = message_of_fields [OF serialize_hash_ok(1) [OF p], of i]
  note eff = enqueue_effect [OF refl, where dto = create and qk = ?q and i = i and now = "w_now w"
      and ttl = "messageTtlSeconds (cf_delivery cfg)" and r = "db s"]
  have fields: "m_pluginId ?m = c_pluginId create" "m_commandType ?m = c_commandType create"
    "m_device ?m = c_device create" "m_networkId ?m = c_networkId create" "m_phase ?m = c_phase create"
    by (simp_all add: message_of_def deserializeMessage_def serializeCreateDeviceMessage_def complete_hash_def)
  have rk: "ready_key p ?m = ?q" by (simp add: ready_key_def fields)
  have qs: "{k. in_queue ?r k i} = {?q}" using fresh by (auto simp: eff(2) fresh_id_def)
  obtain s1 where s1: "enqueue cfg w i create s = (Inr ?m, s1)" "m_deliveryStatus ?m = QUEUED" "m_id ?m = i"
    "getMessageById i (db s1) = Inr (Some ?m)"
    "\<forall>c. c_correlationId create = Some c \<longrightarrow> c \<noteq> [] \<longrightarrow> c_phase create = None \<longrightarrow>
      getByCorrelationId c s1 = Inr (Some ?m)"
    using enqueue_then_lookup [OF p acc i, of w s] by blast
  have e: "s1 = ?s'" using enqueue_accepts [OF p acc, of w i s] s1(1) by (simp add: Let_def)
  have work: "?q \<in> set (listReadyQueues ?s')"
    using eff(3) [of ?q listOfInitialQueuesToDistributeFrom]
    by (simp add: listReadyQueues_def fetchQueuesWithMessages_def)
  have index: "strs ?r (indexCorrelationId c (c_phase create)) = Some (messageKey i)"
    if "c_correlationId create = Some c" "c \<noteq> []" for c
    using that by (simp add: enqueueDeviceMessage_def Let_def redis_simps)
  show ?thesis
    by (rule exI [of _ ?m], rule exI [of _ ?s']) (use s1 [unfolded e] fields rk qs work index eff(2,7) in simp)
qed

text \<open>A request for one phase: the message is found through the index of its phase.\<close>

theorem accepted_request_is_queued_witness:
  "\<exists>message s'. enqueue example_config (example_world 1000 ''E0'') ''M1'' (example_create\<lparr>c_phase := Some PhaseB\<rparr>)
     (empty_engine True) = (Inr message, s') \<and> m_phase message = Some PhaseB \<and>
     strs (db s') (indexCorrelationId ''c1'' (Some PhaseB)) = Some (messageKey ''M1'') \<and>
     getMessageById ''M1'' (db s') = Inr (Some message) \<and> kicks s' = 1"
proof -
  let ?c = "example_create\<lparr>c_phase := Some PhaseB\<rparr>"
  have pull: "plugin_for example_config STUB_PULL_ID = Some (buildStubPull DEFAULT_PLUGIN_TUNING)"
    by (simp add: plugin_for_def example_plugin)
  then have p: "plugin_for example_config (c_pluginId ?c) = Some (buildStubPull DEFAULT_PLUGIN_TUNING)"
    by (simp add: example_create_fields)
  have acc: "\<not> enqueue_refused example_config ?c"
    by (simp add: enqueue_refused_def pull stub_pull_fields example_create_fields
        ENQUEUEABLE_COMMAND_TYPES_def CONTROL_COMMAND_TYPES_def)
  show ?thesis
    using accepted_request_is_queued [OF p acc example_fresh [of True "''M1''"],
        where w = "example_world 1000 ''E0''"] example_create_fields(6,7)
    by (auto simp: empty_engine_def)
qed

section \<open>Admission\<close>

text \<open>Once a queue with the spacing strategy has been admitted, the next admission of the
  same queue succeeds exactly when the plugin's interval has passed, whatever process asks.\<close>

lemma spacing_respected:
  assumes sp: "d_admission p = Spacing interval" and adm: "canAdmit w p q r = (True, r1)"
  shows "fst (canAdmit w' p q (redis_at (w_now w') r1)) \<longleftrightarrow> w_now w + of_nat interval \<le> w_now w'"
proof -
  have "r1 = set_ex (lockForQueue q) ''locked'' (w_now w + of_nat interval) r"
    using adm sp by (auto simp: canAdmit_def lockQueueForTimeMs_def split: if_splits)
  then show ?thesis
    by (simp add: canAdmit_def sp lockQueueForTimeMs_def redis_at_def expired_def set_ex_def)
qed

lemma spacing_respected_witness:
  "let w = example_world 5000 ''E''; q = ''queue:stub-push:network:1'';
       r1 = snd (canAdmit w (buildStubPush DEFAULT_PLUGIN_TUNING) q empty_redis)
   in \<not> fst (canAdmit (example_world 6999 ''F'') (buildStubPush DEFAULT_PLUGIN_TUNING) q
        (redis_at 6999 r1))"
proof -
  let ?p = "buildStubPush DEFAULT_PLUGIN_TUNING" and ?q = "''queue:stub-push:network:1''"
  let ?w = "example_world 5000 ''E''"
  have sp: "d_admission ?p = Spacing 2000" by (simp add: buildStubPush_def STUB_PUSH_ADMISSION_def)
  have adm: "canAdmit ?w ?p ?q empty_redis = (True, snd (canAdmit ?w ?p ?q empty_redis))"
    by (simp add: canAdmit_def sp lockQueueForTimeMs_def empty_redis_def)
  show ?thesis
    using spacing_respected [OF sp adm, of "example_world 6999 ''F''"]
    by (simp add: Let_def example_world_def)
qed

section \<open>What distribution picks\<close>

lemma distribute_picks:
  assumes cfg: "config_ok cfg" and ok: "engine_ok cfg s"
    and d: "distribute_queue cfg w q s = (res, s')" and new: "running s' \<noteq> running s"
  obtains p r m score rest h' r2 where "running s' = running s @ [\<lparr>sd_token = next_token s,
      sd_plugin = p, sd_message = message_of m h'\<rparr>]"
    and "zpopmin (zsets (db s) q) = Some ((m, score), rest)" and "m_id (message_of m h') = m"
    and "db s' = r2" and "in_queue r2 QUEUE_NS_KEY m"
proof -
  obtain p where plug: "Option.bind (getPluginIdFromInitialQueueKey q)
      (\<lambda>i. Option.bind (registry_get (cf_registry cfg) i) delivery_of) = Some p"
    using d new distribute_not_owned [of q cfg w s] by fastforce
  then obtain i where i: "getPluginIdFromInitialQueueKey q = Some i" and p: "plugin_for cfg i = Some p"
    by (auto simp: bind_eq_Some_conv plugin_for_def)
  obtain adm r where adm: "canAdmit w p q (db s) = (adm, r)" by fastforce
  have adm: "canAdmit w p q (db s) = (True, r)"
    using d new adm by (cases adm) (auto simp: distribute_queue_def distribute_owned [OF plug])
  let ?s1 = "s\<lparr>db := r\<rparr>"
  have db1: "db_ok cfg r" using db_ok_canAdmit [OF engine_db [OF ok], of w p q] by (simp add: adm)
  have zs: "zsets r = zsets (db s)"
    using canAdmit_cases [of w p q "db s"]
    by (auto simp: adm lockQueueForTimeMs_def validateAndCleanConcurrencyRateLimit_def redis_simps Let_def
        split: if_splits)
  let ?t = "w_now w + of_nat (nsInFlightTimeoutMs (d_tuning p))"
  obtain res2 r2 where f: "fetchNextMessageInQueueAndMove q QUEUE_NS_KEY
      listOfInitialQueuesToDistributeFrom (pick_key p q) ?t SENT_TO_NS (pick_max p q) r = (res2, r2)"
    by fastforce
  obtain m h' where mh: "res2 = Some (m, h')"
    using d new by (cases res2) (auto simp: distribute_queue_def distribute_owned [OF plug] adm pickIntoNs_unfold Let_def f)
  note e = db_ok_pick_some [OF cfg db1 i p f [unfolded mh]]
  have rok: "redis_ok r" using db1 by (simp add: db_ok_def)
  obtain score rest where pop: "zpopmin (zsets r q) = Some ((m, score), rest)"
    by (rule fetch_Some [OF rok f [unfolded mh]]) (rule that)
  have des: "deserializeMessage m h' = Inr (message_of m h')"
    using e(8) by (simp add: message_of_def hash_ok_def deserializeMessage_def)
  have pick: "pickIntoNs cfg w q p (concurrency_limit p q) ?s1 =
      (Inr (Some (message_of m h')), ?s1\<lparr>db := r2\<rparr>)"
    by (simp add: pickIntoNs_unfold f mh des)
  let ?em = "if retry_count (message_of m h') = 0
      then emitDeliveryEvent cfg w (partial_of (message_of m h')) (s\<lparr>db := r2\<rparr>)
      else (Inr (), s\<lparr>db := r2\<rparr>)"
  have em: "db (snd ?em) = r2" "running (snd ?em) = running s" "next_token (snd ?em) = next_token s"
    by simp_all
  have s': "s' = track p (message_of m h') (snd ?em)"
    using d new em(2) by (cases ?em; cases "fst ?em") (auto simp: distribute_queue_def distribute_owned [OF plug] adm pick)
  show thesis
  proof (rule that)
    show "running s' = running s @ [\<lparr>sd_token = next_token s, sd_plugin = p, sd_message = message_of m h'\<rparr>]"
      unfolding s' by (simp add: track_def em)
    show "zpopmin (zsets (db s) q) = Some ((m, score), rest)" using pop zs by simp
    show "m_id (message_of m h') = m" using message_of_fields(1) [OF e(8)] .
    show "db s' = r2" unfolding s' by (simp add: em)
    show "in_queue r2 QUEUE_NS_KEY m" using e(5) by simp
  qed
qed

text \<open>C20 (best first): in every reachable state, when distribution starts a send from a queue, it is
  for a member of that queue whose score no other member undercuts (scores are negated priorities), and
  exactly one send is started, for a message that is now in the \<open>ns\<close> stage.\<close>

theorem distribution_takes_best:
  assumes cfg: "config_ok cfg" and reach: "reachable cfg s"
    and d: "distribute_queue cfg w q s = (res, s')" and new: "running s' \<noteq> running s"
  shows "\<exists>sd score. running s' = running s @ [sd] \<and> in_queue (db s') QUEUE_NS_KEY (send_id sd) \<and>
    zscore (zsets (db s) q) (send_id sd) = Some score \<and>
    (\<forall>other other_score. zscore (zsets (db s) q) other = Some other_score \<longrightarrow> score \<le> other_score)"
proof -
  note ok = reachable_ok [OF cfg reach]
  have z: "zset_ok (zsets (db s) q)" using ok by (simp add: engine_ok_def db_ok_def redis_ok_def)
  obtain p r m score rest h' r2 where run: "running s' = running s @ [\<lparr>sd_token = next_token s,
      sd_plugin = p, sd_message = message_of m h'\<rparr>]"
    and pop: "zpopmin (zsets (db s) q) = Some ((m, score), rest)" and id: "m_id (message_of m h') = m"
    and r2: "db s' = r2" "in_queue r2 QUEUE_NS_KEY m"
    by (rule distribute_picks [OF cfg ok d new])
  show ?thesis
    using run id r2 zs.pop_Some [OF z pop] zs.pop_least [OF z pop]
    by (intro exI [of _ "\<lparr>sd_token = next_token s, sd_plugin = p, sd_message = message_of m h'\<rparr>"]
        exI [of _ score]) (simp add: send_id_def)
qed

theorem distribution_takes_best_witness:
  "\<exists>sd. running example_sent = [sd] \<and> zscore (zsets (db example_queued) example_queue) (send_id sd) \<noteq> None"
proof -
  have d: "distribute_queue example_config (example_world 2000 ''E1'') example_queue example_queued =
      (fst (distribute_queue example_config (example_world 2000 ''E1'') example_queue example_queued),
       example_sent)" by (simp add: example_sent_def)
  have new: "running example_sent \<noteq> running example_queued"
    by (simp add: example_sent_state example_queued_state)
  from distribution_takes_best [OF example_config_ok example_queued_reachable d new]
  show ?thesis by (auto simp: example_queued_state)
qed

end
