(* ===== verification/Cancel_Claims.thy ===== *)
theory Cancel_Claims
  imports Request_Claims
begin

text \<open>
  Cancellation by correlation id: what \<open>CANCELLED\<close> promises, what it never touches, and its race
  with the retry requeue.
\<close>

section \<open>One message\<close>

lemma drop_no_trace: "no_trace s x \<Longrightarrow> no_trace (drop_member k m s) x"
  using remove_effect [of k m "db s"]
  by (auto simp: no_trace_def hash_at_def drop_member_def redis_simps)

lemma purge_no_trace_mono: "no_trace s x \<Longrightarrow> no_trace (purge msg p s) x"
  using purge_strs(1) [of msg p s]
  by (fastforce simp: no_trace_def hash_at_def purge_hash purge_queue purge_sets)

lemma purge_other:
  assumes "x \<noteq> m_id msg"
  shows "hash_at (db (purge msg p s)) x = hash_at (db s) x"
    and "in_queue (db (purge msg p s)) k x = in_queue (db s) k x"
  using assms by (simp_all add: hash_at_def purge_hash purge_queue)

lemma drop_other:
  assumes "x \<noteq> m"
  shows "hash_at (db (drop_member k m s)) x = hash_at (db s) x"
    and "in_queue (db (drop_member k m s)) q x = in_queue (db s) q x"
  using assms remove_effect [of k m "db s"]
  by (auto simp: hash_at_def drop_member_def redis_simps)

lemma drop_same_hash: "hash_at (db (drop_member k m s)) x = hash_at (db s) x"
  using remove_effect [of k m "db s"] by (auto simp: hash_at_def drop_member_def redis_simps)

lemma claim_is_drop:
  "claimFromQueue k m s = (in_queue (db s) k m, drop_member k m s)"
  by (simp add: claimFromQueue_def drop_member_def with_db_def removeMessageFromQueue_def)

lemma drop_idle: "\<not> in_queue (db s) k m \<Longrightarrow> drop_member k m s = s"
  by (simp add: drop_member_def with_db_def removeMessageFromQueue_def)

lemma no_trace_not_queued: "no_trace s m \<Longrightarrow> \<not> in_queue (db s) k m"
  by (simp add: no_trace_def)

lemma cancel_one_cases:
  assumes cfg: "config_ok cfg" and ok: "engine_ok cfg s" and hok: "hash_ok cfg h"
    and at: "hash_at (db s) m = Some h \<or> no_trace s m"
  obtains (refused) "cancelOneMessage cfg (message_of m h) s = (False, s)"
  | (cancelled) s' where "cancelOneMessage cfg (message_of m h) s = (True, s')" "no_trace s' m"
      "engine_ok cfg s'" "the (h_deliveryStatus h) \<in> {QUEUED, TO_RETRY}" "hash_at (db s) m = Some h"
      "\<And>x. x \<noteq> m \<Longrightarrow> hash_at (db s') x = hash_at (db s) x \<and> (\<forall>k. in_queue (db s') k x = in_queue (db s) k x)"
      "\<And>x. no_trace s x \<Longrightarrow> no_trace s' x"
proof -
  note f = message_of_fields [OF hok, of m]
  obtain p where p: "hash_plugin cfg h = Some p" using hok by (auto simp: hash_ok_def)
  note pf = hash_plugin_ready [OF cfg p]
  have reg: "Option.bind (registry_get (cf_registry cfg) (m_pluginId (message_of m h))) delivery_of = Some p"
    using pf(4,5) by (simp add: f plugin_for_def)
  let ?k = "if m_deliveryStatus (message_of m h) = TO_RETRY then QUEUE_RETRY_KEY else ready_key p (message_of m h)"
  consider (inflight) "the (h_deliveryStatus h) \<notin> {QUEUED, TO_RETRY}"
    | (miss) "the (h_deliveryStatus h) \<in> {QUEUED, TO_RETRY}" "\<not> in_queue (db s) ?k m"
    | (hit) "the (h_deliveryStatus h) \<in> {QUEUED, TO_RETRY}" "in_queue (db s) ?k m" by blast
  then show thesis
  proof cases
    case inflight
    then show thesis by (intro refused) (simp add: cancelOneMessage_def f)
  next
    case miss
    then show thesis
      by (intro refused) (auto simp: cancelOneMessage_def f reg [unfolded f] Let_def claim_is_drop drop_idle)
  next
    case hit
    let ?s1 = "drop_member ?k m s"
    let ?s' = "recordMessageTerminal Terminal_CANCELLED (retry_count (message_of m h))
      (purge (message_of m h) p ?s1)"
    have at': "hash_at (db s) m = Some h" using at hit(2) no_trace_not_queued by blast
    have c: "cancelOneMessage cfg (message_of m h) s = (True, ?s')"
      using hit by (auto simp: cancelOneMessage_def f reg [unfolded f] Let_def claim_is_drop)
    have ok': "engine_ok cfg ?s'"
      using kept_engine_ok [OF ok kept_cancelOneMessage [OF cfg ok message_of_rate [OF hok, of m]]]
      by (simp add: c)
    have "?k \<noteq> QUEUE_NS_KEY"
      using pf(1) [of "h_networkId h" "the (h_device h)"] literal_not_ready(1)
      by (auto simp: ready_key_def f key_simps)
    then have "m \<notin> send_id ` set (running s) \<or> \<not> in_queue (db s) ?k m \<or> hash_at (db s) m = None"
      using other_stage_not_running [OF ok at'] by blast
    then have ok1: "engine_ok cfg ?s1" by (intro kept_engine_ok [OF ok] kept_drop [OF ok])
    have "no_trace ?s' m"
      using message_of_purge(1) [OF cfg ok1 _ p, of m] at' by (simp add: drop_same_hash)
    then show thesis
      by (rule cancelled [OF c _ ok' hit(1) at'])
         (simp_all add: purge_other drop_other f drop_no_trace purge_no_trace_mono)
  qed
qed

section \<open>All messages of a correlation id\<close>

definition cancellable_list :: "engineConfig \<Rightarrow> engine \<Rightarrow> deviceMessage list \<Rightarrow> bool" where
  "cancellable_list cfg s ms \<longleftrightarrow> (\<forall>msg \<in> set ms. \<exists>m h. msg = message_of m h \<and> hash_ok cfg h \<and>
     (hash_at (db s) m = Some h \<or> no_trace s m))"

lemma cancel_messages_spec:
  assumes cfg: "config_ok cfg"
  shows "engine_ok cfg s \<Longrightarrow> cancellable_list cfg s ms \<Longrightarrow> cancel_messages cfg ms s = (oks, s') \<Longrightarrow>
    (list_all id oks \<longrightarrow> (\<forall>msg \<in> set ms. no_trace s' (m_id msg))) \<and>
    (\<forall>x. no_trace s x \<longrightarrow> no_trace s' x) \<and>
    (\<forall>x h. hash_at (db s) x = Some h \<longrightarrow> the (h_deliveryStatus h) \<notin> {QUEUED, TO_RETRY} \<longrightarrow>
       hash_at (db s') x = Some h \<and> (\<forall>k. in_queue (db s') k x = in_queue (db s) k x))"
proof (induction ms arbitrary: s oks)
  case (Cons msg ms)
  from Cons.prems(2) obtain m h where mh: "msg = message_of m h" "hash_ok cfg h"
    "hash_at (db s) m = Some h \<or> no_trace s m" by (auto simp: cancellable_list_def)
  have id: "m_id msg = m" using message_of_fields(1) [OF mh(2)] mh(1) by simp
  show ?case
  proof (rule cancel_one_cases [OF cfg Cons.prems(1) mh(2,3)])
    assume "cancelOneMessage cfg (message_of m h) s = (False, s)"
    then obtain oks' where "cancel_messages cfg ms s = (oks', s')" "oks = False # oks'"
      using Cons.prems(3) mh(1) by (auto split: prod.splits)
    moreover have "cancellable_list cfg s ms" using Cons.prems(2) by (simp add: cancellable_list_def)
    ultimately show ?case using Cons.IH [OF Cons.prems(1)] by simp
  next
    fix s1 assume c: "cancelOneMessage cfg (message_of m h) s = (True, s1)" and nt: "no_trace s1 m"
      and ok1: "engine_ok cfg s1" and st: "the (h_deliveryStatus h) \<in> {QUEUED, TO_RETRY}"
      and at: "hash_at (db s) m = Some h"
      and frame: "\<And>x. x \<noteq> m \<Longrightarrow> hash_at (db s1) x = hash_at (db s) x \<and>
        (\<forall>k. in_queue (db s1) k x = in_queue (db s) k x)"
      and mono: "\<And>x. no_trace s x \<Longrightarrow> no_trace s1 x"
    obtain oks' where rest: "cancel_messages cfg ms s1 = (oks', s')" and oks: "oks = True # oks'"
      using Cons.prems(3) mh(1) c by (auto split: prod.splits)
    have "hash_at (db s1) x = Some h' \<or> no_trace s1 x"
      if "hash_at (db s) x = Some h' \<or> no_trace s x" for x h'
      using that frame [of x] nt mono by (cases "x = m") auto
    then have "cancellable_list cfg s1 ms"
      using Cons.prems(2) unfolding cancellable_list_def by (metis list.set_intros(2))
    note ih = Cons.IH [OF ok1 this rest]
    show ?case
    proof (intro conjI impI)
      assume "list_all id oks"
      then show "\<forall>msg \<in> set (msg # ms). no_trace s' (m_id msg)" using ih nt id oks by (simp add: id_def)
    next
      show "\<forall>x. no_trace s x \<longrightarrow> no_trace s' x" using ih mono by blast
      have "x \<noteq> m" if "hash_at (db s) x = Some h'" "the (h_deliveryStatus h') \<notin> {QUEUED, TO_RETRY}" for x h'
        using that at st by auto
      then show "\<forall>x h. hash_at (db s) x = Some h \<longrightarrow> the (h_deliveryStatus h) \<notin> {QUEUED, TO_RETRY} \<longrightarrow>
          hash_at (db s') x = Some h \<and> (\<forall>k. in_queue (db s') k x = in_queue (db s) k x)"
        using ih frame by metis
    qed
  qed
qed simp

lemma collect_messages_complete:
  assumes "db_ok cfg r" and "hash_at r m = Some h" and "m \<noteq> []"
  shows "messageKey m \<in> set ks \<Longrightarrow> collect_messages ks r = Inr ms \<Longrightarrow> message_of m h \<in> set ms"
proof (induction ks arbitrary: ms)
  case (Cons k ks)
  have "complete_hash h" using stored(2) [OF assms(1,2)] by (simp add: hash_ok_def)
  then have d: "deserializeMessage m h = Inr (message_of m h)"
    by (simp add: message_of_def deserializeMessage_def)
  show ?case
  proof (cases "k = messageKey m")
    case True
    then show ?thesis
      using Cons.prems(2) assms(2) d messageIdFromKey_messageKey [OF assms(3)]
      by (cases "collect_messages ks r") (auto simp: hash_at_def)
  next
    case False
    then show ?thesis
      using Cons
      by (cases "collect_messages ks r") (auto split: option.splits sum.splits)
  qed
qed simp

lemma PHASES_all: "set PHASES = UNIV"
  by (auto simp: PHASES_def intro: phase.exhaust)

lemma in_map_filter: "x \<in> set xs \<Longrightarrow> f x = Some y \<Longrightarrow> y \<in> set (List.map_filter f xs)"
  by (induction xs) (auto simp: List.map_filter_simps split: option.split)

lemma correlated_listed:
  assumes "getAllMessagesForCorrelationId c r = Inr ms" and "db_ok cfg r"
    and "strs r (indexCorrelationId c ph) = Some (messageKey m)" and "m \<noteq> []" and "hash_at r m = Some h"
  shows "message_of m h \<in> set ms"
proof -
  let ?f = "\<lambda>k. case strs r k of Some v \<Rightarrow> if v = [] then None else Some v | None \<Rightarrow> None"
  let ?ks = "List.map_filter ?f (map (indexCorrelationId c) (None # map Some PHASES))"
  have "ph \<in> set (None # map Some PHASES)" by (cases ph) (simp_all add: PHASES_all)
  moreover have "?f (indexCorrelationId c ph) = Some (messageKey m)"
    using assms(3) by (simp add: messageKey_def MESSAGE_KEY_PREFIX_def)
  ultimately have "messageKey m \<in> set ?ks"
    by (intro in_map_filter [of "indexCorrelationId c ph"] imageI) (auto simp only: set_map)
  then show ?thesis
    using collect_messages_complete [OF assms(2,5,4), of ?ks ms] assms(1)
    by (simp add: getAllMessagesForCorrelationId_def Let_def)
qed

lemma cancelOne_unfold:
  assumes "cancelOne cfg c s = (Inr result, s')"
  obtains ms oks where "getAllMessagesForCorrelationId c (db s) = Inr ms"
    and "cancel_messages cfg ms s = (oks, s')"
    and "cr_result result = CANCELLED \<longrightarrow> list_all id oks"
proof -
  obtain ms where ms: "getAllMessagesForCorrelationId c (db s) = Inr ms"
    using assms by (auto simp: cancelOne_def split: sum.splits)
  show thesis
    by (cases "cancel_messages cfg ms s"; cases "ms = []")
       (use assms ms that [OF ms] in \<open>auto simp: cancelOne_def split: if_splits\<close>)
qed

lemma listed_cancellable:
  assumes "db_ok cfg (db s)" and "getAllMessagesForCorrelationId c (db s) = Inr ms"
  shows "cancellable_list cfg s ms"
  unfolding cancellable_list_def
proof
  fix msg assume "msg \<in> set ms"
  then obtain i h where "hash_at (db s) i = Some h" "msg = message_of i h"
    using collect_messages_ok [OF assms(1)] assms(2)
    unfolding getAllMessagesForCorrelationId_def Let_def by blast
  then show "\<exists>m h. msg = message_of m h \<and> hash_ok cfg h \<and> (hash_at (db s) m = Some h \<or> no_trace s m)"
    using stored(2) [OF assms(1)] by blast
qed

text \<open>C12 (cancelled means gone): in every reachable state, when a cancel answers \<open>CANCELLED\<close>, every
  stored message that the correlation id led to, of any phase, has left no trace: it is in no queue,
  so it will not be sent, and its hash, slot and delivery index are gone.\<close>

theorem cancelled_leaves_no_trace:
  assumes cfg: "config_ok cfg" and reach: "reachable cfg s"
    and c: "cancelOne cfg c s = (Inr result, s')" and r: "cr_result result = CANCELLED"
    and ix: "strs (db s) (indexCorrelationId c ph) = Some (messageKey m)" and m: "m \<noteq> []"
    and h: "hash_at (db s) m = Some h"
  shows "no_trace s' m"
proof -
  note ok = reachable_ok [OF cfg reach]
  obtain ms oks where ms: "getAllMessagesForCorrelationId c (db s) = Inr ms"
    and cm: "cancel_messages cfg ms s = (oks, s')" and all: "cr_result result = CANCELLED \<longrightarrow> list_all id oks"
    by (rule cancelOne_unfold [OF c])
  note spec = cancel_messages_spec [OF cfg ok listed_cancellable [OF engine_db [OF ok] ms] cm]
  have "message_of m h \<in> set ms" by (rule correlated_listed [OF ms engine_db [OF ok] ix m h])
  moreover have "m_id (message_of m h) = m"
    using message_of_fields(1) [OF stored(2) [OF engine_db [OF ok] h]] .
  moreover have "\<forall>msg \<in> set ms. no_trace s' (m_id msg)" using spec all r by simp
  ultimately show ?thesis by metis
qed

lemma example_cancel:
  "cancelOne example_config ''c1'' example_queued =
     (Inr \<lparr>cr_correlationId = ''c1'', cr_result = CANCELLED\<rparr>,
      snd (cancelOne example_config ''c1'' example_queued))"
proof -
  let ?m = "message_of ''M1'' example_dto_hash"
  note ok = reachable_ok [OF example_config_ok example_queued_reachable]
  have h: "hash_at (db example_queued) ''M1'' = Some example_dto_hash"
    by (simp add: hash_at_def example_queued_state)
  have hok: "hash_ok example_config example_dto_hash" by (rule stored(2) [OF engine_db [OF ok] h])
  note f = message_of_fields [OF hok, of "''M1''"]
  have des: "deserializeMessage ''M1'' example_dto_hash = Inr ?m"
    by (simp add: example_dto_hash_def serialize_deserializes)
  have idx: "indexCorrelationId ''c1'' (Some ph) \<noteq> indexCorrelationId ''c1'' None" for ph
    by simp
  have ms: "getAllMessagesForCorrelationId ''c1'' (db example_queued) = Inr [?m]"
    by (simp add: getAllMessagesForCorrelationId_def List.map_filter_def example_queued_state PHASES_def
        des messageIdFromKey_messageKey Let_def messageKey_def [symmetric])
       (simp add: messageKey_def MESSAGE_KEY_PREFIX_def)
  have fields: "h_deliveryStatus example_dto_hash = Some QUEUED" "h_pluginId example_dto_hash = Some STUB_PULL_ID"
    "h_networkId example_dto_hash = None" "h_device example_dto_hash = Some example_device"
    by (simp_all add: example_dto_hash_def serializeCreateDeviceMessage_def example_create_fields)
  have q: "in_queue (db example_queued) (ready_key (buildStubPull DEFAULT_PLUGIN_TUNING) ?m) ''M1''"
    by (simp add: ready_key_def f fields example_queue_key in_queue_def example_queued_state zscore_def)
  have "fst (cancelOneMessage example_config ?m example_queued)"
    using q by (simp add: cancelOneMessage_def f fields example_plugin claim_is_drop)
  then show ?thesis by (simp add: cancelOne_def ms split: prod.splits) (auto split: prod.splits)
qed

theorem cancelled_leaves_no_trace_witness:
  "no_trace (snd (cancelOne example_config ''c1'' example_queued)) ''M1''"
  by (rule cancelled_leaves_no_trace [OF example_config_ok example_queued_reachable example_cancel,
        where ph = None and h = example_dto_hash])
     (simp_all add: hash_at_def example_queued_state)

text \<open>In every reachable state a cancel, whatever it
  answers, leaves a stored message that is neither \<open>QUEUED\<close> nor \<open>TO_RETRY\<close> with the same hash in the
  same queue, so its send, poll or device reply still finds it.\<close>

lemma cancel_spares_in_flight:
  assumes cfg: "config_ok cfg" and reach: "reachable cfg s"
    and c: "cancelOne cfg c s = (Inr result, s')"
    and h: "hash_at (db s) m = Some h" and st: "the (h_deliveryStatus h) \<notin> {QUEUED, TO_RETRY}"
  shows "hash_at (db s') m = Some h \<and> {k. in_queue (db s') k m} = {k. in_queue (db s) k m}"
proof -
  note ok = reachable_ok [OF cfg reach]
  obtain ms oks where ms: "getAllMessagesForCorrelationId c (db s) = Inr ms"
    and cm: "cancel_messages cfg ms s = (oks, s')" by (rule cancelOne_unfold [OF c])
  from cancel_messages_spec [OF cfg ok listed_cancellable [OF engine_db [OF ok] ms] cm] h st
  show ?thesis by simp
qed

lemma cancel_spares_in_flight_witness:
  "hash_at (db (snd (cancelOne example_config ''c1'' example_sent))) ''M1'' =
     Some (picked_hash SENT_TO_NS example_rate_key example_dto_hash)"
proof -
  note ok = reachable_ok [OF example_config_ok example_sent_reachable]
  have "getAllMessagesForCorrelationId ''c1'' (db example_sent) = Inr [example_message]"
    by (simp add: getAllMessagesForCorrelationId_def List.map_filter_def example_sent_state PHASES_def
        example_picked messageIdFromKey_messageKey Let_def messageKey_def [symmetric])
       (simp add: messageKey_def MESSAGE_KEY_PREFIX_def)
  then obtain result where "cancelOne example_config ''c1'' example_sent =
      (Inr result, snd (cancelOne example_config ''c1'' example_sent))"
    by (cases "cancel_messages example_config [example_message] example_sent")
       (auto simp: cancelOne_def simp del: cancel_messages.simps)
  from cancel_spares_in_flight [OF example_config_ok example_sent_reachable this example_hash]
  show ?thesis by (simp add: picked_hash_def example_key_distinct)
qed

section \<open>The race with the retry requeue\<close>

lemma claim_removeGate:
  "claimFromQueue k m s =
     (fst (map_prod (\<lambda>n. n \<noteq> 0) id (removeMessageFromQueue k m (db s))),
      s\<lparr>db := snd (map_prod (\<lambda>n. n \<noteq> 0) id (removeMessageFromQueue k m (db s)))\<rparr>)"
  by (simp add: claimFromQueue_def split: prod.split)

lemma requeue_gate:
  "fst (requeue w m from_key to_key prio s) = fst (requeueMessage m from_key to_key prio (w_now w) (db s))"
  "db (snd (requeue w m from_key to_key prio s)) =
     snd (requeueMessage m from_key to_key prio (w_now w) (db s))"
  by (simp_all add: requeue_def Let_def split: prod.split)

text \<open>C19 (cancel and requeue exclude each other): of a cancel's claim on a member of the retry queue and
  the requeue of the same message to any ready queue, in either order, at most one succeeds, and the
  loser leaves the store as the winner left it: a cancelled message is never sent again.\<close>

theorem cancel_excludes_requeue:
  "(let s1 = snd (requeue w m QUEUE_RETRY_KEY (buildInitialQueueKey p k i) prio s);
        s2 = snd (claimFromQueue QUEUE_RETRY_KEY m s1)
    in \<not> fst (claimFromQueue QUEUE_RETRY_KEY m s1) \<and> db s2 = db s1) \<and>
   (let s1 = snd (claimFromQueue QUEUE_RETRY_KEY m s);
        s2 = snd (requeue w m QUEUE_RETRY_KEY (buildInitialQueueKey p k i) prio s1)
    in \<not> fst (requeue w m QUEUE_RETRY_KEY (buildInitialQueueKey p k i) prio s1) \<and> db s2 = db s1)"
proof -
  let ?c = "\<lambda>r. map_prod (\<lambda>n. n \<noteq> 0) id (removeMessageFromQueue QUEUE_RETRY_KEY m r)"
  let ?q = "requeueMessage m QUEUE_RETRY_KEY (buildInitialQueueKey p k i) prio (w_now w)"
  have a: "?c (snd (?q r)) = (False, snd (?q r))" for r by (rule requeueVsCancel.second_claim_idle)
  have left: "\<not> in_queue (snd (?c r)) QUEUE_RETRY_KEY m" for r by (rule removeGate.leaves)
  have b: "?q (snd (?c r)) = (False, snd (?c r))" for r
    by (rule requeueVsCancel.a.misses_when_gone [OF left])
  show ?thesis
    unfolding Let_def claim_removeGate requeue_gate
    using arg_cong [OF a, of fst] arg_cong [OF a, of snd] arg_cong [OF b, of fst] arg_cong [OF b, of snd]
    by simp
qed

end
