(* ===== verification/Service_Claims.thy ===== *)
theory Service_Claims
  imports Cancel_Claims
begin

text \<open>
  Properties of the parts around the message's life: the outbox of notifications, the registry of
  plugins, and the bounds of the retry schedule.
\<close>

section \<open>The outbox\<close>

text \<open>Successive deliveries of one event, each with its lease clock, reply and settle clock.\<close>

definition attempts ::
  "eventWebhookConfig \<Rightarrow> string \<Rightarrow> (time \<times> fetchReply \<times> time) list \<Rightarrow> webhook_db \<Rightarrow> webhook_db" where
  "attempts config e net wdb = fold (\<lambda>(t, reply, t'). wb_deliverOne config e t reply t') net wdb"

lemma attempts_snoc:
  "attempts config e (net @ [(t, reply, t')]) wdb = wb_deliverOne config e t reply t' (attempts config e net wdb)"
  by (simp add: attempts_def)

lemma attempts_pending:
  assumes "webhook_ok wdb" and "wb_getRecord e wdb = Some r"
    and "list_all (\<lambda>(_, reply, _). retryable_reply reply) net"
    and "sr_attemptCount r + length net < wh_maxAttempts config"
  shows "webhook_ok (attempts config e net wdb) \<and> (\<exists>r'. wb_getRecord e (attempts config e net wdb) = Some r' \<and>
    sr_attemptCount r' = sr_attemptCount r + length net \<and> sr_event r' = sr_event r)"
  using assms
proof (induction net rule: rev_induct)
  case Nil
  then show ?case by (simp add: attempts_def)
next
  case (snoc x net)
  obtain t reply t' where x: "x = (t, reply, t')" by (metis prod_cases3)
  from snoc obtain r' where ok: "webhook_ok (attempts config e net wdb)"
    and r': "wb_getRecord e (attempts config e net wdb) = Some r'"
      "sr_attemptCount r' = sr_attemptCount r + length net" "sr_event r' = sr_event r"
    by auto
  have "retryable_reply reply" "sr_attemptCount r' + 1 < wh_maxAttempts config"
    using snoc.prems(3,4) r' by (simp_all add: x)
  from deliverOne_retry_again(1) [OF ok r'(1) this] webhook_ok_deliverOne [OF ok] r' show ?case
    by (simp add: x attempts_snoc)
qed

text \<open>C36 (an undeliverable notification ends as a dead letter): a fresh notification whose deliveries all
  fail in a way worth retrying, whatever the failures and their times, is still pending with its count
  of attempts after every failure but the last allowed one; after \<open>maxAttempts\<close> of them it is no longer
  pending, will never be due again, and is kept as a dead letter with the event unchanged.\<close>

theorem webhook_gives_up:
  assumes ok: "webhook_ok wdb" and r: "wb_getRecord e wdb = Some r" "sr_attemptCount r = 0"
    and f: "list_all (\<lambda>(_, reply, _). retryable_reply reply) (net @ [final])"
    and n: "length (net @ [final]) = wh_maxAttempts config"
  shows "(\<exists>r'. wb_getRecord e (attempts config e net wdb) = Some r' \<and> sr_attemptCount r' = length net \<and>
      sr_event r' = sr_event r) \<and>
    wb_getRecord e (attempts config e (net @ [final]) wdb) = None \<and>
    wb_due_at e (attempts config e (net @ [final]) wdb) = None \<and>
    (\<exists>r'. wb_records (attempts config e (net @ [final]) wdb) (webhookDeadLetter e) = Some r' \<and>
      sr_attemptCount r' = wh_maxAttempts config \<and> sr_event r' = sr_event r)"
proof -
  obtain t reply t' where l: "final = (t, reply, t')" by (metis prod_cases3)
  have "sr_attemptCount r + length net < wh_maxAttempts config" using r(2) n by simp
  with attempts_pending [OF ok r(1)] f obtain r' where ok': "webhook_ok (attempts config e net wdb)"
    and r': "wb_getRecord e (attempts config e net wdb) = Some r'" "sr_attemptCount r' = length net"
      "sr_event r' = sr_event r"
    using r(2) by auto
  have x: "retryable_reply reply" "wh_maxAttempts config \<le> sr_attemptCount r' + 1"
    using f n r' by (simp_all add: l)
  show ?thesis
    using deliverOne_exhausted [OF ok' r'(1) x, of t t'] r' n by (simp add: l attempts_snoc)
qed

definition example_notified :: webhook_db where
  "example_notified = snd (storeAndEmit (partial_of example_message) 1000 ''E1'' False empty_webhook_db)"

lemma example_notified_record:
  "webhook_ok example_notified"
  "\<exists>r. wb_getRecord ''E1'' example_notified = Some r \<and> sr_attemptCount r = 0"
proof -
  have e: "webhook_ok empty_webhook_db" by (simp add: webhook_ok_def empty_webhook_db_def zset_ok_def zscore_def)
  then show "webhook_ok example_notified"
    unfolding example_notified_def by (rule webhook_ok_storeAndEmit)
  have "m_pluginId example_message \<noteq> []" by (simp add: example_picked STUB_PULL_ID_def)
  from buildWebhookEvent_full [OF this, of 1000 "''E1''"] obtain ev
    where "buildWebhookEvent (partial_of example_message) 1000 ''E1'' = Inr ev" "we_eventId ev = ''E1''"
    by blast
  then show "\<exists>r. wb_getRecord ''E1'' example_notified = Some r \<and> sr_attemptCount r = 0"
    by (simp add: example_notified_def storeAndEmit_def wb_defs)
qed

theorem webhook_gives_up_witness:
  "wb_due_at ''E1'' (attempts (default_eventWebhook ''http://adopter'') ''E1''
     (replicate 5 (2000, FetchStatus 503, 2100) @ [(9000, FetchThrew ''timeout'', 9500)])
     example_notified) = None"
proof -
  obtain r where r: "wb_getRecord ''E1'' example_notified = Some r" "sr_attemptCount r = 0"
    using example_notified_record(2) by blast
  show ?thesis
    using webhook_gives_up [OF example_notified_record(1) r, of "replicate 5 (2000, FetchStatus 503, 2100)"
        "(9000, FetchThrew ''timeout'', 9500)" "default_eventWebhook ''http://adopter''"]
    by (simp add: retryable_reply_def response_ok_def isRetryableWebhookStatus_def default_eventWebhook_def
        list_all_iff)
qed

text \<open>
  What the outbox holds about an event: its record, the instant it is due, its dead letter and when that
  one expires.
\<close>

definition event_state ::
  "string \<Rightarrow> webhook_db \<Rightarrow> webhookStoredRecord option \<times> time option \<times> webhookStoredRecord option \<times> time option" where
  "event_state e wdb = (wb_getRecord e wdb, wb_due_at e wdb, wb_records wdb (webhookDeadLetter e),
     wb_expires wdb (webhookDeadLetter e))"

text \<open>What becomes of an event depends on its own state alone.\<close>

lemma event_state_local:
  assumes ok: "webhook_ok wdb" "webhook_ok wdb'" and same: "event_state e wdb = event_state e wdb'"
  shows "event_state e (wb_deliverOne config e t reply t' wdb) = event_state e (wb_deliverOne config e t reply t' wdb')"
proof -
  have id: "we_eventId (sr_event r) = e" if "wb_getRecord e wdb = Some r" for r
    using ok(1) that by (simp add: webhook_ok_def wb_getRecord_def)
  show ?thesis
    using ok same id
    by (auto simp: event_state_def wb_deliverOne_def wb_onFailure_def wb_defs wb_due_at_def zscore_zadd zscore_zrem
        split: option.split fetchReply.split)
qed

lemma event_state_other:
  assumes ok: "webhook_ok wdb" and other: "e \<noteq> x"
  shows "event_state e (wb_deliverOne config x t reply t' wdb) = event_state e wdb"
proof -
  have id: "we_eventId (sr_event r) = x" if "wb_getRecord x wdb = Some r" for r
    using ok that by (simp add: webhook_ok_def wb_getRecord_def)
  show ?thesis
    using ok other id
    by (auto simp: event_state_def wb_deliverOne_def wb_onFailure_def wb_defs wb_due_at_def zscore_zadd zscore_zrem
        split: option.split fetchReply.split)
qed

definition deliver_each ::
  "eventWebhookConfig \<Rightarrow> (string \<Rightarrow> time \<times> fetchReply \<times> time) \<Rightarrow> string list \<Rightarrow> webhook_db \<Rightarrow> webhook_db" where
  "deliver_each config net es wdb =
     fold (\<lambda>eventId wdb. case net eventId of (t, reply, t') \<Rightarrow> wb_deliverOne config eventId t reply t' wdb) es wdb"

lemma deliver_each_spec:
  assumes "webhook_ok wdb" and "distinct es" and "net e = (t, reply, t')"
  shows "event_state e (deliver_each config net es wdb) =
    event_state e (if e \<in> set es then wb_deliverOne config e t reply t' wdb else wdb)"
  using assms
proof (induction es arbitrary: wdb)
  case (Cons x es)
  obtain u answer u' where x: "net x = (u, answer, u')" by (metis prod_cases3)
  let ?wdb = "wb_deliverOne config x u answer u' wdb"
  have step: "deliver_each config net (x # es) wdb = deliver_each config net es ?wdb"
    by (simp add: deliver_each_def x)
  have ok: "webhook_ok ?wdb" using Cons.prems(1) by (rule webhook_ok_deliverOne)
  note ih = Cons.IH [OF ok _ Cons.prems(3)]
  show ?case
  proof (cases "e = x")
    case True
    then show ?thesis using ih Cons.prems x by (simp add: step)
  next
    case False
    note o = event_state_other [OF Cons.prems(1) False, of config u answer u']
    note l = event_state_local [OF ok Cons.prems(1) o, of config t reply t']
    show ?thesis using ih Cons.prems False o l by (simp add: step)
  qed
qed (simp add: deliver_each_def)

text \<open>C37 (a drain treats every due notification on its own): in one drain each due notification of the
  batch is delivered exactly once and ends as if it had been delivered alone, whatever happens to the
  others before it: its record, the instant it is due, its dead letter and the expiry of that one are those of a
  single delivery. A notification that is not in the batch keeps all four.\<close>

theorem webhook_drain_independent:
  assumes ok: "webhook_ok wdb" and net: "net e = (t, reply, t')"
  shows "event_state e (wb_drainOnce config now net wdb) = event_state e
      (if e \<in> set (wb_listDueEventIds now wdb) then wb_deliverOne config e t reply t' wdb else wdb)"
proof -
  have "distinct (map fst (wb_pending wdb))" using ok by (simp add: webhook_ok_def zset_ok_def)
  then have "distinct (map fst (filter (\<lambda>e. snd e \<le> now) (wb_pending wdb)))" by (rule distinct_map_filter)
  then have "distinct (wb_listDueEventIds now wdb)"
    unfolding wb_listDueEventIds_def zrangebyscore_def take_map [symmetric] by (rule distinct_take)
  from deliver_each_spec [OF ok this, where net = net and e = e and config = config, OF net] show ?thesis
    by (simp add: wb_drainOnce_def deliver_each_def)
qed

text \<open>
  Two notifications are due and a third is not yet: the vendor answers the first with 400, so it becomes a dead
  letter, and the second with 503, so it is tried again; the third keeps its instant.
\<close>

definition example_outbox :: webhook_db where
  "example_outbox = snd (storeAndEmit (partial_of example_message) 9000 ''E3'' False
     (snd (storeAndEmit (partial_of example_message) 2000 ''E2'' False example_notified)))"

definition example_answers :: "string \<Rightarrow> time \<times> fetchReply \<times> time" where
  "example_answers e = (3000, FetchStatus (if e = ''E1'' then 400 else 503), 3500)"

lemma example_event: obtains ev where "buildWebhookEvent (partial_of example_message) t e = Inr ev" "we_eventId ev = e"
proof -
  have "m_pluginId example_message \<noteq> []" by (simp add: example_picked STUB_PULL_ID_def)
  from buildWebhookEvent_full [OF this, of t e] that show thesis by blast
qed

lemma example_outbox_state:
  "webhook_ok example_outbox" "wb_listDueEventIds 3000 example_outbox = [''E1'', ''E2'']"
  "\<exists>r. wb_getRecord ''E1'' example_outbox = Some r \<and> sr_attemptCount r = 0 \<and> we_eventId (sr_event r) = ''E1''"
  "\<exists>r. wb_getRecord ''E2'' example_outbox = Some r \<and> sr_attemptCount r = 0 \<and> we_eventId (sr_event r) = ''E2''"
  "wb_due_at ''E3'' example_outbox = Some 9000"
proof -
  show "webhook_ok example_outbox"
    unfolding example_outbox_def by (intro webhook_ok_storeAndEmit example_notified_record(1))
  obtain e1 where e1: "buildWebhookEvent (partial_of example_message) 1000 ''E1'' = Inr e1" "we_eventId e1 = ''E1''"
    by (rule example_event)
  obtain e2 where e2: "buildWebhookEvent (partial_of example_message) 2000 ''E2'' = Inr e2" "we_eventId e2 = ''E2''"
    by (rule example_event)
  obtain e3 where e3: "buildWebhookEvent (partial_of example_message) 9000 ''E3'' = Inr e3" "we_eventId e3 = ''E3''"
    by (rule example_event)
  note outbox = example_outbox_def example_notified_def storeAndEmit_def e1 e2 e3 wb_defs empty_webhook_db_def
  show "wb_listDueEventIds 3000 example_outbox = [''E1'', ''E2'']"
    by (simp add: outbox wb_listDueEventIds_def zrangebyscore_def WEBHOOK_DRAIN_BATCH_SIZE_def zadd_def zrem_def
        zkey_def less_eq_prod_def less_prod_def)
  show "\<exists>r. wb_getRecord ''E1'' example_outbox = Some r \<and> sr_attemptCount r = 0 \<and> we_eventId (sr_event r) = ''E1''"
    "\<exists>r. wb_getRecord ''E2'' example_outbox = Some r \<and> sr_attemptCount r = 0 \<and> we_eventId (sr_event r) = ''E2''"
    by (simp_all add: outbox webhookPayload_def)
  show "wb_due_at ''E3'' example_outbox = Some 9000"
    by (simp add: outbox wb_due_at_def zscore_zadd)
qed

theorem webhook_drain_independent_witness:
  "let config = default_eventWebhook ''http://adopter'';
       drained = wb_drainOnce config 3000 example_answers example_outbox
   in wb_getRecord ''E1'' drained = None \<and> wb_records drained (webhookDeadLetter ''E1'') \<noteq> None \<and>
     wb_due_at ''E2'' drained = Some (3500 + calculateWebhookBackoffDelay 1 config) \<and>
     wb_records drained (webhookDeadLetter ''E2'') = wb_records example_outbox (webhookDeadLetter ''E2'') \<and>
     wb_due_at ''E3'' drained = Some 9000"
proof -
  let ?c = "default_eventWebhook ''http://adopter''"
  obtain r1 where r1: "wb_getRecord ''E1'' example_outbox = Some r1" "we_eventId (sr_event r1) = ''E1''"
    using example_outbox_state(3) by blast
  obtain r2 where r2: "wb_getRecord ''E2'' example_outbox = Some r2" "sr_attemptCount r2 = 0" "we_eventId (sr_event r2) = ''E2''"
    using example_outbox_state(4) by blast
  note drained = webhook_drain_independent [OF example_outbox_state(1), where net = example_answers and config = ?c
      and now = 3000, OF example_answers_def, unfolded example_outbox_state(2)]
  have "event_state ''E1'' (wb_drainOnce ?c 3000 example_answers example_outbox) =
      event_state ''E1'' (wb_deliverOne ?c ''E1'' 3000 (FetchStatus 400) 3500 example_outbox)"
    "event_state ''E2'' (wb_drainOnce ?c 3000 example_answers example_outbox) =
      event_state ''E2'' (wb_deliverOne ?c ''E2'' 3000 (FetchStatus 503) 3500 example_outbox)"
    "event_state ''E3'' (wb_drainOnce ?c 3000 example_answers example_outbox) = event_state ''E3'' example_outbox"
    using drained [of "''E1''"] drained [of "''E2''"] drained [of "''E3''"] by simp_all
  moreover have "event_state ''E1'' (wb_deliverOne ?c ''E1'' 3000 (FetchStatus 400) 3500 example_outbox) =
      (None, None, Some (r1\<lparr>sr_attemptCount := sr_attemptCount r1 + 1, sr_lastError := Some (''HTTP '' @ nat_to_string 400)\<rparr>),
       Some (ttl_instant 3500 (wh_deadLetterTtlSeconds ?c)))"
    using r1 by (simp add: event_state_def wb_deliverOne_def wb_defs wb_due_at_def zscore_zrem response_ok_def
        isRetryableWebhookStatus_def)
  moreover have "wb_due_at ''E2'' (wb_deliverOne ?c ''E2'' 3000 (FetchStatus 503) 3500 example_outbox) =
      Some (3500 + calculateWebhookBackoffDelay 1 ?c)"
    "wb_records (wb_deliverOne ?c ''E2'' 3000 (FetchStatus 503) 3500 example_outbox) (webhookDeadLetter ''E2'') =
      wb_records example_outbox (webhookDeadLetter ''E2'')"
    using r2 by (simp_all add: wb_deliverOne_def wb_onFailure_def wb_defs wb_due_at_def zscore_zadd response_ok_def
        isRetryableWebhookStatus_def default_eventWebhook_def)
  ultimately show ?thesis
    using example_outbox_state(5) by (simp add: Let_def event_state_def)
qed

section \<open>The registry\<close>

definition made_by :: "catalog \<Rightarrow> pluginEntry \<Rightarrow> plugin_id \<times> devicePlugin \<Rightarrow> bool" where
  "made_by cat e x \<longleftrightarrow> fst x = pe_id e \<and>
     (case cat (pe_id e) of None \<Rightarrow> False | Some factory \<Rightarrow> factory e = Inr (snd x))"

lemma build_registry_made:
  "build_registry cat acc es = Inr reg \<Longrightarrow> \<exists>more. reg = acc @ more \<and> list_all2 (made_by cat) es more"
proof (induction es arbitrary: acc)
  case (Cons e es)
  then obtain factory p where f: "cat (pe_id e) = Some factory" "factory e = Inr p"
    and rest: "build_registry cat (acc @ [(pe_id e, p)]) es = Inr reg"
    by (auto split: option.splits sum.splits if_splits)
  from Cons.IH [OF rest] obtain more where "reg = (acc @ [(pe_id e, p)]) @ more" "list_all2 (made_by cat) es more"
    by blast
  moreover have "made_by cat e (pe_id e, p)" using f by (simp add: made_by_def)
  ultimately show ?case by (intro exI [of _ "(pe_id e, p) # more"]) simp
qed simp

text \<open>When the registry can be built, it holds the
  configured plugins under their own ids, in the order of the configuration and without duplicates,
  each made by its own factory from its own entry.\<close>

lemma registry_lists_configuration:
  assumes "createPluginRegistry cat entries = Inr reg"
  shows "map fst reg = map pe_id entries \<and> distinct (map fst reg) \<and> list_all2 (made_by cat) entries reg"
  using assms build_registry_keys [of cat "[]" entries reg] build_registry_distinct [of cat "[]" entries reg]
    build_registry_made [of cat "[]" entries reg]
  by (auto simp: createPluginRegistry_def)

definition example_catalog :: catalog where
  "example_catalog = [STUB_PUSH_ID \<mapsto> createStubPushPlugin, STUB_PULL_ID \<mapsto> createStubPullPlugin]"

lemma registry_lists_configuration_witness:
  "map fst (projr (createPluginRegistry example_catalog
     [\<lparr>pe_id = STUB_PULL_ID, pe_settings = None, pe_tuning = None\<rparr>, \<lparr>pe_id = STUB_PUSH_ID, pe_settings = None, pe_tuning = None\<rparr>])) =
   [STUB_PULL_ID, STUB_PUSH_ID]"
proof -
  let ?es = "[\<lparr>pe_id = STUB_PULL_ID, pe_settings = None, pe_tuning = None\<rparr>, \<lparr>pe_id = STUB_PUSH_ID, pe_settings = None, pe_tuning = None\<rparr>]"
  obtain reg where "createPluginRegistry example_catalog ?es = Inr reg"
    by (simp add: createPluginRegistry_def example_catalog_def createStubPushPlugin_def
        createStubPullPlugin_def mergePluginTuning_def STUB_PULL_ID_def STUB_PUSH_ID_def)
  from registry_lists_configuration [OF this] this show ?thesis by simp
qed

section \<open>The retry schedule\<close>

lemma default_delay: "n < 11 \<Longrightarrow> cappedDelay n default_delivery = 2000 * 2 ^ n"
proof -
  assume "n < 11"
  then have "(2 :: num) ^ n \<le> 2 ^ 10" by (intro power_increasing) simp_all
  then show ?thesis by (simp add: cappedDelay_def default_delivery_def)
qed

text \<open>Under the default configuration the eleven waits before the
  retries of a message last between 4,094 seconds and half as much again together, whatever random
  numbers the jitter draws.\<close>

lemma default_schedule_total:
  assumes "list_all (\<lambda>n. 0 \<le> rnd n \<and> rnd n < 1) [0..<maxRetries default_delivery]"
  shows "4094000 \<le> (\<Sum>n<maxRetries default_delivery. calculateBackoffDelay n default_delivery (rnd n)) \<and>
    (\<Sum>n<maxRetries default_delivery. calculateBackoffDelay n default_delivery (rnd n)) \<le> 6141000"
proof -
  have mr: "maxRetries default_delivery = 11" by (simp add: default_delivery_def)
  have r: "0 \<le> rnd n" "rnd n < 1" if "n < 11" for n
    using assms that unfolding mr list_all_iff by auto
  have total: "(\<Sum>n<11. cappedDelay n default_delivery) = 4094000"
  proof -
    have "(\<Sum>n<11. cappedDelay n default_delivery) = (\<Sum>n<11. 2000 * 2 ^ n)"
      by (rule sum.cong [OF refl]) (simp add: default_delay)
    also have "\<dots> = 4094000" by (simp add: eval_nat_numeral lessThan_Suc)
    finally show ?thesis .
  qed
  note b = calculateBackoffDelay_bounds [OF default_delivery_valid]
  have "(\<Sum>n<11. cappedDelay n default_delivery) \<le> (\<Sum>n<11. calculateBackoffDelay n default_delivery (rnd n))"
    by (intro sum_mono b(1)) (use r in simp_all)
  moreover have "(\<Sum>n<11. calculateBackoffDelay n default_delivery (rnd n)) \<le>
      (\<Sum>n<11. 3 / 2 * cappedDelay n default_delivery)"
    by (intro sum_mono b(2)) (use r in simp_all)
  moreover have "(\<Sum>n<11. 3 / 2 * cappedDelay n default_delivery) = 3 / 2 * 4094000"
    unfolding sum_distrib_left [symmetric] total ..
  ultimately show ?thesis unfolding mr total by simp
qed

lemma default_schedule_total_witness:
  "4094000 \<le> (\<Sum>n<maxRetries default_delivery. calculateBackoffDelay n default_delivery (1 / 4))"
  using default_schedule_total [of "\<lambda>_. 1 / 4"] by (simp add: list_all_iff)

text \<open>In every reachable state no stored message has been retried more often than the
  configuration allows, and the next failure of one that was retried that often is final, whatever the
  reason. With every retry adding one to the count, each message fails for good or succeeds after
  finitely many attempts.\<close>

lemma retries_bounded:
  assumes cfg: "config_ok cfg" and reach: "reachable cfg s" and h: "hash_at (db s) m = Some h"
  shows "retry_count (message_of m h) \<le> maxRetries (cf_delivery cfg) \<and>
    (is_final_failure cfg context (retry_count (message_of m h)) \<longleftrightarrow>
      fc_skipRetry context = Some True \<or> retry_count (message_of m h) = maxRetries (cf_delivery cfg))"
proof -
  have ok: "hash_ok cfg h" using stored(2) [OF engine_db [OF reachable_ok [OF cfg reach]] h] .
  then have "retry_count (message_of m h) \<le> maxRetries (cf_delivery cfg)"
    using message_of_fields(7) [OF ok] by (auto simp: hash_ok_def split: option.splits)
  then show ?thesis by (auto simp: is_final_failure_def)
qed

lemma retries_bounded_witness:
  "retry_count (message_of ''M1'' (picked_hash SENT_TO_NS example_rate_key example_dto_hash)) \<le> 11"
  using retries_bounded [OF example_config_ok example_sent_reachable example_hash]
  by (simp add: example_config_def default_delivery_def)

end
