(* ===== verification/Js_Date.thy ===== *)
theory Js_Date
  imports Prelude
begin

text \<open>
  The calendar of ECMAScript's \<open>Date\<close>, as far as the plugins use it: the day number of a year, month
  and day (\<open>Date.UTC\<close>), and the UTC year, month, day and weekday of a day number (the getters). The
  two directions are inverse on the dates of the calendar.
\<close>

section \<open>From a date to its day number\<close>

text \<open>ECMAScript's \<open>DayFromYear\<close>, \<open>MakeDay\<close> and \<open>WeekDay\<close>.\<close>

definition leap_year :: "int \<Rightarrow> bool" where
  "leap_year y \<longleftrightarrow> y mod 4 = 0 \<and> (y mod 100 \<noteq> 0 \<or> y mod 400 = 0)"

definition day_from_year :: "int \<Rightarrow> int" where
  "day_from_year y =
     365 * (y - 1970) + (y - 1969) div 4 - (y - 1901) div 100 + (y - 1601) div 400"

definition month_offset :: "bool \<Rightarrow> int \<Rightarrow> int" where
  "month_offset leap m =
     [0, 31, 59, 90, 120, 151, 181, 212, 243, 273, 304, 334] ! nat m + (if leap \<and> 2 \<le> m then 1 else 0)"

text \<open>\<open>MakeDay(year, monthIndex, day)\<close>.\<close>

definition make_day :: "int \<Rightarrow> int \<Rightarrow> int \<Rightarrow> int" where
  "make_day year monthIndex day =
     (let ym = year + monthIndex div 12; mn = monthIndex mod 12
      in day_from_year ym + month_offset (leap_year ym) mn + day - 1)"

definition week_day :: "int \<Rightarrow> int" where
  "week_day d = (d + 4) mod 7"

text \<open>JavaScript's \<open>%\<close>: the sign of the dividend.\<close>

definition js_rem :: "int \<Rightarrow> int \<Rightarrow> int" where
  "js_rem a b = (if a < 0 then - (- a mod b) else a mod b)"

text \<open>
  \<open>Date.UTC\<close> reads a year below 100 as one of the twentieth century, and an instant more than
  \<open>10 ^ 8\<close> days from the epoch is no date (\<open>NaN\<close>).
\<close>

definition utc_day :: "int \<Rightarrow> int \<Rightarrow> int \<Rightarrow> int option" where
  "utc_day year monthIndex day =
     (let yr = (if 0 \<le> year \<and> year \<le> 99 then 1900 + year else year);
          d = make_day yr monthIndex day
      in if \<bar>d\<bar> \<le> 10 ^ 8 then Some d else None)"

text \<open>\<open>new Date(Date.UTC(...)).getUTCDay()\<close>.\<close>

definition utc_week_day :: "int \<Rightarrow> int \<Rightarrow> int \<Rightarrow> int option" where
  "utc_week_day year monthIndex day = map_option week_day (utc_day year monthIndex day)"

section \<open>From a day number to its date\<close>

text \<open>\<open>YearFromTime\<close>: the mean length of a year gives the year, or a neighbour of it.\<close>

definition year_of_day :: "int \<Rightarrow> int" where
  "year_of_day d =
     (let y = 1970 + (400 * d) div 146097
      in if d < day_from_year y then y - 1 else if day_from_year (y + 1) \<le> d then y + 1 else y)"

text \<open>\<open>MonthFromTime\<close>, from the day within the year.\<close>

definition month_in_year :: "bool \<Rightarrow> int \<Rightarrow> int" where
  "month_in_year leap n =
     (let before = (\<lambda>m. n < month_offset leap m) in
      if before 1 then 0 else if before 2 then 1 else if before 3 then 2 else if before 4 then 3
      else if before 5 then 4 else if before 6 then 5 else if before 7 then 6 else if before 8 then 7
      else if before 9 then 8 else if before 10 then 9 else if before 11 then 10 else 11)"

text \<open>\<open>getUTCFullYear()\<close>, \<open>getUTCMonth()\<close> and \<open>getUTCDate()\<close>.\<close>

definition utc_fields :: "int \<Rightarrow> int \<times> int \<times> int" where
  "utc_fields d =
     (let y = year_of_day d; n = d - day_from_year y; m = month_in_year (leap_year y) n
      in (y, m, n - month_offset (leap_year y) m + 1))"

section \<open>The two directions\<close>

text \<open>A date of the calendar, its month counted from 0.\<close>

definition days_in_month :: "bool \<Rightarrow> int \<Rightarrow> int" where
  "days_in_month leap m =
     [31, if leap then 29 else 28, 31, 30, 31, 30, 31, 31, 30, 31, 30, 31] ! nat m"

definition calendar_date :: "int \<Rightarrow> int \<Rightarrow> int \<Rightarrow> bool" where
  "calendar_date y m d \<longleftrightarrow> 0 \<le> m \<and> m \<le> 11 \<and> 1 \<le> d \<and> d \<le> days_in_month (leap_year y) m"

lemma div_bounds:
  fixes a n :: int
  assumes "0 < n"
  shows "n * (a div n) \<le> a" "a < n * (a div n) + n"
  using mult_div_mod_eq [of n a] pos_mod_bound [OF assms, of a] pos_mod_sign [OF assms, of a] by linarith+

lemma div_unique:
  fixes a n q :: int
  assumes "n * q \<le> a" and "a < n * q + n"
  shows "a div n = q"
proof -
  have "0 < n" using assms by linarith
  then have "a = n * q + (a - n * q)" and "(a - n * q) div n = 0" using assms by (auto simp: div_pos_pos_trivial)
  then show ?thesis using \<open>0 < n\<close> by (metis div_mult_self4 add.right_neutral add.commute less_irrefl)
qed

lemma div_succ:
  fixes a n :: int
  assumes n: "0 < n"
  shows "(a + 1) div n = a div n + (if n dvd a + 1 then 1 else 0)"
proof (cases "n dvd a + 1")
  case True
  then obtain k where k: "a + 1 = n * k" by (auto elim: dvdE)
  then have "n * (k - 1) = a + 1 - n" by (simp add: right_diff_distrib)
  then have "a div n = k - 1" using n by (intro div_unique) linarith+
  then show ?thesis using k n by simp
next
  case False
  have "n * (a div n) + n \<noteq> a + 1"
    using False by (metis dvd_add dvd_refl dvd_triv_left)
  then have "(a + 1) div n = a div n" using div_bounds [OF n, of a] by (intro div_unique) linarith+
  then show ?thesis using False by simp
qed

lemma leap_year_dvd: "leap_year y \<longleftrightarrow> 4 dvd y \<and> (\<not> 100 dvd y \<or> 400 dvd y)"
  by (simp only: leap_year_def dvd_eq_mod_eq_0)

lemma leap_day:
  assumes "C \<Longrightarrow> B" and "B \<Longrightarrow> A"
  shows "365 + (if A then 1 else 0) - (if B then 1 else 0) + (if C then 1 else 0) =
    (if A \<and> (\<not> B \<or> C) then 366 else 365 :: int)"
  using assms by (cases A; cases B; cases C) auto

lemma year_length: "day_from_year (y + 1) = day_from_year y + (if leap_year y then 366 else 365)"
proof -
  have shift: "n dvd y - n * k \<longleftrightarrow> n dvd y" for n k :: int
    by (meson dvd_diff_left_iff dvd_triv_left)
  have c: "4 dvd y - 1968 \<longleftrightarrow> 4 dvd y" "100 dvd y - 1900 \<longleftrightarrow> 100 dvd y" "400 dvd y - 1600 \<longleftrightarrow> 400 dvd y"
    using shift [of 4 492] shift [of 100 19] shift [of 400 4] by simp_all
  have h: "400 dvd y \<Longrightarrow> 100 dvd y" "100 dvd y \<Longrightarrow> 4 dvd y"
    by (erule dvd_trans [rotated], simp)+
  have "day_from_year (y + 1) - day_from_year y = 365 + (if 4 dvd y then 1 else 0) -
      (if 100 dvd y then 1 else 0) + (if 400 dvd y then 1 else 0)"
    using div_succ [of 4 "y - 1969"] div_succ [of 100 "y - 1901"] div_succ [of 400 "y - 1601"]
    by (simp add: day_from_year_def c)
  also have "\<dots> = (if leap_year y then 366 else 365)"
    unfolding leap_year_dvd using h by (rule leap_day)
  finally show ?thesis by linarith
qed

lemma day_from_year_mono: "y < z \<Longrightarrow> day_from_year y < day_from_year z"
proof (induction z rule: int_gr_induct)
  case base
  then show ?case by (simp add: year_length)
next
  case (step z)
  then show ?case by (simp add: year_length)
qed

lemma day_from_year_le: "y \<le> z \<Longrightarrow> day_from_year y \<le> day_from_year z"
  using day_from_year_mono [of y z] by (cases "y = z") auto

text \<open>The start of a year is within a day and a half of its mean.\<close>

lemma day_from_year_mean:
  "146097 * (y - 1970) - 506 \<le> 400 * day_from_year y"
  "400 * day_from_year y \<le> 146097 * (y - 1970) + 589"
  using div_bounds [of 4 "y - 1969", simplified] div_bounds [of 100 "y - 1901", simplified]
    div_bounds [of 400 "y - 1601", simplified]
  unfolding day_from_year_def by (simp_all add: algebra_simps)

lemma year_of_day_bounds:
  "day_from_year (year_of_day d) \<le> d" "d < day_from_year (year_of_day d + 1)"
proof -
  define y where "y = 1970 + (400 * d) div 146097"
  have q: "146097 * (y - 1970) \<le> 400 * d" "400 * d < 146097 * (y - 1970) + 146097"
    using div_bounds [of 146097 "400 * d"] by (simp_all add: y_def)
  have "day_from_year (y - 1) \<le> d" using day_from_year_mean(2) [of "y - 1"] q by simp
  moreover have "d < day_from_year (y + 2)" using day_from_year_mean(1) [of "y + 2"] q by simp
  ultimately show "day_from_year (year_of_day d) \<le> d" "d < day_from_year (year_of_day d + 1)"
    by (auto simp: year_of_day_def Let_def y_def [symmetric] add.commute)
qed

lemma year_of_day_unique:
  assumes "day_from_year y \<le> d" and "d < day_from_year (y + 1)"
  shows "year_of_day d = y"
proof (rule ccontr)
  assume "year_of_day d \<noteq> y"
  then consider "year_of_day d + 1 \<le> y" | "y + 1 \<le> year_of_day d" by linarith
  then show False
  proof cases
    case 1
    with year_of_day_bounds(2) [of d] day_from_year_le [OF 1] assms(1) show False by linarith
  next
    case 2
    with year_of_day_bounds(1) [of d] day_from_year_le [OF 2] assms(2) show False by linarith
  qed
qed

lemma month_in_year_range: "0 \<le> month_in_year leap n" "month_in_year leap n \<le> 11"
  by (simp_all add: month_in_year_def Let_def)

text \<open>The table of the months, checked day by day for both lengths of the year.\<close>

definition year_day_ok :: "bool \<Rightarrow> int \<Rightarrow> bool" where
  "year_day_ok leap n \<longleftrightarrow>
     (let m = month_in_year leap n
      in month_offset leap m \<le> n \<and> n < month_offset leap m + days_in_month leap m)"

lemma leap_year_table: "list_all (year_day_ok True) [0..365]"
  by code_simp

lemma year_table: "list_all (year_day_ok False) [0..364]"
  by code_simp

lemma month_in_year_spec:
  assumes "0 \<le> n" and "n < (if leap then 366 else 365)"
  shows "month_offset leap (month_in_year leap n) \<le> n"
    and "n < month_offset leap (month_in_year leap n) + days_in_month leap (month_in_year leap n)"
proof -
  have "year_day_ok leap n"
    using leap_year_table year_table assms by (cases leap) (simp_all add: list_all_iff)
  then show "month_offset leap (month_in_year leap n) \<le> n"
    and "n < month_offset leap (month_in_year leap n) + days_in_month leap (month_in_year leap n)"
    by (simp_all add: year_day_ok_def Let_def)
qed

definition month_day_ok :: "bool \<Rightarrow> int \<Rightarrow> int \<Rightarrow> bool" where
  "month_day_ok leap m d \<longleftrightarrow>
     month_in_year leap (month_offset leap m + d - 1) = m \<and> 0 \<le> month_offset leap m + d - 1 \<and>
     month_offset leap m + d - 1 < (if leap then 366 else 365)"

lemma leap_month_table: "list_all (\<lambda>m. list_all (month_day_ok True m) [1..days_in_month True m]) [0..11]"
  by code_simp

lemma month_table: "list_all (\<lambda>m. list_all (month_day_ok False m) [1..days_in_month False m]) [0..11]"
  by code_simp

lemma month_in_year_unique:
  assumes "0 \<le> m" and "m \<le> 11" and "1 \<le> d" and "d \<le> days_in_month leap m"
  shows "month_in_year leap (month_offset leap m + d - 1) = m"
    and "0 \<le> month_offset leap m + d - 1" and "month_offset leap m + d - 1 < (if leap then 366 else 365)"
proof -
  have "month_day_ok leap m d"
    using leap_month_table month_table assms by (cases leap) (simp_all add: list_all_iff)
  then show "month_in_year leap (month_offset leap m + d - 1) = m"
    and "0 \<le> month_offset leap m + d - 1" and "month_offset leap m + d - 1 < (if leap then 366 else 365)"
    by (simp_all add: month_day_ok_def)
qed

text \<open>The getters return the date whose day number was taken, and always a date of the calendar.\<close>

lemma utc_fields_make_day:
  assumes "calendar_date y m d"
  shows "utc_fields (make_day y m d) = (y, m, d)"
proof -
  have c: "0 \<le> m" "m \<le> 11" "1 \<le> d" "d \<le> days_in_month (leap_year y) m"
    using assms by (auto simp: calendar_date_def)
  then have mk: "make_day y m d = day_from_year y + month_offset (leap_year y) m + d - 1"
    by (simp add: make_day_def)
  have "year_of_day (make_day y m d) = y"
    by (rule year_of_day_unique) (use month_in_year_unique [OF c] in \<open>simp_all add: mk year_length split: if_splits\<close>)
  then show ?thesis
    using month_in_year_unique(1) [OF c] by (simp add: utc_fields_def mk algebra_simps)
qed

lemma utc_fields_calendar:
  assumes "utc_fields n = (y, m, d)"
  shows "calendar_date y m d"
proof -
  have y: "y = year_of_day n" "m = month_in_year (leap_year y) (n - day_from_year y)"
    "d = n - day_from_year y - month_offset (leap_year y) m + 1"
    using assms by (auto simp: utc_fields_def Let_def)
  have "0 \<le> n - day_from_year y" "n - day_from_year y < (if leap_year y then 366 else 365)"
    using year_of_day_bounds [of n] by (auto simp: y(1) year_length)
  from month_in_year_spec [OF this] month_in_year_range [of "leap_year y" "n - day_from_year y"]
  show ?thesis by (simp add: calendar_date_def y(2) [symmetric] y(3))
qed

end
