(* ===== verification/Calin_Encode.thy ===== *)
theory Calin_Encode
  imports Device_Message Js_Date
begin

text \<open>
  The CALIN downlink frames of the ChirpStack plugin
  (\<open>src/plugins/calin-chirpstack/lib/encode-request-data.ts\<close>). A byte is a natural number and each
  \<open>& 0xFF\<close> is written out as \<open>mod 256\<close>. The weekday of a \<open>SET_DATE\<close> goes through the day number that
  ECMAScript's \<open>Date.UTC\<close> computes.
\<close>

named_theorems calin_simps "bytes of a CALIN frame"

section \<open>Bytes\<close>

text \<open>\<open>CalinMetaBytes\<close>.\<close>

definition HEADER_BYTE :: nat where "HEADER_BYTE = 0x68"

definition END_BYTE :: nat where "END_BYTE = 0x16"

text \<open>\<open>(byte + 0x33) & 0xFF\<close>.\<close>

definition add33H :: "nat \<Rightarrow> nat" where
  "add33H byte = (byte + 0x33) mod 256"

definition toBcd :: "int \<Rightarrow> nat option" where
  "toBcd value = (if value < 0 \<or> 99 < value then None else Some (nat (16 * (value div 10) + value mod 10)))"

definition hex_digits :: string where
  "hex_digits = ''0123456789abcdefABCDEF''"

definition hex_value :: "char \<Rightarrow> nat" where
  "hex_value c =
     (let n = of_char c in if n \<le> 57 then n - 48 else if n \<le> 70 then n - 55 else n - 87)"

fun hex_pairs :: "string \<Rightarrow> nat list" where
  "hex_pairs (a # b # rest) = (16 * hex_value a + hex_value b) # hex_pairs rest"
| "hex_pairs _ = []"

definition hexToBytes :: "string \<Rightarrow> nat list option" where
  "hexToBytes hex =
     (if hex = [] \<or> \<not> set hex \<subseteq> set hex_digits \<or> length hex mod 2 \<noteq> 0 then None
      else Some (hex_pairs hex))"

section \<open>Dates\<close>

definition full_year :: "int \<Rightarrow> int" where
  "full_year year = (if year < 100 then 2000 + year else year)"

definition encodeDateBytes :: "int \<Rightarrow> int \<Rightarrow> int \<Rightarrow> nat list option" where
  "encodeDateBytes year month day =
     (let fullYear = full_year year;
          weekday = utc_week_day fullYear (month - 1) day
      in case (toBcd (js_rem fullYear 100), toBcd month, toBcd day, Option.bind weekday toBcd) of
           (Some yearBcd, Some monthBcd, Some dayBcd, Some weekdayBcd) \<Rightarrow>
             Some [yearBcd, monthBcd, dayBcd, weekdayBcd]
         | _ \<Rightarrow> None)"

definition encodeTimeBytes :: "int \<Rightarrow> int \<Rightarrow> int option \<Rightarrow> nat list option" where
  "encodeTimeBytes hour minute second =
     (case (toBcd hour, toBcd minute, toBcd (case second of None \<Rightarrow> 0 | Some s \<Rightarrow> s)) of
        (Some hourBcd, Some minuteBcd, Some secondBcd) \<Rightarrow> Some [hourBcd, minuteBcd, secondBcd]
      | _ \<Rightarrow> None)"

section \<open>Commands\<close>

record commandConfig =
  cc_controlCode :: nat
  cc_dataIdentifier :: "nat list"
  cc_rawWriteData :: "nat list"
  cc_requiresPassword :: bool

fun readCurrentByPhase :: "phase \<Rightarrow> nat list" where
  "readCurrentByPhase PhaseA = [0xB6, 0x21]"
| "readCurrentByPhase PhaseB = [0xB6, 0x22]"
| "readCurrentByPhase PhaseC = [0xB6, 0x23]"

fun readPowerByPhase :: "phase \<Rightarrow> nat list" where
  "readPowerByPhase PhaseA = [0xB6, 0x30]"
| "readPowerByPhase PhaseB = [0xB6, 0x31]"
| "readPowerByPhase PhaseC = [0xB6, 0x32]"

fun readVoltageByPhase :: "phase \<Rightarrow> nat list" where
  "readVoltageByPhase PhaseA = [0xB6, 0x11]"
| "readVoltageByPhase PhaseB = [0xB6, 0x12]"
| "readVoltageByPhase PhaseC = [0xB6, 0x13]"

definition reading :: "nat list \<Rightarrow> commandConfig" where
  "reading di = \<lparr>cc_controlCode = 0x01, cc_dataIdentifier = di, cc_rawWriteData = [],
     cc_requiresPassword = False\<rparr>"

definition writing :: "nat list \<Rightarrow> nat list \<Rightarrow> commandConfig" where
  "writing di raw = \<lparr>cc_controlCode = 0x04, cc_dataIdentifier = di, cc_rawWriteData = raw,
     cc_requiresPassword = True\<rparr>"

text \<open>\<open>determineCommandConfig\<close>; an empty token is falsy, as in the code.\<close>

definition determineCommandConfig ::
  "commandType \<Rightarrow> string option \<Rightarrow> phase \<Rightarrow> payload option \<Rightarrow> commandConfig option" where
  "determineCommandConfig requestType token devicePhase payload =
     (if isTokenCommand requestType then
        (case token of
           None \<Rightarrow> None
         | Some t \<Rightarrow>
             if t = [] then None
             else map_option (\<lambda>tokenBytes. \<lparr>cc_controlCode = 0x00, cc_dataIdentifier = [0xa1, 0x20],
                    cc_rawWriteData = rev (map add33H tokenBytes), cc_requiresPassword = False\<rparr>)
                  (hexToBytes t))
      else
        (case requestType of
           TURN_ON \<Rightarrow> Some (writing [0xc0, 0x3d] [0x96])
         | TURN_OFF \<Rightarrow> Some (writing [0xc0, 0x3c] [0x35])
         | SET_DATE \<Rightarrow>
             (case payload of
                Some (SetDate year month day) \<Rightarrow>
                  map_option (writing [0xc0, 0x10]) (encodeDateBytes year month day)
              | _ \<Rightarrow> None)
         | SET_TIME \<Rightarrow>
             (case payload of
                Some (SetTime hour minute second) \<Rightarrow>
                  map_option (writing [0xc0, 0x11]) (encodeTimeBytes hour minute second)
              | _ \<Rightarrow> None)
         | READ_CREDIT \<Rightarrow> Some (reading [0xe4, 0x21])
         | READ_DATE \<Rightarrow> Some (reading [0xc0, 0x10])
         | READ_TIME \<Rightarrow> Some (reading [0xc0, 0x11])
         | READ_VOLTAGE \<Rightarrow> Some (reading (readVoltageByPhase devicePhase))
         | READ_POWER \<Rightarrow> Some (reading (readPowerByPhase devicePhase))
         | READ_CURRENT \<Rightarrow> Some (reading (readCurrentByPhase devicePhase))
         | _ \<Rightarrow> None))"

definition DLMS_READ_POWER_LIMIT :: "nat list" where
  "DLMS_READ_POWER_LIMIT =
     [0x00, 0x01, 0x00, 0x66, 0x00, 0x01, 0x00, 0x0D, 0xC0, 0x01, 0xC1, 0x00,
      0x47, 0x00, 0x00, 0x11, 0x00, 0x00, 0xFF, 0x03, 0x00]"

definition encodeDlms :: "commandType \<Rightarrow> nat list option" where
  "encodeDlms requestType =
     (case requestType of READ_POWER_LIMIT \<Rightarrow> Some DLMS_READ_POWER_LIMIT | _ \<Rightarrow> None)"

section \<open>The frame\<close>

text \<open>
  The second half of \<open>encodeRequestData\<close>, in two steps: the bytes behind the data identifier, and the
  frame around them. \<open>frame\<close> is also what the decoder's input looks like when a meter answers.
\<close>

definition write_bytes :: "commandConfig \<Rightarrow> nat list" where
  "write_bytes c =
     (if cc_requiresPassword c
      then rev (map add33H [0x00, 0x00, 0x00, 0x00]) @ rev (map add33H (cc_rawWriteData c))
      else cc_rawWriteData c)"

definition frame_body :: "nat list \<Rightarrow> nat \<Rightarrow> nat list \<Rightarrow> nat list \<Rightarrow> nat list" where
  "frame_body address controlCode dataIdentifier writeBytes =
     HEADER_BYTE # address @ [0x68, controlCode, 0x02 + length writeBytes] @
     rev (map add33H dataIdentifier) @ writeBytes"

definition frame :: "nat list \<Rightarrow> nat \<Rightarrow> nat list \<Rightarrow> nat list \<Rightarrow> nat list" where
  "frame address controlCode dataIdentifier writeBytes =
     (let frameBody = frame_body address controlCode dataIdentifier writeBytes in
      frameBody @ [sum_list frameBody mod 256, END_BYTE])"

definition address_bytes :: "string \<Rightarrow> nat list option" where
  "address_bytes deviceIdentifier =
     (case hexToBytes (pad_start 12 (CHR ''0'') deviceIdentifier) of
        None \<Rightarrow> None
      | Some deviceEuiBytes \<Rightarrow> if length deviceEuiBytes \<noteq> 6 then None else Some (rev deviceEuiBytes))"

definition encodeRequestData ::
  "string \<Rightarrow> phase \<Rightarrow> commandType \<Rightarrow> string option \<Rightarrow> payload option \<Rightarrow> nat list option" where
  "encodeRequestData deviceIdentifier devicePhase requestType token payload =
     (if requestType = READ_POWER_LIMIT then encodeDlms requestType
      else
        (case address_bytes deviceIdentifier of
           None \<Rightarrow> None
         | Some address \<Rightarrow>
             (case determineCommandConfig requestType token devicePhase payload of
                None \<Rightarrow> None
              | Some c \<Rightarrow>
                  Some (frame address (cc_controlCode c) (cc_dataIdentifier c) (write_bytes c)))))"

section \<open>Bytes stay bytes\<close>

definition byte_list :: "nat list \<Rightarrow> bool" where
  "byte_list bs \<longleftrightarrow> list_all (\<lambda>b. b < 256) bs"

lemma byte_list_simps [calin_simps]:
  "byte_list []" "byte_list (b # bs) \<longleftrightarrow> b < 256 \<and> byte_list bs"
  "byte_list (xs @ ys) \<longleftrightarrow> byte_list xs \<and> byte_list ys" "byte_list (rev bs) \<longleftrightarrow> byte_list bs"
  by (auto simp: byte_list_def)

lemma add33H_byte [calin_simps]: "add33H b < 256"
  by (simp add: add33H_def)

lemma byte_list_map_add33H [calin_simps]: "byte_list (map add33H bs)"
  by (simp add: byte_list_def list_all_iff add33H_byte)

lemma toBcd_byte: "toBcd v = Some b \<Longrightarrow> b < 256"
  by (auto simp: toBcd_def split: if_splits)

lemma toBcd_Some: "0 \<le> v \<Longrightarrow> v \<le> 99 \<Longrightarrow> toBcd v = Some (nat (16 * (v div 10) + v mod 10))"
  by (simp add: toBcd_def)

text \<open>The nibbles of a BCD byte are the decimal digits.\<close>

lemma toBcd_nibbles:
  assumes "toBcd v = Some b"
  shows "int (b div 16) = v div 10" and "int (b mod 16) = v mod 10" and "0 \<le> v" and "v \<le> 99"
proof -
  have v: "0 \<le> v" "v \<le> 99" and b: "b = nat (16 * (v div 10) + v mod 10)"
    using assms by (auto simp: toBcd_def split: if_splits)
  define q r where "q = nat (v div 10)" and "r = nat (v mod 10)"
  have iq: "int q = v div 10" and ir: "int r = v mod 10" and "r < 16"
    using v by (simp_all add: q_def r_def nat_less_iff)
  have "b = 16 * q + r" unfolding b q_def r_def using v by (simp add: nat_add_distrib nat_mult_distrib)
  then show "int (b div 16) = v div 10" "int (b mod 16) = v mod 10"
    using \<open>r < 16\<close> iq ir by simp_all
  show "0 \<le> v" "v \<le> 99" by (fact v)+
qed

lemma hex_value_bound: "c \<in> set hex_digits \<Longrightarrow> hex_value c < 16"
  by (auto simp: hex_digits_def hex_value_def Let_def)

lemma byte_list_hex_pairs: "set hex \<subseteq> set hex_digits \<Longrightarrow> byte_list (hex_pairs hex)"
proof (induction hex rule: hex_pairs.induct)
  case (1 a b rest)
  then show ?case
    using hex_value_bound [of a] hex_value_bound [of b] by (simp add: byte_list_simps)
qed (simp_all add: byte_list_def)

lemma length_hex_pairs: "length (hex_pairs hex) = length hex div 2"
  by (induction hex rule: hex_pairs.induct) auto

lemma hexToBytes_Some:
  "hexToBytes hex = Some bs \<Longrightarrow> byte_list bs \<and> 2 * length bs = length hex"
  by (auto simp: hexToBytes_def length_hex_pairs byte_list_hex_pairs split: if_splits)

lemma week_day_range: "0 \<le> week_day d" "week_day d \<le> 6"
  using pos_mod_bound [of 7 "d + 4"] by (simp_all add: week_day_def)

end
