(* ===== verification/Calin_Decode.thy ===== *)
theory Calin_Decode
  imports Calin_Encode "HOL-Library.Word"
begin

text \<open>
  The CALIN uplink frames (\<open>src/plugins/calin-chirpstack/lib/decode-response-data.ts\<close>), from the
  bytes of \<open>Buffer.from(dataString, 'base64')\<close>. A read past the end of the buffer is \<open>undefined\<close> in
  the code: here a byte is then \<open>None\<close> and the number computed from it \<open>NaN\<close>, also \<open>None\<close>; in the
  response data \<open>NaN\<close> appears as JSON writes it, as \<open>null\<close>.
\<close>

section \<open>Buffer\<close>

definition byte_at :: "nat list \<Rightarrow> nat \<Rightarrow> nat option" where
  "byte_at bytes i = (if i < length bytes then Some (bytes ! i) else None)"

text \<open>\<open>bytes.subarray(a, b)\<close>.\<close>

definition subarray :: "nat \<Rightarrow> nat \<Rightarrow> nat list \<Rightarrow> nat list" where
  "subarray a b bytes = take (b - a) (drop a bytes)"

definition subtract33H :: "nat \<Rightarrow> nat" where
  "subtract33H byte = nat ((int byte - 0x33 + 256) mod 256)"

definition subtract33H_opt :: "nat option \<Rightarrow> nat option" where
  "subtract33H_opt = map_option subtract33H"

text \<open>A number of the response: \<open>None\<close> is \<open>NaN\<close>.\<close>

definition js_number :: "num option \<Rightarrow> jval" where
  "js_number x = (case x of None \<Rightarrow> JNull | Some v \<Rightarrow> JNum v)"

definition scaled :: "nat option \<Rightarrow> num \<Rightarrow> num option" where
  "scaled x d = map_option (\<lambda>n. of_nat n / d) x"

section \<open>Number formats\<close>

text \<open>\<open>bcdToInteger\<close>: each nibble printed in decimal, the text parsed; the empty text is \<open>NaN\<close>.\<close>

definition bcd_text :: "nat list \<Rightarrow> string" where
  "bcd_text bs = concat (map (\<lambda>b. nat_to_string (b div 16 mod 16) @ nat_to_string (b mod 16)) (rev bs))"

definition bcdToInteger :: "nat list \<Rightarrow> nat option" where
  "bcdToInteger bcdArray =
     (let resultStr = bcd_text bcdArray in if resultStr = [] then None else Some (string_to_nat resultStr))"

text \<open>\<open>('0' + bcd.toString(16)).slice(-2)\<close>; \<open>NaN.toString(16)\<close> is \<open>"NaN"\<close>.\<close>

definition hex_digit :: "nat \<Rightarrow> char" where
  "hex_digit d = (if d < 10 then digit d else char_of (87 + d))"

definition hex_two :: "nat \<Rightarrow> string" where
  "hex_two b = [hex_digit (b div 16 mod 16), hex_digit (b mod 16)]"

definition bcdToString :: "nat option \<Rightarrow> string" where
  "bcdToString bcd = (case bcd of None \<Rightarrow> ''aN'' | Some b \<Rightarrow> hex_two b)"

definition parseDateTimeByte :: "nat option \<Rightarrow> string" where
  "parseDateTimeByte byte = bcdToString (subtract33H_opt byte)"

text \<open>
  \<open>acc + (subtract33H(byte) << (index * 8))\<close>: the shift is on signed 32-bit integers, the sum is not.
\<close>

definition shl32 :: "nat \<Rightarrow> nat \<Rightarrow> int" where
  "shl32 v n = sint (push_bit (n mod 32) (word_of_nat v :: 32 word))"

fun reverseAndCombine_from :: "nat \<Rightarrow> nat list \<Rightarrow> int" where
  "reverseAndCombine_from index [] = 0"
| "reverseAndCombine_from index (byte # bytes) =
     shl32 (subtract33H byte) (index * 8) + reverseAndCombine_from (index + 1) bytes"

definition reverseAndCombine :: "nat list \<Rightarrow> int" where
  "reverseAndCombine byteArray = reverseAndCombine_from 0 byteArray"

text \<open>\<open>readUIntBE(0, length)\<close>.\<close>

definition hexArrayToNumber :: "nat list \<Rightarrow> nat" where
  "hexArrayToNumber buffer = foldl (\<lambda>acc b. 256 * acc + b) 0 buffer"

text \<open>\<open>DataView.getFloat32\<close> of the big-endian bits \<open>n\<close>; infinities and NaN are \<open>None\<close>.\<close>

definition float32 :: "nat \<Rightarrow> num option" where
  "float32 n =
     (let s = (if n div 2 ^ 31 mod 2 = 1 then -1 else 1 :: num);
          e = n div 2 ^ 23 mod 256;
          f = n mod 2 ^ 23
      in if e = 255 then None
         else if e = 0 then Some (s * of_nat f / 2 ^ 149)
         else Some (s * of_nat (2 ^ 23 + f) * 2 ^ e / 2 ^ 150))"

definition processFloatFromBytes :: "nat list \<Rightarrow> num option" where
  "processFloatFromBytes bytes =
     (if length bytes \<noteq> 4 then None else float32 (hexArrayToNumber (rev (map subtract33H bytes))))"

section \<open>Data identifiers\<close>

definition phase_json :: "phase \<Rightarrow> string \<times> jval" where
  "phase_json p = (''phase'', JStr (phase_string p))"

definition decodeReadVoltage :: "phase \<Rightarrow> nat list \<Rightarrow> (string \<times> jval) list" where
  "decodeReadVoltage phase bytes =
     [(''voltage'', js_number (scaled (bcdToInteger (map subtract33H (subarray 13 16 bytes))) 100)),
      phase_json phase]"

definition decodeReadPower :: "phase \<Rightarrow> nat list \<Rightarrow> (string \<times> jval) list" where
  "decodeReadPower phase bytes =
     [(''power'', js_number (scaled (bcdToInteger (map subtract33H (subarray 12 16 bytes))) 10)),
      phase_json phase]"

definition decodeReadCurrent :: "phase \<Rightarrow> nat list \<Rightarrow> (string \<times> jval) list" where
  "decodeReadCurrent phase bytes =
     [(''current'', js_number (scaled (bcdToInteger (map subtract33H (subarray 12 14 bytes))) 100)),
      phase_json phase]"

definition decodeReadCredit :: "nat list \<Rightarrow> (string \<times> jval) list" where
  "decodeReadCredit bytes =
     [(''kwhCreditAvailable'',
         js_number (scaled (bcdToInteger (map subtract33H (subarray 12 16 bytes))) 100)),
      (''creditLevel'', js_number (map_option of_nat (subtract33H_opt (byte_at bytes 16)))),
      (''isOn'', JBool (subtract33H_opt (byte_at bytes 17) = Some 0))]"

definition status_flag :: "nat option \<Rightarrow> nat \<Rightarrow> jval" where
  "status_flag status k = JBool (case status of None \<Rightarrow> False | Some b \<Rightarrow> b div 2 ^ k mod 2 = 1)"

definition decodeReadReport :: "nat list \<Rightarrow> (string \<times> jval) list" where
  "decodeReadReport bytes =
     (let part = (\<lambda>i. parseDateTimeByte (byte_at bytes i));
          freezeTime = ''20'' @ part 17 @ ''-'' @ part 16 @ ''-'' @ part 15 @ '' '' @ part 14 @ '':'' @ part 13;
          combined = (\<lambda>a b d. JNum (of_int (reverseAndCombine (subarray a b bytes)) / d));
          meterStatus = subtract33H_opt (byte_at bytes 44)
      in [(''freezeTime'', JStr freezeTime),
          (''consumptionSource1'', combined 18 22 100),
          (''purchaseRemainSource1'', js_number (processFloatFromBytes (subarray 22 26 bytes))),
          (''consumptionSource2'', combined 26 30 100),
          (''purchaseRemainSource2'', js_number (processFloatFromBytes (subarray 30 34 bytes))),
          (''intervalDemand'', combined 34 38 1),
          (''voltage'', combined 38 40 10),
          (''current'', combined 40 44 1000),
          (''meterStatus'', JObj
             [(''relayOpen'', status_flag meterStatus 0),
              (''batteryLow'', status_flag meterStatus 1),
              (''magneticInterference'', status_flag meterStatus 2),
              (''terminalCoverOpen'', status_flag meterStatus 3),
              (''coverOpen'', status_flag meterStatus 4),
              (''source2Activated'', status_flag meterStatus 5),
              (''currentReverse'', status_flag meterStatus 6),
              (''currentUnbalance'', status_flag meterStatus 7)])])"

definition decodeReadDate :: "nat list \<Rightarrow> (string \<times> jval) list" where
  "decodeReadDate bytes =
     [(''day'', JStr (parseDateTimeByte (byte_at bytes 13))),
      (''month'', JStr (parseDateTimeByte (byte_at bytes 14))),
      (''year'', JStr (''20'' @ parseDateTimeByte (byte_at bytes 15)))]"

definition decodeReadTime :: "nat list \<Rightarrow> (string \<times> jval) list" where
  "decodeReadTime bytes =
     [(''hour'', JStr (parseDateTimeByte (byte_at bytes 14))),
      (''minute'', JStr (parseDateTimeByte (byte_at bytes 13))),
      (''second'', JStr (parseDateTimeByte (byte_at bytes 12)))]"

text \<open>
  \<open>DATA_PROCESSOR_MAP\<close>, looked up by the value of the identifier instead of its four upper-case hex
  digits (the code pads to four, so text and value determine each other below \<open>2 ^ 16\<close>).
\<close>

definition DATA_PROCESSOR_MAP :: "int \<Rightarrow> (nat list \<Rightarrow> (string \<times> jval) list) option" where
  "DATA_PROCESSOR_MAP di =
     (if di = 0xB611 then Some (decodeReadVoltage PhaseA)
      else if di = 0xB612 then Some (decodeReadVoltage PhaseB)
      else if di = 0xB613 then Some (decodeReadVoltage PhaseC)
      else if di = 0xB630 then Some (decodeReadPower PhaseA)
      else if di = 0xB631 then Some (decodeReadPower PhaseB)
      else if di = 0xB632 then Some (decodeReadPower PhaseC)
      else if di = 0xB621 then Some (decodeReadCurrent PhaseA)
      else if di = 0xB622 then Some (decodeReadCurrent PhaseB)
      else if di = 0xB623 then Some (decodeReadCurrent PhaseC)
      else if di = 0xE421 then Some decodeReadCredit
      else if di = 0xC111 then Some decodeReadReport
      else if di = 0xC010 then Some decodeReadDate
      else if di = 0xC011 then Some decodeReadTime
      else None)"

section \<open>The frame\<close>

datatype calinControlCode =
    READING | READING_SUCCESS | READING_FAILURE | WRITING | WRITING_SUCCESS | WRITING_FAILURE
  | SEND_TOKEN | SEND_TOKEN_SUCCESS | SEND_TOKEN_FAILURE

definition CONTROL_CODE_MAP :: "nat \<Rightarrow> calinControlCode option" where
  "CONTROL_CODE_MAP code =
     (if code = 0x81 then Some READING_SUCCESS
      else if code = 0xC1 then Some READING_FAILURE
      else if code = 0x84 then Some WRITING_SUCCESS
      else if code = 0xC4 then Some WRITING_FAILURE
      else if code = 0x80 then Some SEND_TOKEN_SUCCESS
      else if code = 0xC0 then Some SEND_TOKEN_FAILURE
      else None)"

record decodedEvent =
  de_status :: messageResponseStatus
  de_data :: "(string \<times> jval) list"
  de_failureContext :: "failureContext option"
  de_unsolicitedEventType :: "commandType option"

definition decodeDlms :: "nat list \<Rightarrow> (string \<times> jval) list" where
  "decodeDlms bytes =
     [(''powerLimit'', JNum (of_nat (hexArrayToNumber (drop (length bytes - 4) bytes))))]"

definition calin_failure :: "string \<Rightarrow> failureContext" where
  "calin_failure reason =
     \<lparr>fc_reason = reason, fc_errorCode = None, fc_details = None, fc_skipRetry = None\<rparr>"

definition decoded :: "messageResponseStatus \<Rightarrow> (string \<times> jval) list \<Rightarrow> string option \<Rightarrow> decodedEvent" where
  "decoded status data reason = \<lparr>de_status = status, de_data = data,
     de_failureContext = map_option calin_failure reason, de_unsolicitedEventType = None\<rparr>"

definition valid_headers :: "nat list \<Rightarrow> bool" where
  "valid_headers bytes \<longleftrightarrow> byte_at bytes 0 = Some HEADER_BYTE \<and> byte_at bytes 7 = Some HEADER_BYTE \<and>
     byte_at bytes (length bytes - 1) = Some END_BYTE"

definition valid_checksum :: "nat list \<Rightarrow> bool" where
  "valid_checksum bytes \<longleftrightarrow>
     byte_at bytes (length bytes - 2) = Some (sum_list (take (length bytes - 2) bytes) mod 256)"

definition decode_reading :: "calinControlCode \<Rightarrow> nat list \<Rightarrow> decodedEvent option" where
  "decode_reading operation bytes =
     (let dataIdentifier = reverseAndCombine (subarray 10 12 bytes) in
      case DATA_PROCESSOR_MAP dataIdentifier of
        None \<Rightarrow> None
      | Some parser \<Rightarrow>
          if length bytes < 12 + the (byte_at bytes 9) then None
          else
            (let data = parser bytes in
             if dataIdentifier = 0xC111
             then Some ((decoded EXECUTION_SUCCESS data None)\<lparr>de_unsolicitedEventType := Some READ_REPORT\<rparr>)
             else if operation = READING_SUCCESS then Some (decoded EXECUTION_SUCCESS data None)
             else Some (decoded EXECUTION_FAILURE data
               (Some ''Delivery was successful but the readout was not (successfully) executed''))))"

definition decodeResponseData :: "nat list \<Rightarrow> decodedEvent option" where
  "decodeResponseData bytes =
     (if byte_at bytes 0 = Some 0x00 then Some (decoded EXECUTION_SUCCESS (decodeDlms bytes) None)
      else if \<not> valid_headers bytes then None
      else
        (case Option.bind (byte_at bytes 8) CONTROL_CODE_MAP of
           None \<Rightarrow> None
         | Some operation \<Rightarrow>
             if \<not> valid_checksum bytes then None
             else
               (case operation of
                  SEND_TOKEN_SUCCESS \<Rightarrow>
                    Some (decoded EXECUTION_SUCCESS [(''tokenAccepted'', JBool True)] None)
                | SEND_TOKEN_FAILURE \<Rightarrow>
                    Some (decoded EXECUTION_FAILURE [(''tokenAccepted'', JBool False)]
                      (Some ''Delivery was successful but the token was not accepted''))
                | WRITING_SUCCESS \<Rightarrow>
                    Some (decoded EXECUTION_SUCCESS [(''onOffToggleAccepted'', JBool True)] None)
                | WRITING_FAILURE \<Rightarrow>
                    Some (decoded EXECUTION_FAILURE [(''onOffToggleAccepted'', JBool False)]
                      (Some ''Delivery was successful but the command was not (successfully) executed''))
                | _ \<Rightarrow> decode_reading operation bytes)))"

end
