(* ===== verification/Correlator.thy ===== *)
theory Correlator
  imports Calin_Decode "HOL-Library.AList"
begin

text \<open>
  The in-memory join of a meter's uplink with the acknowledgement of the downlink it answers
  (\<open>src/plugins/calin-chirpstack/lib/correlate-request-response.ts\<close>). The \<open>Map\<close> is an association
  list; \<open>Date.now()\<close> is an argument.
\<close>

section \<open>Events\<close>

record gatewayInfo =
  gi_gatewayId :: string
  gi_snr :: num
  gi_rssi :: num

text \<open>
  The fields of the integration events that the handlers read. \<open>lw_devEui\<close> is \<open>None\<close> when the body
  is no object or \<open>deviceInfo.devEui\<close> is no string; an absent field is \<open>None\<close>, an absent \<open>rxInfo\<close> the
  empty list.
\<close>

record lorawanCalinEvent =
  lw_devEui :: "string option"
  lw_deduplicationId :: string
  lw_queueItemId :: "string option"
  lw_acknowledged :: "bool option"
  lw_data :: "string option"
  lw_rxInfo :: "gatewayInfo list"

section \<open>State\<close>

record correlationEntry =
  ce_queueItemId :: "string option"
  ce_decoded :: "decodedEvent option"
  ce_device :: "device option"
  ce_timestamp :: time

type_synonym correlations = "(string \<times> correlationEntry) list"

definition CORRELATION_TTL_MS :: time where
  "CORRELATION_TTL_MS = 10000"

definition joined_event :: "string \<Rightarrow> decodedEvent \<Rightarrow> device \<Rightarrow> parsedIncomingEvent" where
  "joined_event queueItemId answer dev = \<lparr>
     e_commandType = None, e_deliveryQueueId = Some queueItemId,
     e_deliveryStatus = DELIVERY_SUCCESSFUL, e_device = dev,
     e_response = Some \<lparr>mr_status = de_status answer, mr_data = Some (de_data answer)\<rparr>,
     e_unsolicited = False, e_failureContext = de_failureContext answer\<rparr>"

definition ack_entry :: "time \<Rightarrow> string \<Rightarrow> correlationEntry" where
  "ack_entry now queueItemId = \<lparr>ce_queueItemId = Some queueItemId, ce_decoded = None,
     ce_device = None, ce_timestamp = now\<rparr>"

definition up_entry :: "time \<Rightarrow> decodedEvent \<Rightarrow> device \<Rightarrow> correlationEntry" where
  "up_entry now answer dev = \<lparr>ce_queueItemId = None, ce_decoded = Some answer,
     ce_device = Some dev, ce_timestamp = now\<rparr>"

lemma entry_fields [simp]:
  "ce_queueItemId (ack_entry t q) = Some q" "ce_decoded (ack_entry t q) = None"
  "ce_timestamp (ack_entry t q) = t" "ce_queueItemId (up_entry t c v) = None"
  "ce_decoded (up_entry t c v) = Some c" "ce_device (up_entry t c v) = Some v"
  "ce_timestamp (up_entry t c v) = t"
  "ack_entry t q = ack_entry t' q' \<longleftrightarrow> t = t' \<and> q = q'" "ack_entry t q \<noteq> up_entry t' c v"
  "up_entry t' c v \<noteq> ack_entry t q" "up_entry t c v = up_entry t' c' v' \<longleftrightarrow> t = t' \<and> c = c' \<and> v = v'"
  by (auto simp add: ack_entry_def up_entry_def)

definition onAckEvent ::
  "time \<Rightarrow> string \<Rightarrow> string \<Rightarrow> correlations \<Rightarrow> parsedIncomingEvent option \<times> correlations" where
  "onAckEvent now deduplicationId queueItemId pending =
     (let existingEntry = map_of pending deduplicationId in
      case Option.bind existingEntry ce_decoded of
        Some answer \<Rightarrow>
          (Some (joined_event queueItemId answer (the (ce_device (the existingEntry)))),
           AList.delete deduplicationId pending)
      | None \<Rightarrow>
          (None, AList.update deduplicationId (ack_entry now queueItemId) pending))"

definition onUpEvent ::
  "time \<Rightarrow> string \<Rightarrow> decodedEvent \<Rightarrow> device \<Rightarrow> correlations \<Rightarrow>
   parsedIncomingEvent option \<times> correlations" where
  "onUpEvent now deduplicationId answer dev pending =
     (case Option.bind (map_of pending deduplicationId) ce_queueItemId of
        Some (c # cs) \<Rightarrow>
          (Some (joined_event (c # cs) answer dev), AList.delete deduplicationId pending)
      | _ \<Rightarrow>
          (None, AList.update deduplicationId (up_entry now answer dev) pending))"

definition runGarbageCollection :: "time \<Rightarrow> correlations \<Rightarrow> correlations" where
  "runGarbageCollection now pending =
     filter (\<lambda>(_, entry). \<not> now - ce_timestamp entry > CORRELATION_TTL_MS) pending"

definition getPendingCount :: "correlations \<Rightarrow> nat" where
  "getPendingCount pending = length pending"

definition clear :: "correlations \<Rightarrow> correlations" where
  "clear pending = []"

section \<open>Histories\<close>

text \<open>What the correlator sees over time: halves of pairs, and the collector's timer.\<close>

datatype correlation_step =
    AckArrives string string
  | UpArrives string decodedEvent device
  | CollectorRuns

definition correlate ::
  "time \<Rightarrow> correlation_step \<Rightarrow> correlations \<Rightarrow> (string \<times> parsedIncomingEvent) list \<times> correlations" where
  "correlate now st pending =
     (case st of
        AckArrives d q \<Rightarrow>
          (case onAckEvent now d q pending of (r, p) \<Rightarrow> (case r of None \<Rightarrow> [] | Some e \<Rightarrow> [(d, e)], p))
      | UpArrives d answer dev \<Rightarrow>
          (case onUpEvent now d answer dev pending of
             (r, p) \<Rightarrow> (case r of None \<Rightarrow> [] | Some e \<Rightarrow> [(d, e)], p))
      | CollectorRuns \<Rightarrow> ([], runGarbageCollection now pending))"

text \<open>A history is a list of timed steps, the latest first.\<close>

fun correlator_run ::
  "(time \<times> correlation_step) list \<Rightarrow> (string \<times> parsedIncomingEvent) list \<times> correlations" where
  "correlator_run [] = ([], [])"
| "correlator_run ((now, st) # earlier) =
     (case correlator_run earlier of (out, pending) \<Rightarrow>
        (case correlate now st pending of (new, pending') \<Rightarrow> (new @ out, pending')))"

section \<open>Where entries come from\<close>

text \<open>The step a pending entry was left by.\<close>

definition entry_from :: "(time \<times> correlation_step) list \<Rightarrow> string \<Rightarrow> correlationEntry \<Rightarrow> bool" where
  "entry_from evs d e \<longleftrightarrow>
     (\<exists>t q. (t, AckArrives d q) \<in> set evs \<and> e = ack_entry t q) \<or>
     (\<exists>t c v. (t, UpArrives d c v) \<in> set evs \<and> e = up_entry t c v)"

lemma entry_from_mono: "entry_from evs d e \<Longrightarrow> entry_from (ev # evs) d e"
  by (auto simp: entry_from_def)

definition arrived :: "(time \<times> correlation_step) list \<Rightarrow> correlation_step \<Rightarrow> bool" where
  "arrived evs st \<longleftrightarrow> list_ex (\<lambda>(_, st'). st' = st) evs"

lemma arrived_simps [simp]:
  "\<not> arrived [] st" "arrived ((t, st') # evs) st \<longleftrightarrow> st' = st \<or> arrived evs st"
  by (simp_all add: arrived_def)

lemma arrived_in: "arrived evs st \<longleftrightarrow> (\<exists>t. (t, st) \<in> set evs)"
  by (auto simp: arrived_def list_ex_iff)

lemma arrived_snd: "arrived evs st \<longleftrightarrow> st \<in> set (map snd evs)"
  by (force simp: arrived_in)

lemma arrived_mono: "arrived evs st \<Longrightarrow> arrived (ev # evs) st"
  by (simp add: arrived_def)

definition pairs :: "(time \<times> correlation_step) list \<Rightarrow> (string \<times> parsedIncomingEvent) set" where
  "pairs evs = {(d, joined_event q c v) | d q c v. arrived evs (AckArrives d q) \<and>
     arrived evs (UpArrives d c v)}"

lemma pairs_mono: "pairs evs \<subseteq> pairs (ev # evs)"
  unfolding pairs_def by (intro Collect_mono ex_mono impI conjI) (blast intro: arrived_mono)+

lemma map_of_filter: "distinct (map fst p) \<Longrightarrow>
    map_of (filter (\<lambda>(k, v). P v) p) k = (case map_of p k of None \<Rightarrow> None | Some v \<Rightarrow> if P v then Some v else None)"
  by (induction p) (auto split: option.split dest: map_of_SomeD simp: map_of_eq_None_iff rev_image_eqI)

lemma gc_lookup:
  assumes "distinct (map fst p)"
  shows "map_of (runGarbageCollection now p) d = (case map_of p d of None \<Rightarrow> None
    | Some e \<Rightarrow> if now - ce_timestamp e \<le> CORRELATION_TTL_MS then Some e else None)"
  using map_of_filter [OF assms, of "\<lambda>e. \<not> now - ce_timestamp e > CORRELATION_TTL_MS" d]
  by (simp add: runGarbageCollection_def linorder_not_less split: option.splits)

lemma distinct_filter_keys: "distinct (map fst p) \<Longrightarrow> distinct (map fst (filter Q p))"
  by (induction p) auto

lemma distinct_keys_delete: "distinct (map fst p) \<Longrightarrow> distinct (map fst (AList.delete d p))"
  by (rule distinct_delete)

lemma entry_from_answer:
  "entry_from evs d e \<Longrightarrow> ce_decoded e = Some c \<Longrightarrow>
     \<exists>t v. (t, UpArrives d c v) \<in> set evs \<and> e = up_entry t c v"
  by (auto simp: entry_from_def)

lemma entry_from_queue_item:
  "entry_from evs d e \<Longrightarrow> ce_queueItemId e = Some q \<Longrightarrow>
     \<exists>t. (t, AckArrives d q) \<in> set evs \<and> e = ack_entry t q"
  by (auto simp: entry_from_def)

text \<open>Without any assumption on the history: what is pending was left by a half that arrived, and what
  is emitted joins two halves that arrived.\<close>

lemma run_sound:
  assumes "correlator_run evs = (out, p)"
  shows "distinct (map fst p) \<and> (\<forall>d e. map_of p d = Some e \<longrightarrow> entry_from evs d e) \<and> set out \<subseteq> pairs evs"
  using assms
proof (induction evs arbitrary: out p)
  case (Cons ev evs)
  obtain now st where ev: "ev = (now, st)" by force
  obtain out0 p0 where r: "correlator_run evs = (out0, p0)" by force
  note ih = Cons.IH [OF r]
  have old: "entry_from (ev # evs) d e" if "map_of p0 d = Some e" for d e
    using ih that entry_from_mono by blast
  have sub: "set out0 \<subseteq> pairs (ev # evs)" using ih pairs_mono by blast
  show ?case
  proof (cases st)
    case (AckArrives d q)
    show ?thesis
    proof (cases "Option.bind (map_of p0 d) ce_decoded")
      case None
      then have "p = AList.update d (ack_entry now q) p0" "out = out0"
        using Cons.prems r by (simp_all add: ev AckArrives correlate_def onAckEvent_def Let_def)
      moreover have "entry_from (ev # evs) d (ack_entry now q)" by (auto simp: entry_from_def ev AckArrives)
      ultimately show ?thesis using ih old sub by (auto simp: update_conv' distinct_update)
    next
      case (Some c)
      then obtain e where e: "map_of p0 d = Some e" "ce_decoded e = Some c" by (cases "map_of p0 d") auto
      then have "p = AList.delete d p0" "out = (d, joined_event q c (the (ce_device e))) # out0"
        using Cons.prems r by (simp_all add: ev AckArrives correlate_def onAckEvent_def Let_def)
      moreover from e ih obtain v where "arrived evs (UpArrives d c v)" "ce_device e = Some v"
        using entry_from_answer [of evs d e c] unfolding arrived_in by fastforce
      ultimately show ?thesis using ih old sub
        by (auto simp: delete_conv' distinct_keys_delete pairs_def ev AckArrives split: if_splits)
    qed
  next
    case (UpArrives d c v)
    show ?thesis
    proof (cases "\<exists>ch cs. Option.bind (map_of p0 d) ce_queueItemId = Some (ch # cs)")
      case False
      then have "p = AList.update d (up_entry now c v) p0" "out = out0"
        using Cons.prems r by (auto simp: ev UpArrives correlate_def onUpEvent_def split: option.splits list.splits)
      moreover have "entry_from (ev # evs) d (up_entry now c v)" by (auto simp: entry_from_def ev UpArrives)
      ultimately show ?thesis using ih old sub by (auto simp: update_conv' distinct_update)
    next
      case True
      then obtain q where q: "Option.bind (map_of p0 d) ce_queueItemId = Some q" "q \<noteq> []" by auto
      then obtain e where e: "map_of p0 d = Some e" "ce_queueItemId e = Some q" by (cases "map_of p0 d") auto
      have "p = AList.delete d p0" "out = (d, joined_event q c v) # out0"
        using Cons.prems r q by (auto simp: ev UpArrives correlate_def onUpEvent_def split: list.splits)
      moreover from e ih have "arrived evs (AckArrives d q)"
        using entry_from_queue_item [of evs d e q] unfolding arrived_in by auto
      ultimately show ?thesis using ih old sub
        by (auto simp: delete_conv' distinct_keys_delete pairs_def ev UpArrives split: if_splits)
    qed
  next
    case CollectorRuns
    then have "p = runGarbageCollection now p0" "out = out0"
      using Cons.prems r by (simp_all add: ev correlate_def)
    then show ?thesis using ih old sub
      by (auto simp: gc_lookup runGarbageCollection_def distinct_filter_keys split: option.splits if_splits)
  qed
qed (simp add: pairs_def)

end
