(* ===== verification/Base64.thy ===== *)
theory Base64
  imports Calin_Encode
begin

text \<open>
  \<open>Buffer.from(text, 'base64')\<close> of the standard library, which the ChirpStack uplinks go through: every
  character of the alphabet (the URL-safe one too) gives six bits, other characters are skipped, and a
  last group of two or three characters gives one or two bytes.
\<close>

definition sextet :: "char \<Rightarrow> nat option" where
  "sextet c =
     (let n = of_char c :: nat in
      if 65 \<le> n \<and> n \<le> 90 then Some (n - 65)
      else if 97 \<le> n \<and> n \<le> 122 then Some (n - 71)
      else if 48 \<le> n \<and> n \<le> 57 then Some (n + 4)
      else if n = 43 \<or> n = 45 then Some 62
      else if n = 47 \<or> n = 95 then Some 63
      else None)"

fun join_sextets :: "nat list \<Rightarrow> nat list" where
  "join_sextets (a # b # c # d # rest) =
     (4 * a + b div 16) # (16 * (b mod 16) + c div 4) # (64 * (c mod 4) + d) # join_sextets rest"
| "join_sextets [a, b, c] = [4 * a + b div 16, 16 * (b mod 16) + c div 4]"
| "join_sextets [a, b] = [4 * a + b div 16]"
| "join_sextets _ = []"

definition base64_decode :: "string \<Rightarrow> nat list" where
  "base64_decode s = join_sextets (List.map_filter sextet s)"

section \<open>The encoder, as a specification\<close>

definition sextet_char :: "nat \<Rightarrow> char" where
  "sextet_char v =
     char_of (if v < 26 then v + 65 else if v < 52 then v + 71 else if v < 62 then v - 4
              else if v = 62 then 43 else 47)"

fun split_bytes :: "nat list \<Rightarrow> nat list" where
  "split_bytes (x # y # z # rest) =
     (x div 4) # (16 * (x mod 4) + y div 16) # (4 * (y mod 16) + z div 64) # (z mod 64) # split_bytes rest"
| "split_bytes [x, y] = [x div 4, 16 * (x mod 4) + y div 16, 4 * (y mod 16)]"
| "split_bytes [x] = [x div 4, 16 * (x mod 4)]"
| "split_bytes [] = []"

definition base64_encode :: "nat list \<Rightarrow> string" where
  "base64_encode bs = map sextet_char (split_bytes bs) @
     (case length bs mod 3 of 0 \<Rightarrow> [] | Suc 0 \<Rightarrow> ''=='' | _ \<Rightarrow> ''='')"

lemma sextet_padding: "sextet (CHR ''='') = None"
  by (simp add: sextet_def)

lemma sextet_of_char: "v < 64 \<Longrightarrow> sextet (sextet_char v) = Some v"
  by (auto simp: sextet_def sextet_char_def of_char_of Let_def)

lemma split_bytes_sextets: "byte_list bs \<Longrightarrow> \<forall>v \<in> set (split_bytes bs). v < 64"
proof (induction bs rule: split_bytes.induct)
  case (1 x y z rest)
  then have b: "x < 256" "y < 256" "z < 256" "byte_list rest" by (simp_all add: byte_list_simps)
  have "x mod 4 < 4" "y mod 16 < 16" "y div 16 < 16" "z div 64 < 4" using b by auto
  then have "16 * (x mod 4) + y div 16 < 64" "4 * (y mod 16) + z div 64 < 64" by linarith+
  then show ?case using "1.IH" b by auto
next
  case (2 x y)
  then have b: "x < 256" "y < 256" by (simp_all add: byte_list_simps)
  have "x mod 4 < 4" "y mod 16 < 16" "y div 16 < 16" using b by auto
  then have "16 * (x mod 4) + y div 16 < 64" "4 * (y mod 16) < 64" by linarith+
  then show ?case using b by auto
qed (auto simp: byte_list_simps)

lemma bytes_of_sextets: "byte_list bs \<Longrightarrow> join_sextets (split_bytes bs) = bs"
proof (induction bs rule: split_bytes.induct)
  case (1 x y z rest)
  then have b: "x < 256" "y < 256" "z < 256" "byte_list rest" by (simp_all add: byte_list_simps)
  have d: "y div 16 < 16" "z div 64 < 4" using b by auto
  have e: "(16 * (x mod 4) + y div 16) div 16 = x mod 4" "(16 * (x mod 4) + y div 16) mod 16 = y div 16"
    "(4 * (y mod 16) + z div 64) div 4 = y mod 16" "(4 * (y mod 16) + z div 64) mod 4 = z div 64"
    using d by simp_all
  show ?case using "1.IH" b(4) unfolding split_bytes.simps join_sextets.simps e by simp
next
  case (2 x y)
  then have b: "x < 256" "y < 256" by (simp_all add: byte_list_simps)
  have d: "y div 16 < 16" using b by auto
  have e: "(16 * (x mod 4) + y div 16) div 16 = x mod 4" "(16 * (x mod 4) + y div 16) mod 16 = y div 16"
    using d by simp_all
  show ?case unfolding split_bytes.simps join_sextets.simps e by simp
qed simp_all

lemma map_filter_total: "\<forall>x \<in> set xs. f (g x) = Some x \<Longrightarrow> List.map_filter f (map g xs) = xs"
  by (induction xs) (simp_all add: map_filter_simps)

theorem base64_decode_encode: "byte_list bs \<Longrightarrow> base64_decode (base64_encode bs) = bs"
proof -
  assume b: "byte_list bs"
  have "List.map_filter sextet (map sextet_char (split_bytes bs)) = split_bytes bs"
    by (rule map_filter_total) (use split_bytes_sextets [OF b] sextet_of_char in blast)
  then have "List.map_filter sextet (base64_encode bs) = split_bytes bs"
    by (auto simp: base64_encode_def map_filter_def sextet_padding split: nat.split)
  then show ?thesis using bytes_of_sextets [OF b] by (simp add: base64_decode_def)
qed

end
