(* ===== verification/Vendor_Shared.thy ===== *)
theory Vendor_Shared
  imports Plugin_SPI Js_Number
begin

text \<open>
  The shared pieces below the vendor plugins (\<open>src/plugins/_shared/\<close>): required environment keys,
  the safety deadline of a vendor call, the random integer helper, and one HTTP exchange as the
  clients see it. What the network answers is a function argument from the request to the reply, so
  the request itself is part of the model. The body of a reply is a JSON value; a field is read at
  the type that the client's response type declares, and counts as absent where it has another.
\<close>

section \<open>Environment keys\<close>

text \<open>\<open>missing.join(', ')\<close>.\<close>

fun join_comma :: "string list \<Rightarrow> string" where
  "join_comma [] = []"
| "join_comma [k] = k"
| "join_comma (k # ks) = k @ '', '' @ join_comma ks"

definition env_missing :: "(string \<rightharpoonup> string) \<Rightarrow> string \<Rightarrow> bool" where
  "env_missing env key \<longleftrightarrow> (case env key of None \<Rightarrow> True | Some v \<Rightarrow> trim v = [])"

definition requireEnvKeys ::
  "(string \<rightharpoonup> string) \<Rightarrow> plugin_id \<Rightarrow> string list \<Rightarrow> exn + (string \<rightharpoonup> string)" where
  "requireEnvKeys env pluginId keys =
     (let missing = filter (env_missing env) keys in
      if 0 < length missing
      then Inl (PlainError (''MISSING env for plugin '' @ CHR 0x22 # pluginId @ CHR 0x22 # '': '' @
             join_comma missing))
      else Inr (\<lambda>key. if key \<in> set keys then map_option trim (env key) else None))"

lemma requireEnvKeys_complete:
  assumes "requireEnvKeys env i keys = Inr values" and "key \<in> set keys"
  obtains v where "values key = Some v" and "v \<noteq> []"
  using assms by (auto simp: requireEnvKeys_def Let_def env_missing_def filter_empty_conv
      split: if_splits option.splits)

section \<open>Random numbers and the deadline\<close>

definition CLIENT_SAFETY_DEADLINE_MS :: time where
  "CLIENT_SAFETY_DEADLINE_MS = 120000"

text \<open>\<open>Math.floor(Math.random() * max)\<close>, over what \<open>Math.random()\<close> draws.\<close>

definition generateRandomNumber :: "num \<Rightarrow> nat \<Rightarrow> int" where
  "generateRandomNumber rnd bound = \<lfloor>rnd * of_nat bound\<rfloor>"

lemma generateRandomNumber_range:
  assumes "0 \<le> rnd" and "rnd < 1" and "0 < bound"
  shows "0 \<le> generateRandomNumber rnd bound" and "generateRandomNumber rnd bound < int bound"
proof -
  show "0 \<le> generateRandomNumber rnd bound" using assms by (simp add: generateRandomNumber_def)
  have "rnd * of_nat bound < 1 * of_nat bound" using assms(2,3) by (intro mult_strict_right_mono) simp_all
  then show "generateRandomNumber rnd bound < int bound"
    by (simp add: generateRandomNumber_def floor_less_iff)
qed

section \<open>An HTTP exchange\<close>

text \<open>
  What a rejected \<open>fetch\<close> throws: an object with its \<open>name\<close>, \<open>code\<close> (where they are strings) and
  \<open>cause\<close>, or something that is no object.
\<close>

datatype thrown =
    NotAnObject
  | ErrorObject "string option" "string option" "thrown option"

record httpRequest =
  rq_url :: string
  rq_authorization :: "string option"
  rq_body :: jval
  rq_timeoutMs :: time

record httpResponse =
  hr_status :: nat
  hr_contentType :: "string option"
  hr_json :: "thrown + jval"

type_synonym network = "httpRequest \<Rightarrow> thrown + httpResponse"

text \<open>\<open>response.ok\<close>.\<close>

definition http_ok :: "httpResponse \<Rightarrow> bool" where
  "http_ok r \<longleftrightarrow> 200 \<le> hr_status r \<and> hr_status r \<le> 299"

definition type_error :: thrown where
  "type_error = ErrorObject (Some ''TypeError'') None None"

section \<open>Reading a body\<close>

definition field :: "string \<Rightarrow> jval \<Rightarrow> jval option" where
  "field k v = (case v of JObj fs \<Rightarrow> map_of fs k | _ \<Rightarrow> None)"

definition text_field :: "string \<Rightarrow> jval \<Rightarrow> string option" where
  "text_field k v = (case field k v of Some (JStr s) \<Rightarrow> Some s | _ \<Rightarrow> None)"

definition num_field :: "string \<Rightarrow> jval \<Rightarrow> num option" where
  "num_field k v = (case field k v of Some (JNum x) \<Rightarrow> Some x | _ \<Rightarrow> None)"

definition object_field :: "string \<Rightarrow> jval \<Rightarrow> jval option" where
  "object_field k v = (case field k v of Some (JObj fs) \<Rightarrow> Some (JObj fs) | _ \<Rightarrow> None)"

text \<open>\<open>v[k]?.[0]\<close>.\<close>

definition first_field :: "string \<Rightarrow> jval \<Rightarrow> jval option" where
  "first_field k v = (case field k v of Some (JArr (x # _)) \<Rightarrow> Some x | _ \<Rightarrow> None)"

lemmas field_defs = field_def text_field_def num_field_def object_field_def first_field_def

text \<open>A text that the code treats as missing: absent, or empty.\<close>

definition filled :: "string option \<Rightarrow> string option" where
  "filled t = (if t = Some [] then None else t)"

lemma filled_Some: "filled t = Some s \<longleftrightarrow> t = Some s \<and> s \<noteq> []"
  by (auto simp: filled_def)

definition or_else :: "'a option \<Rightarrow> 'a \<Rightarrow> 'a" where
  "or_else t d = (case t of None \<Rightarrow> d | Some s \<Rightarrow> s)"

lemma or_else_simps [simp]: "or_else None d = d" "or_else (Some s) d = s"
  by (simp_all add: or_else_def)

section \<open>Decimal text of an integer\<close>

definition int_text :: "int \<Rightarrow> string" where
  "int_text i = (if i < 0 then CHR ''-'' # nat_to_string (nat (- i)) else nat_to_string (nat i))"

definition padded :: "nat \<Rightarrow> int \<Rightarrow> string" where
  "padded n i = pad_start n (CHR ''0'') (int_text i)"

text \<open>\<open>Number.isSafeInteger\<close>.\<close>

definition safe_integer :: "int \<Rightarrow> bool" where
  "safe_integer i \<longleftrightarrow> \<bar>i\<bar> \<le> 2 ^ 53 - 1"

end
