(* ===== verification/Chirpstack_Client.thy ===== *)
theory Chirpstack_Client
  imports Vendor_Shared
begin

text \<open>
  The ChirpStack client (\<open>src/plugins/_shared/chirpstack-repository/\<close>). What the gRPC stub answers is
  a function argument from the request to the reply, so the request itself is part of the model.
\<close>

section \<open>Secrets\<close>

definition CHIRPSTACK_ENV_KEYS :: "string list" where
  "CHIRPSTACK_ENV_KEYS = [''CHIRPSTACK_API_URL'', ''CHIRPSTACK_API_TOKEN'',
     ''CHIRPSTACK_APPLICATION_ID'', ''CHIRPSTACK_PROFILE_ID'', ''CHIRPSTACK_APP_KEY'']"

record chirpstackSecrets =
  cs_apiUrl :: string
  cs_apiToken :: string
  cs_applicationId :: string
  cs_profileId :: string
  cs_appKey :: string

definition loadChirpstackSecrets :: "(string \<rightharpoonup> string) \<Rightarrow> exn + chirpstackSecrets" where
  "loadChirpstackSecrets env =
     (case requireEnvKeys env ''chirpstack'' CHIRPSTACK_ENV_KEYS of
        Inl e \<Rightarrow> Inl e
      | Inr values \<Rightarrow> Inr \<lparr>
          cs_apiUrl = the (values ''CHIRPSTACK_API_URL''),
          cs_apiToken = the (values ''CHIRPSTACK_API_TOKEN''),
          cs_applicationId = the (values ''CHIRPSTACK_APPLICATION_ID''),
          cs_profileId = the (values ''CHIRPSTACK_PROFILE_ID''),
          cs_appKey = the (values ''CHIRPSTACK_APP_KEY'')\<rparr>)"

section \<open>The client\<close>

definition DEVICE_F_PORT :: nat where
  "DEVICE_F_PORT = 1"

definition CONFIRMED_DOWNLINK :: bool where
  "CONFIRMED_DOWNLINK = True"

definition UNARY_RPC_DEADLINE_MS :: time where
  "UNARY_RPC_DEADLINE_MS = 60000"

definition unaryCallOptions :: "time \<Rightarrow> time" where
  "unaryCallOptions now = now + UNARY_RPC_DEADLINE_MS"

record queueItem =
  qi_devEui :: string
  qi_fPort :: nat
  qi_confirmed :: bool
  qi_data :: "nat list"

record deviceRegistration =
  dr_devEui :: string
  dr_name :: string
  dr_applicationId :: string
  dr_deviceProfileId :: string

record deviceKeys =
  dk_devEui :: string
  dk_nwkKey :: string

text \<open>The callback's \<open>(err, res)\<close>: an error, neither, or a result.\<close>

datatype 'a rpcReply = RpcError exn | RpcEmpty | RpcResult 'a

definition enqueueDeviceRequest ::
  "(queueItem \<Rightarrow> string rpcReply) \<Rightarrow> string \<Rightarrow> nat list \<Rightarrow> exn + string" where
  "enqueueDeviceRequest enqueueRpc devEui bytes =
     (case enqueueRpc \<lparr>qi_devEui = devEui, qi_fPort = DEVICE_F_PORT,
             qi_confirmed = CONFIRMED_DOWNLINK, qi_data = map (\<lambda>b. b mod 256) bytes\<rparr> of
        RpcError err \<Rightarrow> Inl err
      | RpcEmpty \<Rightarrow> Inl (PlainError ''ChirpStack enqueue returned empty response'')
      | RpcResult itemId \<Rightarrow> Inr itemId)"

definition getDeviceQueue ::
  "(string \<Rightarrow> string list rpcReply) \<Rightarrow> string \<Rightarrow> exn + string list" where
  "getDeviceQueue queueRpc devEui =
     (case queueRpc devEui of
        RpcError err \<Rightarrow> Inl err
      | RpcEmpty \<Rightarrow> Inl (PlainError ''ChirpStack getQueue returned empty response'')
      | RpcResult items \<Rightarrow> Inr items)"

text \<open>The two provisioning calls never reject: any error means an existing device, or no success.\<close>

definition registerDevice ::
  "chirpstackSecrets \<Rightarrow> (deviceRegistration \<Rightarrow> exn option) \<Rightarrow> string \<Rightarrow> string \<Rightarrow> bool" where
  "registerDevice secrets createRpc devEui deviceName =
     (case createRpc \<lparr>dr_devEui = devEui, dr_name = deviceName,
             dr_applicationId = cs_applicationId secrets,
             dr_deviceProfileId = cs_profileId secrets\<rparr> of
        Some err \<Rightarrow> False
      | None \<Rightarrow> True)"

definition setApplicationKeyForDevice ::
  "chirpstackSecrets \<Rightarrow> (deviceKeys \<Rightarrow> exn option) \<Rightarrow> string \<Rightarrow> bool" where
  "setApplicationKeyForDevice secrets createKeysRpc devEui =
     (case createKeysRpc \<lparr>dk_devEui = devEui, dk_nwkKey = cs_appKey secrets\<rparr> of
        Some err \<Rightarrow> False
      | None \<Rightarrow> True)"

end
