(* ===== verification/Chirpstack_Plugin.thy ===== *)
theory Chirpstack_Plugin
  imports Correlator Base64 Chirpstack_Client Plugin_SPI "HOL-Library.Product_Lexorder"
begin

text \<open>
  The \<open>calin-chirpstack\<close> plugin (\<open>src/plugins/calin-chirpstack/\<close>): its plugin record, what its outgoing
  facet sends and how it reads errors, and its incoming facet, which turns integration events into the
  engine's \<open>parsedIncomingEvent\<close>.
\<close>

section \<open>Gateways\<close>

text \<open>
  The first element of the list sorted by \<open>signalSortFn\<close>: higher SNR first, then higher RSSI; the sort is
  stable. The list is not empty.
\<close>

definition selectGatewayWithBestSignal :: "gatewayInfo list \<Rightarrow> relayNode" where
  "selectGatewayWithBestSignal rxInfoList =
     (let best = hd (sort_key (\<lambda>g. (- gi_snr g, - gi_rssi g)) rxInfoList) in
      \<lparr>rn_id = None, rn_externalReference = Some (gi_gatewayId best),
       rn_snr = Some (gi_snr best), rn_rssi = Some (gi_rssi best)\<rparr>)"

section \<open>Incoming\<close>

definition DEV_EUI_LENGTH :: nat where
  "DEV_EUI_LENGTH = 16"

definition METER_REFERENCE_OFFSET :: nat where
  "METER_REFERENCE_OFFSET = 5"

definition createDevice :: "string \<Rightarrow> relayNode option \<Rightarrow> device" where
  "createDevice externalReference relayNode =
     \<lparr>dev_type = ELECTRICITY_METER, dev_externalReference = externalReference,
      dev_relayNode = relayNode\<rparr>"

text \<open>Equal digests; \<open>sha256\<close> is a parameter. A missing header counts as the empty text.\<close>

definition secretEquals :: "(string \<Rightarrow> nat list) \<Rightarrow> string \<Rightarrow> string option \<Rightarrow> bool" where
  "secretEquals sha256 expected received =
     (sha256 expected = sha256 (case received of None \<Rightarrow> [] | Some r \<Rightarrow> r))"

definition verifySignature ::
  "(string \<Rightarrow> nat list) \<Rightarrow> string option \<Rightarrow> (string \<rightharpoonup> string) \<Rightarrow> bool" where
  "verifySignature sha256 ingressApiKey headers =
     (case ingressApiKey of
        None \<Rightarrow> True
      | Some expectedKey \<Rightarrow> secretEquals sha256 expectedKey (headers ''x-api-key''))"

definition handleDown :: "lorawanCalinEvent \<Rightarrow> string \<Rightarrow> parsedIncomingEvent" where
  "handleDown event meterExternalReference = \<lparr>
     e_commandType = None, e_deliveryQueueId = lw_queueItemId event,
     e_deliveryStatus = SENT_TO_DEVICE, e_device = createDevice meterExternalReference None,
     e_response = None, e_unsolicited = False, e_failureContext = None\<rparr>"

definition handleJoin :: "string \<Rightarrow> parsedIncomingEvent" where
  "handleJoin meterExternalReference = \<lparr>
     e_commandType = Some JOIN_NETWORK, e_deliveryQueueId = None,
     e_deliveryStatus = DELIVERY_SUCCESSFUL, e_device = createDevice meterExternalReference None,
     e_response = Some \<lparr>mr_status = EXECUTION_SUCCESS, mr_data = Some [(''networkJoined'', JBool True)]\<rparr>,
     e_unsolicited = True, e_failureContext = None\<rparr>"

definition NOT_ACKNOWLEDGED :: string where
  "NOT_ACKNOWLEDGED = ''Downlink not acknowledged by device (may be offline, out of range, or missed RX window)''"

definition nack_event :: "string \<Rightarrow> string \<Rightarrow> parsedIncomingEvent" where
  "nack_event queueItemId meterExternalReference = \<lparr>
     e_commandType = None, e_deliveryQueueId = Some queueItemId, e_deliveryStatus = DELIVERY_FAILED,
     e_device = createDevice meterExternalReference None, e_response = None, e_unsolicited = False,
     e_failureContext = Some (calin_failure NOT_ACKNOWLEDGED)\<rparr>"

definition handleAck ::
  "time \<Rightarrow> lorawanCalinEvent \<Rightarrow> string \<Rightarrow> correlations \<Rightarrow> parsedIncomingEvent option \<times> correlations" where
  "handleAck now event meterExternalReference pending =
     (case lw_queueItemId event of
        None \<Rightarrow> (None, pending)
      | Some queueItemId \<Rightarrow>
          if queueItemId = [] then (None, pending)
          else if lw_acknowledged event \<noteq> Some True
          then (Some (nack_event queueItemId meterExternalReference), pending)
          else onAckEvent now (lw_deduplicationId event) queueItemId pending)"

definition report_event :: "decodedEvent \<Rightarrow> device \<Rightarrow> parsedIncomingEvent" where
  "report_event answer dev = \<lparr>
     e_commandType = Some READ_REPORT, e_deliveryQueueId = None, e_deliveryStatus = DELIVERY_SUCCESSFUL,
     e_device = dev, e_response = Some \<lparr>mr_status = de_status answer, mr_data = Some (de_data answer)\<rparr>,
     e_unsolicited = True, e_failureContext = None\<rparr>"

definition handleUp ::
  "time \<Rightarrow> lorawanCalinEvent \<Rightarrow> string \<Rightarrow> correlations \<Rightarrow> parsedIncomingEvent option \<times> correlations" where
  "handleUp now event meterExternalReference pending =
     (case lw_data event of
        None \<Rightarrow> (None, pending)
      | Some data \<Rightarrow>
          if data = [] then (None, pending)
          else
            (case decodeResponseData (base64_decode data) of
               None \<Rightarrow> (None, pending)
             | Some answer \<Rightarrow>
                 (let relayNode = (if lw_rxInfo event = [] then None
                                   else Some (selectGatewayWithBestSignal (lw_rxInfo event)));
                      dev = createDevice meterExternalReference relayNode
                  in if de_unsolicitedEventType answer = Some READ_REPORT
                     then (Some (report_event answer dev), pending)
                     else onUpEvent now (lw_deduplicationId event) answer dev pending)))"

text \<open>\<open>handle\<close>; \<open>query\<close> is \<open>meta?.query.event\<close>.\<close>

definition chirpstack_handle ::
  "time \<Rightarrow> lorawanCalinEvent \<Rightarrow> string option \<Rightarrow> correlations \<Rightarrow>
   parsedIncomingEvent option \<times> correlations" where
  "chirpstack_handle now event query pending =
     (case lw_devEui event of
        None \<Rightarrow> (None, pending)
      | Some devEui \<Rightarrow>
          if length devEui \<noteq> DEV_EUI_LENGTH then (None, pending)
          else
            (let meterExternalReference = drop METER_REFERENCE_OFFSET devEui in
             if meterExternalReference = [] then (None, pending)
             else if query = Some ''txack''
               then (Some (handleDown event meterExternalReference), pending)
             else if query = Some ''ack'' then handleAck now event meterExternalReference pending
             else if query = Some ''join'' then (Some (handleJoin meterExternalReference), pending)
             else if query = Some ''up'' then handleUp now event meterExternalReference pending
             else (None, pending)))"

section \<open>Outgoing\<close>

definition ENCODE_FAILED :: string where
  "ENCODE_FAILED = ''Could not encode request data prior to sending to device''"

text \<open>\<open>new CalinChirpstackError(message, { skipRetry })\<close>.\<close>

definition CalinChirpstackError :: "string \<Rightarrow> bool \<Rightarrow> exn" where
  "CalinChirpstackError message skipRetry = VendorError message None skipRetry"

definition chirpstack_encode :: "deviceMessage \<Rightarrow> nat list option" where
  "chirpstack_encode message =
     encodeRequestData (dev_externalReference (m_device message))
       (case m_phase message of None \<Rightarrow> PhaseA | Some p \<Rightarrow> p) (m_commandType message)
       (Option.bind (m_requestData message) rd_token) (Option.bind (m_requestData message) rd_payload)"

definition device_eui :: "deviceMessage \<Rightarrow> string" where
  "device_eui message = pad_start 16 (CHR ''0'') (dev_externalReference (m_device message))"

definition chirpstack_sendOne ::
  "(queueItem \<Rightarrow> string rpcReply) \<Rightarrow> deviceMessage \<Rightarrow> exn + string" where
  "chirpstack_sendOne enqueueRpc message =
     (case chirpstack_encode message of
        None \<Rightarrow> Inl (CalinChirpstackError ENCODE_FAILED True)
      | Some bytes \<Rightarrow> enqueueDeviceRequest enqueueRpc (device_eui message) bytes)"

definition chirpstack_getRemoteStatus ::
  "(string \<Rightarrow> string list rpcReply) \<Rightarrow> deviceMessage \<Rightarrow> exn + deliveryStatus" where
  "chirpstack_getRemoteStatus queueRpc message =
     map_sum id (\<lambda>remoteQueue.
         if m_deliveryQueueId message \<in> set remoteQueue then m_deliveryStatus message
         else DELIVERY_FAILED)
       (getDeviceQueue queueRpc (device_eui message))"

text \<open>\<open>err.code\<close> and \<open>err.details\<close>, which only the errors of the gRPC library have.\<close>

definition grpc_code :: "exn \<Rightarrow> errorCode option" where
  "grpc_code err = (case err of GrpcServiceError _ code _ \<Rightarrow> Some (CodeNum code) | _ \<Rightarrow> None)"

definition grpc_details :: "exn \<Rightarrow> string option" where
  "grpc_details err = (case err of GrpcServiceError _ _ details \<Rightarrow> Some details | _ \<Rightarrow> None)"

definition chirpstack_parseError :: "exn \<Rightarrow> failureContext" where
  "chirpstack_parseError err =
     (case err of
        VendorError message _ skipRetry \<Rightarrow>
          \<lparr>fc_reason = message, fc_errorCode = None, fc_details = None, fc_skipRetry = Some skipRetry\<rparr>
      | _ \<Rightarrow>
          (let errorCode = grpc_code err; details = grpc_details err in
           if pred_option (includes_str ''device_queue_item_dev_eui_fkey'') details \<and> details \<noteq> None
           then \<lparr>fc_reason = ''Device not registered in Network Server (ChirpStack)'',
                 fc_errorCode = errorCode, fc_details = details, fc_skipRetry = Some True\<rparr>
           else \<lparr>fc_reason = ''Failed to enqueue message at ChirpStack'',
                 fc_errorCode = errorCode, fc_details = details, fc_skipRetry = None\<rparr>))"

section \<open>The plugin\<close>

definition CALIN_CHIRPSTACK_ID :: plugin_id where
  "CALIN_CHIRPSTACK_ID = ''calin-chirpstack''"

definition CALIN_CHIRPSTACK_NODE_KIND :: string where
  "CALIN_CHIRPSTACK_NODE_KIND = ''network''"

definition CALIN_CHIRPSTACK_SUPPORTED_COMMAND_TYPES :: "commandType list" where
  "CALIN_CHIRPSTACK_SUPPORTED_COMMAND_TYPES =
     [READ_CREDIT, READ_VOLTAGE, READ_POWER, READ_CURRENT, READ_POWER_LIMIT, READ_DATE, READ_TIME,
      TURN_ON, TURN_OFF, SET_DATE, SET_TIME, TOP_UP_KWH, SET_POWER_LIMIT, CLEAR_TAMPER, CLEAR_CREDIT,
      DELIVER_PREEXISTING_TOKEN]"

definition CALIN_CHIRPSTACK_ADMISSION :: admission where
  "CALIN_CHIRPSTACK_ADMISSION = Spacing 2000"

definition chirpstackInitialQueueKey :: "nat option \<Rightarrow> device \<Rightarrow> string" where
  "chirpstackInitialQueueKey networkId dev =
     buildInitialQueueKey CALIN_CHIRPSTACK_ID CALIN_CHIRPSTACK_NODE_KIND
       (case networkId of None \<Rightarrow> ''unassigned'' | Some i \<Rightarrow> nat_to_string i)"

definition buildCalinChirpstack :: "pluginTuning \<Rightarrow> deliveryPlugin" where
  "buildCalinChirpstack tuning = \<lparr>
     d_id = CALIN_CHIRPSTACK_ID, d_pattern = PUSH,
     d_supportedCommandTypes = CALIN_CHIRPSTACK_SUPPORTED_COMMAND_TYPES,
     d_initialQueueKey = chirpstackInitialQueueKey, d_validateEnqueue = None,
     d_admission = CALIN_CHIRPSTACK_ADMISSION, d_tuning = tuning, d_relayNodeNoun = Some ''gateway'',
     d_parseError = chirpstack_parseError, d_hasGetRemoteStatus = True, d_hasToken = False,
     d_hasProvisioning = True\<rparr>"

definition loadIngressApiKey :: "(string \<rightharpoonup> string) \<Rightarrow> string option" where
  "loadIngressApiKey env =
     (case env ''CALIN_CHIRPSTACK_INGRESS_API_KEY'' of
        None \<Rightarrow> None
      | Some raw \<Rightarrow> if trim raw = [] then None else Some (trim raw))"

text \<open>The factory: the client needs its secrets, then the tuning is merged.\<close>

definition createCalinChirpstackPlugin :: "(string \<rightharpoonup> string) \<Rightarrow> pluginEntry \<Rightarrow> exn + devicePlugin" where
  "createCalinChirpstackPlugin env entry =
     (case loadChirpstackSecrets env of
        Inl e \<Rightarrow> Inl e
      | Inr _ \<Rightarrow> map_sum id (\<lambda>t. Delivery (buildCalinChirpstack t)) (mergePluginTuning entry no_override))"

lemma chirpstack_contract:
  "positive_tuning t \<Longrightarrow> delivery_plugin_contract (buildCalinChirpstack t) CALIN_CHIRPSTACK_NODE_KIND"
  by unfold_locales
     (auto simp: buildCalinChirpstack_def CALIN_CHIRPSTACK_ID_def CALIN_CHIRPSTACK_NODE_KIND_def
        good_segment_def chirpstackInitialQueueKey_def CALIN_CHIRPSTACK_SUPPORTED_COMMAND_TYPES_def
        command_guard_defs command_group_defs)

interpretation calinChirpstack:
  delivery_plugin_contract "buildCalinChirpstack DEFAULT_PLUGIN_TUNING" CALIN_CHIRPSTACK_NODE_KIND
  using default_tuning_positive by (rule chirpstack_contract)

end
