(* ===== verification/Calin_Claims.thy ===== *)
theory Calin_Claims
  imports Calin_Decode
begin

text \<open>
  What the CALIN codec guarantees: the layout of every encoded frame, when a command can be encoded,
  that the decoder accepts exactly well-formed frames and rejects a corrupted byte, and the round trips
  of dates, BCD numbers and little-endian numbers.
\<close>

section \<open>The byte mask\<close>

text \<open>What both directions rely on of the \<open>0x33\<close> mask.\<close>

locale byte_mask =
  fixes enc :: "nat \<Rightarrow> nat" and dec :: "nat \<Rightarrow> nat"
  assumes enc_byte: "enc b < 256"
    and dec_byte: "dec b < 256"
    and dec_enc: "b < 256 \<Longrightarrow> dec (enc b) = b"
    and enc_dec: "b < 256 \<Longrightarrow> enc (dec b) = b"
begin

lemma dec_enc_map: "byte_list bs \<Longrightarrow> map dec (map enc bs) = bs"
  by (induction bs) (auto simp: byte_list_simps dec_enc)

lemma dec_enc_rev: "byte_list bs \<Longrightarrow> map dec (rev (map enc bs)) = rev bs"
  using dec_enc_map [of bs] by (simp add: rev_map [symmetric])

lemma enc_inject: "a < 256 \<Longrightarrow> b < 256 \<Longrightarrow> enc a = enc b \<longleftrightarrow> a = b"
  using dec_enc by metis

end

lemma subtract33H_byte: "subtract33H b < 256"
  using pos_mod_bound [of 256 "int b - 0x33 + 256"] by (simp add: subtract33H_def nat_less_iff)

lemma subtract33H_add33H: "b < 256 \<Longrightarrow> subtract33H (add33H b) = b"
proof -
  assume b: "b < 256"
  have "int (add33H b) = (int b + 51) mod 256" by (simp add: add33H_def zmod_int)
  then have "(int (add33H b) - 51 + 256) mod 256 = (int b + 256) mod 256"
    by (simp add: mod_simps)
  then show ?thesis using b by (simp add: subtract33H_def)
qed

lemma add33H_subtract33H: "b < 256 \<Longrightarrow> add33H (subtract33H b) = b"
proof -
  assume b: "b < 256"
  have "int (subtract33H b) = (int b - 51 + 256) mod 256" by (simp add: subtract33H_def)
  then have "int (add33H (subtract33H b)) = ((int b - 51 + 256) mod 256 + 51) mod 256"
    by (simp add: add33H_def zmod_int)
  then have "int (add33H (subtract33H b)) = (int b + 256) mod 256" by (simp add: mod_simps)
  then show ?thesis using b by simp
qed

interpretation mask33: byte_mask add33H subtract33H
  by unfold_locales (simp_all add: add33H_byte subtract33H_byte subtract33H_add33H add33H_subtract33H)

section \<open>Numbers\<close>

lemma shl32_exact: "v * 2 ^ n < 2 ^ 31 \<Longrightarrow> n < 32 \<Longrightarrow> shl32 v n = int (v * 2 ^ n)"
proof -
  assume v: "v * 2 ^ n < 2 ^ 31" and n: "n < 32"
  have iv: "int (v * 2 ^ n) < 2 ^ 31" using v by (metis of_nat_less_iff of_nat_numeral of_nat_power)
  have "push_bit n (word_of_nat v :: 32 word) = word_of_nat (v * 2 ^ n)"
    by (simp add: push_bit_eq_mult)
  then have "shl32 v n = sint (word_of_int (int (v * 2 ^ n)) :: 32 word)"
    using n by (simp add: shl32_def)
  also have "\<dots> = int (v * 2 ^ n)"
    unfolding sint_sbintrunc'
    by (subst signed_take_bit_int_eq_self) (use iv zero_le_power [of "2 :: int" n] in
      \<open>simp_all add: order_trans [of "- 2147483648" 0]\<close>)
  finally show ?thesis .
qed

lemma shl32_top: "128 \<le> v \<Longrightarrow> v < 256 \<Longrightarrow> shl32 v 24 = int v * 2 ^ 24 - 2 ^ 32"
proof -
  assume v: "128 \<le> v" "v < 256"
  have "push_bit 24 (word_of_nat v :: 32 word) = word_of_int (int v * 2 ^ 24)"
    by (simp add: push_bit_eq_mult)
  also have "\<dots> = word_of_int (int v * 2 ^ 24 - 2 ^ 32)"
    by (simp add: word_of_int_eq_iff take_bit_eq_mod mod_diff_right_eq [symmetric])
  finally have "shl32 v 24 = sint (word_of_int (int v * 2 ^ 24 - 2 ^ 32) :: 32 word)"
    by (simp add: shl32_def)
  also have "\<dots> = int v * 2 ^ 24 - 2 ^ 32"
    unfolding sint_sbintrunc' by (subst signed_take_bit_int_eq_self) (use v in simp_all)
  finally show ?thesis .
qed

section \<open>The layout of a frame\<close>

lemma six_bytes:
  assumes "length address = 6"
  obtains a0 a1 a2 a3 a4 a5 where "address = [a0, a1, a2, a3, a4, a5]"
  using assms by (auto simp: numeral_eq_Suc length_Suc_conv)

lemma two_bytes:
  assumes "length di = 2"
  obtains d0 d1 where "di = [d0, d1]"
  using assms by (auto simp: numeral_eq_Suc length_Suc_conv)

text \<open>A frame, byte by byte.\<close>

lemma frame_bytes:
  "frame [a0, a1, a2, a3, a4, a5] cc [d0, d1] w =
     [0x68, a0, a1, a2, a3, a4, a5, 0x68, cc, 2 + length w, add33H d1, add33H d0] @ w @
     [sum_list (frame_body [a0, a1, a2, a3, a4, a5] cc [d0, d1] w) mod 256, END_BYTE]"
  by (simp add: frame_def frame_body_def HEADER_BYTE_def Let_def)

lemma frame_shape:
  assumes "length address = 6" and "length di = 2"
  shows "take 6 (drop 1 (frame address cc di w)) = address" and "frame address cc di w ! 0 = 0x68"
    and "frame address cc di w ! 7 = 0x68" and "frame address cc di w ! 8 = cc"
    and "frame address cc di w ! 9 = 2 + length w" and "length (frame address cc di w) = 14 + length w"
    and "subarray 10 12 (frame address cc di w) = rev (map add33H di)"
    and "drop 12 (frame address cc di w) =
      w @ [sum_list (frame_body address cc di w) mod 256, END_BYTE]"
proof -
  obtain a0 a1 a2 a3 a4 a5 where a: "address = [a0, a1, a2, a3, a4, a5]" by (rule six_bytes [OF assms(1)])
  obtain d0 d1 where d: "di = [d0, d1]" by (rule two_bytes [OF assms(2)])
  note fb = frame_bytes [of a0 a1 a2 a3 a4 a5 cc d0 d1 w]
  show "take 6 (drop 1 (frame address cc di w)) = address" by (simp add: a d fb)
  show "frame address cc di w ! 0 = 0x68" by (simp add: a d fb)
  show "frame address cc di w ! 7 = 0x68" by (simp add: a d fb)
  show "frame address cc di w ! 8 = cc" by (simp add: a d fb)
  show "frame address cc di w ! 9 = 2 + length w" by (simp add: a d fb)
  show "length (frame address cc di w) = 14 + length w" by (simp add: a d fb)
  show "subarray 10 12 (frame address cc di w) = rev (map add33H di)" by (simp add: a d fb subarray_def)
  show "drop 12 (frame address cc di w) = w @ [sum_list (frame_body address cc di w) mod 256, END_BYTE]"
    by (simp add: a d fb)
qed

lemma frame_ends:
  "frame address cc di w = frame_body address cc di w @ [sum_list (frame_body address cc di w) mod 256, END_BYTE]"
  by (simp add: frame_def Let_def)

lemma frame_checksum: "valid_checksum (frame address cc di w)"
  by (simp add: valid_checksum_def frame_ends byte_at_def nth_append)

lemma frame_headers:
  assumes "length address = 6" and "length di = 2"
  shows "valid_headers (frame address cc di w)"
proof -
  note f = frame_shape [OF assms, of cc w]
  have "frame address cc di w ! (length (frame address cc di w) - 1) = END_BYTE"
    by (simp add: frame_ends nth_append)
  then show ?thesis using f by (simp add: valid_headers_def byte_at_def HEADER_BYTE_def)
qed

lemma data_identifier_byte:
  assumes "d0 < 256" and "d1 < 256" 
  shows "reverseAndCombine (rev (map add33H [d0, d1])) = int (256 * d0 + d1)"
  using assms by (simp add: reverseAndCombine_def mask33.dec_enc shl32_exact)

text \<open>The decoder on a well-formed frame, whatever its content.\<close>

lemma decode_frame:
  assumes "length address = 6" and "length di = 2"
  shows "decodeResponseData (frame address cc di w) =
    (case CONTROL_CODE_MAP cc of
       None \<Rightarrow> None
     | Some SEND_TOKEN_SUCCESS \<Rightarrow> Some (decoded EXECUTION_SUCCESS [(''tokenAccepted'', JBool True)] None)
     | Some SEND_TOKEN_FAILURE \<Rightarrow> Some (decoded EXECUTION_FAILURE [(''tokenAccepted'', JBool False)]
         (Some ''Delivery was successful but the token was not accepted''))
     | Some WRITING_SUCCESS \<Rightarrow>
         Some (decoded EXECUTION_SUCCESS [(''onOffToggleAccepted'', JBool True)] None)
     | Some WRITING_FAILURE \<Rightarrow> Some (decoded EXECUTION_FAILURE [(''onOffToggleAccepted'', JBool False)]
         (Some ''Delivery was successful but the command was not (successfully) executed''))
     | Some operation \<Rightarrow> decode_reading operation (frame address cc di w))"
proof -
  note f = frame_shape [OF assms, of cc w]
  have "byte_at (frame address cc di w) 0 = Some 0x68" "byte_at (frame address cc di w) 8 = Some cc"
    using f by (simp_all add: byte_at_def)
  then show ?thesis
    using frame_headers [OF assms, of cc w] frame_checksum [of address cc di w]
    by (simp add: decodeResponseData_def split: option.split calinControlCode.split)
qed

lemma decode_reading_frame:
  assumes "length address = 6" and "d0 < 256" and "d1 < 256"
    and "DATA_PROCESSOR_MAP (int (256 * d0 + d1)) = Some parser" and "256 * d0 + d1 \<noteq> 0xC111"
  shows "decodeResponseData (frame address 0x81 [d0, d1] w) =
    Some (decoded EXECUTION_SUCCESS (parser (frame address 0x81 [d0, d1] w)) None)"
proof -
  have di: "length [d0, d1] = 2" by simp
  note f = frame_shape [OF assms(1) di, of "0x81" w]
  have ri: "reverseAndCombine (subarray 10 12 (frame address 0x81 [d0, d1] w)) = int (256 * d0 + d1)"
    unfolding f(7) by (rule data_identifier_byte [OF assms(2,3)])
  have ne: "int (256 * d0 + d1) \<noteq> 0xC111" using assms(5) by presburger
  have b9: "the (byte_at (frame address 0x81 [d0, d1] w) 9) = 2 + length w" using f by (simp add: byte_at_def)
  have "decode_reading READING_SUCCESS (frame address 0x81 [d0, d1] w) =
      Some (decoded EXECUTION_SUCCESS (parser (frame address 0x81 [d0, d1] w)) None)"
    unfolding decode_reading_def ri Let_def assms(4) b9 option.case f(6)
    using ne by (simp del: of_nat_add of_nat_mult)
  then show ?thesis using decode_frame [OF assms(1) di] by (simp add: CONTROL_CODE_MAP_def)
qed

section \<open>Encoding\<close>

lemma address_bytes_Some:
  assumes "address_bytes i = Some address"
  shows "length address = 6" and "byte_list address" and "hexToBytes (pad_start 12 (CHR ''0'') i) = Some (rev address)"
  using assms hexToBytes_Some
  by (auto simp: address_bytes_def byte_list_simps split: option.splits if_splits)

lemma config_identifier:
  "determineCommandConfig r t p pl = Some c \<Longrightarrow> length (cc_dataIdentifier c) = 2 \<and> byte_list (cc_dataIdentifier c)"
  by (cases r; cases p; cases pl)
     (auto simp: determineCommandConfig_def reading_def writing_def byte_list_simps split: if_splits option.splits payload.splits)

text \<open>Layout of a downlink: every encoded command other than the fixed DLMS request is a frame whose
  declared size covers exactly the bytes between the header and the checksum, whose checksum is the sum of
  everything before it modulo 256, whose address bytes are the meter's hex reference padded to twelve
  digits and reversed, and whose identifier the decoder's own \<open>reverseAndCombine\<close> reads back.\<close>

lemma encoded_frame_layout:
  assumes e: "encodeRequestData i phase r token pl = Some bs" and r: "r \<noteq> READ_POWER_LIMIT"
  shows "\<exists>c. determineCommandConfig r token phase pl = Some c \<and>
    valid_headers bs \<and> valid_checksum bs \<and> length bs = 12 + bs ! 9 \<and> bs ! 8 = cc_controlCode c \<and>
    hexToBytes (pad_start 12 (CHR ''0'') i) = Some (rev (take 6 (drop 1 bs))) \<and>
    reverseAndCombine (subarray 10 12 bs) =
      int (256 * cc_dataIdentifier c ! 0 + cc_dataIdentifier c ! 1) \<and>
    take (bs ! 9 - 2) (drop 12 bs) = write_bytes c"
proof -
  obtain address c where a: "address_bytes i = Some address"
    and c: "determineCommandConfig r token phase pl = Some c"
    and bs: "bs = frame address (cc_controlCode c) (cc_dataIdentifier c) (write_bytes c)"
    using e r by (auto simp: encodeRequestData_def split: option.splits)
  note ad = address_bytes_Some [OF a] and ci = config_identifier [OF c]
  obtain d0 d1 where d: "cc_dataIdentifier c = [d0, d1]" using two_bytes ci by blast
  note f = frame_shape [OF ad(1), of "cc_dataIdentifier c" "cc_controlCode c" "write_bytes c"]
  have "d0 < 256" "d1 < 256" using ci d by (simp_all add: byte_list_simps)
  then have "reverseAndCombine (subarray 10 12 bs) =
      int (256 * cc_dataIdentifier c ! 0 + cc_dataIdentifier c ! 1)"
    using f(7) data_identifier_byte [of d0 d1] by (simp add: bs d)
  then show ?thesis
    using c f ci ad frame_headers [OF ad(1)] frame_checksum by (intro exI [of _ c]) (simp add: bs)
qed

lemma encoded_frame_layout_witness:
  "\<exists>bs. encodeRequestData ''47000123456'' PhaseA TURN_ON None None = Some bs \<and> valid_checksum bs \<and>
     length bs = 12 + bs ! 9 \<and> hexToBytes ''047000123456'' = Some (rev (take 6 (drop 1 bs)))"
proof -
  obtain bs where e: "encodeRequestData ''47000123456'' PhaseA TURN_ON None None = Some bs"
    and p: "pad_start 12 (CHR ''0'') ''47000123456'' = ''047000123456''"
    by (cases "encodeRequestData ''47000123456'' PhaseA TURN_ON None None") (code_simp, simp add: pad_start_def)
  from encoded_frame_layout [OF e] show ?thesis unfolding p by (auto simp: e)
qed

section \<open>Corrupted frames\<close>

lemma decode_checked:
  assumes "decodeResponseData bs = Some d" and "byte_at bs 0 \<noteq> Some 0"
  shows "valid_headers bs" and "valid_checksum bs"
  using assms by (auto simp: decodeResponseData_def split: if_splits option.splits)

lemma decode_unchecked:
  assumes "\<not> (valid_headers bs \<and> valid_checksum bs)" and "byte_at bs 0 \<noteq> Some 0"
  shows "decodeResponseData bs = None"
  using decode_checked [OF _ assms(2)] assms(1) by (cases "decodeResponseData bs") blast+

lemma byte_at_update: "byte_at (bs[i := b]) j = (if j < length bs then Some (if i = j then b else bs ! j) else None)"
  by (auto simp: byte_at_def nth_list_update)

lemma mod_byte_shift:
  fixes x b r :: nat
  assumes "x < 256" and "b < 256" and "(r + b) mod 256 = (r + x) mod 256"
  shows "b = x"
proof -
  have "(int r + int b) mod 256 = (int r + int x) mod 256" 
    using arg_cong [OF assms(3), of int] by (simp add: zmod_int)
  then have "256 dvd ((int r + int b) - (int r + int x))" by (rule mod_eq_dvd_iff [THEN iffD1])
  then have "256 dvd (int b - int x)" by (simp only: add_diff_cancel_left)
  then obtain k where k: "int b - int x = 256 * k" by (rule dvdE)
  then have "- 1 < k" "k < 1" using assms(1,2) by linarith+
  then show ?thesis using k by simp
qed

lemma changed_sum:
  assumes "byte_list xs" and "i < length xs" and "b < 256" and "b \<noteq> xs ! i"
  shows "sum_list (xs[i := b]) mod 256 \<noteq> sum_list xs mod 256"
proof -
  let ?r = "sum_list (take i xs) + sum_list (drop (Suc i) xs)"
  have old: "sum_list xs = ?r + xs ! i"
    using arg_cong [OF id_take_nth_drop [OF assms(2)], of sum_list] by simp
  have new: "sum_list (xs[i := b]) = ?r + b"
    using assms(2) by (simp add: upd_conv_take_nth_drop)
  have "xs ! i < 256" using assms(1,2) by (simp add: byte_list_def list_all_length)
  then show ?thesis using assms(3,4) mod_byte_shift unfolding old new by blast
qed

lemma changed_byte_checksum:
  assumes "valid_checksum bs" and "byte_list bs" and "i < length bs - 2" and "b < 256" and "b \<noteq> bs ! i"
  shows "\<not> valid_checksum (bs[i := b])"
proof -
  let ?n = "length bs - 2"
  have n: "?n < length bs" "i < length (take ?n bs)" using assms(3) by simp_all
  have bl: "byte_list (take ?n bs)"
    using assms(2) by (auto simp: byte_list_def list_all_iff dest: in_set_takeD)
  have "sum_list ((take ?n bs)[i := b]) mod 256 \<noteq> sum_list (take ?n bs) mod 256"
    by (rule changed_sum [OF bl n(2) assms(4)]) (use assms(3,5) in simp)
  then show ?thesis
    using assms(1,3) n by (auto simp: valid_checksum_def byte_at_def take_update_swap)
qed

text \<open>C33 (a corrupted byte is rejected): when the decoder accepts a checked frame, changing any single
  byte of it, the end marker and the checksum included, makes the decoder drop the frame. The one
  exception is a first byte that becomes zero, which selects the unchecked DLMS format.\<close>

theorem corrupted_byte_rejected:
  assumes acc: "decodeResponseData bs = Some d" and dlms: "byte_at bs 0 \<noteq> Some 0" and bl: "byte_list bs"
    and i: "i < length bs" and b: "b < 256" "b \<noteq> bs ! i" and first: "i = 0 \<longrightarrow> b \<noteq> 0"
  shows "decodeResponseData (bs[i := b]) = None"
proof (rule decode_unchecked)
  note h = decode_checked(1) [OF acc dlms] and c = decode_checked(2) [OF acc dlms]
  have len: "8 \<le> length bs" using h by (auto simp: valid_headers_def byte_at_def split: if_splits)
  show "\<not> (valid_headers (bs[i := b]) \<and> valid_checksum (bs[i := b]))"
  proof (cases "i < length bs - 2")
    case True
    then show ?thesis using changed_byte_checksum [OF c bl True b] by blast
  next
    case False
    then consider "i = length bs - 1" | "i = length bs - 2" using i by linarith
    then show ?thesis
    proof cases
      case 1
      then show ?thesis
        using h b len by (auto simp: valid_headers_def byte_at_def)
    next
      case 2
      have "take (length bs - 2) (bs[i := b]) = take (length bs - 2) bs" using 2 by simp
      then show ?thesis using c b len 2 by (auto simp: valid_checksum_def byte_at_def)
    qed
  qed
  show "byte_at (bs[i := b]) 0 \<noteq> Some 0"
    using dlms first i by (auto simp: byte_at_def nth_list_update)
qed

definition example_ack_frame :: "nat list" where
  "example_ack_frame = frame [0x56, 0x34, 0x12, 0, 0x70, 0x04] 0x84 [0xC0, 0x3D] []"

theorem corrupted_byte_rejected_witness:
  "decodeResponseData (example_ack_frame[3 := 0x13]) = None \<and> decodeResponseData example_ack_frame \<noteq> None"
proof -
  have d: "\<exists>d. decodeResponseData example_ack_frame = Some d"
    unfolding example_ack_frame_def by (subst decode_frame) (simp_all add: CONTROL_CODE_MAP_def)
  then obtain d where d: "decodeResponseData example_ack_frame = Some d" by blast
  have f: "byte_at example_ack_frame 0 \<noteq> Some 0" "byte_list example_ack_frame"
    "3 < length example_ack_frame" "(0x13 :: nat) < 256" "(0x13 :: nat) \<noteq> example_ack_frame ! 3"
    by (simp_all add: example_ack_frame_def frame_bytes byte_at_def byte_list_simps add33H_byte END_BYTE_def)
  show ?thesis using corrupted_byte_rejected [OF d f] d by simp
qed

section \<open>Which requests can be encoded\<close>

fun bcd_range :: "int \<Rightarrow> bool" where
  "bcd_range v \<longleftrightarrow> 0 \<le> v \<and> v \<le> 99"

lemma toBcd_None: "toBcd v = None \<longleftrightarrow> \<not> bcd_range v"
  by (simp add: toBcd_def)

text \<open>A year is a calendar year when its two last digits can be printed and its date exists.\<close>

definition date_range :: "int \<Rightarrow> int \<Rightarrow> int \<Rightarrow> bool" where
  "date_range y mo d \<longleftrightarrow> bcd_range mo \<and> bcd_range d \<and> bcd_range (js_rem (full_year y) 100) \<and>
     utc_week_day (full_year y) (mo - 1) d \<noteq> None"

lemma encodeDateBytes_None: "encodeDateBytes y mo d = None \<longleftrightarrow> \<not> date_range y mo d"
proof -
  have "toBcd v \<noteq> None" if "utc_week_day (full_year y) (mo - 1) d = Some v" for v
    using that week_day_range order_trans [OF week_day_range(2), of 99]
    unfolding toBcd_None by (auto simp: utc_week_day_def utc_day_def Let_def split: if_splits)
  then show ?thesis
    using toBcd_None [of mo] toBcd_None [of d] toBcd_None [of "js_rem (full_year y) 100"]
    by (cases "utc_week_day (full_year y) (mo - 1) d")
       (auto simp: encodeDateBytes_def date_range_def Let_def simp del: bcd_range.simps split: option.splits)
qed

lemma make_day_bounds:
  assumes "100 \<le> y" and "y \<le> 9999" and "0 \<le> mi" and "mi < 12" and "0 \<le> d" and "d \<le> 99"
  shows "\<bar>make_day y mi d\<bar> \<le> 10 ^ 8"
proof -
  have m: "mi div 12 = 0" "mi mod 12 = mi" using assms(3,4) by simp_all
  have "nat mi < 12" using assms(3,4) by linarith
  then have "\<bar>month_offset (leap_year y) mi\<bar> \<le> 335"
    by (auto simp: month_offset_def less_Suc_eq numeral_eq_Suc)
  moreover have "\<bar>day_from_year y\<bar> \<le> 10 ^ 7"
  proof -
    have "- 10000 \<le> (y - 1969) div 4" "(y - 1969) div 4 \<le> 10000"
      "- 10000 \<le> (y - 1901) div 100" "(y - 1901) div 100 \<le> 10000"
      "- 10000 \<le> (y - 1601) div 400" "(y - 1601) div 400 \<le> 10000"
      using assms(1,2) by linarith+
    then show ?thesis using assms(1,2) unfolding day_from_year_def by (simp add: abs_le_iff)
  qed
  ultimately show ?thesis using assms(5,6) by (simp add: make_day_def m)
qed

lemma schema_date_range: "setDatePayloadSchema y mo d \<Longrightarrow> date_range y mo d"
proof -
  assume v: "setDatePayloadSchema y mo d"
  then have f: "100 \<le> full_year y" "full_year y \<le> 9999" by (auto simp: full_year_def)
  have "\<bar>make_day (full_year y) (mo - 1) d\<bar> \<le> 10 ^ 8" using v by (intro make_day_bounds f) auto
  moreover have "bcd_range (js_rem (full_year y) 100)"
    using f by (simp add: js_rem_def pos_mod_bound [THEN zless_imp_add1_zle, of 100, simplified])
  ultimately show ?thesis using v f by (simp add: date_range_def utc_week_day_def utc_day_def Let_def)
qed

lemma encodeTimeBytes_None:
  "encodeTimeBytes h mi s = None \<longleftrightarrow> \<not> (bcd_range h \<and> bcd_range mi \<and> pred_option bcd_range s)"
  using toBcd_None [of h] toBcd_None [of mi] toBcd_None [of "case s of None \<Rightarrow> 0 | Some v \<Rightarrow> v"]
  by (cases s) (auto simp: encodeTimeBytes_def split: option.splits)

definition hex_string :: "string \<Rightarrow> bool" where
  "hex_string s \<longleftrightarrow> s \<noteq> [] \<and> set s \<subseteq> set hex_digits \<and> even (length s)"

lemma hexToBytes_None: "hexToBytes s = None \<longleftrightarrow> \<not> hex_string s"
  by (auto simp: hexToBytes_def hex_string_def)

text \<open>What each command needs: a token command an even number of hex digits, a clock command its own
  payload with every part printable as two decimal digits; the plugin has no frame for
  \<open>READ_VERSION\<close> and for what is not a request.\<close>

definition encodable :: "commandType \<Rightarrow> string option \<Rightarrow> payload option \<Rightarrow> bool" where
  "encodable r token pl \<longleftrightarrow>
     (if isTokenCommand r then (case token of None \<Rightarrow> False | Some t \<Rightarrow> hex_string t)
      else if r = SET_DATE then
        (case pl of Some (SetDate y mo d) \<Rightarrow> date_range y mo d | _ \<Rightarrow> False)
      else if r = SET_TIME then
        (case pl of Some (SetTime h mi s) \<Rightarrow> bcd_range h \<and> bcd_range mi \<and> pred_option bcd_range s | _ \<Rightarrow> False)
      else r \<in> {TURN_ON, TURN_OFF, READ_CREDIT, READ_DATE, READ_TIME, READ_VOLTAGE, READ_POWER, READ_CURRENT})"

lemma config_None:
  "determineCommandConfig r token phase pl = None \<longleftrightarrow> \<not> encodable r token pl"
proof (cases "isTokenCommand r")
  case True
  then show ?thesis
    using hexToBytes_None by (auto simp: determineCommandConfig_def encodable_def hex_string_def split: option.splits)
next
  case False
  then show ?thesis
    by (cases r; simp add: determineCommandConfig_def encodable_def encodeDateBytes_None encodeTimeBytes_None
        del: bcd_range.simps split: option.split payload.split)
qed

lemma address_bytes_None:
  "address_bytes i = None \<longleftrightarrow> \<not> (length i \<le> 12 \<and> set i \<subseteq> set hex_digits)"
proof -
  have z: "CHR ''0'' \<in> set hex_digits" by (simp add: hex_digits_def)
  then have s: "set (pad_start 12 (CHR ''0'') i) \<subseteq> set hex_digits \<longleftrightarrow> set i \<subseteq> set hex_digits"
    by (auto simp: pad_start_def)
  have l: "length (pad_start 12 (CHR ''0'') i) = max 12 (length i)" by (rule length_pad_start)
  show ?thesis
  proof (cases "set i \<subseteq> set hex_digits \<and> even (max 12 (length i))")
    case True
    then have "hexToBytes (pad_start 12 (CHR ''0'') i) = Some (hex_pairs (pad_start 12 (CHR ''0'') i))"
      using s l by (auto simp: hexToBytes_def)
    then show ?thesis using True l by (auto simp: address_bytes_def length_hex_pairs max_def split: if_splits)
  next
    case False
    then have "hexToBytes (pad_start 12 (CHR ''0'') i) = None"
      unfolding hexToBytes_None hex_string_def s l by blast
    then show ?thesis using False by (auto simp: address_bytes_def max_def split: if_splits)
  qed
qed

lemma encoder_none:
  "encodeRequestData i phase r token pl = None \<longleftrightarrow>
     r \<noteq> READ_POWER_LIMIT \<and> \<not> (length i \<le> 12 \<and> set i \<subseteq> set hex_digits \<and> encodable r token pl)"
  using address_bytes_None [of i] config_None [of r token phase pl]
  by (auto simp: encodeRequestData_def encodeDlms_def split: option.splits)

text \<open>A request has a frame exactly when it is the fixed DLMS request, or when
  the meter reference is at most twelve hex digits and the command has what it needs. In every other
  case the encoder returns nothing, and never a partial frame.\<close>

lemma encoder_domain:
  "encodeRequestData i phase r token pl \<noteq> None \<longleftrightarrow>
     r = READ_POWER_LIMIT \<or> (length i \<le> 12 \<and> set i \<subseteq> set hex_digits \<and> encodable r token pl)"
  unfolding encoder_none by (simp only: de_Morgan_conj de_Morgan_disj not_not)

section \<open>Clock settings read back\<close>

definition two_digits :: "int \<Rightarrow> string" where
  "two_digits v = [digit (nat (v div 10)), digit (nat (v mod 10))]"

lemma hex_two_toBcd:
  assumes "toBcd v = Some b"
  shows "hex_two b = two_digits v"
proof -
  note n = toBcd_nibbles [OF assms]
  have "b div 16 mod 16 = nat (v div 10)" "b mod 16 = nat (v mod 10)"
    using n toBcd_byte [OF assms] by (simp_all add: less_mult_imp_div_less nat_eq_iff2)
  moreover have "nat (v div 10) < 10" "nat (v mod 10) < 10" using n(3,4) by linarith+
  ultimately show ?thesis by (simp add: hex_two_def two_digits_def hex_digit_def)
qed

lemma parse_written_byte: "toBcd v = Some b \<Longrightarrow> parseDateTimeByte (Some (add33H b)) = two_digits v"
  by (simp add: parseDateTimeByte_def subtract33H_opt_def bcdToString_def mask33.dec_enc toBcd_byte hex_two_toBcd)

text \<open>What a meter that stores the written bytes answers to \<open>READ_DATE\<close> or \<open>READ_TIME\<close>.\<close>

fun clock_answer :: "payload \<Rightarrow> (string \<times> jval) list" where
  "clock_answer (SetDate year month day) =
     [(''day'', JStr (two_digits day)), (''month'', JStr (two_digits month)),
      (''year'', JStr (''20'' @ two_digits (js_rem (full_year year) 100)))]"
| "clock_answer (SetTime hour minute second) =
     [(''hour'', JStr (two_digits hour)), (''minute'', JStr (two_digits minute)),
      (''second'', JStr (two_digits (case second of None \<Rightarrow> 0 | Some s \<Rightarrow> s)))]"

definition clock_set_command :: "payload \<Rightarrow> commandType" where
  "clock_set_command pl = (case pl of SetDate _ _ _ \<Rightarrow> SET_DATE | SetTime _ _ _ \<Rightarrow> SET_TIME)"

lemma decode_date_frame:
  assumes "length address = 6"
  shows "decodeResponseData (frame address 0x81 [0xC0, 0x10] w) =
    Some (decoded EXECUTION_SUCCESS (decodeReadDate (frame address 0x81 [0xC0, 0x10] w)) None)"
  by (rule decode_reading_frame [OF assms]) (simp_all add: DATA_PROCESSOR_MAP_def)

lemma decode_time_frame:
  assumes "length address = 6"
  shows "decodeResponseData (frame address 0x81 [0xC0, 0x11] w) =
    Some (decoded EXECUTION_SUCCESS (decodeReadTime (frame address 0x81 [0xC0, 0x11] w)) None)"
  by (rule decode_reading_frame [OF assms]) (simp_all add: DATA_PROCESSOR_MAP_def)

lemma frame_data_byte:
  assumes "length address = 6" and "length di = 2" and "i < length w"
  shows "byte_at (frame address cc di w) (12 + i) = Some (w ! i)"
proof -
  have "frame address cc di w ! (12 + i) = drop 12 (frame address cc di w) ! i"
    using frame_shape(6) [OF assms(1,2), of cc w] by simp
  then show ?thesis
    using assms(3) frame_shape(6,8) [OF assms(1,2), of cc w] by (simp add: byte_at_def nth_append)
qed

text \<open>C34 (a clock setting reads back): for every date or time that can be encoded, a meter that answers
  the read of the same identifier with exactly the masked bytes the set command wrote behind its four
  password bytes is decoded to the digits of the setting. Of the year only the two last digits are
  written, and it always reads back in the century of 2000.\<close>

theorem clock_setting_reads_back:
  assumes c: "determineCommandConfig (clock_set_command pl) token phase (Some pl) = Some c"
    and a: "length address = 6"
  shows "decodeResponseData (frame address 0x81 (cc_dataIdentifier c) (drop 4 (write_bytes c))) =
    Some (decoded EXECUTION_SUCCESS (clock_answer pl) None)"
proof (cases pl)
  case (SetDate y mo d)
  with c obtain by1 bm bd bw where b: "toBcd (js_rem (full_year y) 100) = Some by1" "toBcd mo = Some bm" "toBcd d = Some bd"
    and cc: "c = writing [0xC0, 0x10] [by1, bm, bd, bw]"
    by (auto simp: clock_set_command_def determineCommandConfig_def isTokenCommand_def isTypeIn_def
        command_group_defs encodeDateBytes_def Let_def split: option.splits)
  let ?w = "[add33H bw, add33H bd, add33H bm, add33H by1]"
  have f: "frame address 0x81 (cc_dataIdentifier c) (drop 4 (write_bytes c)) = frame address 0x81 [0xC0, 0x10] ?w"
    by (simp add: cc writing_def write_bytes_def)
  note byte = frame_data_byte [OF a, of "[0xC0, 0x10]" _ ?w "0x81", simplified]
  show ?thesis unfolding f decode_date_frame [OF a]
    using byte [of 1] byte [of 2] byte [of 3] b
    by (simp add: decodeReadDate_def SetDate parse_written_byte)
next
  case (SetTime h mi s)
  with c obtain bh bm bs where b: "toBcd h = Some bh" "toBcd mi = Some bm"
      "toBcd (case s of None \<Rightarrow> 0 | Some v \<Rightarrow> v) = Some bs"
    and cc: "c = writing [0xC0, 0x11] [bh, bm, bs]"
    by (auto simp: clock_set_command_def determineCommandConfig_def isTokenCommand_def isTypeIn_def
        command_group_defs encodeTimeBytes_def Let_def split: option.splits)
  let ?w = "[add33H bs, add33H bm, add33H bh]"
  have f: "frame address 0x81 (cc_dataIdentifier c) (drop 4 (write_bytes c)) = frame address 0x81 [0xC0, 0x11] ?w"
    by (simp add: cc writing_def write_bytes_def)
  note byte = frame_data_byte [OF a, of "[0xC0, 0x11]" _ ?w "0x81", simplified]
  show ?thesis unfolding f decode_time_frame [OF a]
    using byte [of 0] byte [of 1] byte [of 2] b
    by (simp add: decodeReadTime_def SetTime parse_written_byte)
qed

theorem clock_setting_reads_back_witness:
  "decodeResponseData (frame [1, 2, 3, 4, 5, 6] 0x81 [0xC0, 0x10]
     (rev (map add33H [0x26, 0x02, 0x28, 0x06]))) =
   Some (decoded EXECUTION_SUCCESS
     [(''day'', JStr ''28''), (''month'', JStr ''02''), (''year'', JStr ''2026'')] None)"
proof -
  have c: "determineCommandConfig (clock_set_command (SetDate 2026 2 28)) None PhaseA (Some (SetDate 2026 2 28)) =
      Some (writing [0xC0, 0x10] [0x26, 0x02, 0x28, 0x06])"
    by code_simp
  have s: "clock_answer (SetDate 2026 2 28) =
      [(''day'', JStr ''28''), (''month'', JStr ''02''), (''year'', JStr ''2026'')]"
    by code_simp
  show ?thesis
    using clock_setting_reads_back [OF c, of "[1, 2, 3, 4, 5, 6]"] unfolding s
    by (simp add: writing_def write_bytes_def)
qed

section \<open>Readings\<close>

text \<open>The \<open>n\<close> BCD bytes of a number, the two lowest digits first, as the meter sends them.\<close>

fun bcd_bytes :: "nat \<Rightarrow> nat \<Rightarrow> nat list" where
  "bcd_bytes 0 v = []"
| "bcd_bytes (Suc n) v = (16 * (v mod 100 div 10) + v mod 10) # bcd_bytes n (v div 100)"

lemma length_bcd_bytes: "length (bcd_bytes n v) = n"
  by (induction n arbitrary: v) simp_all

lemma bcd_digit: "d < 10 \<Longrightarrow> nat_to_string d = [digit d]"
  by (subst nat_to_string.simps) simp

lemma bcd_nibbles:
  fixes v :: nat
  shows "(16 * (v mod 100 div 10) + v mod 10) div 16 mod 16 = v mod 100 div 10"
    and "(16 * (v mod 100 div 10) + v mod 10) mod 16 = v mod 10" and "v mod 100 div 10 < 10"
  using less_mult_imp_div_less [of "v mod 100" 10 10] mod_less_divisor [of 10 v]
  by simp_all

lemma byte_list_bcd_bytes: "byte_list (bcd_bytes n v)"
proof (induction n arbitrary: v)
  case (Suc n)
  have "v mod 100 div 10 < 10" "v mod 10 < 10" using bcd_nibbles(3) by simp_all
  then have "16 * (v mod 100 div 10) + v mod 10 < 256" by linarith
  then show ?case using Suc by (simp add: byte_list_simps)
qed (simp add: byte_list_simps)

lemma string_to_nat_bcd_text: "v < 100 ^ n \<Longrightarrow> string_to_nat (bcd_text (bcd_bytes n v)) = v"
proof (induction n arbitrary: v)
  case (Suc n)
  let ?t = "v mod 100 div 10"
  have "v div 100 < 100 ^ n" using Suc.prems by (simp add: less_mult_imp_div_less mult.commute)
  then have ih: "string_to_nat (bcd_text (bcd_bytes n (v div 100))) = v div 100" by (rule Suc.IH)
  have "bcd_text (bcd_bytes (Suc n) v) =
      (bcd_text (bcd_bytes n (v div 100)) @ [digit ?t]) @ [digit (v mod 10)]"
    by (simp add: bcd_text_def bcd_nibbles bcd_digit)
  then have "string_to_nat (bcd_text (bcd_bytes (Suc n) v)) = 10 * (10 * (v div 100) + ?t) + v mod 10"
    by (simp only: string_to_nat_snoc ih of_char_digit bcd_nibbles(3)) (simp add: of_char_digit)
  also have "\<dots> = 100 * (v div 100) + (10 * ?t + v mod 10)" by simp
  also have "10 * ?t + v mod 10 = v mod 100"
    using mult_div_mod_eq [of 10 "v mod 100"] by (simp add: mod_mod_cancel)
  finally show ?case by (simp only: mult_div_mod_eq)
qed (simp add: bcd_text_def string_to_nat_def)

lemma bcdToInteger_bcd_bytes:
  assumes "v < 100 ^ n" and "0 < n"
  shows "bcdToInteger (bcd_bytes n v) = Some v"
proof -
  have "bcd_text (bcd_bytes n v) \<noteq> []" using assms(2) by (cases n) (simp_all add: bcd_text_def)
  then show ?thesis using string_to_nat_bcd_text [OF assms(1)] by (simp add: bcdToInteger_def)
qed

lemma masked_bcd:
  assumes "v < 100 ^ n" and "0 < n"
  shows "bcdToInteger (map subtract33H (map add33H (bcd_bytes n v))) = Some v"
  unfolding mask33.dec_enc_map [OF byte_list_bcd_bytes] by (rule bcdToInteger_bcd_bytes [OF assms])

lemma frame_subarray:
  assumes "length address = 6" and "length di = 2" and "i + n \<le> length w"
  shows "subarray (12 + i) (12 + i + n) (frame address cc di w) = take n (drop i w)"
proof -
  have "drop (12 + i) (frame address cc di w) = drop i (drop 12 (frame address cc di w))"
    by (simp add: add.commute)
  also have "\<dots> = drop i w @ [sum_list (frame_body address cc di w) mod 256, END_BYTE]"
    using frame_shape(8) [OF assms(1,2), of cc w] assms(3) by simp
  finally show ?thesis using assms(3) by (simp add: subarray_def)
qed

lemma decode_reading_by_identifier:
  assumes "length address = 6" and "DATA_PROCESSOR_MAP (int (256 * d0 + d1)) = Some parser"
    and "d0 < 256" "d1 < 256" "256 * d0 + d1 \<noteq> 0xC111"
    and "parser (frame address 0x81 [d0, d1] w) = data"
  shows "decodeResponseData (frame address 0x81 [d0, d1] w) = Some (decoded EXECUTION_SUCCESS data None)"
  using decode_reading_frame [OF assms(1,3,4,2,5), of w] assms(6) by simp

text \<open>Name, skipped bytes, BCD bytes and scale of the answer to a phase-specific read.\<close>

definition reading_format :: "commandType \<Rightarrow> (string \<times> nat \<times> nat \<times> num) option" where
  "reading_format r =
     (case r of READ_VOLTAGE \<Rightarrow> Some (''voltage'', 1, 3, 100)
      | READ_POWER \<Rightarrow> Some (''power'', 0, 4, 10)
      | READ_CURRENT \<Rightarrow> Some (''current'', 0, 2, 100)
      | _ \<Rightarrow> None)"

lemma reading_parser:
  assumes a: "length address = 6" and f: "reading_format r = Some (name, skip, width, d)"
    and v: "v < 100 ^ width" and pre: "length pre = skip"
    and c: "determineCommandConfig r token phase pl = Some c"
  defines "di \<equiv> cc_dataIdentifier c"
  shows "length di = 2 \<and> byte_list di \<and> 256 * di ! 0 + di ! 1 \<noteq> 0xC111 \<and>
    map_option (\<lambda>parser. parser (frame address 0x81 di (pre @ map add33H (bcd_bytes width v))))
        (DATA_PROCESSOR_MAP (int (256 * di ! 0 + di ! 1))) =
      Some [(name, JNum (of_nat v / d)), phase_json phase]"
proof -
  have sub: "bcdToInteger (map subtract33H (subarray (12 + skip) (12 + skip + width)
      (frame address 0x81 di (pre @ map add33H (bcd_bytes width v))))) = Some v" if "length di = 2" for di
    using frame_subarray [OF a that, of skip width "pre @ map add33H (bcd_bytes width v)" "0x81"]
      masked_bcd [OF v] f pre
    by (auto simp: length_bcd_bytes reading_format_def split: commandType.splits)
  note decode_defs = js_number_def scaled_def DATA_PROCESSOR_MAP_def reading_def byte_list_simps
    determineCommandConfig_def isTokenCommand_def isTypeIn_def command_group_defs di_def
  consider "r = READ_VOLTAGE" | "r = READ_POWER" | "r = READ_CURRENT"
    using f by (auto simp: reading_format_def split: commandType.splits)
  then show ?thesis
  proof cases
    case 1
    with c f sub show ?thesis
      by (cases phase) (auto simp: decode_defs reading_format_def decodeReadVoltage_def)
  next
    case 2
    with c f sub show ?thesis
      by (cases phase) (auto simp: decode_defs reading_format_def decodeReadPower_def)
  next
    case 3
    with c f sub show ?thesis
      by (cases phase) (auto simp: decode_defs reading_format_def decodeReadCurrent_def)
  qed
qed

text \<open>C35 (readings): for the identifier that a voltage, power or current read sends for a phase, an
  answer that carries the value in masked BCD, least significant byte first, is decoded to that value,
  scaled to volts, watts or amperes and labelled with the phase, for every value that fits the field.\<close>

theorem meter_reading_decoded:
  assumes a: "length address = 6" and f: "reading_format r = Some (name, skip, width, d)"
    and v: "v < 100 ^ width" and pre: "length pre = skip"
    and c: "determineCommandConfig r token phase pl = Some c"
  shows "decodeResponseData (frame address 0x81 (cc_dataIdentifier c)
      (pre @ map add33H (bcd_bytes width v))) =
    Some (decoded EXECUTION_SUCCESS [(name, JNum (of_nat v / d)), phase_json phase] None)"
proof -
  note p = reading_parser [OF assms]
  obtain d0 d1 where di: "cc_dataIdentifier c = [d0, d1]" using two_bytes p by blast
  with p obtain parser where
    "DATA_PROCESSOR_MAP (int (256 * d0 + d1)) = Some parser"
    "parser (frame address 0x81 [d0, d1] (pre @ map add33H (bcd_bytes width v))) =
      [(name, JNum (of_nat v / d)), phase_json phase]"
    by (auto simp del: of_nat_add of_nat_mult)
  note pr = this
  have "d0 < 256" "d1 < 256" "256 * d0 + d1 \<noteq> 0xC111" using p di by (simp_all add: byte_list_simps)
  from decode_reading_frame [OF a this(1,2) pr(1) this(3)] show ?thesis unfolding di by (simp only: pr(2))
qed

theorem meter_reading_decoded_witness:
  "decodeResponseData (frame [1, 2, 3, 4, 5, 6] 0x81 [0xB6, 0x12] ([0x33] @ map add33H (bcd_bytes 3 23015))) =
   Some (decoded EXECUTION_SUCCESS [(''voltage'', JNum (of_nat 23015 / 100)), phase_json PhaseB] None)"
proof -
  have c: "determineCommandConfig READ_VOLTAGE None PhaseB None = Some (reading [0xB6, 0x12])" by code_simp
  have f: "reading_format READ_VOLTAGE = Some (''voltage'', 1, 3, 100)" by (simp add: reading_format_def)
  show ?thesis
    using meter_reading_decoded [OF _ f _ _ c, of "[1, 2, 3, 4, 5, 6]" 23015 "[0x33]"]
    by (simp add: reading_def del: bcd_bytes.simps)
qed

text \<open>What the report counters hold: four little-endian bytes are combined by signed 32-bit shifts, so a
  counter of \<open>2 ^ 31\<close> or more comes out negative.\<close>

text \<open>The four masked little-endian bytes of a report counter are decoded to the
  number the meter sent when it is below \<open>2 ^ 31\<close>, and to that number minus \<open>2 ^ 32\<close> when it is not:
  the shift of the top byte works on signed 32-bit integers.\<close>

lemma report_counter_signed:
  assumes "b0 < 256" and "b1 < 256" and "b2 < 256" and "b3 < 256"
  shows "reverseAndCombine (map add33H [b0, b1, b2, b3]) =
    int (b0 + 2 ^ 8 * b1 + 2 ^ 16 * b2 + 2 ^ 24 * b3) - (if 128 \<le> b3 then 2 ^ 32 else 0)"
proof -
  have e: "shl32 b 0 = int b" "shl32 b 8 = int (b * 2 ^ 8)" "shl32 b 16 = int (b * 2 ^ 16)" if "b < 256" for b
    using that by (simp_all add: shl32_exact)
  have "shl32 b3 24 = int (b3 * 2 ^ 24) - (if 128 \<le> b3 then 2 ^ 32 else 0)"
    using assms(4) by (simp add: shl32_top shl32_exact)
  then show ?thesis
    using e [OF assms(1)] e [OF assms(2)] e [OF assms(3)] assms
    by (simp add: reverseAndCombine_def mask33.dec_enc)
qed

lemma report_counter_signed_witness:
  "reverseAndCombine (map add33H [0, 0, 0, 0x80]) = - 2147483648"
  using report_counter_signed [of 0 0 0 "0x80"] by simp

end
