(* ===== verification/Correlator_Claims.thy ===== *)
theory Correlator_Claims
  imports Correlator "HOL-Library.Multiset"
begin

text \<open>
  The correlator against its specification: what it emits is the set of pairs of halves that arrived, in
  whatever order, as long as the two halves of a pair arrive within the lifetime of an entry; what is
  left behind is bounded by the collector.
\<close>

section \<open>Histories of well-behaved senders\<close>

fun ack_of :: "(time \<times> correlation_step) list \<Rightarrow> string \<Rightarrow> (time \<times> string) option" where
  "ack_of [] d = None"
| "ack_of ((t, st) # evs) d =
     (case st of AckArrives d' q \<Rightarrow> if d' = d then Some (t, q) else ack_of evs d | _ \<Rightarrow> ack_of evs d)"

fun up_of :: "(time \<times> correlation_step) list \<Rightarrow> string \<Rightarrow> (time \<times> decodedEvent \<times> device) option" where
  "up_of [] d = None"
| "up_of ((t, st) # evs) d =
     (case st of UpArrives d' c v \<Rightarrow> if d' = d then Some (t, c, v) else up_of evs d | _ \<Rightarrow> up_of evs d)"

text \<open>Time does not run backwards, acknowledgements name a queue item (\<open>handleAck\<close> drops others), and
  neither half of a pair arrives twice.\<close>

fun orderly :: "(time \<times> correlation_step) list \<Rightarrow> bool" where
  "orderly [] \<longleftrightarrow> True"
| "orderly ((t, st) # evs) \<longleftrightarrow> list_all (\<lambda>(t', _). t' \<le> t) evs \<and> orderly evs \<and>
     (case st of AckArrives d q \<Rightarrow> q \<noteq> [] \<and> ack_of evs d = None
      | UpArrives d c v \<Rightarrow> up_of evs d = None
      | CollectorRuns \<Rightarrow> True)"

lemma ack_of_in: "ack_of evs d = Some (t, q) \<Longrightarrow> (t, AckArrives d q) \<in> set evs"
  by (induction evs d rule: ack_of.induct) (auto split: correlation_step.splits if_splits)

lemma up_of_in: "up_of evs d = Some (t, c, v) \<Longrightarrow> (t, UpArrives d c v) \<in> set evs"
  by (induction evs d rule: up_of.induct) (auto split: correlation_step.splits if_splits)

lemma ack_of_total: "(t, AckArrives d q) \<in> set evs \<Longrightarrow> ack_of evs d \<noteq> None"
  by (induction evs) (auto split: correlation_step.splits)

lemma up_of_total: "(t, UpArrives d c v) \<in> set evs \<Longrightarrow> up_of evs d \<noteq> None"
  by (induction evs) (auto split: correlation_step.splits)

lemma in_ack_of: "orderly evs \<Longrightarrow> (t, AckArrives d q) \<in> set evs \<Longrightarrow> ack_of evs d = Some (t, q)"
  by (induction evs) (auto split: correlation_step.splits dest: ack_of_total)

lemma in_up_of: "orderly evs \<Longrightarrow> (t, UpArrives d c v) \<in> set evs \<Longrightarrow> up_of evs d = Some (t, c, v)"
  by (induction evs) (auto split: correlation_step.splits dest: up_of_total)

lemma arrived_ack_of: "orderly evs \<Longrightarrow> arrived evs (AckArrives d q) \<longleftrightarrow> (\<exists>t. ack_of evs d = Some (t, q))"
  unfolding arrived_in using in_ack_of ack_of_in by metis

lemma arrived_up_of: "orderly evs \<Longrightarrow> arrived evs (UpArrives d c v) \<longleftrightarrow> (\<exists>t. up_of evs d = Some (t, c, v))"
  unfolding arrived_in using in_up_of up_of_in by metis

text \<open>The halves of a pair arrive within the lifetime of an entry.\<close>

definition timely :: "(time \<times> correlation_step) list \<Rightarrow> bool" where
  "timely evs \<longleftrightarrow> list_all (\<lambda>(t, st). case st of
       AckArrives d q \<Rightarrow> (case up_of evs d of None \<Rightarrow> True | Some (t', _) \<Rightarrow> \<bar>t - t'\<bar> \<le> CORRELATION_TTL_MS)
     | _ \<Rightarrow> True) evs"

lemma timely_pair:
  "timely evs \<Longrightarrow> ack_of evs d = Some (t, q) \<Longrightarrow> up_of evs d = Some (t', c, v) \<Longrightarrow> \<bar>t - t'\<bar> \<le> CORRELATION_TTL_MS"
  by (drule ack_of_in) (force simp: timely_def list_all_iff)

lemma timely_tail:
  assumes ti: "timely ((t, st) # evs)" and o: "orderly ((t, st) # evs)"
  shows "timely evs"
proof -
  have "\<bar>t1 - t'\<bar> \<le> CORRELATION_TTL_MS"
    if 1: "(t1, AckArrives d q) \<in> set evs" and 2: "up_of evs d = Some (t', c, v)" for t1 d q t' c v
  proof (rule timely_pair [OF ti])
    show "ack_of ((t, st) # evs) d = Some (t1, q)" by (rule in_ack_of [OF o]) (use 1 in simp)
    show "up_of ((t, st) # evs) d = Some (t', c, v)" by (rule in_up_of [OF o]) (use up_of_in [OF 2] in simp)
  qed
  then show ?thesis by (auto simp: timely_def list_all_iff split: correlation_step.split option.split)
qed

section \<open>The specification\<close>

text \<open>The entry that waits for its other half, and the pairs that are complete.\<close>

definition awaited :: "(time \<times> correlation_step) list \<Rightarrow> string \<Rightarrow> correlationEntry option" where
  "awaited evs d =
     (case (ack_of evs d, up_of evs d) of
        (Some (t, q), None) \<Rightarrow> Some (ack_entry t q)
      | (None, Some (t, c, v)) \<Rightarrow> Some (up_entry t c v)
      | _ \<Rightarrow> None)"

definition pair_of :: "(time \<times> correlation_step) list \<Rightarrow> string \<Rightarrow> parsedIncomingEvent option" where
  "pair_of evs d =
     (case (ack_of evs d, up_of evs d) of
        (Some (_, q), Some (_, c, v)) \<Rightarrow> Some (joined_event q c v)
      | _ \<Rightarrow> None)"

lemma pairs_iff:
  assumes "orderly evs"
  shows "(d, j) \<in> pairs evs \<longleftrightarrow> pair_of evs d = Some j"
  unfolding pairs_def arrived_ack_of [OF assms] arrived_up_of [OF assms] pair_of_def
  by (auto split: option.split)

lemma pairs_same:
  "orderly evs \<Longrightarrow> orderly evs' \<Longrightarrow> (\<And>x. pair_of evs' x = pair_of evs x) \<Longrightarrow> pairs evs' = pairs evs"
  by (rule set_eqI) (simp add: split_paired_all pairs_iff)

lemma pairs_insert:
  assumes "orderly evs" and "orderly evs'" and "pair_of evs d = None"
    and "\<And>x. pair_of evs' x = (if x = d then Some j else pair_of evs x)"
  shows "pairs evs' = insert (d, j) (pairs evs)"
  by (rule set_eqI) (use assms in \<open>auto simp: split_paired_all pairs_iff\<close>)

definition fresh_at :: "(time \<times> correlation_step) list \<Rightarrow> correlationEntry \<Rightarrow> bool" where
  "fresh_at evs e \<longleftrightarrow> list_all (\<lambda>(t, _). t \<le> ce_timestamp e + CORRELATION_TTL_MS) evs"

lemma fresh_at_Cons: "fresh_at ((t, st) # evs) e \<longleftrightarrow> t \<le> ce_timestamp e + CORRELATION_TTL_MS \<and> fresh_at evs e"
  by (simp add: fresh_at_def)

lemma fresh_now:
  "orderly ((t, st) # evs) \<Longrightarrow> t \<le> ce_timestamp e + CORRELATION_TTL_MS \<Longrightarrow> fresh_at evs e"
  by (force simp: fresh_at_def list_all_iff)

definition joins :: "(time \<times> correlation_step) list \<Rightarrow> bool" where
  "joins evs \<longleftrightarrow> (case correlator_run evs of (out, p) \<Rightarrow>
     distinct (map fst p) \<and>
     (\<forall>d e. map_of p d = Some e \<longrightarrow> awaited evs d = Some e) \<and>
     (\<forall>d e. awaited evs d = Some e \<longrightarrow> fresh_at evs e \<longrightarrow> map_of p d = Some e) \<and>
     set out = pairs evs \<and> distinct (map fst out))"

lemma joinsD:
  assumes "joins evs" and "correlator_run evs = (out, p)"
  shows "distinct (map fst p)" and "map_of p d = Some e \<Longrightarrow> awaited evs d = Some e"
    and "awaited evs d = Some e \<Longrightarrow> fresh_at evs e \<Longrightarrow> map_of p d = Some e"
    and "set out = pairs evs" and "distinct (map fst out)"
  using assms(1) unfolding joins_def assms(2) prod.case by blast+

lemma joinsI:
  assumes "correlator_run evs = (out, p)" and "distinct (map fst p)"
    and "\<And>d e. map_of p d = Some e \<Longrightarrow> awaited evs d = Some e"
    and "\<And>d e. awaited evs d = Some e \<Longrightarrow> fresh_at evs e \<Longrightarrow> map_of p d = Some e"
    and "set out = pairs evs" and "distinct (map fst out)"
  shows "joins evs"
  unfolding joins_def assms(1) prod.case using assms(2-) by blast

text \<open>A half that waits, and a half that completes its pair.\<close>

lemma joins_added:
  assumes "joins evs" and "correlator_run evs = (out, p)"
    and run: "correlator_run (ev # evs) = (out, AList.update d e0 p)"
    and same: "\<And>x. x \<noteq> d \<Longrightarrow> awaited (ev # evs) x = awaited evs x"
    and aw: "awaited (ev # evs) d = Some e0" and pr: "pairs (ev # evs) = pairs evs"
  shows "joins (ev # evs)"
proof -
  note i = joinsD [OF assms(1,2)]
  have A: "awaited (ev # evs) x = Some e" if "map_of (AList.update d e0 p) x = Some e" for x e
    using that i(2) [of x e] same [of x] aw by (cases "x = d") (simp_all add: update_conv')
  have B: "map_of (AList.update d e0 p) x = Some e"
    if "awaited (ev # evs) x = Some e" "fresh_at (ev # evs) e" for x e
    using that i(3) [of x e] same [of x] aw
    by (cases "x = d"; cases ev) (simp_all add: update_conv' fresh_at_Cons)
  show ?thesis by (rule joinsI [OF run distinct_update [OF i(1)] A B]) (simp_all only: pr i(4,5))
qed

lemma joins_joined:
  assumes "joins evs" and "correlator_run evs = (out, p)"
    and run: "correlator_run (ev # evs) = ((d, j) # out, AList.delete d p)"
    and same: "\<And>x. x \<noteq> d \<Longrightarrow> awaited (ev # evs) x = awaited evs x"
    and aw: "awaited (ev # evs) d = None" and pr: "pairs (ev # evs) = insert (d, j) (pairs evs)"
    and new: "\<not> (\<exists>e. (d, e) \<in> pairs evs)"
  shows "joins (ev # evs)"
proof -
  note i = joinsD [OF assms(1,2)]
  have A: "awaited (ev # evs) x = Some e" if "map_of (AList.delete d p) x = Some e" for x e
    using that i(2) [of x e] same [of x] by (cases "x = d") (simp_all add: delete_conv')
  have B: "map_of (AList.delete d p) x = Some e"
    if "awaited (ev # evs) x = Some e" "fresh_at (ev # evs) e" for x e
    using that i(3) [of x e] same [of x] aw
    by (cases "x = d"; cases ev) (simp_all add: delete_conv' fresh_at_Cons)
  have S: "set ((d, j) # out) = pairs (ev # evs)" by (simp only: list.set pr i(4))
  have D: "distinct (map fst ((d, j) # out))"
    using new i(5) unfolding i(4) [symmetric] by auto
  show ?thesis by (rule joinsI [OF run distinct_keys_delete [OF i(1)] A B S D])
qed

lemma orderly_named: "orderly evs \<Longrightarrow> ack_of evs d = Some (t, q) \<Longrightarrow> q \<noteq> []"
  by (induction evs d rule: ack_of.induct) (auto split: correlation_step.splits if_splits)

lemma joins_ack:
  assumes ih: "joins evs" and o: "orderly ((t, AckArrives d q) # evs)" and ti: "timely ((t, AckArrives d q) # evs)"
  shows "joins ((t, AckArrives d q) # evs)"
proof -
  obtain out p where r: "correlator_run evs = (out, p)" by force
  have oe: "orderly evs" and na: "ack_of evs d = None" using o by simp_all
  have same: "awaited ((t, AckArrives d q) # evs) x = awaited evs x" if "x \<noteq> d" for x
    using that by (simp add: awaited_def)
  show ?thesis
  proof (cases "up_of evs d")
    case None
    have "awaited evs d = None" using na None by (simp add: awaited_def)
    then have "map_of p d = None" using joinsD(2) [OF ih r, of d] by (cases "map_of p d") auto
    then show ?thesis
    proof (intro joins_added [OF ih r _ same])
      show "correlator_run ((t, AckArrives d q) # evs) = (out, AList.update d (ack_entry t q) p)"
        using r \<open>map_of p d = None\<close> by (simp add: correlate_def onAckEvent_def Let_def)
      show "awaited ((t, AckArrives d q) # evs) d = Some (ack_entry t q)" using None by (simp add: awaited_def)
      show "pairs ((t, AckArrives d q) # evs) = pairs evs"
        by (rule pairs_same [OF oe o]) (use na None in \<open>auto simp: pair_of_def\<close>)
    qed
  next
    case (Some u)
    then obtain t' c v where u: "up_of evs d = Some (t', c, v)" by (cases u) auto
    have aw: "awaited evs d = Some (up_entry t' c v)" using na u by (simp add: awaited_def)
    have "\<bar>t - t'\<bar> \<le> CORRELATION_TTL_MS" using timely_pair [OF ti, of d t q t' c v] u by simp
    then have "fresh_at evs (up_entry t' c v)" by (intro fresh_now [OF o]) simp
    then have m: "map_of p d = Some (up_entry t' c v)" using joinsD(3) [OF ih r aw] by simp
    show ?thesis
    proof (rule joins_joined [OF ih r _ same])
      show "correlator_run ((t, AckArrives d q) # evs) = ((d, joined_event q c v) # out, AList.delete d p)"
        using r m by (simp add: correlate_def onAckEvent_def Let_def)
      show "awaited ((t, AckArrives d q) # evs) d = None" using u by (simp add: awaited_def)
      show "pairs ((t, AckArrives d q) # evs) = insert (d, joined_event q c v) (pairs evs)"
        by (rule pairs_insert [OF oe o]) (use na u in \<open>auto simp: pair_of_def\<close>)
      show "\<not> (\<exists>e. (d, e) \<in> pairs evs)" using na by (simp add: pairs_iff [OF oe] pair_of_def split: option.split)
    qed
  qed
qed

lemma joins_up:
  assumes ih: "joins evs" and o: "orderly ((t, UpArrives d c v) # evs)" and ti: "timely ((t, UpArrives d c v) # evs)"
  shows "joins ((t, UpArrives d c v) # evs)"
proof -
  obtain out p where r: "correlator_run evs = (out, p)" by force
  have oe: "orderly evs" and na: "up_of evs d = None" using o by simp_all
  have same: "awaited ((t, UpArrives d c v) # evs) x = awaited evs x" if "x \<noteq> d" for x
    using that by (simp add: awaited_def)
  show ?thesis
  proof (cases "ack_of evs d")
    case None
    have "awaited evs d = None" using na None by (simp add: awaited_def)
    then have "map_of p d = None" using joinsD(2) [OF ih r, of d] by (cases "map_of p d") auto
    then show ?thesis
    proof (intro joins_added [OF ih r _ same])
      show "correlator_run ((t, UpArrives d c v) # evs) = (out, AList.update d (up_entry t c v) p)"
        using r \<open>map_of p d = None\<close> by (simp add: correlate_def onUpEvent_def)
      show "awaited ((t, UpArrives d c v) # evs) d = Some (up_entry t c v)" using None by (simp add: awaited_def)
      show "pairs ((t, UpArrives d c v) # evs) = pairs evs"
        by (rule pairs_same [OF oe o]) (use na None in \<open>auto simp: pair_of_def\<close>)
    qed
  next
    case (Some u)
    then obtain t' q where u: "ack_of evs d = Some (t', q)" by (cases u) auto
    have q: "q \<noteq> []" by (rule orderly_named [OF oe u])
    have aw: "awaited evs d = Some (ack_entry t' q)" using na u by (simp add: awaited_def)
    have "\<bar>t' - t\<bar> \<le> CORRELATION_TTL_MS" using timely_pair [OF ti, of d t' q t c v] u by simp
    then have "fresh_at evs (ack_entry t' q)" by (intro fresh_now [OF o]) simp
    then have m: "map_of p d = Some (ack_entry t' q)" using joinsD(3) [OF ih r aw] by simp
    show ?thesis
    proof (rule joins_joined [OF ih r _ same])
      show "correlator_run ((t, UpArrives d c v) # evs) = ((d, joined_event q c v) # out, AList.delete d p)"
        using r m q by (simp add: correlate_def onUpEvent_def split: list.split)
      show "awaited ((t, UpArrives d c v) # evs) d = None" using u by (simp add: awaited_def)
      show "pairs ((t, UpArrives d c v) # evs) = insert (d, joined_event q c v) (pairs evs)"
        by (rule pairs_insert [OF oe o]) (use na u in \<open>auto simp: pair_of_def\<close>)
      show "\<not> (\<exists>e. (d, e) \<in> pairs evs)" using na by (simp add: pairs_iff [OF oe] pair_of_def split: option.split)
    qed
  qed
qed

lemma joins_collector:
  assumes ih: "joins evs" and o: "orderly ((t, CollectorRuns) # evs)"
  shows "joins ((t, CollectorRuns) # evs)"
proof -
  obtain out p where r: "correlator_run evs = (out, p)" by force
  note i = joinsD [OF ih r]
  have run: "correlator_run ((t, CollectorRuns) # evs) = (out, runGarbageCollection t p)"
    using r by (simp add: correlate_def)
  have pr: "pairs ((t, CollectorRuns) # evs) = pairs evs" by (simp add: pairs_def)
  have aw: "awaited ((t, CollectorRuns) # evs) d = awaited evs d" for d by (simp add: awaited_def)
  have A: "awaited ((t, CollectorRuns) # evs) d = Some e" if "map_of (runGarbageCollection t p) d = Some e" for d e
    using that i(2) [of d e] by (simp add: aw gc_lookup [OF i(1)] split: option.splits if_splits)
  have B: "map_of (runGarbageCollection t p) d = Some e"
    if "awaited ((t, CollectorRuns) # evs) d = Some e" "fresh_at ((t, CollectorRuns) # evs) e" for d e
    using that i(3) [of d e] by (simp add: aw gc_lookup [OF i(1)] fresh_at_Cons)
  have K: "distinct (map fst (runGarbageCollection t p))"
    unfolding runGarbageCollection_def by (rule distinct_filter_keys [OF i(1)])
  show ?thesis by (rule joinsI [OF run K A B]) (simp_all only: pr i(4,5))
qed

lemma run_joins: "orderly evs \<Longrightarrow> timely evs \<Longrightarrow> joins evs"
proof (induction evs)
  case Nil
  show ?case by (simp add: joins_def awaited_def pairs_def)
next
  case (Cons ev evs)
  obtain t st where ev: "ev = (t, st)" by force
  have "joins evs" using Cons timely_tail [of t st evs] by (simp add: ev)
  then show ?case
    using Cons.prems joins_ack joins_up joins_collector unfolding ev by (cases st) blast+
qed

section \<open>Claims\<close>

lemma emitted_pairs:
  assumes "orderly evs" and "timely evs"
  shows "set (fst (correlator_run evs)) = pairs evs" and "distinct (map fst (fst (correlator_run evs)))"
  using run_joins [OF assms] by (auto simp: joins_def split: prod.splits)

text \<open>C31 (the correlator joins every pair once): over any history in which time does not run backwards,
  neither half arrives twice and the halves of a pair arrive within ten seconds of each other, however
  they are interleaved with each other and with the collector, exactly the pairs are emitted whose two
  halves arrived, each once, and nothing else.\<close>

theorem correlator_joins_pairs:
  assumes "orderly evs" and "timely evs"
  shows "set (fst (correlator_run evs)) = {(d, joined_event q c v) | d q c v.
        arrived evs (AckArrives d q) \<and> arrived evs (UpArrives d c v)} \<and>
      distinct (map fst (fst (correlator_run evs)))"
  using emitted_pairs [OF assms] by (simp add: pairs_def)

definition example_answer :: decodedEvent where
  "example_answer = \<lparr>de_status = EXECUTION_SUCCESS, de_data = [(''tokenAccepted'', JBool True)],
     de_failureContext = None, de_unsolicitedEventType = None\<rparr>"

definition example_meter :: device where
  "example_meter = \<lparr>dev_type = ELECTRICITY_METER, dev_externalReference = ''47000123456'',
     dev_relayNode = None\<rparr>"

definition ack_first :: "(time \<times> correlation_step) list" where
  "ack_first = [(300, UpArrives ''d1'' example_answer example_meter), (200, CollectorRuns),
     (100, AckArrives ''d1'' ''q1'')]"

definition up_first :: "(time \<times> correlation_step) list" where
  "up_first = [(300, AckArrives ''d1'' ''q1''), (200, CollectorRuns),
     (100, UpArrives ''d1'' example_answer example_meter)]"

lemma example_histories:
  "orderly ack_first" "timely ack_first" "orderly up_first" "timely up_first"
  by (simp_all add: ack_first_def up_first_def timely_def CORRELATION_TTL_MS_def)

theorem correlator_joins_pairs_witness:
  "(''d1'', joined_event ''q1'' example_answer example_meter) \<in> set (fst (correlator_run ack_first))"
  using correlator_joins_pairs [OF example_histories(1,2)] by (auto simp: ack_first_def)

text \<open>Two such histories with the same halves, in any order, emit
  the same events the same number of times.\<close>

lemma correlator_order_irrelevant:
  assumes "orderly evs" and "timely evs" and "orderly evs'" and "timely evs'"
    and same: "set (map snd evs) = set (map snd evs')"
  shows "mset (fst (correlator_run evs)) = mset (fst (correlator_run evs'))"
proof -
  have "pairs evs = pairs evs'" using same by (simp only: pairs_def arrived_snd)
  then have "set (fst (correlator_run evs)) = set (fst (correlator_run evs'))"
    using emitted_pairs(1) assms by simp
  moreover have "distinct (fst (correlator_run evs))" "distinct (fst (correlator_run evs'))"
    using emitted_pairs(2) assms by (auto simp: distinct_map)
  ultimately show ?thesis by (simp only: set_eq_iff_mset_eq_distinct)
qed

lemma correlator_order_irrelevant_witness:
  "mset (fst (correlator_run ack_first)) = mset (fst (correlator_run up_first))"
  by (rule correlator_order_irrelevant [OF example_histories]) (auto simp: ack_first_def up_first_def)

text \<open>C32 (nothing is invented, the collector bounds the rest): over every history, whatever arrives
  twice, late or never, an emitted event joins an acknowledgement and an uplink that both arrived with
  that id; and right after the collector ran, no more entries are left than halves arrived during the
  last ten seconds.\<close>

theorem correlator_sound_and_bounded:
  "set (fst (correlator_run evs)) \<subseteq> pairs evs \<and>
   getPendingCount (snd (correlator_run ((now, CollectorRuns) # evs))) \<le>
     length (filter (\<lambda>(t, st). now - t \<le> CORRELATION_TTL_MS \<and> st \<noteq> CollectorRuns) evs)"
proof
  obtain out p where r: "correlator_run evs = (out, p)" by force
  note s = run_sound [OF r]
  then show "set (fst (correlator_run evs)) \<subseteq> pairs evs" by (simp add: r)
  let ?p = "runGarbageCollection now p"
  let ?recent = "filter (\<lambda>(t, st). now - t \<le> CORRELATION_TTL_MS \<and> st \<noteq> CollectorRuns) evs"
  let ?name = "\<lambda>(t :: time, st). (case st of AckArrives d q \<Rightarrow> d | UpArrives d c v \<Rightarrow> d | CollectorRuns \<Rightarrow> [])"
  have dp: "distinct (map fst ?p)"
    unfolding runGarbageCollection_def using s distinct_filter_keys by blast
  have "set (map fst ?p) \<subseteq> ?name ` set ?recent"
  proof
    fix d assume "d \<in> set (map fst ?p)"
    then obtain e where e: "(d, e) \<in> set p" "now - ce_timestamp e \<le> CORRELATION_TTL_MS"
      by (auto simp: runGarbageCollection_def)
    then have "entry_from evs d e" using s by (simp add: map_of_eq_Some_iff)
    then show "d \<in> ?name ` set ?recent"
      using e(2) by (fastforce simp: entry_from_def image_iff)
  qed
  then have "card (set (map fst ?p)) \<le> card (?name ` set ?recent)" by (rule card_mono [rotated]) simp
  also have "\<dots> \<le> card (set ?recent)" by (rule card_image_le) simp
  also have "\<dots> \<le> length ?recent" by (rule card_length)
  finally show "getPendingCount (snd (correlator_run ((now, CollectorRuns) # evs))) \<le> length ?recent"
    using distinct_card [OF dp] by (simp add: r correlate_def getPendingCount_def)
qed

end
