(* ===== verification/Chirpstack_Claims.thy ===== *)
theory Chirpstack_Claims
  imports Chirpstack_Plugin Calin_Claims Correlator_Claims Cancel_Claims
begin

text \<open>
  What the \<open>calin-chirpstack\<close> plugin guarantees by itself: the meter reference survives the device EUI in
  both directions, the best gateway is reported, which failures are final, which accepted requests can
  be encoded, and how its handlers feed the correlator.
\<close>

section \<open>The meter reference\<close>

lemma reference_of_eui:
  assumes "length ref = 11"
  shows "drop METER_REFERENCE_OFFSET (pad_start 16 (CHR ''0'') ref) = ref"
    and "length (pad_start 16 (CHR ''0'') ref) = DEV_EUI_LENGTH"
  using drop_pad_start [of ref 16 "CHR ''0''"] assms
  by (simp_all add: METER_REFERENCE_OFFSET_def DEV_EUI_LENGTH_def length_pad_start)

lemma handle_eui:
  assumes "lw_devEui ev = Some (pad_start 16 (CHR ''0'') ref)" and "length ref = 11"
  shows "chirpstack_handle now ev query pending =
    (if query = Some ''txack'' then (Some (handleDown ev ref), pending)
     else if query = Some ''ack'' then handleAck now ev ref pending
     else if query = Some ''join'' then (Some (handleJoin ref), pending)
     else if query = Some ''up'' then handleUp now ev ref pending
     else (None, pending))"
proof -
  have "ref \<noteq> []" using assms(2) by auto
  then show ?thesis
    using reference_of_eui [OF assms(2)] assms by (simp add: chirpstack_handle_def Let_def)
qed

lemma createDevice_reference [simp]: "dev_externalReference (createDevice ref g) = ref"
  by (simp add: createDevice_def)

lemma joined_device [simp]: "e_device (joined_event q c v) = v"
  by (simp add: joined_event_def)

text \<open>An event that names the EUI under which a command
  was sent to a meter with an eleven-digit reference is reported for that very reference, whatever the
  kind of event. The one source of another reference is the uplink an acknowledgement is joined with,
  and then it is the reference of that uplink.\<close>

lemma reference_survives_eui:
  assumes eui: "lw_devEui ev = Some (device_eui message)"
    and len: "length (dev_externalReference (m_device message)) = 11"
    and h: "chirpstack_handle now ev query pending = (Some e, pending')"
    and up: "query = Some ''ack'' \<longrightarrow> lw_acknowledged ev \<noteq> Some True"
  shows "dev_externalReference (e_device e) = dev_externalReference (m_device message)"
proof -
  let ?ref = "dev_externalReference (m_device message)"
  have eui': "lw_devEui ev = Some (pad_start 16 (CHR ''0'') ?ref)" using eui by (simp add: device_eui_def)
  note he = h [unfolded handle_eui [OF eui' len]]
  consider "query = Some ''txack''" | "query = Some ''ack''" | "query = Some ''join''" | "query = Some ''up''"
    using he by (auto split: if_splits)
  then show ?thesis
  proof cases
    case 1
    then show ?thesis using he by (auto simp: handleDown_def)
  next
    case 2
    then show ?thesis using he up by (auto simp: handleAck_def nack_event_def split: option.splits if_splits)
  next
    case 3
    then show ?thesis using he by (auto simp: handleJoin_def)
  next
    case 4
    then show ?thesis
      using he by (auto simp: handleUp_def onUpEvent_def report_event_def Let_def
          split: option.splits if_splits list.splits)
  qed
qed

definition example_meter_message :: deviceMessage where
  "example_meter_message = \<lparr>m_id = ''M1'', m_commandType = TURN_ON, m_priority = 5,
     m_pluginId = CALIN_CHIRPSTACK_ID, m_requestData = None, m_phase = None, m_networkId = None,
     m_correlationId = None, m_device = example_meter, m_deliveryQueueId = [],
     m_deliveryStatus = SENT_TO_NS, m_response = None, m_unsolicited = None, m_retryCount = None,
     m_failureHistory = None, m_concurrencyRateLimitKey = None\<rparr>"

definition example_txack :: lorawanCalinEvent where
  "example_txack = \<lparr>lw_devEui = Some ''0000047000123456'', lw_deduplicationId = ''d0'',
     lw_queueItemId = Some ''q1'', lw_acknowledged = None, lw_data = None, lw_rxInfo = []\<rparr>"

lemma reference_survives_eui_witness:
  "dev_externalReference (e_device (the (fst (chirpstack_handle 0 example_txack (Some ''txack'') [])))) =
   ''47000123456''"
proof -
  have ref: "dev_externalReference (m_device example_meter_message) = ''47000123456''"
    by (simp add: example_meter_message_def example_meter_def)
  have eui: "lw_devEui example_txack = Some (device_eui example_meter_message)"
    unfolding device_eui_def ref by (simp add: example_txack_def pad_start_def numeral_eq_Suc)
  have h: "chirpstack_handle 0 example_txack (Some ''txack'') [] =
      (Some (handleDown example_txack ''47000123456''), [])"
    using handle_eui [of example_txack "''47000123456''"] eui ref by (simp add: device_eui_def)
  show ?thesis using reference_survives_eui [OF eui _ h] by (simp add: ref h)
qed

section \<open>The best gateway\<close>

lemma hd_sort_key:
  assumes "xs \<noteq> []"
  shows "hd (sort_key f xs) \<in> set xs" and "\<And>x. x \<in> set xs \<Longrightarrow> f (hd (sort_key f xs)) \<le> f x"
proof -
  obtain y ys where s: "sort_key f xs = y # ys"
    using assms by (cases "sort_key f xs") (auto dest: arg_cong [of _ _ length])
  have st: "set (sort_key f xs) = set xs" by simp
  show "hd (sort_key f xs) \<in> set xs" using s st by auto
  show "f (hd (sort_key f xs)) \<le> f x" if "x \<in> set xs" for x
  proof -
    have "sorted (map f (y # ys))" using sorted_sort_key [of f xs] s by simp
    moreover have "x \<in> set (y # ys)" using that st s by simp
    ultimately show ?thesis using s by auto
  qed
qed

text \<open>Of a non-empty list of observations the reported relay node is one of them,
  none has a better signal-to-noise ratio, and none with the same ratio is stronger.\<close>

lemma best_gateway_selected:
  assumes "rxInfo \<noteq> []"
  shows "\<exists>g \<in> set rxInfo. selectGatewayWithBestSignal rxInfo = \<lparr>rn_id = None,
      rn_externalReference = Some (gi_gatewayId g), rn_snr = Some (gi_snr g), rn_rssi = Some (gi_rssi g)\<rparr> \<and>
    list_all (\<lambda>x. gi_snr x < gi_snr g \<or> gi_snr x = gi_snr g \<and> gi_rssi x \<le> gi_rssi g) rxInfo"
proof -
  let ?f = "\<lambda>g :: gatewayInfo. (- gi_snr g, - gi_rssi g)" 
  note hd = hd_sort_key [OF assms, where f = ?f]
  let ?g = "hd (sort_key ?f rxInfo)"
  have "gi_snr x < gi_snr ?g \<or> gi_snr x = gi_snr ?g \<and> gi_rssi x \<le> gi_rssi ?g" if "x \<in> set rxInfo" for x
    using hd(2) [OF that] by (auto simp: less_eq_prod_def)
  then have "list_all (\<lambda>x. gi_snr x < gi_snr ?g \<or> gi_snr x = gi_snr ?g \<and> gi_rssi x \<le> gi_rssi ?g) rxInfo"
    by (simp add: list_all_iff)
  then show ?thesis
    by (intro bexI [OF _ hd(1)]) (simp add: selectGatewayWithBestSignal_def Let_def)
qed

lemma best_gateway_selected_witness:
  "rn_externalReference (selectGatewayWithBestSignal
     [\<lparr>gi_gatewayId = ''far'', gi_snr = 2, gi_rssi = - 110\<rparr>,
      \<lparr>gi_gatewayId = ''near'', gi_snr = 9, gi_rssi = - 60\<rparr>]) = Some ''near''"
  using best_gateway_selected [of "[\<lparr>gi_gatewayId = ''far'', gi_snr = 2, gi_rssi = - 110\<rparr>,
      \<lparr>gi_gatewayId = ''near'', gi_snr = 9, gi_rssi = - 60\<rparr>]"] by auto

section \<open>Which failures are final\<close>

text \<open>The errors that the gRPC library hands to the callback.\<close>

definition unregistered_device :: "exn \<Rightarrow> bool" where
  "unregistered_device err \<longleftrightarrow>
     (case err of GrpcServiceError _ _ details \<Rightarrow> includes_str ''device_queue_item_dev_eui_fkey'' details
      | _ \<Rightarrow> False)"

text \<open>Which send failures are final: a message the plugin cannot encode fails before any request is
  made, whatever the server would answer, and the failure is final at once; an unregistered device is
  final at once; every other refusal of the server, an empty answer included, is retried until the
  retries are used up.\<close>

lemma send_failures_classified:
  "(case (chirpstack_encode message, enqueueRpc \<lparr>qi_devEui = device_eui message, qi_fPort = 1,
        qi_confirmed = True, qi_data = map (\<lambda>b. b mod 256) (the (chirpstack_encode message))\<rparr>) of
      (None, _) \<Rightarrow> chirpstack_sendOne enqueueRpc message = Inl (CalinChirpstackError ENCODE_FAILED True) \<and>
        is_final_failure cfg (chirpstack_parseError (CalinChirpstackError ENCODE_FAILED True)) n
    | (Some bytes, RpcError (GrpcServiceError text code details)) \<Rightarrow>
        chirpstack_sendOne enqueueRpc message = Inl (GrpcServiceError text code details) \<and>
        (is_final_failure cfg (chirpstack_parseError (GrpcServiceError text code details)) n \<longleftrightarrow>
           unregistered_device (GrpcServiceError text code details) \<or> maxRetries (cf_delivery cfg) \<le> n)
    | (Some bytes, RpcEmpty) \<Rightarrow> 
        (case chirpstack_sendOne enqueueRpc message of
           Inl err \<Rightarrow> is_final_failure cfg (chirpstack_parseError err) n \<longleftrightarrow> maxRetries (cf_delivery cfg) \<le> n
         | Inr _ \<Rightarrow> False)
    | (Some bytes, RpcResult itemId) \<Rightarrow> chirpstack_sendOne enqueueRpc message = Inr itemId
    | _ \<Rightarrow> True)"
  by (auto simp: chirpstack_sendOne_def enqueueDeviceRequest_def CalinChirpstackError_def
      chirpstack_parseError_def is_final_failure_def grpc_code_def grpc_details_def Let_def
      unregistered_device_def DEVICE_F_PORT_def CONFIRMED_DOWNLINK_def
      split: option.split rpcReply.split exn.split)

section \<open>Accepted requests can be encoded\<close>

text \<open>What a request must carry beyond the schema: a token command a token of hex pairs, a clock command
  the payload of its kind.\<close>

definition carries_input :: "createDeviceMessage \<Rightarrow> bool" where
  "carries_input create \<longleftrightarrow>
     (isTokenCommand (c_commandType create) \<longrightarrow>
        (case Option.bind (c_requestData create) rd_token of None \<Rightarrow> False | Some t \<Rightarrow> hex_string t)) \<and>
     (c_commandType create = SET_DATE \<longrightarrow>
        (case Option.bind (c_requestData create) rd_payload of Some (SetDate _ _ _) \<Rightarrow> True | _ \<Rightarrow> False)) \<and>
     (c_commandType create = SET_TIME \<longrightarrow>
        (case Option.bind (c_requestData create) rd_payload of Some (SetTime _ _ _) \<Rightarrow> True | _ \<Rightarrow> False))"

lemma schema_payload:
  "createDeviceMessageSchema create \<Longrightarrow> Option.bind (c_requestData create) rd_payload = Some pl \<Longrightarrow> valid_payload pl"
  by (cases "c_requestData create") (auto simp: createDeviceMessageSchema_def valid_requestData_def)

lemma supported_encodable:
  assumes "createDeviceMessageSchema create" and "carries_input create"
    and "c_commandType create \<in> set CALIN_CHIRPSTACK_SUPPORTED_COMMAND_TYPES"
    and "c_commandType create \<noteq> READ_POWER_LIMIT"
  shows "encodable (c_commandType create) (Option.bind (c_requestData create) rd_token)
    (Option.bind (c_requestData create) rd_payload)"
proof (cases "isTokenCommand (c_commandType create)")
  case True
  then show ?thesis using assms(2) by (simp add: encodable_def carries_input_def)
next
  case nt: False
  consider "c_commandType create = SET_DATE" | "c_commandType create = SET_TIME"
    | "c_commandType create \<noteq> SET_DATE" "c_commandType create \<noteq> SET_TIME" by blast
  then show ?thesis
  proof cases
    case 1
    then obtain y mo d where p: "Option.bind (c_requestData create) rd_payload = Some (SetDate y mo d)"
      using assms(2) by (auto simp: carries_input_def split: option.splits payload.splits)
    then show ?thesis
      using 1 nt schema_payload [OF assms(1) p] schema_date_range [of y mo d]
      by (simp add: encodable_def del: setDatePayloadSchema.simps)
  next
    case 2
    then obtain h mi s where p: "Option.bind (c_requestData create) rd_payload = Some (SetTime h mi s)"
      using assms(2) by (auto simp: carries_input_def split: option.splits payload.splits)
    then show ?thesis
      using 2 nt schema_payload [OF assms(1) p] by (cases s) (simp_all add: encodable_def)
  next
    case 3
    then show ?thesis
      using assms(3,4) nt
      by (auto simp: encodable_def CALIN_CHIRPSTACK_SUPPORTED_COMMAND_TYPES_def isTokenCommand_def
          isTypeIn_def command_group_defs)
  qed
qed

text \<open>Supported requests can be encoded: every command the plugin lists can be encoded, for every
  request that passes the schema, carries the token or payload of its command and names a meter by at
  most twelve hex digits; no command of its list lacks a frame.\<close>

lemma supported_requests_encode:
  assumes "createDeviceMessageSchema create" and "carries_input create"
    and "c_commandType create \<in> set (d_supportedCommandTypes (buildCalinChirpstack t))"
    and "length (dev_externalReference (c_device create)) \<le> 12"
    and "set (dev_externalReference (c_device create)) \<subseteq> set hex_digits"
  shows "encodeRequestData (dev_externalReference (c_device create)) phase (c_commandType create)
    (Option.bind (c_requestData create) rd_token) (Option.bind (c_requestData create) rd_payload) \<noteq> None"
proof (cases "c_commandType create = READ_POWER_LIMIT")
  case True
  then show ?thesis by (simp add: encodeRequestData_def encodeDlms_def)
next
  case False
  have s: "c_commandType create \<in> set CALIN_CHIRPSTACK_SUPPORTED_COMMAND_TYPES"
    using assms(3) by (simp add: buildCalinChirpstack_def)
  show ?thesis
    using encoder_none [of "dev_externalReference (c_device create)"] assms(4,5)
      supported_encodable [OF assms(1,2) s False] by blast
qed

lemma supported_requests_encode_witness:
  "encodeRequestData ''47000123456'' PhaseA SET_DATE None (Some (SetDate 2026 2 28)) \<noteq> None"
proof -
  let ?c = "\<lparr>c_commandType = SET_DATE, c_priority = 5, c_pluginId = CALIN_CHIRPSTACK_ID,
    c_requestData = Some \<lparr>rd_token = None, rd_payload = Some (SetDate 2026 2 28)\<rparr>, c_phase = None,
    c_networkId = None, c_correlationId = None, c_device = example_meter\<rparr>"
  have 1: "createDeviceMessageSchema ?c"
    by (simp add: createDeviceMessageSchema_def valid_requestData_def valid_device_def example_meter_def
        isEnqueueableCommand_def isTypeIn_def command_group_defs CALIN_CHIRPSTACK_ID_def)
  have 2: "carries_input ?c"
    by (simp add: carries_input_def isTokenCommand_def isTypeIn_def command_group_defs)
  have 3: "c_commandType ?c \<in> set (d_supportedCommandTypes (buildCalinChirpstack DEFAULT_PLUGIN_TUNING))"
    by (simp add: buildCalinChirpstack_def CALIN_CHIRPSTACK_SUPPORTED_COMMAND_TYPES_def)
  show ?thesis
    using supported_requests_encode [OF 1 2 3, of PhaseA] by (simp add: example_meter_def hex_digits_def)
qed

end
