(* ===== verification/Chirpstack_Flow.thy ===== *)
theory Chirpstack_Flow
  imports Chirpstack_Claims
begin

text \<open>
  The plugin and the engine together: an integration event goes through the plugin's incoming facet and
  the parsed result through the engine's incoming service. The acknowledgement and the uplink of one
  command lead to the same engine state in either order.
\<close>

section \<open>One ingress call\<close>

definition chirpstack_ingress ::
  "engineConfig \<Rightarrow> world \<Rightarrow> deliveryPlugin \<Rightarrow> lorawanCalinEvent \<Rightarrow> string option \<Rightarrow>
   engine \<times> correlations \<Rightarrow> (exn + unit) \<times> engine \<times> correlations" where
  "chirpstack_ingress cfg w p ev query st =
     (case chirpstack_handle (w_now w) ev query (snd st) of
        (parsed, pending) \<Rightarrow>
          (case handle cfg w (Inr parsed) p (fst st) of (res, s) \<Rightarrow> (res, s, pending)))"

lemma ingress_unhandled:
  "chirpstack_handle (w_now w) ev query pending = (None, pending') \<Longrightarrow>
     chirpstack_ingress cfg w p ev query (s, pending) =
       (Inr (), recordIngressUnhandled (d_id p) s, pending')"
  by (simp add: chirpstack_ingress_def handle_def)

lemma ingress_handled:
  "chirpstack_handle (w_now w) ev query pending = (Some e, pending') \<Longrightarrow>
     processEvent cfg w e p s = (Inr oc, s') \<Longrightarrow>
     chirpstack_ingress cfg w p ev query (s, pending) = (Inr (), s', pending')"
  by (simp add: chirpstack_ingress_def handle_def)

lemma reachable_unhandled: "reachable cfg s \<Longrightarrow> reachable cfg (recordIngressUnhandled i s)"
  using reach_step [OF _ step_ingress, of cfg s "undefined" "Inr None" "undefined\<lparr>d_id := i\<rparr>"]
  by (simp add: handle_def)

section \<open>The two halves of an answer\<close>

text \<open>An acknowledgement and an uplink of the same meter and the same \<open>deduplicationId\<close>.\<close>

definition answer_halves ::
  "lorawanCalinEvent \<Rightarrow> lorawanCalinEvent \<Rightarrow> string \<Rightarrow> string \<Rightarrow> decodedEvent \<Rightarrow> bool" where
  "answer_halves ack up ref q answer \<longleftrightarrow>
     length ref = 11 \<and> lw_devEui ack = Some (pad_start 16 (CHR ''0'') ref) \<and>
     lw_devEui up = Some (pad_start 16 (CHR ''0'') ref) \<and>
     lw_deduplicationId ack = lw_deduplicationId up \<and>
     lw_queueItemId ack = Some q \<and> q \<noteq> [] \<and> lw_acknowledged ack = Some True \<and>
     Option.bind (lw_data up) (\<lambda>d. if d = [] then None else decodeResponseData (base64_decode d)) = Some answer \<and>
     de_unsolicitedEventType answer \<noteq> Some READ_REPORT"

definition up_device :: "lorawanCalinEvent \<Rightarrow> string \<Rightarrow> device" where
  "up_device up ref = createDevice ref
     (if lw_rxInfo up = [] then None else Some (selectGatewayWithBestSignal (lw_rxInfo up)))"

lemma handle_halves:
  assumes "answer_halves ack up ref q answer"
  shows "chirpstack_handle now ack (Some ''ack'') pending =
      onAckEvent now (lw_deduplicationId ack) q pending"
    and "chirpstack_handle now up (Some ''up'') pending =
      onUpEvent now (lw_deduplicationId ack) answer (up_device up ref) pending"
proof -
  note a = assms [unfolded answer_halves_def]
  show "chirpstack_handle now ack (Some ''ack'') pending =
      onAckEvent now (lw_deduplicationId ack) q pending"
    using a by (simp add: handle_eui [of ack ref] handleAck_def)
  obtain d where d: "lw_data up = Some d" "d \<noteq> []" "decodeResponseData (base64_decode d) = Some answer"
    using a by (auto simp: bind_eq_Some_conv split: if_splits)
  show "chirpstack_handle now up (Some ''up'') pending =
      onUpEvent now (lw_deduplicationId ack) answer (up_device up ref) pending"
    using a d by (simp add: handle_eui [of up ref] handleUp_def up_device_def Let_def)
qed

lemma joined_event_response:
  "e_response (joined_event q answer dev) = Some \<lparr>mr_status = de_status answer, mr_data = Some (de_data answer)\<rparr>"
  by (simp add: joined_event_def)

text \<open>Either order: nothing first, then the joined event; afterwards nothing is pending for the id.\<close>

lemma halves_join:
  assumes "answer_halves ack up ref q answer" and "map_of pending (lw_deduplicationId ack) = None"
  shows "\<exists>p1. chirpstack_handle t1 ack (Some ''ack'') pending = (None, p1) \<and>
      (\<forall>k. k \<noteq> lw_deduplicationId ack \<longrightarrow> map_of p1 k = map_of pending k) \<and>
      (\<exists>p2. chirpstack_handle t2 up (Some ''up'') p1 = (Some (joined_event q answer (up_device up ref)), p2) \<and>
        map_of p2 = map_of pending)"
    and "\<exists>p1. chirpstack_handle t1 up (Some ''up'') pending = (None, p1) \<and>
      (\<forall>k. k \<noteq> lw_deduplicationId ack \<longrightarrow> map_of p1 k = map_of pending k) \<and>
      (\<exists>p2. chirpstack_handle t2 ack (Some ''ack'') p1 = (Some (joined_event q answer (up_device up ref)), p2) \<and>
        map_of p2 = map_of pending)"
proof -
  have q: "q \<noteq> []" using assms(1) by (simp add: answer_halves_def)
  have same: "(map_of pending)(lw_deduplicationId ack := None) = map_of pending"
    using assms(2) by (simp add: fun_upd_idem)
  show "\<exists>p1. chirpstack_handle t1 ack (Some ''ack'') pending = (None, p1) \<and>
      (\<forall>k. k \<noteq> lw_deduplicationId ack \<longrightarrow> map_of p1 k = map_of pending k) \<and>
      (\<exists>p2. chirpstack_handle t2 up (Some ''up'') p1 = (Some (joined_event q answer (up_device up ref)), p2) \<and>
        map_of p2 = map_of pending)"
    using assms(2) q same
    by (simp add: handle_halves [OF assms(1)] onAckEvent_def onUpEvent_def Let_def update_conv' delete_conv'
        restrict_map_def fun_eq_iff split: list.split)
  show "\<exists>p1. chirpstack_handle t1 up (Some ''up'') pending = (None, p1) \<and>
      (\<forall>k. k \<noteq> lw_deduplicationId ack \<longrightarrow> map_of p1 k = map_of pending k) \<and>
      (\<exists>p2. chirpstack_handle t2 ack (Some ''ack'') p1 = (Some (joined_event q answer (up_device up ref)), p2) \<and>
        map_of p2 = map_of pending)"
    using assms(2) q same
    by (simp add: handle_halves [OF assms(1)] onAckEvent_def onUpEvent_def Let_def update_conv' delete_conv'
        restrict_map_def fun_eq_iff)
qed

lemma processEvent_error:
  assumes "raises (fst (processEvent cfg w e p s))"
  obtains err where "processEvent cfg w e p s = (Inl err, s)"
proof -
  have "snd (processEvent cfg w e p s) = s"
    using error_safe_processEvent [of s cfg w e p] assms by (auto simp: error_safe_def processEvent_committed)
  with assms that show thesis
    by (cases "processEvent cfg w e p s"; cases "fst (processEvent cfg w e p s)") auto
qed

lemma ingress_error:
  "chirpstack_handle (w_now w) ev query pending = (Some e, pending') \<Longrightarrow>
     processEvent cfg w e p s = (Inl err, s') \<Longrightarrow>
     chirpstack_ingress cfg w p ev query (s, pending) = (Inl err, s', pending')"
  by (simp add: chirpstack_ingress_def handle_def)

lemma success_not_persisted:
  assumes cfg: "config_ok cfg" and db: "db_ok cfg (db s)" and h: "hash_at (db s) m = Some h"
    and e: "\<not> e_unsolicited e" "e_deliveryQueueId e = Some d" "d \<noteq> []" "e_deliveryStatus e = DELIVERY_SUCCESSFUL"
    and d: "getMessageIdFromDeliveryQueueId d (db s) = Some m"
    and wh: "cf_webhook cfg = Some c" and fails: "w_persistFails w"
  shows "raises (fst (processEvent cfg w e p s))"
proof -
  let ?r = "resolved_message (w_now w) e (message_of m h)"
  have "m_pluginId ?r \<noteq> []"
    using message_plugin_nonempty [OF cfg db h] by (simp add: resolved_message_def Let_def split: option.split)
  from emit_full_result [OF this, of cfg w s] have "raises (fst (emitDeliveryEvent cfg w (partial_of ?r) s))"
    using wh fails by (cases "fst (emitDeliveryEvent cfg w (partial_of ?r) s)") auto
  then show ?thesis using e d
    by (auto simp: processEvent_def load_hash [OF db h] split: prod.split sum.split)
qed

text \<open>C30 (the answer arrives in two halves): in every reachable state, when the acknowledgement and the
  uplink of a stored message's command come in one after the other, in either order and at any times, with
  nothing pending under their deduplication id before and no collector run in between, the first half is
  counted as not handled and changes nothing else in the engine, and the correlator remembers it under that id alone.
  The second half delivers the message when the outbox can persist: both orders end in the same engine state,
  in which the message has left no trace and the notification carries the decoded answer. When the outbox cannot
  persist, the second half is an error that leaves the engine as it was, but the correlator has forgotten the
  first half too: in both cases it remembers what it did before the answer, so then the answer is lost.\<close>

theorem answer_in_two_halves:
  assumes cfg: "config_ok cfg" and reach: "reachable cfg s"
    and h: "hash_at (db s) m = Some h" and p: "hash_plugin cfg h = Some p"
    and d: "getMessageIdFromDeliveryQueueId q (db s) = Some m"
    and halves: "answer_halves ack up ref q answer"
    and none: "map_of pending (lw_deduplicationId ack) = None" and wh: "cf_webhook cfg = Some c"
  shows "\<exists>a1 u1 a2 u2. let s1 = s\<lparr>ingressUnhandled := ingressUnhandled s @ [d_id p]\<rparr> in
    chirpstack_ingress cfg w1 p ack (Some ''ack'') (s, pending) = (Inr (), s1, a1) \<and>
    chirpstack_ingress cfg w1 p up (Some ''up'') (s, pending) = (Inr (), s1, u1) \<and>
    (\<forall>k. k \<noteq> lw_deduplicationId ack \<longrightarrow> map_of a1 k = map_of pending k \<and> map_of u1 k = map_of pending k) \<and>
    map_of a2 = map_of pending \<and> map_of u2 = map_of pending \<and>
    (if w_persistFails w2
     then \<exists>err. chirpstack_ingress cfg w2 p up (Some ''up'') (s1, a1) = (Inl err, s1, a2) \<and>
       chirpstack_ingress cfg w2 p ack (Some ''ack'') (s1, u1) = (Inl err, s1, u2)
     else \<exists>s' r. chirpstack_ingress cfg w2 p up (Some ''up'') (s1, a1) = (Inr (), s', a2) \<and>
       chirpstack_ingress cfg w2 p ack (Some ''ack'') (s1, u1) = (Inr (), s', u2) \<and>
       no_trace s' m \<and> wb_getRecord (w_eventId w2) (whdb s') = Some r \<and>
       wp_id (we_message (sr_event r)) = Some m \<and>
       wp_deliveryStatus (we_message (sr_event r)) = DELIVERY_SUCCESSFUL \<and>
       wp_response (we_message (sr_event r)) =
         Some \<lparr>mr_status = de_status answer, mr_data = Some (de_data answer)\<rparr>)"
proof -
  let ?s1 = "recordIngressUnhandled (d_id p) s" and ?e = "joined_event q answer (up_device up ref)"
  let ?id = "lw_deduplicationId ack"
  have q: "q \<noteq> []" using halves by (simp add: answer_halves_def)
  have e: "\<not> e_unsolicited ?e" "e_deliveryQueueId ?e = Some q" "e_deliveryStatus ?e = DELIVERY_SUCCESSFUL"
    by (simp_all add: joined_event_def)
  have h1: "hash_at (db ?s1) m = Some h" and d1: "getMessageIdFromDeliveryQueueId q (db ?s1) = Some m"
    using h d by simp_all
  note reach1 = reachable_unhandled [OF reach, of "d_id p"]
  obtain a1 a2 where a: "chirpstack_handle (w_now w1) ack (Some ''ack'') pending = (None, a1)"
    "\<forall>k. k \<noteq> ?id \<longrightarrow> map_of a1 k = map_of pending k"
    "chirpstack_handle (w_now w2) up (Some ''up'') a1 = (Some ?e, a2)" "map_of a2 = map_of pending"
    using halves_join(1) [OF halves none] by blast
  obtain u1 u2 where u: "chirpstack_handle (w_now w1) up (Some ''up'') pending = (None, u1)"
    "\<forall>k. k \<noteq> ?id \<longrightarrow> map_of u1 k = map_of pending k"
    "chirpstack_handle (w_now w2) ack (Some ''ack'') u1 = (Some ?e, u2)" "map_of u2 = map_of pending"
    using halves_join(2) [OF halves none] by blast
  have second: "if w_persistFails w2
     then \<exists>err. chirpstack_ingress cfg w2 p up (Some ''up'') (?s1, a1) = (Inl err, ?s1, a2) \<and>
       chirpstack_ingress cfg w2 p ack (Some ''ack'') (?s1, u1) = (Inl err, ?s1, u2)
     else \<exists>s' r. chirpstack_ingress cfg w2 p up (Some ''up'') (?s1, a1) = (Inr (), s', a2) \<and>
       chirpstack_ingress cfg w2 p ack (Some ''ack'') (?s1, u1) = (Inr (), s', u2) \<and>
       no_trace s' m \<and> wb_getRecord (w_eventId w2) (whdb s') = Some r \<and>
       wp_id (we_message (sr_event r)) = Some m \<and>
       wp_deliveryStatus (we_message (sr_event r)) = DELIVERY_SUCCESSFUL \<and>
       wp_response (we_message (sr_event r)) = e_response ?e"
  proof (cases "w_persistFails w2")
    case True
    have "raises (fst (processEvent cfg w2 ?e p ?s1))"
      by (rule success_not_persisted [OF cfg engine_db [OF reachable_ok [OF cfg reach1]] h1 e(1,2) q e(3) d1 wh True])
    then obtain err where err: "processEvent cfg w2 ?e p ?s1 = (Inl err, ?s1)" by (rule processEvent_error)
    show ?thesis using True ingress_error [OF a(3) err] ingress_error [OF u(3) err] by auto
  next
    case False
    obtain s' r where pr: "processEvent cfg w2 ?e p ?s1 = (Inr Removed, s')" and nt: "no_trace s' m"
      and rec: "wb_getRecord (w_eventId w2) (whdb s') = Some r" "wp_id (we_message (sr_event r)) = Some m"
        "wp_deliveryStatus (we_message (sr_event r)) = DELIVERY_SUCCESSFUL"
        "wp_response (we_message (sr_event r)) = e_response ?e"
      using success_effect [OF cfg reach1 h1 p e(1,2) q e(3) d1 wh False] by blast
    show ?thesis
      using False ingress_handled [OF a(3) pr] ingress_handled [OF u(3) pr] nt rec by auto
  qed
  have other: "\<forall>k. k \<noteq> ?id \<longrightarrow> map_of a1 k = map_of pending k \<and> map_of u1 k = map_of pending k"
    using a(2) u(2) by simp
  show ?thesis
    unfolding Let_def recordIngressUnhandled_def [symmetric]
    by (intro exI conjI)
       (rule ingress_unhandled [OF a(1)] ingress_unhandled [OF u(1)] other a(4) u(4)
          second [unfolded joined_event_response])+
qed

section \<open>A message followed to its answer\<close>

definition chirp_plugin :: deliveryPlugin where
  "chirp_plugin = buildCalinChirpstack DEFAULT_PLUGIN_TUNING"

definition chirp_config :: engineConfig where
  "chirp_config = example_config\<lparr>cf_registry := [(CALIN_CHIRPSTACK_ID, Delivery chirp_plugin)]\<rparr>"

definition chirp_create :: createDeviceMessage where
  "chirp_create = \<lparr>c_commandType = TURN_ON, c_priority = 5, c_pluginId = CALIN_CHIRPSTACK_ID,
     c_requestData = None, c_phase = None, c_networkId = Some 4, c_correlationId = None,
     c_device = example_meter\<rparr>"

definition chirp_queue :: string where
  "chirp_queue = ''queue:calin-chirpstack:network:4''"

definition chirp_queued :: engine where
  "chirp_queued = snd (enqueue chirp_config (example_world 1000 ''E0'') ''M1'' chirp_create
     (empty_engine False))"

definition chirp_sent :: engine where
  "chirp_sent = snd (distribute_queue chirp_config (example_world 2000 ''E1'') chirp_queue chirp_queued)"

definition chirp_delivered :: engine where
  "chirp_delivered = snd (settle_send chirp_config (example_world 3000 ''E2'') (hd (running chirp_sent))
     (Inr ''q1'') chirp_sent)"

lemma chirp_plugin_fields:
  "d_id chirp_plugin = CALIN_CHIRPSTACK_ID" "d_pattern chirp_plugin = PUSH"
  "d_supportedCommandTypes chirp_plugin = CALIN_CHIRPSTACK_SUPPORTED_COMMAND_TYPES"
  "d_validateEnqueue chirp_plugin = None" "d_admission chirp_plugin = Spacing 2000"
  "d_tuning chirp_plugin = DEFAULT_PLUGIN_TUNING"
  by (simp_all add: chirp_plugin_def buildCalinChirpstack_def CALIN_CHIRPSTACK_ADMISSION_def)

lemma chirp_config_ok: "config_ok chirp_config"
  unfolding config_ok_def
proof (intro conjI allI impI)
  show "registry_ok (cf_registry chirp_config)"
    by (simp add: chirp_config_def registry_ok_def chirp_plugin_fields)
  show "deliverySchema (cf_delivery chirp_config)"
    by (simp add: chirp_config_def example_config_def default_delivery_valid)
  fix i p assume "registry_get (cf_registry chirp_config) i = Some (Delivery p)"
  then have "p = chirp_plugin" by (auto simp: chirp_config_def registry_get_def split: if_splits)
  then show "\<exists>kind. delivery_plugin_contract p kind"
    using calinChirpstack.delivery_plugin_contract_axioms by (auto simp: chirp_plugin_def)
qed

lemma chirp_plugin_for: "plugin_for chirp_config CALIN_CHIRPSTACK_ID = Some chirp_plugin"
  by (simp add: plugin_for_def chirp_config_def registry_get_def)

lemma chirp_queue_key: "d_initialQueueKey chirp_plugin (Some 4) dev = chirp_queue"
  unfolding chirp_plugin_def buildCalinChirpstack_def chirp_queue_def
  by (simp add: chirpstackInitialQueueKey_def) code_simp

lemma chirp_owner: "getPluginIdFromInitialQueueKey chirp_queue = Some CALIN_CHIRPSTACK_ID"
  by code_simp

lemma chirp_queued_state:
  "db chirp_queued = snd (enqueueDeviceMessage chirp_create chirp_queue 604800 ''M1'' 1000 empty_redis)"
  "running chirp_queued = []" "sends chirp_queued = []" "next_token chirp_queued = 0"
  "whdb chirp_queued = empty_webhook_db"
proof -
  have r: "\<not> enqueue_refused chirp_config chirp_create"
    using chirp_plugin_for
    by (simp add: enqueue_refused_def chirp_create_def chirp_plugin_fields
        CALIN_CHIRPSTACK_SUPPORTED_COMMAND_TYPES_def)
  have p: "plugin_for chirp_config (c_pluginId chirp_create) = Some chirp_plugin"
    using chirp_plugin_for by (simp add: chirp_create_def)
  have q: "d_initialQueueKey chirp_plugin (c_networkId chirp_create) (c_device chirp_create) = chirp_queue"
    using chirp_queue_key by (simp add: chirp_create_def)
  have t: "messageTtlSeconds (cf_delivery chirp_config) = 604800"
    by (simp add: chirp_config_def example_config_def default_delivery_def)
  note e = enqueue_accepts [OF p r, of "example_world 1000 ''E0''" "''M1''" "empty_engine False"]
  show "db chirp_queued = snd (enqueueDeviceMessage chirp_create chirp_queue 604800 ''M1'' 1000 empty_redis)"
    by (simp add: chirp_queued_def e Let_def q t) (simp add: empty_engine_def example_world_def)
  show "running chirp_queued = []" "sends chirp_queued = []" "next_token chirp_queued = 0"
    "whdb chirp_queued = empty_webhook_db"
    by (simp_all add: chirp_queued_def e Let_def) (simp_all add: empty_engine_def)
qed

lemma chirp_queued_reachable: "reachable chirp_config chirp_queued"
  unfolding chirp_queued_def by (rule reach_step [OF reach_empty step_enqueue [OF example_fresh]])

lemma chirp_sent_reachable: "reachable chirp_config chirp_sent"
  unfolding chirp_sent_def by (intro reach_step [OF chirp_queued_reachable] step_distribute)

definition chirp_dto_hash :: mhash where
  "chirp_dto_hash = serializeCreateDeviceMessage chirp_create"

definition chirp_message :: deviceMessage where
  "chirp_message = message_of ''M1'' (picked_hash SENT_TO_NS [] chirp_dto_hash)"

lemma chirp_picked:
  "deserializeMessage ''M1'' (picked_hash SENT_TO_NS [] chirp_dto_hash) = Inr chirp_message"
  "m_id chirp_message = ''M1''" "retry_count chirp_message = 0"
  "m_pluginId chirp_message = CALIN_CHIRPSTACK_ID"
  by (simp_all add: chirp_message_def message_of_def deserializeMessage_def picked_hash_def
      chirp_dto_hash_def serializeCreateDeviceMessage_def complete_hash_def chirp_create_def
      retry_count_def empty_hash_def CALIN_CHIRPSTACK_ID_def)

lemma chirp_sent_state:
  "hash_at (db chirp_sent) ''M1'' = Some (picked_hash SENT_TO_NS [] chirp_dto_hash)"
  "in_queue (db chirp_sent) QUEUE_NS_KEY ''M1''"
  "running chirp_sent = [\<lparr>sd_token = 0, sd_plugin = chirp_plugin, sd_message = chirp_message\<rparr>]"
proof -
  let ?w = "example_world 2000 ''E1''"
  have plug: "Option.bind (getPluginIdFromInitialQueueKey chirp_queue)
      (\<lambda>i. Option.bind (registry_get (cf_registry chirp_config) i) delivery_of) = Some chirp_plugin"
    using chirp_plugin_for by (simp add: chirp_owner plugin_for_def)
  have lock: "lockForQueue chirp_queue \<noteq> messageKey ''M1''" "QUEUE_NS_KEY \<noteq> chirp_queue" by code_simp+
  have db: "zsets (db chirp_queued) chirp_queue = [(''M1'', -5)]" "zsets (db chirp_queued) QUEUE_NS_KEY = []"
    "hashes (db chirp_queued) (messageKey ''M1'') = Some chirp_dto_hash"
    "strs (db chirp_queued) (lockForQueue chirp_queue) = None"
    "expires (db chirp_queued) (lockForQueue chirp_queue) = None"
    using lock
    by (simp_all add: chirp_queued_state enqueueDeviceMessage_def chirp_create_def Let_def redis_command_defs
        empty_redis_def zadd_def zrem_def chirp_dto_hash_def)
  obtain r where adm: "canAdmit ?w chirp_plugin chirp_queue (db chirp_queued) = (True, r)"
    and r: "zsets r = zsets (db chirp_queued)" "hashes r = hashes (db chirp_queued)"
    using db by (simp add: canAdmit_def chirp_plugin_fields lockQueueForTimeMs_def redis_command_defs)
  have key: "pick_key chirp_plugin chirp_queue = []"
    by (simp add: pick_key_def concurrency_limit_def chirp_plugin_fields)
  obtain r2 where fetch: "fetchNextMessageInQueueAndMove chirp_queue QUEUE_NS_KEY
      listOfInitialQueuesToDistributeFrom [] 22000 SENT_TO_NS (pick_max chirp_plugin chirp_queue) r =
      (Some (''M1'', picked_hash SENT_TO_NS [] chirp_dto_hash), r2)"
    and r2: "hash_at r2 ''M1'' = Some (picked_hash SENT_TO_NS [] chirp_dto_hash)"
      "in_queue r2 QUEUE_NS_KEY ''M1''"
    using db r lock
    by (simp add: fetchNextMessageInQueueAndMove_def zpopmin_def Let_def hash_at_def in_queue_def
        redis_command_defs zadd_def zrem_def zscore_def picked_hash_def)
  have pick: "pickIntoNs chirp_config ?w chirp_queue chirp_plugin
      (concurrency_limit chirp_plugin chirp_queue) (chirp_queued\<lparr>db := r\<rparr>) =
      (Inr (Some chirp_message), chirp_queued\<lparr>db := r2\<rparr>)"
    unfolding pickIntoNs_unfold key chirp_plugin_fields
    by (simp add: fetch Let_def default_ns_timeout chirp_picked) (simp add: example_world_def fetch
        chirp_picked)
  obtain s1 where em: "emitDeliveryEvent chirp_config ?w (partial_of chirp_message)
      (chirp_queued\<lparr>db := r2\<rparr>) = (Inr (), s1)"
    using emit_full_result [of chirp_message chirp_config ?w "chirp_queued\<lparr>db := r2\<rparr>"]
    by (cases "emitDeliveryEvent chirp_config ?w (partial_of chirp_message) (chirp_queued\<lparr>db := r2\<rparr>)")
       (simp add: chirp_picked CALIN_CHIRPSTACK_ID_def example_world_def)
  have sent: "chirp_sent = track chirp_plugin chirp_message s1"
    using em by (simp add: chirp_sent_def distribute_queue_def distribute_owned [OF plug] adm pick chirp_picked)
  have s1: "db s1 = r2" "running s1 = []" "sends s1 = []" "next_token s1 = 0"
    using emit_db [of chirp_config ?w "partial_of chirp_message" "chirp_queued\<lparr>db := r2\<rparr>"]
    by (simp_all add: em chirp_queued_state)
  show "hash_at (db chirp_sent) ''M1'' = Some (picked_hash SENT_TO_NS [] chirp_dto_hash)"
    "in_queue (db chirp_sent) QUEUE_NS_KEY ''M1''"
    by (simp_all add: sent s1 r2)
  show "running chirp_sent = [\<lparr>sd_token = 0, sd_plugin = chirp_plugin, sd_message = chirp_message\<rparr>]"
    by (simp add: sent track_def s1)
qed

lemma chirp_delivered_state:
  "reachable chirp_config chirp_delivered"
  "hash_at (db chirp_delivered) ''M1'' =
     Some (moved_hash DELIVERED_TO_NS ''q1'' (picked_hash SENT_TO_NS [] chirp_dto_hash))"
  "getMessageIdFromDeliveryQueueId ''q1'' (db chirp_delivered) = Some ''M1''"
proof -
  have "hd (running chirp_sent) \<in> set (running chirp_sent)" by (simp add: chirp_sent_state)
  then show "reachable chirp_config chirp_delivered"
    unfolding chirp_delivered_def by (intro reach_step [OF chirp_sent_reachable] step_settle)
  have nx: "nextStage (d_pattern chirp_plugin) St_ns = Some St_relayNode"
    by (simp add: chirp_plugin_fields nextStage_simps)
  have d: "''q1'' \<noteq> []" by simp
  obtain s1 where adv: "advance chirp_config (example_world 3000 ''E2'') ''M1'' chirp_plugin St_ns
      (Some ''q1'') 0 chirp_sent = (Inr True, s1)"
    and hs: "hash_at (db s1) ''M1'' =
      Some (moved_hash DELIVERED_TO_NS ''q1'' (picked_hash SENT_TO_NS [] chirp_dto_hash))"
    and ix: "strs (db s1) (indexExternalDeliveryId ''q1'') = Some (messageKey ''M1'')"
    by (rule advance_from_ns [OF reachable_ok [OF chirp_config_ok chirp_sent_reachable]
          chirp_sent_state(1,2) d nx, of "example_world 3000 ''E2''" 0], rule that, assumption+)
  have w: "db chirp_delivered = db s1"
    using adv by (simp add: chirp_delivered_def chirp_sent_state settle_send_def
        sendOneToNetworkServer_def chirp_picked)
  show "hash_at (db chirp_delivered) ''M1'' =
     Some (moved_hash DELIVERED_TO_NS ''q1'' (picked_hash SENT_TO_NS [] chirp_dto_hash))"
    by (simp add: w hs)
  show "getMessageIdFromDeliveryQueueId ''q1'' (db chirp_delivered) = Some ''M1''"
    by (simp add: w ix getMessageIdFromDeliveryQueueId_def messageIdFromKey_messageKey)
qed

section \<open>The two orders, applied\<close>

text \<open>The meter accepted the command: a write acknowledgement frame in base64.\<close>

definition chirp_up :: lorawanCalinEvent where
  "chirp_up = \<lparr>lw_devEui = Some (pad_start 16 (CHR ''0'') ''47000123456''), lw_deduplicationId = ''d1'',
     lw_queueItemId = None, lw_acknowledged = None, lw_data = Some (base64_encode example_ack_frame),
     lw_rxInfo = [\<lparr>gi_gatewayId = ''g1'', gi_snr = 5, gi_rssi = - 80\<rparr>]\<rparr>"

definition chirp_ack :: lorawanCalinEvent where
  "chirp_ack = \<lparr>lw_devEui = Some (pad_start 16 (CHR ''0'') ''47000123456''), lw_deduplicationId = ''d1'',
     lw_queueItemId = Some ''q1'', lw_acknowledged = Some True, lw_data = None, lw_rxInfo = []\<rparr>"

definition chirp_answer :: decodedEvent where
  "chirp_answer = decoded EXECUTION_SUCCESS [(''onOffToggleAccepted'', JBool True)] None"

lemma chirp_halves: "answer_halves chirp_ack chirp_up ''47000123456'' ''q1'' chirp_answer"
proof -
  have b: "byte_list example_ack_frame"
    by (simp add: example_ack_frame_def frame_bytes byte_list_simps add33H_byte END_BYTE_def)
  have ne: "base64_encode example_ack_frame \<noteq> []"
    using base64_decode_encode [OF b] by (auto simp: base64_decode_def example_ack_frame_def frame_bytes map_filter_simps)
  have d: "decodeResponseData example_ack_frame = Some chirp_answer"
    unfolding example_ack_frame_def chirp_answer_def
    by (subst decode_frame) (simp_all add: CONTROL_CODE_MAP_def)
  show ?thesis
    by (simp add: answer_halves_def chirp_ack_def chirp_up_def ne base64_decode_encode [OF b] d)
       (simp add: chirp_answer_def decoded_def)
qed

theorem answer_in_two_halves_witness:
  "\<exists>s1 a1 u1 s'. chirpstack_ingress chirp_config (example_world 8000 ''E3'') chirp_plugin chirp_ack (Some ''ack'')
      (chirp_delivered, []) = (Inr (), s1, a1) \<and>
    ingressUnhandled s1 = ingressUnhandled chirp_delivered @ [CALIN_CHIRPSTACK_ID] \<and>
    chirpstack_ingress chirp_config (example_world 8000 ''E3'') chirp_plugin chirp_up (Some ''up'')
      (chirp_delivered, []) = (Inr (), s1, u1) \<and>
    chirpstack_ingress chirp_config (example_world 9000 ''E4'') chirp_plugin chirp_up (Some ''up'') (s1, a1) =
      (Inr (), s', []) \<and>
    chirpstack_ingress chirp_config (example_world 9000 ''E4'') chirp_plugin chirp_ack (Some ''ack'') (s1, u1) =
      (Inr (), s', []) \<and> no_trace s' ''M1'' \<and>
    (\<exists>err. chirpstack_ingress chirp_config ((example_world 9000 ''E4'')\<lparr>w_persistFails := True\<rparr>) chirp_plugin
       chirp_up (Some ''up'') (s1, a1) = (Inl err, s1, []))"
proof -
  have p: "hash_plugin chirp_config (moved_hash DELIVERED_TO_NS ''q1'' (picked_hash SENT_TO_NS [] chirp_dto_hash)) =
      Some chirp_plugin"
    using chirp_plugin_for
    by (simp add: hash_plugin_def picked_hash_def chirp_dto_hash_def serializeCreateDeviceMessage_def
        chirp_create_def empty_hash_def)
  have wh: "cf_webhook chirp_config = Some (default_eventWebhook ''http://adopter'')"
    by (simp add: chirp_config_def example_config_def)
  have none: "map_of [] (lw_deduplicationId chirp_ack) = None" by simp
  have np: "w_persistFails (example_world 9000 ''E4'') = False" by (simp add: example_world_def)
  have empty: "xs = []" if "map_of xs = map_of []" for xs :: correlations using that by simp
  note halves = answer_in_two_halves [OF chirp_config_ok chirp_delivered_state(1,2) p chirp_delivered_state(3)
      chirp_halves none wh, of "example_world 8000 ''E3''", unfolded Let_def chirp_plugin_fields]
  show ?thesis
    using halves [of "example_world 9000 ''E4''", unfolded np if_False]
      halves [of "(example_world 9000 ''E4'')\<lparr>w_persistFails := True\<rparr>", simplified]
    by (elim exE conjE) (auto dest!: empty)
qed

end
