(* ===== verification/Calin_V2_Client.thy ===== *)
theory Calin_V2_Client
  imports Vendor_Shared Base64
begin

text \<open>
  The HTTP client of the CALIN API V2 plugin (\<open>src/plugins/calin-api-v2/lib/repo.ts\<close>) and its secrets:
  a bearer token from a login call, kept until shortly before it expires; an authorised POST with three
  attempts; and one fresh login when the vendor answers 401. The state of the client is the cached
  token and the log of the requests it has sent; the n-th request is answered by the n-th entry of the
  network. Concurrent callers, who share one login in flight, are not modelled.
\<close>

section \<open>Secrets\<close>

definition CALIN_API_V2_ENV_KEYS :: "string list" where
  "CALIN_API_V2_ENV_KEYS = [''CALIN_API_V2_URL'', ''CALIN_API_V2_COMPANY_NAME'',
     ''CALIN_API_V2_CUSTOMER_ID'', ''CALIN_API_V2_ADMIN_USERNAME'', ''CALIN_API_V2_ADMIN_PASSWORD'',
     ''CALIN_API_V2_POS_PASSWORD'']"

record calinApiV2Secrets =
  v2_apiBaseUrl :: string
  v2_companyName :: string
  v2_customerId :: string
  v2_adminUsername :: string
  v2_adminPassword :: string
  v2_posPassword :: string

definition loadCalinApiV2Secrets :: "(string \<rightharpoonup> string) \<Rightarrow> exn + calinApiV2Secrets" where
  "loadCalinApiV2Secrets env =
     (case requireEnvKeys env ''calin-api-v2'' CALIN_API_V2_ENV_KEYS of
        Inl e \<Rightarrow> Inl e
      | Inr values \<Rightarrow> Inr \<lparr>
          v2_apiBaseUrl = the (values ''CALIN_API_V2_URL''),
          v2_companyName = the (values ''CALIN_API_V2_COMPANY_NAME''),
          v2_customerId = the (values ''CALIN_API_V2_CUSTOMER_ID''),
          v2_adminUsername = the (values ''CALIN_API_V2_ADMIN_USERNAME''),
          v2_adminPassword = the (values ''CALIN_API_V2_ADMIN_PASSWORD''),
          v2_posPassword = the (values ''CALIN_API_V2_POS_PASSWORD'')\<rparr>)"

section \<open>State\<close>

definition CalinApiV2Error :: "string \<Rightarrow> bool \<Rightarrow> exn" where
  "CalinApiV2Error message skipRetry = VendorError message None skipRetry"

definition CUSTOM_LOGIN_TIMEOUT_MS :: time where
  "CUSTOM_LOGIN_TIMEOUT_MS = 5000"

definition FETCH_RETRIES :: nat where
  "FETCH_RETRIES = 3"

definition TOKEN_EXPIRY_SKEW_MS :: time where
  "TOKEN_EXPIRY_SKEW_MS = 1000"

record cachedToken =
  ct_token :: string
  ct_expMs :: time

record v2_client =
  cached :: "cachedToken option"
  sent :: "httpRequest list"

text \<open>
  The client's surroundings: its secrets, what the n-th request is answered, and how the bytes of a
  token's payload segment parse (\<open>JSON.parse\<close> of their UTF-8 text, \<open>None\<close> when it throws).
\<close>

record v2_world =
  v2_secrets :: calinApiV2Secrets
  v2_net :: "nat \<Rightarrow> network"
  v2_parseJson :: "nat list \<Rightarrow> jval option"

definition v2_fetch :: "v2_world \<Rightarrow> httpRequest \<Rightarrow> v2_client \<Rightarrow> (thrown + httpResponse) \<times> v2_client" where
  "v2_fetch world rq c = (v2_net world (length (sent c)) rq, c\<lparr>sent := sent c @ [rq]\<rparr>)"

section \<open>Login\<close>

definition readJwtExpMs :: "(nat list \<Rightarrow> jval option) \<Rightarrow> string \<Rightarrow> time option" where
  "readJwtExpMs parseJson jwt =
     (let parts = split_on (CHR ''.'') jwt in
      if length parts < 2 \<or> parts ! 1 = [] then None
      else map_option (\<lambda>e. e * 1000)
        (Option.bind (parseJson (base64_decode (parts ! 1))) (num_field ''exp'')))"

definition v2_login_request :: "calinApiV2Secrets \<Rightarrow> httpRequest" where
  "v2_login_request secrets = \<lparr>rq_url = v2_apiBaseUrl secrets @ ''/API/User/Login'', rq_authorization = None,
     rq_body = JObj [(''userId'', JStr (v2_adminUsername secrets)),
       (''password'', JStr (v2_adminPassword secrets)), (''company'', JStr (v2_companyName secrets))],
     rq_timeoutMs = CUSTOM_LOGIN_TIMEOUT_MS\<rparr>"

text \<open>What a login answer leaves in the cache: a body without a readable token empties it.\<close>

definition login_token :: "(nat list \<Rightarrow> jval option) \<Rightarrow> httpResponse \<Rightarrow> cachedToken option" where
  "login_token parseJson response =
     (case hr_json response of
        Inl _ \<Rightarrow> None
      | Inr body \<Rightarrow>
          (case filled (Option.bind (object_field ''result'' body) (text_field ''token'')) of
             None \<Rightarrow> None
           | Some token \<Rightarrow>
               map_option (\<lambda>expMs. \<lparr>ct_token = token, ct_expMs = expMs\<rparr>) (readJwtExpMs parseJson token)))"

text \<open>\<open>fetchToken\<close>: an attempt that throws is repeated; any answer ends the loop.\<close>

fun fetchToken_loop :: "v2_world \<Rightarrow> nat \<Rightarrow> v2_client \<Rightarrow> v2_client" where
  "fetchToken_loop world 0 c = c"
| "fetchToken_loop world (Suc n) c =
     (case v2_fetch world (v2_login_request (v2_secrets world)) c of
        (Inl _, c1) \<Rightarrow> fetchToken_loop world n c1
      | (Inr response, c1) \<Rightarrow> c1\<lparr>cached := login_token (v2_parseJson world) response\<rparr>)"

definition fetchToken :: "v2_world \<Rightarrow> v2_client \<Rightarrow> v2_client" where
  "fetchToken world c = fetchToken_loop world FETCH_RETRIES c"

definition needsRefresh :: "time \<Rightarrow> v2_client \<Rightarrow> bool" where
  "needsRefresh now c =
     (case cached c of None \<Rightarrow> True | Some t \<Rightarrow> ct_expMs t - now < TOKEN_EXPIRY_SKEW_MS)"

definition ensureToken :: "v2_world \<Rightarrow> time \<Rightarrow> v2_client \<Rightarrow> (exn + cachedToken) \<times> v2_client" where
  "ensureToken world now c =
     (let c1 = (if needsRefresh now c then fetchToken world c else c) in
      case cached c1 of
        None \<Rightarrow> (Inl (CalinApiV2Error ''CALIN API-V2 failed to get a token'' False), c1)
      | Some t \<Rightarrow> (Inr t, c1))"

section \<open>Authorised requests\<close>

datatype postOutcome = PostOk jval | PostUnauthorized | PostFailed

definition v2_request :: "calinApiV2Secrets \<Rightarrow> string \<Rightarrow> jval \<Rightarrow> string \<Rightarrow> httpRequest" where
  "v2_request secrets path body bearer = \<lparr>rq_url = v2_apiBaseUrl secrets @ path,
     rq_authorization = Some (''Bearer '' @ bearer), rq_body = body,
     rq_timeoutMs = CLIENT_SAFETY_DEADLINE_MS\<rparr>"

text \<open>A \<open>null\<close> body throws in the check of its code, inside the same \<open>try\<close>.\<close>

definition post_outcome :: "thrown + httpResponse \<Rightarrow> postOutcome" where
  "post_outcome reply =
     (case reply of
        Inl _ \<Rightarrow> PostFailed
      | Inr response \<Rightarrow>
          if hr_status response = 401 then PostUnauthorized
          else if \<not> http_ok response then PostFailed
          else (case hr_json response of
                  Inl _ \<Rightarrow> PostFailed
                | Inr data \<Rightarrow> if data = JNull then PostFailed else PostOk data))"

definition postAuthorized ::
  "v2_world \<Rightarrow> string \<Rightarrow> jval \<Rightarrow> string \<Rightarrow> v2_client \<Rightarrow> postOutcome \<times> v2_client" where
  "postAuthorized world path body bearer c =
     (case v2_fetch world (v2_request (v2_secrets world) path body bearer) c of
        (reply, c1) \<Rightarrow> (post_outcome reply, c1))"

text \<open>One wave of attempts: only failures are repeated.\<close>

fun post_wave ::
  "v2_world \<Rightarrow> string \<Rightarrow> jval \<Rightarrow> string \<Rightarrow> nat \<Rightarrow> v2_client \<Rightarrow> postOutcome \<times> v2_client" where
  "post_wave world path body bearer 0 c = (PostFailed, c)"
| "post_wave world path body bearer (Suc n) c =
     (case postAuthorized world path body bearer c of
        (PostFailed, c1) \<Rightarrow> post_wave world path body bearer n c1
      | (outcome, c1) \<Rightarrow> (outcome, c1))"

definition v2_sendRequest ::
  "v2_world \<Rightarrow> time \<Rightarrow> string \<Rightarrow> jval \<Rightarrow> v2_client \<Rightarrow> (exn + jval) \<times> v2_client" where
  "v2_sendRequest world now path body c =
     (case ensureToken world now c of
        (Inl e, c1) \<Rightarrow> (Inl e, c1)
      | (Inr token, c1) \<Rightarrow>
          (case post_wave world path body (ct_token token) FETCH_RETRIES c1 of
             (PostOk data, c2) \<Rightarrow> (Inr data, c2)
           | (PostFailed, c2) \<Rightarrow> (Inl (CalinApiV2Error ''CALIN API-V2 is down'' False), c2)
           | (PostUnauthorized, c2) \<Rightarrow>
               (let c3 = fetchToken world (c2\<lparr>cached := None\<rparr>) in
                case cached c3 of
                  None \<Rightarrow>
                    (Inl (CalinApiV2Error ''[CALIN API-V2] Can't log in, API may be down'' False), c3)
                | Some fresh \<Rightarrow>
                    (case post_wave world path body (ct_token fresh) FETCH_RETRIES c3 of
                       (PostOk data, c4) \<Rightarrow> (Inr data, c4)
                     | (PostFailed, c4) \<Rightarrow> (Inl (CalinApiV2Error ''CALIN API-V2 is down'' False), c4)
                     | (PostUnauthorized, c4) \<Rightarrow>
                         (Inl (CalinApiV2Error ''[CALIN API-V2] Unauthorized after token refresh'' False), c4)))))"

section \<open>What the client has sent\<close>

lemma fetch_frame [simp]:
  "sent (snd (v2_fetch world rq c)) = sent c @ [rq]" "cached (snd (v2_fetch world rq c)) = cached c"
  by (simp_all add: v2_fetch_def)

lemma fetchToken_loop_sent:
  "\<exists>k \<le> n. sent (fetchToken_loop world n c) = sent c @ replicate k (v2_login_request (v2_secrets world))"
proof (induction n arbitrary: c)
  case 0
  then show ?case by simp
next
  case (Suc n)
  show ?case
  proof (cases "v2_fetch world (v2_login_request (v2_secrets world)) c")
    case (Pair reply c1)
    then have c1: "sent c1 = sent c @ [v2_login_request (v2_secrets world)]"
      using fetch_frame(1) [of world "v2_login_request (v2_secrets world)" c] by simp
    show ?thesis
    proof (cases reply)
      case (Inl err)
      from Suc.IH [of c1] obtain k where "k \<le> n"
        "sent (fetchToken_loop world n c1) = sent c1 @ replicate k (v2_login_request (v2_secrets world))" by blast
      then show ?thesis using Pair Inl c1 by (intro exI [of _ "Suc k"]) simp
    next
      case (Inr response)
      then show ?thesis using Pair c1 by (intro exI [of _ 1]) simp
    qed
  qed
qed

lemma fetchToken_sent:
  obtains k where "k \<le> 3" and "sent (fetchToken world c) = sent c @ replicate k (v2_login_request (v2_secrets world))"
  using fetchToken_loop_sent [of 3 world c] by (auto simp: fetchToken_def FETCH_RETRIES_def)

lemma ensureToken_sent:
  assumes "ensureToken world now c = (r, c1)"
  obtains k where "k \<le> 3" and "sent c1 = sent c @ replicate k (v2_login_request (v2_secrets world))"
proof (cases "needsRefresh now c")
  case True
  then have "c1 = fetchToken world c"
    using assms by (auto simp: ensureToken_def Let_def split: option.splits)
  then show thesis using fetchToken_sent [of world c] that by metis
next
  case False
  then have "c1 = c" using assms by (auto simp: ensureToken_def Let_def split: option.splits)
  then show thesis using that [of 0] by simp
qed

text \<open>
  A wave sends the same request up to n times, keeps the cache, and only the last of its answers can
  be other than a failure.
\<close>

lemma post_wave_spec:
  assumes "post_wave world path body bearer n c = (outcome, c1)"
  shows "cached c1 = cached c \<and>
    (\<exists>k \<le> n. sent c1 = sent c @ replicate k (v2_request (v2_secrets world) path body bearer) \<and>
      (outcome \<noteq> PostFailed \<longrightarrow> 0 < k \<and> outcome = post_outcome
         (v2_net world (length (sent c1) - 1) (v2_request (v2_secrets world) path body bearer))) \<and>
      (\<forall>i < k - 1. post_outcome (v2_net world (length (sent c) + i)
         (v2_request (v2_secrets world) path body bearer)) = PostFailed))"
  using assms
proof (induction n arbitrary: c)
  case 0
  then show ?case by simp
next
  case (Suc n)
  let ?rq = "v2_request (v2_secrets world) path body bearer"
  let ?reply = "v2_net world (length (sent c)) ?rq"
  let ?c = "c\<lparr>sent := sent c @ [?rq]\<rparr>"
  show ?case
  proof (cases "post_outcome ?reply = PostFailed")
    case True
    then have "post_wave world path body bearer n ?c = (outcome, c1)"
      using Suc.prems by (simp add: postAuthorized_def v2_fetch_def)
    from Suc.IH [OF this] obtain k where k: "k \<le> n" "cached c1 = cached c"
      "sent c1 = (sent c @ [?rq]) @ replicate k ?rq"
      "outcome \<noteq> PostFailed \<longrightarrow> 0 < k \<and> outcome = post_outcome (v2_net world (length (sent c1) - 1) ?rq)"
      "\<And>i. i < k - 1 \<Longrightarrow> post_outcome (v2_net world (length (sent c) + 1 + i) ?rq) = PostFailed"
      by auto
    have "post_outcome (v2_net world (length (sent c) + i) ?rq) = PostFailed" if "i < k" for i
      using True k(5) [of "i - 1"] that by (cases i) auto
    then show ?thesis using k(1-4) by (intro conjI exI [of _ "Suc k"]) simp_all
  next
    case False
    then have "outcome = post_outcome ?reply \<and> c1 = ?c"
      using Suc.prems by (auto simp: postAuthorized_def v2_fetch_def split: postOutcome.splits)
    then show ?thesis by (intro conjI exI [of _ 1]) simp_all
  qed
qed

end
