(* ===== verification/Calin_V1_Client.thy ===== *)
theory Calin_V1_Client
  imports Vendor_Shared
begin

text \<open>
  The HTTP client of the CALIN API V1 plugin (\<open>src/plugins/calin-api-v1/lib/repo.ts\<close>) and its secrets
  (\<open>lib/secrets.ts\<close>): one POST, whose failures become a \<open>CalinApiV1Error\<close> with a numeric code when
  the vendor answered over HTTP and a textual one when it could not be reached.
\<close>

section \<open>Secrets\<close>

definition CALIN_API_V1_ENV_KEYS :: "string list" where
  "CALIN_API_V1_ENV_KEYS = [''CALIN_API_V1_URL'', ''CALIN_API_V1_COMPANY_NAME'',
     ''CALIN_API_V1_ADMIN_USERNAME'', ''CALIN_API_V1_ADMIN_PASSWORD'',
     ''CALIN_API_V1_POS_USERNAME'', ''CALIN_API_V1_POS_PASSWORD'',
     ''CALIN_API_V1_MAINTENANCE_USERNAME'', ''CALIN_API_V1_MAINTENANCE_PASSWORD'']"

record calinApiV1Secrets =
  v1_apiBaseUrl :: string
  v1_companyName :: string
  v1_adminUsername :: string
  v1_adminPassword :: string
  v1_posUsername :: string
  v1_posPassword :: string
  v1_maintenanceUsername :: string
  v1_maintenancePassword :: string

definition loadCalinApiV1Secrets :: "(string \<rightharpoonup> string) \<Rightarrow> exn + calinApiV1Secrets" where
  "loadCalinApiV1Secrets env =
     (case requireEnvKeys env ''calin-api-v1'' CALIN_API_V1_ENV_KEYS of
        Inl e \<Rightarrow> Inl e
      | Inr values \<Rightarrow> Inr \<lparr>
          v1_apiBaseUrl = the (values ''CALIN_API_V1_URL''),
          v1_companyName = the (values ''CALIN_API_V1_COMPANY_NAME''),
          v1_adminUsername = the (values ''CALIN_API_V1_ADMIN_USERNAME''),
          v1_adminPassword = the (values ''CALIN_API_V1_ADMIN_PASSWORD''),
          v1_posUsername = the (values ''CALIN_API_V1_POS_USERNAME''),
          v1_posPassword = the (values ''CALIN_API_V1_POS_PASSWORD''),
          v1_maintenanceUsername = the (values ''CALIN_API_V1_MAINTENANCE_USERNAME''),
          v1_maintenancePassword = the (values ''CALIN_API_V1_MAINTENANCE_PASSWORD'')\<rparr>)"

section \<open>Errors\<close>

text \<open>\<open>new CalinApiV1Error(message, { code, skipRetry })\<close>.\<close>

definition CalinApiV1Error :: "string \<Rightarrow> errorCode option \<Rightarrow> bool \<Rightarrow> exn" where
  "CalinApiV1Error message code skipRetry = VendorError message code skipRetry"

definition TRANSPORT_CODES :: "string list" where
  "TRANSPORT_CODES = [''ECONNREFUSED'', ''ECONNRESET'', ''ETIMEDOUT'', ''EAI_AGAIN'', ''ENOTFOUND'',
     ''EHOSTUNREACH'', ''ENETUNREACH'', ''EPIPE'']"

fun getNetworkErrorCode :: "thrown \<Rightarrow> string option" where
  "getNetworkErrorCode NotAnObject = None"
| "getNetworkErrorCode (ErrorObject name (Some code) cause) = Some code"
| "getNetworkErrorCode (ErrorObject name None (Some (ErrorObject name' code cause))) = code"
| "getNetworkErrorCode (ErrorObject name None cause) = None"

text \<open>The loop over the error and at most three causes below it.\<close>

fun abort_within :: "nat \<Rightarrow> thrown \<Rightarrow> bool" where
  "abort_within 0 err = False"
| "abort_within (Suc n) NotAnObject = False"
| "abort_within (Suc n) (ErrorObject name code cause) =
     (if name = Some ''TimeoutError'' \<or> name = Some ''AbortError'' then True
      else case cause of None \<Rightarrow> False | Some c \<Rightarrow> abort_within n c)"

definition isAbortTimeout :: "thrown \<Rightarrow> bool" where
  "isAbortTimeout err = abort_within 4 err"

definition isTransportCode :: "string \<Rightarrow> bool" where
  "isTransportCode code \<longleftrightarrow> code \<in> set TRANSPORT_CODES \<or> starts_with ''UND_ERR_'' code"

definition transportCodeOf :: "thrown \<Rightarrow> string option" where
  "transportCodeOf err =
     (let code = getNetworkErrorCode err in
      if pred_option isTransportCode code \<and> code \<noteq> None then code
      else if isAbortTimeout err then Some (or_else code ''TimeoutError'')
      else None)"

definition messageForTransport :: "string \<Rightarrow> string" where
  "messageForTransport code =
     (if code = ''ECONNREFUSED'' then ''[CALIN API-V1] could not be reached, connection was refused''
      else if code = ''ECONNRESET'' then ''[CALIN API-V1] abruptly closed its end of the connection''
      else ''[CALIN API-V1] could not be reached'')"

text \<open>The outer \<open>catch\<close> of \<open>sendRequest\<close>, for what is not a \<open>CalinApiV1Error\<close> already.\<close>

definition v1_fetch_failure :: "thrown \<Rightarrow> exn" where
  "v1_fetch_failure err =
     (case transportCodeOf err of
        Some code \<Rightarrow> CalinApiV1Error (messageForTransport code) (Some (CodeStr code)) False
      | None \<Rightarrow> CalinApiV1Error ''[CALIN API-V1] is down''
          (map_option CodeStr (getNetworkErrorCode err)) False)"

section \<open>Requests\<close>

definition v1_request :: "string \<Rightarrow> string \<Rightarrow> (string \<times> jval) list \<Rightarrow> httpRequest" where
  "v1_request apiBaseUrl path body = \<lparr>rq_url = apiBaseUrl @ path, rq_authorization = None,
     rq_body = JObj body, rq_timeoutMs = CLIENT_SAFETY_DEADLINE_MS\<rparr>"

definition status_code :: "httpResponse \<Rightarrow> errorCode option" where
  "status_code response = Some (CodeNum (of_nat (hr_status response)))"

text \<open>\<open>String(errBody.Message)\<close>, or \<open>String(undefined)\<close> when the body cannot be read.\<close>

definition down_text :: "thrown + jval \<Rightarrow> string" where
  "down_text body =
     (case Option.bind (case body of Inl _ \<Rightarrow> None | Inr b \<Rightarrow> Some b) (field ''Message'') of
        None \<Rightarrow> ''undefined''
      | Some m \<Rightarrow> js_string m)"

definition v1_sendRequest ::
  "string \<Rightarrow> network \<Rightarrow> string \<Rightarrow> (string \<times> jval) list \<Rightarrow> exn + jval" where
  "v1_sendRequest apiBaseUrl net path body =
     (case net (v1_request apiBaseUrl path body) of
        Inl err \<Rightarrow> Inl (v1_fetch_failure err)
      | Inr response \<Rightarrow>
          if pred_option (includes_str ''text/html'') (hr_contentType response) \<and>
             hr_contentType response \<noteq> None
          then Inl (CalinApiV1Error ''[CALIN API-V1] responded with a HTML page..''
                 (status_code response) False)
          else if \<not> http_ok response
          then Inl (CalinApiV1Error (''[CALIN API-V1] is down: '' @ down_text (hr_json response))
                 (status_code response) False)
          else
            (case hr_json response of
               Inl err \<Rightarrow> Inl (v1_fetch_failure err)
             | Inr data \<Rightarrow>
                 if data = JNull then Inl (v1_fetch_failure type_error) else Inr data))"

text \<open>Every failure of the client can be retried, and only an HTTP answer gives it a numeric code.\<close>

lemma v1_fetch_failure_code:
  "v1_fetch_failure err = VendorError m c sk \<Longrightarrow> \<not> sk \<and> (\<nexists>n. c = Some (CodeNum n))"
  by (auto simp: v1_fetch_failure_def CalinApiV1Error_def split: option.splits)

lemma v1_sendRequest_Inl:
  assumes "v1_sendRequest url net path body = Inl e"
  obtains m c where "e = VendorError m c False"
    and "(\<exists>n. c = Some (CodeNum n)) \<longleftrightarrow>
      (\<exists>r. net (v1_request url path body) = Inr r \<and> c = status_code r \<and>
        (\<not> http_ok r \<or> (\<exists>t. hr_contentType r = Some t \<and> includes_str ''text/html'' t)))"
proof (cases "net (v1_request url path body)")
  case (Inl err)
  then have "e = v1_fetch_failure err" using assms by (simp add: v1_sendRequest_def)
  then show thesis using that Inl by (auto simp: v1_fetch_failure_def CalinApiV1Error_def split: option.splits)
next
  case (Inr r)
  show thesis
  proof (cases "\<not> http_ok r \<or> (\<exists>t. hr_contentType r = Some t \<and> includes_str ''text/html'' t)")
    case True
    then obtain m where "e = VendorError m (status_code r) False"
      using assms Inr by (auto simp: v1_sendRequest_def CalinApiV1Error_def split: if_splits)
    then show thesis using that True Inr by (auto simp: status_code_def)
  next
    case False
    then obtain err where "e = v1_fetch_failure err"
      using assms Inr by (auto simp: v1_sendRequest_def split: if_splits sum.splits option.splits)
    then show thesis using that False Inr
      by (auto simp: v1_fetch_failure_def CalinApiV1Error_def split: option.splits)
  qed
qed

end
