(* ===== verification/Calin_V1_Plugin.thy ===== *)
theory Calin_V1_Plugin
  imports Calin_V1_Client Js_Date
begin

text \<open>
  The CALIN API V1 plugin (\<open>src/plugins/calin-api-v1/\<close>): a PULL plugin that creates vendor tasks
  (\<open>outgoing.ts\<close>), polls them (\<open>incoming.ts\<close>) and mints tokens (\<open>token.ts\<close>), all through one
  HTTP client. The network is an argument of each facet.
\<close>

section \<open>Tables\<close>

definition CalinApiV1ReadMap :: "(commandType \<times> string) list" where
  "CalinApiV1ReadMap = [
     (READ_CREDIT, ''Current Credit Register''), (READ_VOLTAGE, ''Voltage''), (READ_POWER, ''Power''),
     (READ_CURRENT, ''Current''), (READ_POWER_LIMIT, ''Maximum power threshold''),
     (READ_VERSION, ''Version''), (READ_DATE, ''Date'')]"

definition CalinApiV1PhaseReadMap :: "(commandType \<times> (phase \<times> string) list) list" where
  "CalinApiV1PhaseReadMap = [
     (READ_VOLTAGE, [(PhaseA, ''VoltageA''), (PhaseB, ''VoltageB''), (PhaseC, ''VoltageC'')]),
     (READ_CURRENT, [(PhaseA, ''CurrentA''), (PhaseB, ''CurrentB''), (PhaseC, ''CurrentC'')])]"

definition CalinApiV1ControlMap :: "(commandType \<times> string) list" where
  "CalinApiV1ControlMap = [(TURN_ON, ''Switch On''), (TURN_OFF, ''Switch Off'')]"

definition CalinApiV1WriteMap :: "(commandType \<times> string) list" where
  "CalinApiV1WriteMap = [(SET_DATE, ''Date'')]"

section \<open>Outgoing\<close>

definition v1_commApiData :: "calinApiV1Secrets \<Rightarrow> (string \<times> jval) list" where
  "v1_commApiData secrets = [
     (''CompanyName'', JStr (v1_companyName secrets)), (''UserName'', JStr (v1_adminUsername secrets)),
     (''Password'', JStr (v1_adminPassword secrets))]"

definition skip_retry_error :: "string \<Rightarrow> exn" where
  "skip_retry_error message = VendorError message None True"

text \<open>Two-digit years are of this century.\<close>

definition normal_year :: "int \<Rightarrow> int" where
  "normal_year year = (if year < 100 then 2000 + year else year)"

text \<open>
  The check shared by both CALIN APIs: the three numbers are safe integers, and the date that
  \<open>Date.UTC\<close> makes of them reads back the same. The result is the day number.
\<close>

definition checked_date :: "int \<Rightarrow> int \<Rightarrow> int \<Rightarrow> int option" where
  "checked_date year month day =
     (if \<not> safe_integer year \<or> \<not> safe_integer month \<or> \<not> safe_integer day then None
      else
        (case utc_day (normal_year year) (month - 1) day of
           None \<Rightarrow> None
         | Some utc \<Rightarrow>
             if utc_fields utc \<noteq> (normal_year year, month - 1, day) then None else Some utc))"

definition v1_formatDate :: "int \<Rightarrow> int \<Rightarrow> int \<Rightarrow> exn + string" where
  "v1_formatDate year month day =
     (case checked_date year month day of
        None \<Rightarrow> Inl (skip_retry_error ''Invalid payload for setting date'')
      | Some utc \<Rightarrow> Inr (padded 2 (js_rem (normal_year year) 100) @ padded 2 month @ padded 2 day @
          padded 2 (week_day utc)))"

definition v1_getReadDataItem :: "commandType \<Rightarrow> phase option \<Rightarrow> string" where
  "v1_getReadDataItem commandType phs =
     (case phs of
        Some p \<Rightarrow>
          if isPhaseSpecificReadCommand commandType
          then the (map_of (the (map_of CalinApiV1PhaseReadMap commandType)) p)
          else the (map_of CalinApiV1ReadMap commandType)
      | None \<Rightarrow> the (map_of CalinApiV1ReadMap commandType))"

text \<open>\<open>_createCommTask\<close>: the vendor's task number, or an error that carries the result code.\<close>

definition v1_createCommTask ::
  "calinApiV1Secrets \<Rightarrow> network \<Rightarrow> string \<Rightarrow> (string \<times> jval) list \<Rightarrow> (jval \<Rightarrow> string option) \<Rightarrow>
   exn + string" where
  "v1_createCommTask secrets net path extra missingTaskIdMessage =
     (case v1_sendRequest (v1_apiBaseUrl secrets) net path (v1_commApiData secrets @ extra) of
        Inl e \<Rightarrow> Inl e
      | Inr res \<Rightarrow>
          (case filled (Option.bind (object_field ''Result'' res) (text_field ''TaskNo'')) of
             Some taskId \<Rightarrow> Inr taskId
           | None \<Rightarrow>
               Inl (CalinApiV1Error
                 (or_else (missingTaskIdMessage res)
                    (''CALIN API-V1 did not schedule task because: '' @
                     or_else (text_field ''Reason'' res) ''unknown''))
                 (map_option CodeNum (toSafeNumberOrNull (field ''ResultCode'' res))) False)))"

definition v1_requestRead :: "calinApiV1Secrets \<Rightarrow> network \<Rightarrow> string \<Rightarrow> string \<Rightarrow> exn + string" where
  "v1_requestRead secrets net taskType meterNo =
     v1_createCommTask secrets net ''/COMM_RemoteReading''
       [(''MeterNo'', JStr meterNo), (''DataItem'', JStr taskType)] (\<lambda>_. None)"

definition v1_requestControl :: "calinApiV1Secrets \<Rightarrow> network \<Rightarrow> string \<Rightarrow> string \<Rightarrow> exn + string" where
  "v1_requestControl secrets net taskType meterNo =
     v1_createCommTask secrets net ''/COMM_RemoteControl''
       [(''MeterNo'', JStr meterNo), (''DataItem'', JStr taskType)] (\<lambda>_. None)"

definition v1_requestWrite ::
  "calinApiV1Secrets \<Rightarrow> network \<Rightarrow> string \<Rightarrow> string \<Rightarrow> string \<Rightarrow> exn + string" where
  "v1_requestWrite secrets net taskType text meterNo =
     v1_createCommTask secrets net ''/COMM_RemoteWrite''
       [(''MeterNo'', JStr meterNo), (''DataItem'', JStr taskType), (''Data'', JStr text)] (\<lambda>_. None)"

definition token_rejected_text :: "string \<Rightarrow> string \<Rightarrow> string" where
  "token_rejected_text token meterNo = ''Token '' @ token @ '' was immediately rejected for meter '' @
     meterNo @ '', possibly already delivered''"

definition v1_requestTokenDelivery ::
  "calinApiV1Secrets \<Rightarrow> network \<Rightarrow> string \<Rightarrow> string \<Rightarrow> exn + string" where
  "v1_requestTokenDelivery secrets net token meterNo =
     v1_createCommTask secrets net ''/COMM_RemoteToken''
       [(''MeterNo'', JStr meterNo), (''Token'', JStr token)]
       (\<lambda>res. if text_field ''ResultCode'' res = Some ''99'' then Some (token_rejected_text token meterNo)
              else None)"

text \<open>A payload of the other shape has no \<open>year\<close>, which is no safe integer.\<close>

definition v1_parsePayload :: "commandType \<Rightarrow> payload option \<Rightarrow> exn + string" where
  "v1_parsePayload commandType pl =
     (case pl of
        None \<Rightarrow> Inl (skip_retry_error ''Can't perform a write request without a payload'')
      | Some p \<Rightarrow>
          if commandType \<noteq> SET_DATE then Inl (skip_retry_error ''Payload parser not implemented'')
          else
            (case p of
               SetDate year month day \<Rightarrow> v1_formatDate year month day
             | SetTime _ _ _ \<Rightarrow> Inl (skip_retry_error ''Invalid payload for setting date'')))"

definition v1_sendOne :: "calinApiV1Secrets \<Rightarrow> network \<Rightarrow> deviceMessage \<Rightarrow> exn + string" where
  "v1_sendOne secrets net message =
     (let meterNo = dev_externalReference (m_device message);
          commandType = m_commandType message
      in
      if map_of CalinApiV1ReadMap commandType \<noteq> None
      then v1_requestRead secrets net (v1_getReadDataItem commandType (m_phase message)) meterNo
      else if map_of CalinApiV1ControlMap commandType \<noteq> None
      then v1_requestControl secrets net (the (map_of CalinApiV1ControlMap commandType)) meterNo
      else if map_of CalinApiV1WriteMap commandType \<noteq> None
      then (case v1_parsePayload commandType (Option.bind (m_requestData message) rd_payload) of
              Inl e \<Rightarrow> Inl e
            | Inr text \<Rightarrow>
                v1_requestWrite secrets net (the (map_of CalinApiV1WriteMap commandType)) text meterNo)
      else if isTokenCommand commandType
      then (case Option.bind (m_requestData message) rd_token of
              None \<Rightarrow> Inl (skip_retry_error ''Can't perform a token delivery without a token'')
            | Some token \<Rightarrow>
                if trim token = []
                then Inl (skip_retry_error ''Can't perform a token delivery without a token'')
                else v1_requestTokenDelivery secrets net token meterNo)
      else Inl (skip_retry_error ''Not implemented''))"

definition v1_parseError :: "exn \<Rightarrow> failureContext" where
  "v1_parseError err =
     (case err of
        VendorError message code skipRetry \<Rightarrow>
          \<lparr>fc_reason = message, fc_errorCode = code, fc_details = None,
           fc_skipRetry = Some (skipRetry \<or> code = Some (CodeNum 99))\<rparr>
      | _ \<Rightarrow>
          \<lparr>fc_reason = exn_message err, fc_errorCode = None, fc_details = None, fc_skipRetry = None\<rparr>)"

section \<open>Incoming\<close>

datatype task_type = READ | CONTROL | WRITE | TOKEN

text \<open>The chain of command guards that picks the task's kind.\<close>

definition task_type_of :: "commandType \<Rightarrow> task_type option" where
  "task_type_of commandType =
     (if isReadCommand commandType then Some READ
      else if isControlCommand commandType then Some CONTROL
      else if isWriteCommand commandType then Some WRITE
      else if isTokenCommand commandType then Some TOKEN else None)"

fun v1_TASK_PATH_MAP :: "task_type \<Rightarrow> string" where
  "v1_TASK_PATH_MAP READ = ''/COMM_RemoteReadingTask''"
| "v1_TASK_PATH_MAP CONTROL = ''/COMM_RemoteControlTask''"
| "v1_TASK_PATH_MAP WRITE = ''/COMM_RemoteWriteTask''"
| "v1_TASK_PATH_MAP TOKEN = ''/COMM_RemoteTokenTask''"

definition dataItemToPhase :: "(string \<times> phase) list" where
  "dataItemToPhase = [
     (''VoltageA'', PhaseA), (''VoltageB'', PhaseB), (''VoltageC'', PhaseC),
     (''CurrentA'', PhaseA), (''CurrentB'', PhaseB), (''CurrentC'', PhaseC)]"

record parsedResponseSlice =
  ps_response :: messageResponse
  ps_failureContext :: "failureContext option"

definition createSuccessfulResponseData :: "(string \<times> jval) list option \<Rightarrow> parsedResponseSlice" where
  "createSuccessfulResponseData data =
     \<lparr>ps_response = \<lparr>mr_status = EXECUTION_SUCCESS, mr_data = data\<rparr>, ps_failureContext = None\<rparr>"

definition reason_context :: "string \<Rightarrow> errorCode option \<Rightarrow> bool option \<Rightarrow> failureContext" where
  "reason_context reason code skip =
     \<lparr>fc_reason = reason, fc_errorCode = code, fc_details = None, fc_skipRetry = skip\<rparr>"

definition createFailedResponseData :: "string \<Rightarrow> parsedResponseSlice" where
  "createFailedResponseData reason =
     \<lparr>ps_response = \<lparr>mr_status = EXECUTION_FAILURE, mr_data = None\<rparr>,
      ps_failureContext = Some (reason_context reason None None)\<rparr>"

definition number_or_null :: "num option \<Rightarrow> jval" where
  "number_or_null x = (case x of None \<Rightarrow> JNull | Some v \<Rightarrow> JNum v)"

text \<open>Array destructuring: the n-th part, \<open>None\<close> past the end.\<close>

definition part :: "nat \<Rightarrow> string list \<Rightarrow> jval option" where
  "part n ps = (if n < length ps then Some (JStr (ps ! n)) else None)"

definition phase_fields :: "phase option \<Rightarrow> (string \<times> jval) list" where
  "phase_fields p = (case p of None \<Rightarrow> [] | Some q \<Rightarrow> [(''phase'', JStr (phase_string q))])"

definition v1_unexpected :: "string \<Rightarrow> string \<Rightarrow> string" where
  "v1_unexpected text what = ''CALIN API-V1 responded with '' @ CHR 0x22 # text @ CHR 0x22 #
     '' while we were expecting '' @ what"

definition v1_parse_credit :: "string \<Rightarrow> parsedResponseSlice" where
  "v1_parse_credit text =
     (if text = [] then createFailedResponseData ''CALIN API-V1 responded with an empty value''
      else
        (let ps = split_on (CHR '','') text in
         case toSafeNumberOrNull (part 0 ps) of
           None \<Rightarrow> createFailedResponseData (v1_unexpected text ''kWh and relay status'')
         | Some kwh \<Rightarrow> createSuccessfulResponseData (Some
             [(''kwhCreditAvailable'', JNum kwh),
              (''isOn'', JBool (part 1 ps = Some (JStr ''ON'')))])))"

definition first_number :: "string \<Rightarrow> num option" where
  "first_number text = toSafeNumberOrNull (part 0 (split_on (CHR '' '') text))"

definition v1_parse_date :: "string \<Rightarrow> parsedResponseSlice" where
  "v1_parse_date text =
     (if text = [] then createSuccessfulResponseData (Some [(''dateAccepted'', JBool True)])
      else
        (let ps = split_on (CHR ''-'') (hd (split_on (CHR '' '') text)) in
         createSuccessfulResponseData (Some [
           (''year'', number_or_null (toSafeNumberOrNull (Some (JStr (''20'' @ hd ps))))),
           (''month'', number_or_null (toSafeNumberOrNull (part 1 ps))),
           (''day'', number_or_null (toSafeNumberOrNull (part 2 ps)))])))"

text \<open>A method called on \<open>Data\<close>: it throws where the answer has none.\<close>

definition on_text :: "string \<Rightarrow> string option \<Rightarrow> (string \<Rightarrow> 'a) \<Rightarrow> exn + 'a" where
  "on_text method data f =
     (case data of None \<Rightarrow> Inl (undefined_field method) | Some text \<Rightarrow> Inr (f text))"

definition v1_parseResponseData ::
  "string \<Rightarrow> string option \<Rightarrow> phase option \<Rightarrow> exn + parsedResponseSlice" where
  "v1_parseResponseData dataItem data requestedPhase =
     (let responsePhase = (case map_of dataItemToPhase dataItem of
            None \<Rightarrow> requestedPhase | Some p \<Rightarrow> Some p)
      in
      if dataItem = ''Current Credit Register'' then on_text ''length'' data v1_parse_credit
      else if dataItem \<in> {''Voltage'', ''VoltageA'', ''VoltageB'', ''VoltageC''} then
        on_text ''split'' data (\<lambda>text. case first_number text of
           None \<Rightarrow> createFailedResponseData (v1_unexpected text ''a voltage number'')
         | Some v \<Rightarrow> createSuccessfulResponseData (Some
             ((''voltage'', JNum v) # phase_fields responsePhase)))
      else if dataItem = ''Power'' then
        on_text ''split'' data (\<lambda>text. createSuccessfulResponseData (Some
          ((''power'', number_or_null (first_number text)) # phase_fields responsePhase)))
      else if dataItem \<in> {''Current'', ''CurrentA'', ''CurrentB'', ''CurrentC''} then
        on_text ''split'' data (\<lambda>text. createSuccessfulResponseData (Some
          ((''current'', number_or_null (first_number text)) # phase_fields responsePhase)))
      else if dataItem = ''Maximum power threshold'' then
        on_text ''split'' data (\<lambda>text. createSuccessfulResponseData (Some
          [(''powerLimit'', number_or_null (first_number text))]))
      else if dataItem = ''Version'' then
        Inr (createSuccessfulResponseData (Some (case data of
           None \<Rightarrow> [] | Some text \<Rightarrow> [(''version'', JStr text)])))
      else if dataItem = ''Date'' then on_text ''length'' data v1_parse_date
      else if dataItem = ''Switch On'' then
        Inr (createSuccessfulResponseData (Some [(''turnOnAccepted'', JBool True)]))
      else if dataItem = ''Switch Off'' then
        Inr (createSuccessfulResponseData (Some [(''turnOffAccepted'', JBool True)]))
      else if dataItem = ''Token'' then
        Inr (createSuccessfulResponseData (Some [(''tokenAccepted'', JBool True)]))
      else Inr (createSuccessfulResponseData None))"

text \<open>The fields every event of a poll starts from.\<close>

definition task_event ::
  "deviceMessage \<Rightarrow> deliveryStatus \<Rightarrow> messageResponse option \<Rightarrow> failureContext option \<Rightarrow>
   parsedIncomingEvent" where
  "task_event message status response context = \<lparr>
     e_commandType = Some (m_commandType message), e_deliveryQueueId = Some (m_deliveryQueueId message),
     e_deliveryStatus = status, e_device = m_device message, e_response = response,
     e_unsolicited = False, e_failureContext = context\<rparr>"

definition execution_failed :: messageResponse where
  "execution_failed = \<lparr>mr_status = EXECUTION_FAILURE, mr_data = None\<rparr>"

text \<open>
  What a poll makes of the vendor's answer. A result is parsed outside the \<open>try\<close>, so an answer without the
  \<open>Data\<close> that its item needs makes the poll throw; an absent \<open>DataItem\<close> is no known item, and an absent
  \<open>Reason\<close> is read as the empty text.
\<close>

definition v1_task_result :: "deviceMessage \<Rightarrow> jval \<Rightarrow> exn + parsedIncomingEvent option" where
  "v1_task_result message res =
     (case object_field ''Result'' res of
        None \<Rightarrow>
          Inr (Some (if text_field ''ResultCode'' res = Some ''99''
            then task_event message DELIVERY_FAILED None (Some (reason_context
                   ''The token was rejected, possibly already delivered.''
                   (Some (CodeNum 99)) (Some True)))
            else task_event message DELIVERY_FAILED None (Some (reason_context
                   (or_else (text_field ''Reason'' res)
                      ''CALIN API V1 gave no status or data for this task'') None None))))
      | Some result \<Rightarrow>
          (case filled (text_field ''Status'' result) of
             None \<Rightarrow> Inr None
           | Some status \<Rightarrow>
               if status = ''unknown'' then Inr None
               else if status = ''False'' then
                 Inr (Some (task_event message DELIVERY_SUCCESSFUL (Some execution_failed)
                   (Some (reason_context
                     (if text_field ''Reason'' res \<noteq> Some ''OK'' then or_else (text_field ''Reason'' res) []
                      else ''Delivery was successful but execution of the command failed'') None None))))
               else if status \<noteq> ''True'' then Inr None
               else
                 map_sum id (\<lambda>parsed. Some (task_event message DELIVERY_SUCCESSFUL
                     (Some (ps_response parsed)) (ps_failureContext parsed)))
                   (v1_parseResponseData (or_else (text_field ''DataItem'' result) [])
                      (text_field ''Data'' result) (m_phase message))))"

text \<open>The \<open>catch\<close> of a poll: only a numeric code means that the vendor answered.\<close>

definition v1_poll_failure :: "deviceMessage \<Rightarrow> exn \<Rightarrow> parsedIncomingEvent option" where
  "v1_poll_failure message err =
     (case err of
        VendorError m (Some (CodeNum code)) _ \<Rightarrow>
          Some (task_event message DELIVERY_FAILED None (Some (reason_context
            (''Could not check task status because '' @ m) (Some (CodeNum code)) None)))
      | _ \<Rightarrow> None)"

definition v1_fetchStatus ::
  "calinApiV1Secrets \<Rightarrow> network \<Rightarrow> deviceMessage \<Rightarrow> exn + parsedIncomingEvent option" where
  "v1_fetchStatus secrets net message =
     (case task_type_of (m_commandType message) of
        None \<Rightarrow> Inr None
      | Some taskType \<Rightarrow>
          (case v1_sendRequest (v1_apiBaseUrl secrets) net (v1_TASK_PATH_MAP taskType)
                  (v1_commApiData secrets @ [(''TaskNo'', JStr (m_deliveryQueueId message))]) of
             Inl err \<Rightarrow> Inr (v1_poll_failure message err)
           | Inr res \<Rightarrow> v1_task_result message res))"

section \<open>Tokens\<close>

text \<open>\<open>GenerateTokenInput\<close>: the token's type with its payload.\<close>

datatype tokenKind =
    TopUpKwh num
  | PowerLimit num
  | ClearTamper
  | ClearCredit

record generateTokenInput =
  gt_kind :: tokenKind
  gt_issueDateString :: string
  gt_externalReference :: string
  gt_decoderKey :: "string option"

definition v1_posApiData :: "calinApiV1Secrets \<Rightarrow> (string \<times> jval) list" where
  "v1_posApiData secrets = [
     (''company_name'', JStr (v1_companyName secrets)), (''user_name'', JStr (v1_posUsername secrets)),
     (''password'', JStr (v1_posPassword secrets)), (''password_vend'', JStr (v1_posPassword secrets)),
     (''is_vend_by_unit'', JBool True)]"

definition v1_maintenanceApiData :: "calinApiV1Secrets \<Rightarrow> (string \<times> jval) list" where
  "v1_maintenanceApiData secrets = [
     (''company_name'', JStr (v1_companyName secrets)),
     (''user_name'', JStr (v1_maintenanceUsername secrets)),
     (''password'', JStr (v1_maintenancePassword secrets))]"

record tokenAttempt =
  ta_token :: "string option"
  ta_failureReason :: "string option"

fun v1_token_request :: "calinApiV1Secrets \<Rightarrow> string \<Rightarrow> tokenKind \<Rightarrow> string \<times> (string \<times> jval) list" where
  "v1_token_request secrets meterNumber (TopUpKwh amount) =
     (''/POS_Purchase'', v1_posApiData secrets @
        [(''meter_number'', JStr meterNumber), (''amount'', JNum amount)])"
| "v1_token_request secrets meterNumber (PowerLimit maxPower) =
     (''/Maintenance_SetMaxPower'', v1_maintenanceApiData secrets @
        [(''meter_number'', JStr meterNumber), (''max_power'', JNum maxPower)])"
| "v1_token_request secrets meterNumber ClearTamper =
     (''/Maintenance_ClearTamper'', v1_maintenanceApiData secrets @ [(''meter_number'', JStr meterNumber)])"
| "v1_token_request secrets meterNumber ClearCredit =
     (''/Maintenance_ClearCredit'', v1_maintenanceApiData secrets @ [(''meter_number'', JStr meterNumber)])"

text \<open>The POS answer carries the token in \<open>result.token\<close>, the maintenance answers in \<open>result\<close>.\<close>

fun v1_token_attempt :: "tokenKind \<Rightarrow> jval \<Rightarrow> tokenAttempt" where
  "v1_token_attempt (TopUpKwh amount) res =
     \<lparr>ta_token = Option.bind (object_field ''result'' res) (text_field ''token''),
      ta_failureReason = text_field ''reason'' res\<rparr>"
| "v1_token_attempt kind res =
     \<lparr>ta_token = text_field ''result'' res, ta_failureReason = text_field ''reason'' res\<rparr>"

text \<open>An attempt without a token is an error that names the vendor's reason, when it gave one.\<close>

definition token_or_error :: "string \<Rightarrow> tokenAttempt \<Rightarrow> exn + string" where
  "token_or_error base attempt =
     (case filled (ta_token attempt) of
        Some token \<Rightarrow> Inr token
      | None \<Rightarrow> Inl (PlainError
          (case filled (ta_failureReason attempt) of
             Some reason \<Rightarrow> base @ '' because: '' @ reason
           | None \<Rightarrow> base)))"

definition v1_generate :: "calinApiV1Secrets \<Rightarrow> network \<Rightarrow> generateTokenInput \<Rightarrow> exn + string" where
  "v1_generate secrets net input =
     (case v1_token_request secrets (gt_externalReference input) (gt_kind input) of
        (path, body) \<Rightarrow>
          (case v1_sendRequest (v1_apiBaseUrl secrets) net path body of
             Inl e \<Rightarrow> Inl e
           | Inr res \<Rightarrow>
               token_or_error ''[CALIN API-V1 TOKEN SERVICE] Got an empty response''
                 (v1_token_attempt (gt_kind input) res)))"

section \<open>The plugin\<close>

definition CALIN_API_V1_ID :: plugin_id where
  "CALIN_API_V1_ID = ''calin-api-v1''"

definition CALIN_API_V1_NODE_KIND :: string where
  "CALIN_API_V1_NODE_KIND = ''dcu''"

definition CALIN_API_V1_SUPPORTED_COMMAND_TYPES :: "commandType list" where
  "CALIN_API_V1_SUPPORTED_COMMAND_TYPES =
     [READ_CREDIT, READ_VOLTAGE, READ_POWER, READ_CURRENT, READ_POWER_LIMIT, READ_VERSION, READ_DATE,
      TURN_ON, TURN_OFF, SET_DATE, TOP_UP_KWH, SET_POWER_LIMIT, CLEAR_TAMPER, CLEAR_CREDIT,
      DELIVER_PREEXISTING_TOKEN]"

definition CALIN_API_V1_ADMISSION :: admission where
  "CALIN_API_V1_ADMISSION = Concurrency 5"

definition dcu_segment :: "device \<Rightarrow> string" where
  "dcu_segment dev =
     (case Option.bind (dev_relayNode dev) rn_id of None \<Rightarrow> ''unassigned'' | Some i \<Rightarrow> nat_to_string i)"

definition v1_initialQueueKey :: "nat option \<Rightarrow> device \<Rightarrow> string" where
  "v1_initialQueueKey networkId dev =
     buildInitialQueueKey CALIN_API_V1_ID CALIN_API_V1_NODE_KIND (dcu_segment dev)"

definition requireRelayNode :: "createDeviceMessage \<Rightarrow> string option" where
  "requireRelayNode create =
     (if Option.bind (dev_relayNode (c_device create)) rn_id = None
      then Some ''device.relayNode.id is required'' else None)"

definition buildCalinApiV1 :: "pluginTuning \<Rightarrow> deliveryPlugin" where
  "buildCalinApiV1 tuning = \<lparr>
     d_id = CALIN_API_V1_ID, d_pattern = PULL,
     d_supportedCommandTypes = CALIN_API_V1_SUPPORTED_COMMAND_TYPES,
     d_initialQueueKey = v1_initialQueueKey, d_validateEnqueue = Some requireRelayNode,
     d_admission = CALIN_API_V1_ADMISSION, d_tuning = tuning, d_relayNodeNoun = None,
     d_parseError = v1_parseError, d_hasGetRemoteStatus = False, d_hasToken = True,
     d_hasProvisioning = False\<rparr>"

definition createCalinApiV1Plugin :: "(string \<rightharpoonup> string) \<Rightarrow> pluginEntry \<Rightarrow> exn + devicePlugin" where
  "createCalinApiV1Plugin env entry =
     (case loadCalinApiV1Secrets env of
        Inl e \<Rightarrow> Inl e
      | Inr _ \<Rightarrow> map_sum id (\<lambda>t. Delivery (buildCalinApiV1 t)) (mergePluginTuning entry no_override))"

lemma calin_api_v1_contract:
  "positive_tuning t \<Longrightarrow> delivery_plugin_contract (buildCalinApiV1 t) CALIN_API_V1_NODE_KIND"
  by unfold_locales
     (auto simp: buildCalinApiV1_def CALIN_API_V1_ID_def CALIN_API_V1_NODE_KIND_def
        good_segment_def v1_initialQueueKey_def CALIN_API_V1_SUPPORTED_COMMAND_TYPES_def
        command_guard_defs command_group_defs)

interpretation calinApiV1:
  delivery_plugin_contract "buildCalinApiV1 DEFAULT_PLUGIN_TUNING" CALIN_API_V1_NODE_KIND
  using default_tuning_positive by (rule calin_api_v1_contract)

end
