(* ===== verification/Calin_V2_Plugin.thy ===== *)
theory Calin_V2_Plugin
  imports Calin_V2_Client Calin_V1_Plugin
begin

text \<open>
  The CALIN API V2 plugin (\<open>src/plugins/calin-api-v2/\<close>): tasks, polls, tokens and provisioning through
  the authorised client. The operations of the two CALIN APIs that are the same text in both sources
  (the date check, the kinds of task, the event of a poll) are shared with the theory of V1.
\<close>

section \<open>Tables\<close>

definition CalinApiV2ReadMap :: "(commandType \<times> nat) list" where
  "CalinApiV2ReadMap = [
     (READ_CREDIT, 39), (READ_VOLTAGE, 5), (READ_POWER, 11), (READ_CURRENT, 8), (READ_POWER_LIMIT, 46),
     (READ_VERSION, 45), (READ_DATE, 29)]"

definition CalinApiV2ControlMap :: "(commandType \<times> nat) list" where
  "CalinApiV2ControlMap = [(TURN_ON, 20000), (TURN_OFF, 20001)]"

definition CalinApiV2WriteMap :: "(commandType \<times> nat) list" where
  "CalinApiV2WriteMap = [(SET_DATE, 10000)]"

definition CALIN_API_V2_TOKEN_DELIVERY_PROTOCOL_ID :: nat where
  "CALIN_API_V2_TOKEN_DELIVERY_PROTOCOL_ID = 30000"

section \<open>Outgoing\<close>

definition v2_formatDate :: "int \<Rightarrow> int \<Rightarrow> int \<Rightarrow> exn + string" where
  "v2_formatDate year month day =
     (case checked_date year month day of
        None \<Rightarrow> Inl (skip_retry_error ''Invalid payload for setting date'')
      | Some _ \<Rightarrow> Inr (padded 4 (normal_year year) @ ''-'' @ padded 2 month @ ''-'' @ padded 2 day @
          '' 00:00:00''))"

definition v2_task_body :: "calinApiV2Secrets \<Rightarrow> nat \<Rightarrow> string \<Rightarrow> string option \<Rightarrow> jval" where
  "v2_task_body secrets protocolId meterId text =
     JArr [JObj ([(''meterId'', JStr meterId), (''protocolId'', JNum (of_nat protocolId))] @
       (case text of None \<Rightarrow> [] | Some t \<Rightarrow> [(''data'', JStr t)]) @
       [(''customerId'', JStr (v2_customerId secrets)), (''company'', JStr (v2_companyName secrets))])]"

definition v2_createTask ::
  "v2_world \<Rightarrow> time \<Rightarrow> string \<Rightarrow> nat \<Rightarrow> string \<Rightarrow> string option \<Rightarrow> v2_client \<Rightarrow> (exn + string) \<times> v2_client" where
  "v2_createTask world now path protocolId meterId text c =
     (case v2_sendRequest world now path (v2_task_body (v2_secrets world) protocolId meterId text) c of
        (Inl e, c1) \<Rightarrow> (Inl e, c1)
      | (Inr res, c1) \<Rightarrow>
          ((case filled (Option.bind (first_field ''result'' res) (text_field ''id'')) of
              Some taskId \<Rightarrow> Inr taskId
            | None \<Rightarrow> Inl (CalinApiV2Error (''CALIN API-V2 did not schedule task because: '' @
                or_else (text_field ''reason'' res) ''unknown'') False)), c1))"

definition v2_requestRead :: "v2_world \<Rightarrow> time \<Rightarrow> nat \<Rightarrow> string \<Rightarrow> v2_client \<Rightarrow> (exn + string) \<times> v2_client" where
  "v2_requestRead world now protocolId meterId =
     v2_createTask world now ''/API/RemoteMeterTask/CreateReadingTask'' protocolId meterId None"

definition v2_requestControl :: "v2_world \<Rightarrow> time \<Rightarrow> nat \<Rightarrow> string \<Rightarrow> v2_client \<Rightarrow> (exn + string) \<times> v2_client" where
  "v2_requestControl world now protocolId meterId =
     v2_createTask world now ''/API/RemoteMeterTask/CreateControlTask'' protocolId meterId None"

definition v2_requestWrite ::
  "v2_world \<Rightarrow> time \<Rightarrow> nat \<Rightarrow> string \<Rightarrow> string \<Rightarrow> v2_client \<Rightarrow> (exn + string) \<times> v2_client" where
  "v2_requestWrite world now protocolId text meterId =
     v2_createTask world now ''/API/RemoteMeterTask/CreateSettingTask'' protocolId meterId (Some text)"

definition v2_requestTokenDelivery ::
  "v2_world \<Rightarrow> time \<Rightarrow> string \<Rightarrow> string \<Rightarrow> v2_client \<Rightarrow> (exn + string) \<times> v2_client" where
  "v2_requestTokenDelivery world now token meterId =
     v2_createTask world now ''/API/RemoteMeterTask/CreateTokenTask''
       CALIN_API_V2_TOKEN_DELIVERY_PROTOCOL_ID meterId (Some token)"

definition v2_parsePayload :: "commandType \<Rightarrow> payload option \<Rightarrow> exn + string" where
  "v2_parsePayload commandType pl =
     (case pl of
        None \<Rightarrow> Inl (skip_retry_error ''Can't perform a write request without a payload'')
      | Some p \<Rightarrow>
          if commandType \<noteq> SET_DATE then Inl (skip_retry_error ''Payload parser not implemented'')
          else
            (case p of
               SetDate year month day \<Rightarrow> v2_formatDate year month day
             | SetTime _ _ _ \<Rightarrow> Inl (skip_retry_error ''Invalid payload for setting date'')))"

definition v2_sendOne ::
  "v2_world \<Rightarrow> time \<Rightarrow> deviceMessage \<Rightarrow> v2_client \<Rightarrow> (exn + string) \<times> v2_client" where
  "v2_sendOne world now message c =
     (let meterId = dev_externalReference (m_device message);
          commandType = m_commandType message
      in
      if map_of CalinApiV2ReadMap commandType \<noteq> None
      then v2_requestRead world now (the (map_of CalinApiV2ReadMap commandType)) meterId c
      else if map_of CalinApiV2ControlMap commandType \<noteq> None
      then v2_requestControl world now (the (map_of CalinApiV2ControlMap commandType)) meterId c
      else if map_of CalinApiV2WriteMap commandType \<noteq> None
      then (case v2_parsePayload commandType (Option.bind (m_requestData message) rd_payload) of
              Inl e \<Rightarrow> (Inl e, c)
            | Inr text \<Rightarrow>
                v2_requestWrite world now (the (map_of CalinApiV2WriteMap commandType)) text meterId c)
      else if isTokenCommand commandType
      then (case Option.bind (m_requestData message) rd_token of
              None \<Rightarrow> (Inl (skip_retry_error ''Can't perform a token delivery without a token''), c)
            | Some token \<Rightarrow>
                if trim token = []
                then (Inl (skip_retry_error ''Can't perform a token delivery without a token''), c)
                else v2_requestTokenDelivery world now token meterId c)
      else (Inl (skip_retry_error ''Not implemented''), c))"

definition v2_parseError :: "exn \<Rightarrow> failureContext" where
  "v2_parseError err =
     (case err of
        VendorError message code skipRetry \<Rightarrow> reason_context message code (Some skipRetry)
      | _ \<Rightarrow> reason_context (exn_message err) None None)"

section \<open>Incoming\<close>

fun v2_TASK_PATH_MAP :: "task_type \<Rightarrow> string" where
  "v2_TASK_PATH_MAP READ = ''/API/RemoteMeterTask/GetReadingTask''"
| "v2_TASK_PATH_MAP CONTROL = ''/API/RemoteMeterTask/GetControlTask''"
| "v2_TASK_PATH_MAP WRITE = ''/API/RemoteMeterTask/GetSettingTask''"
| "v2_TASK_PATH_MAP TOKEN = ''/API/RemoteMeterTask/GetTokenTask''"

definition v2_parse_clock :: "jval option \<Rightarrow> parsedResponseSlice" where
  "v2_parse_clock data =
     (let ps = split_on (CHR ''-'') (hd (split_on (CHR '' '')
            (case data of None \<Rightarrow> ''undefined'' | Some v \<Rightarrow> js_string v))) in
      createSuccessfulResponseData (Some [
        (''year'', number_or_null (toSafeNumberOrNull (part 0 ps))),
        (''month'', number_or_null (toSafeNumberOrNull (part 1 ps))),
        (''day'', number_or_null (toSafeNumberOrNull (part 2 ps)))]))"

definition v2_number :: "string \<Rightarrow> jval option \<Rightarrow> parsedResponseSlice" where
  "v2_number k data =
     createSuccessfulResponseData (Some [(k, number_or_null (toSafeNumberOrNull data))])"

definition v2_parseResponseData :: "string \<Rightarrow> jval option \<Rightarrow> task_type \<Rightarrow> parsedResponseSlice" where
  "v2_parseResponseData name data taskType =
     (let item = trim name in
      if item = ''Current Credit Balance'' then v2_number ''kwhCreditAvailable'' data
      else if item = ''Phase-A Voltage'' then v2_number ''voltage'' data
      else if item = ''Power'' then v2_number ''power'' data
      else if item = ''Phase-A Current(A)'' then v2_number ''current'' data
      else if item = ''Maximum power threshold'' then v2_number ''powerLimit'' data
      else if item = ''Meter Firmware Version'' then
        createSuccessfulResponseData (Some
          (case data of None \<Rightarrow> [] | Some v \<Rightarrow> [(''version'', v)]))
      else if item = ''Relay On/Off'' then
        createSuccessfulResponseData (Some
          [if data = Some (JStr ''Connected'') then (''turnOnAccepted'', JBool True)
           else (''turnOffAccepted'', JBool True)])
      else if item = ''Clock(time)'' then
        (if taskType = WRITE then createSuccessfulResponseData (Some [(''dateAccepted'', JBool True)])
         else v2_parse_clock data)
      else if item = ''Token'' then
        createSuccessfulResponseData (Some [(''tokenAccepted'', JBool True)])
      else createSuccessfulResponseData None)"

text \<open>ECMAScript's \<open>ToNumber\<close> of a JSON value, \<open>None\<close> for \<open>NaN\<close>.\<close>

fun number_of :: "jval option \<Rightarrow> num option" where
  "number_of None = None"
| "number_of (Some JNull) = Some 0"
| "number_of (Some (JBool b)) = Some (if b then 1 else 0)"
| "number_of (Some (JNum x)) = Some x"
| "number_of (Some v) = js_to_number (js_string v)"

text \<open>A value that an \<open>if\<close> takes for missing.\<close>

definition falsy :: "jval \<Rightarrow> bool" where
  "falsy v \<longleftrightarrow> v = JNull \<or> v = JBool False \<or> v = JNum 0 \<or> v = JStr []"

text \<open>
  What a poll makes of the vendor's answer. \<open>status\<close> is compared with \<open>0\<close>, \<open>1\<close> and \<open>3\<close> by \<open>===\<close> and with
  \<open>2\<close> by \<open>>=\<close>, which converts it. A successful row is parsed outside the \<open>try\<close>, so a row without a \<open>name\<close>
  makes the poll throw; an absent \<open>reason\<close> is read as the empty text.
\<close>

definition v2_task_result ::
  "deviceMessage \<Rightarrow> task_type \<Rightarrow> jval \<Rightarrow> exn + parsedIncomingEvent option" where
  "v2_task_result message taskType res =
     (let no_row = Inr (Some (task_event message DELIVERY_FAILED None (Some (reason_context
            (or_else (text_field ''reason'' res) ''CALIN API-V2 gave no status or data for this task'')
            None None))))
      in case Option.bind (object_field ''result'' res) (first_field ''data'') of
        None \<Rightarrow> no_row
      | Some row \<Rightarrow>
          (let status = field ''status'' row in
           if falsy row then no_row
           else if status = Some (JNum 0) then Inr None
           else if status = Some (JNum 1) then
             (case text_field ''name'' row of
                None \<Rightarrow> Inl (undefined_field ''trim'')
              | Some name \<Rightarrow>
                  (let parsed = v2_parseResponseData name (field ''data'' row) taskType
                   in Inr (Some (task_event message DELIVERY_SUCCESSFUL (Some (ps_response parsed))
                        (ps_failureContext parsed)))))
           else if (case number_of status of None \<Rightarrow> False | Some x \<Rightarrow> x \<ge> 2) then
             Inr (Some (task_event message DELIVERY_SUCCESSFUL (Some execution_failed)
               (Some (reason_context
                 (if status = Some (JNum 3) then ''The token was rejected, possibly already delivered''
                  else if text_field ''reason'' res \<noteq> Some ''success''
                  then or_else (text_field ''reason'' res) []
                  else ''Delivery was successful but execution of the command failed'')
                 None (Some (status = Some (JNum 3)))))))
           else Inr None))"

definition v2_poll_failure :: "deviceMessage \<Rightarrow> exn \<Rightarrow> parsedIncomingEvent option" where
  "v2_poll_failure message err =
     Some (task_event message DELIVERY_FAILED None (Some (reason_context
       (''Could not check task status because '' @ exn_message err)
       (case err of VendorError _ code _ \<Rightarrow> code | _ \<Rightarrow> None) None)))"

text \<open>\<open>JSON.stringify\<close> writes a \<open>NaN\<close> as \<open>null\<close>.\<close>

definition v2_fetchStatus ::
  "v2_world \<Rightarrow> time \<Rightarrow> deviceMessage \<Rightarrow> v2_client \<Rightarrow>
   (exn + parsedIncomingEvent option) \<times> v2_client" where
  "v2_fetchStatus world now message c =
     (case task_type_of (m_commandType message) of
        None \<Rightarrow> (Inr None, c)
      | Some taskType \<Rightarrow>
          (case v2_sendRequest world now (v2_TASK_PATH_MAP taskType)
                  (JObj [(''id'', number_or_null (js_to_number (m_deliveryQueueId message))),
                     (''lang'', JStr ''en''), (''company'', JStr (v2_companyName (v2_secrets world)))]) c of
             (Inl err, c1) \<Rightarrow> (Inr (v2_poll_failure message err), c1)
           | (Inr res, c1) \<Rightarrow> (v2_task_result message taskType res, c1)))"

section \<open>Tokens\<close>

text \<open>The requests of the four kinds, over the serial number that \<open>randomUUID()\<close> draws.\<close>

fun v2_token_request ::
  "calinApiV2Secrets \<Rightarrow> string \<Rightarrow> string \<Rightarrow> tokenKind \<Rightarrow> string \<times> (string \<times> jval) list" where
  "v2_token_request secrets uuid meterId (TopUpKwh amount) =
     (''/API/Token/CreditToken/Generate'', [
        (''meterId'', JStr meterId), (''amount'', JNum amount), (''company'', JStr (v2_companyName secrets)),
        (''authorizationPassword'', JStr (v2_posPassword secrets)), (''isPreview'', JBool False),
        (''isVendByTotalPaid'', JBool False), (''serialNumber'', JStr uuid)])"
| "v2_token_request secrets uuid meterId (PowerLimit maximumPower) =
     (''/API/Token/SetMaximumPowerLimitToken/Generate'', [
        (''meterId'', JStr meterId), (''maximumPower'', JNum maximumPower),
        (''company'', JStr (v2_companyName secrets))])"
| "v2_token_request secrets uuid meterId ClearTamper =
     (''/API/Token/ClearTamperToken/Generate'',
        [(''meterId'', JStr meterId), (''company'', JStr (v2_companyName secrets))])"
| "v2_token_request secrets uuid meterId ClearCredit =
     (''/API/Token/ClearCreditToken/Generate'',
        [(''meterId'', JStr meterId), (''company'', JStr (v2_companyName secrets))])"

definition v2_token_attempt :: "jval \<Rightarrow> tokenAttempt" where
  "v2_token_attempt res =
     \<lparr>ta_token = Option.bind (object_field ''result'' res) (text_field ''token''),
      ta_failureReason = text_field ''reason'' res\<rparr>"

definition v2_generate ::
  "v2_world \<Rightarrow> time \<Rightarrow> string \<Rightarrow> generateTokenInput \<Rightarrow> v2_client \<Rightarrow> (exn + string) \<times> v2_client" where
  "v2_generate world now uuid input c =
     (case v2_token_request (v2_secrets world) uuid (gt_externalReference input) (gt_kind input) of
        (path, body) \<Rightarrow>
          (case v2_sendRequest world now path (JObj body) c of
             (Inl e, c1) \<Rightarrow> (Inl e, c1)
           | (Inr res, c1) \<Rightarrow>
               (token_or_error ''[CALIN API-V2 TOKEN SERVICE] Got an empty response''
                  (v2_token_attempt res), c1)))"

section \<open>Provisioning\<close>

definition CALIN_API_V2_PROVISIONING_PATHS :: "string list" where
  "CALIN_API_V2_PROVISIONING_PATHS = [
     ''/api/concentrator/updateStatusFile'', ''/API/ConcentratorFile/Read'',
     ''/api/concentratorFile/delete'', ''/api/account/delete'']"

fun scalarSchema :: "jval \<Rightarrow> bool" where
  "scalarSchema (JStr _) = True"
| "scalarSchema (JNum _) = True"
| "scalarSchema (JBool _) = True"
| "scalarSchema _ = False"

definition scalar_record :: "jval \<Rightarrow> bool" where
  "scalar_record v = (case v of JObj fs \<Rightarrow> list_all (\<lambda>(k, x). scalarSchema x) fs | _ \<Rightarrow> False)"

text \<open>The path and the body of a well-formed payload (\<open>strict\<close>: no other key).\<close>

definition sendRequestPayloadSchema :: "jval \<Rightarrow> (string \<times> jval) option" where
  "sendRequestPayloadSchema payload =
     (case payload of
        JObj fs \<Rightarrow>
          (case (map_of fs ''path'', map_of fs ''body'') of
             (Some (JStr path), Some body) \<Rightarrow>
               if path \<noteq> [] \<and> set (map fst fs) \<subseteq> {''path'', ''body''} \<and>
                  (scalar_record body \<or> (case body of JArr vs \<Rightarrow> list_all scalar_record vs | _ \<Rightarrow> False))
               then Some (path, body) else None
           | _ \<Rightarrow> None)
      | _ \<Rightarrow> None)"

definition CALIN_API_V2_ID :: plugin_id where
  "CALIN_API_V2_ID = ''calin-api-v2''"

text \<open>\<open>execute\<close>, over the message of the schema library's first issue.\<close>

definition v2_execute ::
  "v2_world \<Rightarrow> time \<Rightarrow> (jval \<Rightarrow> string) \<Rightarrow> string \<Rightarrow> jval \<Rightarrow> v2_client \<Rightarrow> (exn + jval) \<times> v2_client" where
  "v2_execute world now issue operation payload c =
     (if operation \<noteq> ''sendRequest''
      then (Inl (InvalidProvisioningError CALIN_API_V2_ID (''unsupported operation: '' @ operation)), c)
      else
        (case sendRequestPayloadSchema payload of
           None \<Rightarrow> (Inl (InvalidProvisioningError CALIN_API_V2_ID (issue payload)), c)
         | Some (path, body) \<Rightarrow>
             if path \<notin> set CALIN_API_V2_PROVISIONING_PATHS
             then (Inl (InvalidProvisioningError CALIN_API_V2_ID (''path is not allowlisted: '' @ path)), c)
             else v2_sendRequest world now path body c))"

section \<open>The plugin\<close>

definition CALIN_API_V2_NODE_KIND :: string where
  "CALIN_API_V2_NODE_KIND = ''dcu''"

definition CALIN_API_V2_SUPPORTED_COMMAND_TYPES :: "commandType list" where
  "CALIN_API_V2_SUPPORTED_COMMAND_TYPES =
     [READ_CREDIT, READ_VOLTAGE, READ_POWER, READ_CURRENT, READ_POWER_LIMIT, READ_VERSION, READ_DATE,
      TURN_ON, TURN_OFF, SET_DATE, TOP_UP_KWH, SET_POWER_LIMIT, CLEAR_TAMPER, CLEAR_CREDIT,
      DELIVER_PREEXISTING_TOKEN]"

definition CALIN_API_V2_ADMISSION :: admission where
  "CALIN_API_V2_ADMISSION = Concurrency 5"

definition v2_initialQueueKey :: "nat option \<Rightarrow> device \<Rightarrow> string" where
  "v2_initialQueueKey networkId dev =
     buildInitialQueueKey CALIN_API_V2_ID CALIN_API_V2_NODE_KIND (dcu_segment dev)"

definition buildCalinApiV2 :: "pluginTuning \<Rightarrow> deliveryPlugin" where
  "buildCalinApiV2 tuning = \<lparr>
     d_id = CALIN_API_V2_ID, d_pattern = PULL,
     d_supportedCommandTypes = CALIN_API_V2_SUPPORTED_COMMAND_TYPES,
     d_initialQueueKey = v2_initialQueueKey, d_validateEnqueue = Some requireRelayNode,
     d_admission = CALIN_API_V2_ADMISSION, d_tuning = tuning, d_relayNodeNoun = None,
     d_parseError = v2_parseError, d_hasGetRemoteStatus = False, d_hasToken = True,
     d_hasProvisioning = True\<rparr>"

definition createCalinApiV2Plugin :: "(string \<rightharpoonup> string) \<Rightarrow> pluginEntry \<Rightarrow> exn + devicePlugin" where
  "createCalinApiV2Plugin env entry =
     (case loadCalinApiV2Secrets env of
        Inl e \<Rightarrow> Inl e
      | Inr _ \<Rightarrow> map_sum id (\<lambda>t. Delivery (buildCalinApiV2 t)) (mergePluginTuning entry no_override))"

lemma calin_api_v2_contract:
  "positive_tuning t \<Longrightarrow> delivery_plugin_contract (buildCalinApiV2 t) CALIN_API_V2_NODE_KIND"
  by unfold_locales
     (auto simp: buildCalinApiV2_def CALIN_API_V2_ID_def CALIN_API_V2_NODE_KIND_def
        good_segment_def v2_initialQueueKey_def CALIN_API_V2_SUPPORTED_COMMAND_TYPES_def
        command_guard_defs command_group_defs)

interpretation calinApiV2:
  delivery_plugin_contract "buildCalinApiV2 DEFAULT_PLUGIN_TUNING" CALIN_API_V2_NODE_KIND
  using default_tuning_positive by (rule calin_api_v2_contract)

end
