(* ===== verification/Calin_V2_Claims.thy ===== *)
theory Calin_V2_Claims
  imports Calin_V2_Plugin
begin

text \<open>
  What the authorised client of the second CALIN API does to the vendor: how often a request can reach
  it, that a stale login does not keep a request from being answered, and where provisioning can post.
\<close>

section \<open>Requests that the vendor has accepted\<close>

fun is_ok :: "postOutcome \<Rightarrow> bool" where
  "is_ok (PostOk data) = True"
| "is_ok _ = False"

text \<open>The positions in a log of requests where the vendor answered an authorised request with success.\<close>

definition accepted_at :: "v2_world \<Rightarrow> httpRequest list \<Rightarrow> nat list" where
  "accepted_at world hist =
     filter (\<lambda>i. rq_authorization (hist ! i) \<noteq> None \<and> is_ok (post_outcome (v2_net world i (hist ! i)))) [0..<length hist]"

lemma accepted_at_snoc:
  "accepted_at world (hist @ [rq]) = accepted_at world hist @
     (if rq_authorization rq \<noteq> None \<and> is_ok (post_outcome (v2_net world (length hist) rq)) then [length hist] else [])"
proof -
  have "filter (\<lambda>i. rq_authorization ((hist @ [rq]) ! i) \<noteq> None \<and>
        is_ok (post_outcome (v2_net world i ((hist @ [rq]) ! i)))) [0..<length hist] = accepted_at world hist"
    unfolding accepted_at_def by (rule filter_cong) (simp_all add: nth_append)
  then show ?thesis unfolding accepted_at_def by simp
qed

lemma accepted_at_logins:
  "accepted_at world (hist @ replicate k (v2_login_request secrets)) = accepted_at world hist"
proof (induction k)
  case (Suc k)
  have "hist @ replicate (Suc k) (v2_login_request secrets) =
      (hist @ replicate k (v2_login_request secrets)) @ [v2_login_request secrets]"
    by (simp add: replicate_append_same)
  then show ?case using Suc by (simp only: accepted_at_snoc) (simp add: v2_login_request_def)
qed simp

lemma accepted_at_fetchToken:
  "accepted_at world (sent (fetchToken world c)) = accepted_at world (sent c)"
  using fetchToken_sent [of world c] accepted_at_logins by metis

lemma accepted_at_wave:
  assumes "post_wave world path body bearer n c = (outcome, c1)"
  shows "accepted_at world (sent c1) = accepted_at world (sent c) @ (if is_ok outcome then [length (sent c1) - 1] else [])"
  using assms
proof (induction n arbitrary: c)
  case (Suc n)
  let ?rq = "v2_request (v2_secrets world) path body bearer"
  let ?o = "post_outcome (v2_net world (length (sent c)) ?rq)"
  let ?c = "c\<lparr>sent := sent c @ [?rq]\<rparr>"
  have a: "rq_authorization ?rq \<noteq> None" by (simp add: v2_request_def)
  show ?case
  proof (cases "?o = PostFailed")
    case True
    then have "post_wave world path body bearer n ?c = (outcome, c1)"
      using Suc.prems by (simp add: postAuthorized_def v2_fetch_def)
    from Suc.IH [OF this] True show ?thesis by (simp add: accepted_at_snoc)
  next
    case False
    then have "outcome = ?o \<and> c1 = ?c"
      using Suc.prems by (auto simp: postAuthorized_def v2_fetch_def split: postOutcome.splits)
    then show ?thesis using a by (simp add: accepted_at_snoc)
  qed
qed simp

lemma ensureToken_accepted:
  "ensureToken world now c = (r, c1) \<Longrightarrow> accepted_at world (sent c1) = accepted_at world (sent c)"
  using ensureToken_sent [of world now c r c1] accepted_at_logins by metis

text \<open>How many requests of the two kinds a log holds.\<close>

definition logins :: "httpRequest list \<Rightarrow> nat" where
  "logins hist = length (filter (\<lambda>rq. rq_authorization rq = None) hist)"

definition posts :: "httpRequest list \<Rightarrow> nat" where
  "posts hist = length (filter (\<lambda>rq. rq_authorization rq \<noteq> None) hist)"

lemma counts [simp]:
  "logins (xs @ ys) = logins xs + logins ys" "posts (xs @ ys) = posts xs + posts ys"
  "logins (replicate k (v2_login_request secrets)) = k" "posts (replicate k (v2_login_request secrets)) = 0"
  "logins (replicate k (v2_request secrets path body bearer)) = 0"
  "posts (replicate k (v2_request secrets path body bearer)) = k"
  by (simp_all add: logins_def posts_def v2_login_request_def v2_request_def)

text \<open>A wave as the log shows it.\<close>

lemma wave_log:
  assumes "post_wave world path body bearer FETCH_RETRIES c = (outcome, c1)"
  shows "\<exists>k \<le> 3. logins (sent c1) = logins (sent c) \<and> posts (sent c1) = posts (sent c) + k"
    and "outcome = PostOk data \<Longrightarrow>
      post_outcome (v2_net world (length (sent c1) - 1) (last (sent c1))) = PostOk data"
proof -
  from post_wave_spec [OF assms] obtain k where k: "k \<le> 3"
    "sent c1 = sent c @ replicate k (v2_request (v2_secrets world) path body bearer)"
    "outcome \<noteq> PostFailed \<longrightarrow> 0 < k \<and> outcome = post_outcome
       (v2_net world (length (sent c1) - 1) (v2_request (v2_secrets world) path body bearer))"
    by (auto simp: FETCH_RETRIES_def)
  then show "\<exists>k \<le> 3. logins (sent c1) = logins (sent c) \<and> posts (sent c1) = posts (sent c) + k"
    by (intro exI [of _ k]) simp
  show "post_outcome (v2_net world (length (sent c1) - 1) (last (sent c1))) = PostOk data"
    if "outcome = PostOk data"
    using k that by auto
qed

lemma login_log:
  "\<exists>k \<le> 3. logins (sent (fetchToken world c)) = logins (sent c) + k \<and> posts (sent (fetchToken world c)) = posts (sent c)"
  using fetchToken_sent [of world c] by (metis counts(1-4) add_0_right)

lemma ensure_log:
  assumes "ensureToken world now c = (r, c1)"
  shows "\<exists>k \<le> 3. logins (sent c1) = logins (sent c) + k \<and> posts (sent c1) = posts (sent c)"
  using ensureToken_sent [OF assms] by (metis counts(1-4) add_0_right)

text \<open>The paths through a request: no token, one wave, or a second login and at most one more wave.\<close>

lemma v2_sendRequest_cases:
  assumes "v2_sendRequest world now path body c = (res, c')"
  obtains (no_token) e where "ensureToken world now c = (Inl e, c')" and "res = Inl e"
    | (one_wave) token c1 outcome where "ensureToken world now c = (Inr token, c1)"
        and "post_wave world path body (ct_token token) FETCH_RETRIES c1 = (outcome, c')"
        and "case res of Inl e \<Rightarrow> outcome = PostFailed | Inr data \<Rightarrow> outcome = PostOk data"
    | (no_login) token c1 c2 e where "ensureToken world now c = (Inr token, c1)"
        and "post_wave world path body (ct_token token) FETCH_RETRIES c1 = (PostUnauthorized, c2)"
        and "c' = fetchToken world (c2\<lparr>cached := None\<rparr>)" and "res = Inl e"
    | (two_waves) token c1 c2 and fresh :: cachedToken and outcome where "ensureToken world now c = (Inr token, c1)"
        and "post_wave world path body (ct_token token) FETCH_RETRIES c1 = (PostUnauthorized, c2)"
        and "post_wave world path body (ct_token fresh) FETCH_RETRIES (fetchToken world (c2\<lparr>cached := None\<rparr>)) = (outcome, c')"
        and "case res of Inl e \<Rightarrow> \<not> is_ok outcome | Inr data \<Rightarrow> outcome = PostOk data"
proof -
  obtain r c1 where e: "ensureToken world now c = (r, c1)" by fastforce
  show thesis
  proof (cases r)
    case (Inl err)
    then show thesis using assms e no_token by (simp add: v2_sendRequest_def)
  next
    case (Inr token)
    obtain outcome c2 where w: "post_wave world path body (ct_token token) FETCH_RETRIES c1 = (outcome, c2)" by fastforce
    show thesis
    proof (cases outcome)
      case (PostOk data)
      then show thesis using assms e Inr w one_wave [of token c1 outcome] by (auto simp: v2_sendRequest_def)
    next
      case PostFailed
      then show thesis using assms e Inr w one_wave [of token c1 outcome] by (auto simp: v2_sendRequest_def)
    next
      case PostUnauthorized
      let ?c3 = "fetchToken world (c2\<lparr>cached := None\<rparr>)"
      show thesis
      proof (cases "cached ?c3")
        case None
        then show thesis using assms e Inr w PostUnauthorized no_login [of token c1 c2]
          by (auto simp: v2_sendRequest_def)
      next
        case (Some fresh)
        obtain o2 c4 where w2: "post_wave world path body (ct_token fresh) FETCH_RETRIES ?c3 = (o2, c4)" by fastforce
        then show thesis using assms e Inr w PostUnauthorized Some two_waves [of token c1 c2 fresh o2]
          by (cases o2) (auto simp: v2_sendRequest_def)
      qed
    qed
  qed
qed

text \<open>C26 (what one request can do to the vendor): a request of the second API's client costs at most six
  logins and six authorised calls; it succeeds exactly when the vendor answers one of the calls with
  success, that call is the last thing the client sends, and its answer is the result; when it fails, the
  vendor has answered none of its calls with success. So a command that the vendor has acknowledged is
  never sent again by the client.\<close>

theorem vendor_requests_bounded:
  assumes "v2_sendRequest world now path body c = (res, c')"
  shows "logins (sent c') \<le> logins (sent c) + 6 \<and> posts (sent c') \<le> posts (sent c) + 6 \<and>
    (case res of
       Inl e \<Rightarrow> accepted_at world (sent c') = accepted_at world (sent c)
     | Inr data \<Rightarrow> accepted_at world (sent c') = accepted_at world (sent c) @ [length (sent c') - 1] \<and>
         post_outcome (v2_net world (length (sent c') - 1) (last (sent c'))) = PostOk data)"
  using assms
proof (cases rule: v2_sendRequest_cases)
  case (no_token e)
  then show ?thesis using ensure_log [of world now c] ensureToken_accepted [of world now c] by fastforce
next
  case (one_wave token c1 outcome)
  note acc = ensureToken_accepted [OF one_wave(1)] accepted_at_wave [OF one_wave(2)]
  from ensure_log [OF one_wave(1)] wave_log(1) [OF one_wave(2)]
  have n: "logins (sent c') \<le> logins (sent c) + 6" "posts (sent c') \<le> posts (sent c) + 6" by auto
  show ?thesis using n acc one_wave(3) wave_log(2) [OF one_wave(2)] by (cases res) auto
next
  case (no_login token c1 c2 e)
  note acc = ensureToken_accepted [OF no_login(1)] accepted_at_wave [OF no_login(2)]
    accepted_at_fetchToken [of world "c2\<lparr>cached := None\<rparr>"]
  from ensure_log [OF no_login(1)] wave_log(1) [OF no_login(2)] login_log [of world "c2\<lparr>cached := None\<rparr>"]
  have n: "logins (sent c') \<le> logins (sent c) + 6" "posts (sent c') \<le> posts (sent c) + 6"
    unfolding no_login(3) by auto
  show ?thesis using n acc no_login(3,4) by simp
next
  case (two_waves token c1 c2 fresh outcome)
  note acc = ensureToken_accepted [OF two_waves(1)] accepted_at_wave [OF two_waves(2)]
    accepted_at_fetchToken [of world "c2\<lparr>cached := None\<rparr>"] accepted_at_wave [OF two_waves(3)]
  from ensure_log [OF two_waves(1)] wave_log(1) [OF two_waves(2)] login_log [of world "c2\<lparr>cached := None\<rparr>"]
    wave_log(1) [OF two_waves(3)]
  have n: "logins (sent c') \<le> logins (sent c) + 6" "posts (sent c') \<le> posts (sent c) + 6" by auto
  show ?thesis using n acc two_waves(4) wave_log(2) [OF two_waves(3)] by (cases res) auto
qed

section \<open>A stale login\<close>

lemma fetchToken_answered:
  assumes "\<And>n. v2_net world n (v2_login_request (v2_secrets world)) = Inr reply"
  shows "fetchToken world c = c\<lparr>sent := sent c @ [v2_login_request (v2_secrets world)],
    cached := login_token (v2_parseJson world) reply\<rparr>"
  by (simp add: fetchToken_def FETCH_RETRIES_def numeral_eq_Suc v2_fetch_def assms)

lemma post_wave_answered:
  assumes "post_outcome (v2_net world (length (sent c)) (v2_request (v2_secrets world) path body bearer)) = outcome"
    and "outcome \<noteq> PostFailed"
  shows "post_wave world path body bearer FETCH_RETRIES c =
    (outcome, c\<lparr>sent := sent c @ [v2_request (v2_secrets world) path body bearer]\<rparr>)"
  using assms
  by (cases outcome) (simp_all add: FETCH_RETRIES_def numeral_eq_Suc postAuthorized_def v2_fetch_def)

text \<open>C29 (a stale login does not lose a request): against a vendor that hands out one token at every login,
  answers the request under that token and rejects it under every other, the client gets the answer with
  at most one rejected call, whatever token it holds to begin with (none, an expired one, one that the
  vendor has revoked, or the right one), and it holds the right token afterwards.\<close>

theorem vendor_stale_login_recovers:
  assumes login: "\<And>n. v2_net world n (v2_login_request (v2_secrets world)) = Inr reply"
    and token: "login_token (v2_parseJson world) reply = Some fresh"
    and granted: "\<And>n. post_outcome (v2_net world n (v2_request (v2_secrets world) path body (ct_token fresh))) = PostOk data"
    and rejected: "\<And>n b. b \<noteq> ct_token fresh \<Longrightarrow>
      post_outcome (v2_net world n (v2_request (v2_secrets world) path body b)) = PostUnauthorized"
  shows "\<exists>c'. v2_sendRequest world now path body c = (Inr data, c') \<and>
    length (sent c') \<le> length (sent c) + 3 \<and> posts (sent c') \<le> posts (sent c) + 2 \<and>
    (\<exists>t. cached c' = Some t \<and> ct_token t = ct_token fresh)"
proof -
  note fetched = fetchToken_answered [OF login, unfolded token]
  have p: "posts (rq # rqs) = (if rq_authorization rq = None then 0 else 1) + posts rqs" "posts [] = 0"
    "rq_authorization (v2_request s q b k) \<noteq> None" "rq_authorization (v2_login_request s) = None" for rq rqs s q b k
    by (simp_all add: posts_def v2_request_def v2_login_request_def)
  define c1 where "c1 = snd (ensureToken world now c)"
  have "\<exists>t. ensureToken world now c = (Inr t, c1) \<and> cached c1 = Some t \<and>
      length (sent c1) \<le> length (sent c) + 1 \<and> posts (sent c1) = posts (sent c) \<and>
      (sent c1 = sent c \<or> t = fresh)"
    by (cases "needsRefresh now c")
       (auto simp: c1_def ensureToken_def fetched p needsRefresh_def split: option.splits)
  then obtain t where e: "ensureToken world now c = (Inr t, c1)" "cached c1 = Some t"
    "length (sent c1) \<le> length (sent c) + 1" "posts (sent c1) = posts (sent c)" "sent c1 = sent c \<or> t = fresh"
    by blast
  show ?thesis
  proof (cases "ct_token t = ct_token fresh")
    case True
    then show ?thesis using e granted post_wave_answered [of world c1 path body "ct_token t", OF refl]
      by (simp add: v2_sendRequest_def p)
  next
    case False
    note w = post_wave_answered [OF rejected [OF False], simplified, of c1]
    note w2 = post_wave_answered [OF granted, simplified]
    have "sent c1 = sent c" using e(5) False by auto
    then show ?thesis using e False by (simp add: v2_sendRequest_def w fetched w2 p)
  qed
qed

text \<open>A vendor whose only token is \<open>h.p.s\<close>.\<close>

definition example_v2_world :: v2_world where
  "example_v2_world = \<lparr>
     v2_secrets = \<lparr>v2_apiBaseUrl = ''http://calin'', v2_companyName = ''NXT'', v2_customerId = ''7'',
       v2_adminUsername = ''admin'', v2_adminPassword = ''secret'', v2_posPassword = ''pos''\<rparr>,
     v2_net = (\<lambda>n rq. Inr \<lparr>
       hr_status = (if rq_authorization rq \<in> {None, Some ''Bearer h.p.s''} then 200 else 401),
       hr_contentType = Some ''application/json'',
       hr_json = Inr (JObj [(''result'', JObj [(''token'', JStr ''h.p.s'')])])\<rparr>),
     v2_parseJson = (\<lambda>_. Some (JObj [(''exp'', JNum 9000)]))\<rparr>"

definition example_v2_client :: v2_client where
  "example_v2_client = \<lparr>cached = Some \<lparr>ct_token = ''revoked'', ct_expMs = 8000000\<rparr>, sent = []\<rparr>"

theorem vendor_stale_login_recovers_witness:
  "\<exists>c'. v2_sendRequest example_v2_world 1000 ''/API/x'' JNull example_v2_client =
     (Inr (JObj [(''result'', JObj [(''token'', JStr ''h.p.s'')])]), c') \<and> length (sent c') \<le> 3"
proof -
  let ?fresh = "\<lparr>ct_token = ''h.p.s'', ct_expMs = 9000000\<rparr>"
  have login: "v2_net example_v2_world n (v2_login_request (v2_secrets example_v2_world)) =
      Inr \<lparr>hr_status = 200, hr_contentType = Some ''application/json'',
        hr_json = Inr (JObj [(''result'', JObj [(''token'', JStr ''h.p.s'')])])\<rparr>" for n
    by (simp add: example_v2_world_def v2_login_request_def)
  have token: "login_token (v2_parseJson example_v2_world) \<lparr>hr_status = 200, hr_contentType = Some ''application/json'',
        hr_json = Inr (JObj [(''result'', JObj [(''token'', JStr ''h.p.s'')])])\<rparr> = Some ?fresh"
    by (simp add: login_token_def example_v2_world_def object_field_def text_field_def field_def filled_def
        readJwtExpMs_def num_field_def)
  have granted: "post_outcome (v2_net example_v2_world n (v2_request (v2_secrets example_v2_world) ''/API/x'' JNull
      (ct_token ?fresh))) = PostOk (JObj [(''result'', JObj [(''token'', JStr ''h.p.s'')])])" for n
    by (simp add: example_v2_world_def v2_request_def post_outcome_def http_ok_def)
  have rejected: "post_outcome (v2_net example_v2_world n (v2_request (v2_secrets example_v2_world) ''/API/x'' JNull b)) =
      PostUnauthorized" if "b \<noteq> ct_token ?fresh" for n b
    using that by (simp add: example_v2_world_def v2_request_def post_outcome_def)
  show ?thesis
    using vendor_stale_login_recovers [OF login token granted rejected, of 1000 example_v2_client]
    by (auto simp: example_v2_client_def)
qed

theorem vendor_requests_bounded_witness:
  "let (res, c') = v2_sendRequest example_v2_world 1000 ''/API/x'' JNull example_v2_client
   in logins (sent c') \<le> 6 \<and> posts (sent c') \<le> 6"
  using vendor_requests_bounded [of example_v2_world 1000 "''/API/x''" JNull example_v2_client]
  by (auto simp: example_v2_client_def logins_def posts_def split: prod.split)

section \<open>Provisioning\<close>

text \<open>What the client may have sent between two states on behalf of one request.\<close>

definition sends_only :: "v2_world \<Rightarrow> string \<Rightarrow> jval \<Rightarrow> v2_client \<Rightarrow> v2_client \<Rightarrow> bool" where
  "sends_only world path body c c' \<longleftrightarrow> (\<exists>more. sent c' = sent c @ more \<and> (\<forall>rq \<in> set more.
     rq = v2_login_request (v2_secrets world) \<or> (\<exists>k. rq = v2_request (v2_secrets world) path body k)))"

lemma sends_only_trans:
  assumes "sends_only world path body a b" and "sends_only world path body b c"
  shows "sends_only world path body a c"
proof -
  let ?P = "\<lambda>rq. rq = v2_login_request (v2_secrets world) \<or> (\<exists>k. rq = v2_request (v2_secrets world) path body k)"
  obtain m1 where "sent b = sent a @ m1" "\<forall>rq \<in> set m1. ?P rq" using assms(1) by (auto simp: sends_only_def)
  moreover obtain m2 where "sent c = sent b @ m2" "\<forall>rq \<in> set m2. ?P rq" using assms(2) by (auto simp: sends_only_def)
  ultimately have "sent c = sent a @ (m1 @ m2)" "\<forall>rq \<in> set (m1 @ m2). ?P rq" by auto
  then show ?thesis unfolding sends_only_def by blast
qed

lemma sends_only_parts:
  "ensureToken world now c = (r, c1) \<Longrightarrow> sends_only world path body c c1"
  "post_wave world path body bearer FETCH_RETRIES c = (outcome, c1) \<Longrightarrow> sends_only world path body c c1"
  "sends_only world path body c (fetchToken world (c\<lparr>cached := None\<rparr>))"
proof -
  show "sends_only world path body c c1" if "ensureToken world now c = (r, c1)"
    using ensureToken_sent [OF that] unfolding sends_only_def by (metis in_set_replicate)
  show "sends_only world path body c c1" if "post_wave world path body bearer FETCH_RETRIES c = (outcome, c1)"
    using post_wave_spec [OF that] unfolding sends_only_def by (metis in_set_replicate)
  have "sent (c\<lparr>cached := None\<rparr>) = sent c" by simp
  then show "sends_only world path body c (fetchToken world (c\<lparr>cached := None\<rparr>))"
    using fetchToken_sent [of world "c\<lparr>cached := None\<rparr>"] unfolding sends_only_def by (metis in_set_replicate)
qed

lemma v2_sendRequest_sent:
  assumes "v2_sendRequest world now path body c = (res, c')"
  shows "sends_only world path body c c'"
  using assms
proof (cases rule: v2_sendRequest_cases)
  case (no_token e)
  then show ?thesis by (blast intro: sends_only_parts)
next
  case (one_wave token c1 outcome)
  then show ?thesis by (blast intro: sends_only_parts sends_only_trans)
next
  case (no_login token c1 c2 e)
  then show ?thesis using sends_only_parts(3) [of world path body c2] by (blast intro: sends_only_parts(1,2) sends_only_trans)
next
  case (two_waves token c1 c2 fresh outcome)
  have "sends_only world path body c2 c'"
    using sends_only_parts(2) [OF two_waves(3)] sends_only_parts(3) [of world path body c2] sends_only_trans by blast
  then show ?thesis using two_waves(1,2) by (blast intro: sends_only_parts(1,2) sends_only_trans)
qed

text \<open>Provisioning stays on its list: whatever operation and payload a provisioning request brings, the
  second API's plugin sends the vendor nothing but its own login requests and, for the one supported
  operation with a well-formed payload whose path is on the list of four, the given body at that path.\<close>

lemma provisioning_allowlisted:
  assumes "v2_execute world now issue operation payload c = (res, c')"
  shows "\<exists>more. sent c' = sent c @ more \<and> (\<forall>rq \<in> set more.
    rq = v2_login_request (v2_secrets world) \<or>
    (operation = ''sendRequest'' \<and> (\<exists>path body bearer. sendRequestPayloadSchema payload = Some (path, body) \<and>
       path \<in> set CALIN_API_V2_PROVISIONING_PATHS \<and> rq = v2_request (v2_secrets world) path body bearer)))"
proof (cases "sent c' = sent c")
  case True
  then show ?thesis by simp
next
  case False
  then obtain path body where op: "operation = ''sendRequest''"
    and payload: "sendRequestPayloadSchema payload = Some (path, body)"
    and path: "path \<in> set CALIN_API_V2_PROVISIONING_PATHS"
    and send: "v2_sendRequest world now path body c = (res, c')"
    using assms by (auto simp: v2_execute_def split: if_splits option.splits)
  show ?thesis using v2_sendRequest_sent [OF send, unfolded sends_only_def] op payload path by blast
qed

lemma provisioning_allowlisted_witness:
  "list_all (\<lambda>rq. rq_url rq \<noteq> ''http://calin/API/Token/CreditToken/Generate'')
     (sent (snd (v2_execute example_v2_world 1000 (\<lambda>_. ''invalid'') ''sendRequest''
        (JObj [(''path'', JStr ''/API/Token/CreditToken/Generate''), (''body'', JObj [])]) example_v2_client)))"
proof -
  let ?p = "JObj [(''path'', JStr ''/API/Token/CreditToken/Generate''), (''body'', JObj [])]"
  let ?r = "v2_execute example_v2_world 1000 (\<lambda>_. ''invalid'') ''sendRequest'' ?p example_v2_client"
  obtain more where m: "sent (snd ?r) = sent example_v2_client @ more"
    "\<forall>rq \<in> set more. rq = v2_login_request (v2_secrets example_v2_world) \<or>
      (\<exists>path body bearer. sendRequestPayloadSchema ?p = Some (path, body) \<and>
        path \<in> set CALIN_API_V2_PROVISIONING_PATHS \<and> rq = v2_request (v2_secrets example_v2_world) path body bearer)"
    using provisioning_allowlisted [of example_v2_world 1000 "\<lambda>_. ''invalid''" "''sendRequest''" ?p
        example_v2_client "fst ?r" "snd ?r"] by auto
  have "sendRequestPayloadSchema ?p = Some (''/API/Token/CreditToken/Generate'', JObj [])"
    by (simp add: sendRequestPayloadSchema_def scalar_record_def)
  then have "\<forall>rq \<in> set more. rq = v2_login_request (v2_secrets example_v2_world)"
    using m(2) by (auto simp: CALIN_API_V2_PROVISIONING_PATHS_def)
  then have "\<forall>rq \<in> set more. rq_url rq = ''http://calin/API/User/Login''"
    by (auto simp: v2_login_request_def example_v2_world_def)
  then show ?thesis unfolding m(1) by (auto simp: list_all_iff example_v2_client_def)
qed

end
