(* ===== verification/Nxt_Sts.thy ===== *)
theory Nxt_Sts
  imports Calin_V1_Plugin
begin

text \<open>
  The token-only plugin \<open>nxt-sts\<close> (\<open>src/plugins/nxt-sts/\<close>): the request for one STS token, guarded by
  the checks that its generator makes, and the HTTP call. \<open>Date.parse\<close> reads many formats of its own
  besides the ISO ones; whether it accepts a text is an argument.
\<close>

section \<open>Secrets and client\<close>

definition NXT_STS_ENV_KEYS :: "string list" where
  "NXT_STS_ENV_KEYS = [''NXT_STS_URL'']"

definition loadNxtStsSecrets :: "(string \<rightharpoonup> string) \<Rightarrow> exn + string" where
  "loadNxtStsSecrets env =
     (case requireEnvKeys env ''nxt-sts'' NXT_STS_ENV_KEYS of
        Inl e \<Rightarrow> Inl e
      | Inr values \<Rightarrow> Inr (the (values ''NXT_STS_URL'')))"

definition NxtStsError :: "string \<Rightarrow> exn" where
  "NxtStsError message = VendorError message None False"

definition STS_FAILED :: exn where
  "STS_FAILED = NxtStsError ''[NXT STS TOKEN SERVICE] Failed to generate token''"

definition sendTokenRequest :: "string \<Rightarrow> network \<Rightarrow> jval \<Rightarrow> exn + jval" where
  "sendTokenRequest apiBaseUrl net body =
     (case net \<lparr>rq_url = apiBaseUrl @ ''/token'', rq_authorization = None, rq_body = body,
             rq_timeoutMs = CLIENT_SAFETY_DEADLINE_MS\<rparr> of
        Inl _ \<Rightarrow> Inl STS_FAILED
      | Inr response \<Rightarrow>
          if \<not> http_ok response then Inl STS_FAILED
          else (case hr_json response of Inl _ \<Rightarrow> Inl STS_FAILED | Inr data \<Rightarrow> Inr data))"

section \<open>The token facet\<close>

definition STS_RANDOM_NUMBER_MAX :: nat where
  "STS_RANDOM_NUMBER_MAX = 16"

text \<open>\<open>/^[0-9A-Fa-f]{16}$/\<close>.\<close>

definition STS_DECODER_KEY_HEX :: "string \<Rightarrow> bool" where
  "STS_DECODER_KEY_HEX key \<longleftrightarrow>
     length key = 16 \<and> set key \<subseteq> set ''0123456789ABCDEFabcdef''"

text \<open>The two assertions return the error they throw, if any.\<close>

definition assertIsoDateTime :: "(string \<Rightarrow> bool) \<Rightarrow> string \<Rightarrow> exn option" where
  "assertIsoDateTime dateParses issueDateString =
     (if \<not> includes_str ''T'' issueDateString \<or> \<not> dateParses issueDateString
      then Some (NxtStsError (''[NXT STS TOKEN SERVICE] issueDateString must be an ISO 8601 datetime '' @
        ''(e.g. '' @ [CHR 0x22] @ ''2024-03-15T10:30:00'' @ [CHR 0x22] @ ''), not a date-only string''))
      else None)"

definition assertDecoderKey :: "string option \<Rightarrow> exn option" where
  "assertDecoderKey decoderKey =
     (case filled decoderKey of
        None \<Rightarrow> Some (NxtStsError ''[NXT STS TOKEN SERVICE] device.decoderKey is required'')
      | Some key \<Rightarrow>
          if \<not> STS_DECODER_KEY_HEX key
          then Some (NxtStsError
            ''[NXT STS TOKEN SERVICE] device.decoderKey must be exactly 16 hex characters'')
          else None)"

fun kind_text :: "tokenKind \<Rightarrow> string" where
  "kind_text (TopUpKwh _) = ''TOP_UP_KWH''"
| "kind_text (PowerLimit _) = ''SET_POWER_LIMIT''"
| "kind_text ClearTamper = ''CLEAR_TAMPER''"
| "kind_text ClearCredit = ''CLEAR_CREDIT''"

fun kind_fields :: "tokenKind \<Rightarrow> (string \<times> jval) list" where
  "kind_fields (TopUpKwh kwh) = [(''kwh'', JNum kwh)]"
| "kind_fields (PowerLimit powerLimit) = [(''powerLimit'', JNum powerLimit)]"
| "kind_fields _ = []"

definition sts_body :: "num \<Rightarrow> string \<Rightarrow> generateTokenInput \<Rightarrow> jval" where
  "sts_body rnd decoderKey input = JObj ([
     (''decoderKey'', JStr decoderKey),
     (''randomNumber'', JNum (of_int (generateRandomNumber rnd STS_RANDOM_NUMBER_MAX))),
     (''issueDate'', JStr (gt_issueDateString input)),
     (''type'', JStr (kind_text (gt_kind input)))] @ kind_fields (gt_kind input))"

text \<open>Destructuring a \<open>null\<close> answer throws a \<open>TypeError\<close>.\<close>

definition NULL_ANSWER :: exn where
  "NULL_ANSWER = PlainError ''Cannot destructure property 'token' of '(intermediate value)' as it is null.''"

definition sts_generate ::
  "string \<Rightarrow> network \<Rightarrow> (string \<Rightarrow> bool) \<Rightarrow> num \<Rightarrow> generateTokenInput \<Rightarrow> exn + string" where
  "sts_generate apiBaseUrl net dateParses rnd input =
     (let decoderKey = map_option trim (gt_decoderKey input) in
      case assertDecoderKey decoderKey of
        Some e \<Rightarrow> Inl e
      | None \<Rightarrow>
          (case assertIsoDateTime dateParses (gt_issueDateString input) of
             Some e \<Rightarrow> Inl e
           | None \<Rightarrow>
               (case sendTokenRequest apiBaseUrl net (sts_body rnd (the decoderKey) input) of
                  Inl e \<Rightarrow> Inl e
                | Inr data \<Rightarrow>
                    if data = JNull then Inl NULL_ANSWER
                    else
                      (case filled (text_field ''token'' data) of
                         None \<Rightarrow> Inl STS_FAILED
                       | Some token \<Rightarrow> Inr token))))"

section \<open>The plugin\<close>

definition NXT_STS_ID :: plugin_id where
  "NXT_STS_ID = ''nxt-sts''"

definition NXT_STS_SUPPORTED_COMMAND_TYPES :: "commandType list" where
  "NXT_STS_SUPPORTED_COMMAND_TYPES = []"

definition sts_sendOne :: "deviceMessage \<Rightarrow> exn + string" where
  "sts_sendOne message = Inl (PlainError ''[NXT STS] Delivery is not supported (token-only plugin)'')"

definition sts_parseError :: "exn \<Rightarrow> failureContext" where
  "sts_parseError err = reason_context (exn_message err) None None"

definition createNxtStsPlugin :: "(string \<rightharpoonup> string) \<Rightarrow> pluginEntry \<Rightarrow> exn + devicePlugin" where
  "createNxtStsPlugin env entry =
     (case loadNxtStsSecrets env of Inl e \<Rightarrow> Inl e | Inr _ \<Rightarrow> Inr (TokenOnly NXT_STS_ID))"

end
