(* ===== verification/Plugin_Services.thy ===== *)
theory Plugin_Services
  imports Nxt_Sts Calin_V2_Plugin Chirpstack_Plugin Stub_Plugin
begin

text \<open>
  What stands on top of the plugins: the catalog of factories (\<open>src/plugins/catalog.ts\<close>), the token and
  provisioning services (\<open>src/engine/token.ts\<close>, \<open>src/engine/provisioning.ts\<close>), the provisioning facet
  of the ChirpStack plugin and the request schemas of the two routes. A plugin's facet is an argument of
  the service that routes to it.
\<close>

section \<open>The catalog\<close>

definition PLUGIN_CATALOG :: "(string \<rightharpoonup> string) \<Rightarrow> catalog" where
  "PLUGIN_CATALOG env = [
     CALIN_API_V1_ID \<mapsto> createCalinApiV1Plugin env,
     CALIN_API_V2_ID \<mapsto> createCalinApiV2Plugin env,
     CALIN_CHIRPSTACK_ID \<mapsto> createCalinChirpstackPlugin env,
     NXT_STS_ID \<mapsto> createNxtStsPlugin env,
     STUB_PUSH_ID \<mapsto> createStubPushPlugin,
     STUB_PULL_ID \<mapsto> createStubPullPlugin]"

lemmas plugin_ids =
  CALIN_API_V1_ID_def CALIN_API_V2_ID_def CALIN_CHIRPSTACK_ID_def NXT_STS_ID_def STUB_PUSH_ID_def STUB_PULL_ID_def

section \<open>Tokens\<close>

record generateTokenRequest =
  tr_pluginId :: plugin_id
  tr_input :: generateTokenInput

definition generateTokenSchema :: "generateTokenRequest \<Rightarrow> bool" where
  "generateTokenSchema r \<longleftrightarrow>
     tr_pluginId r \<noteq> [] \<and> gt_issueDateString (tr_input r) \<noteq> [] \<and> gt_externalReference (tr_input r) \<noteq> []"

fun has_token :: "devicePlugin \<Rightarrow> bool" where
  "has_token (Delivery p) = d_hasToken p"
| "has_token (TokenOnly i) = True"
| "has_token (ObjectMember _) = False"

definition token_generate ::
  "registry \<Rightarrow> (devicePlugin \<Rightarrow> generateTokenInput \<Rightarrow> exn + string) \<Rightarrow> generateTokenRequest \<Rightarrow> exn + string" where
  "token_generate reg facet request =
     (case registry_get reg (tr_pluginId request) of
        None \<Rightarrow> Inl (UnknownPluginError (tr_pluginId request))
      | Some plugin \<Rightarrow>
          if \<not> has_token plugin then Inl (TokenNotSupportedError (tr_pluginId request))
          else facet plugin (tr_input request))"

section \<open>Provisioning\<close>

record provisioningRequest =
  pr_pluginId :: plugin_id
  pr_operation :: string
  pr_payload :: jval

definition pluginProvisioningRequestSchema :: "provisioningRequest \<Rightarrow> bool" where
  "pluginProvisioningRequestSchema r \<longleftrightarrow> pr_pluginId r \<noteq> [] \<and> pr_operation r \<noteq> []"

fun has_provisioning :: "devicePlugin \<Rightarrow> bool" where
  "has_provisioning (Delivery p) = d_hasProvisioning p"
| "has_provisioning (TokenOnly i) = False"
| "has_provisioning (ObjectMember _) = False"

definition provisioning_execute ::
  "registry \<Rightarrow> (devicePlugin \<Rightarrow> string \<Rightarrow> jval \<Rightarrow> exn + jval) \<Rightarrow> provisioningRequest \<Rightarrow> exn + jval" where
  "provisioning_execute reg facet request =
     (case registry_get reg (pr_pluginId request) of
        None \<Rightarrow> Inl (UnknownPluginError (pr_pluginId request))
      | Some plugin \<Rightarrow>
          if \<not> has_provisioning plugin then Inl (ProvisioningNotSupportedError (pr_pluginId request))
          else facet plugin (pr_operation request) (pr_payload request))"

section \<open>ChirpStack provisioning\<close>

text \<open>A strict object of non-empty texts with exactly the given keys.\<close>

definition text_object :: "string list \<Rightarrow> jval \<Rightarrow> bool" where
  "text_object keys payload \<longleftrightarrow>
     (case payload of
        JObj fs \<Rightarrow> set (map fst fs) \<subseteq> set keys \<and> list_all (\<lambda>k. filled (text_field k payload) \<noteq> None) keys
      | _ \<Rightarrow> False)"

definition registerDevicePayloadSchema :: "jval \<Rightarrow> bool" where
  "registerDevicePayloadSchema = text_object [''devEui'', ''deviceName'']"

definition setApplicationKeyPayloadSchema :: "jval \<Rightarrow> bool" where
  "setApplicationKeyPayloadSchema = text_object [''devEui'']"

text \<open>\<open>execute\<close>, over the two gRPC stubs and the message of the schema library's first issue.\<close>

definition chirpstack_execute ::
  "chirpstackSecrets \<Rightarrow> (deviceRegistration \<Rightarrow> exn option) \<Rightarrow> (deviceKeys \<Rightarrow> exn option) \<Rightarrow>
   (jval \<Rightarrow> string) \<Rightarrow> string \<Rightarrow> jval \<Rightarrow> exn + jval" where
  "chirpstack_execute secrets createRpc createKeysRpc issue operation payload =
     (if operation = ''registerDevice'' then
        (if \<not> registerDevicePayloadSchema payload
         then Inl (InvalidProvisioningError CALIN_CHIRPSTACK_ID (issue payload))
         else Inr (JObj [(''isNewRegistration'', JBool (registerDevice secrets createRpc
                (the (text_field ''devEui'' payload)) (the (text_field ''deviceName'' payload))))]))
      else if operation = ''setApplicationKey'' then
        (if \<not> setApplicationKeyPayloadSchema payload
         then Inl (InvalidProvisioningError CALIN_CHIRPSTACK_ID (issue payload))
         else Inr (JObj [(''success'', JBool (setApplicationKeyForDevice secrets createKeysRpc
                (the (text_field ''devEui'' payload))))]))
      else Inl (InvalidProvisioningError CALIN_CHIRPSTACK_ID (''unsupported operation: '' @ operation)))"

section \<open>What the catalog makes\<close>

lemma merge_tuning_positive:
  assumes "mergePluginTuning entry no_override = Inr t"
  shows "positive_tuning t"
  using assms spread_parsed_positive [OF default_tuning_positive]
  by (auto simp: mergePluginTuning_def spread_no_override default_tuning_positive split: option.splits)

lemma map_sum_Inr: "map_sum id f x = Inr y \<longleftrightarrow> (\<exists>z. x = Inr z \<and> f z = y)"
  by (cases x) auto

text \<open>The delivery plugins of the catalog, with a tuning that the merge has checked.\<close>

definition shipped :: "plugin_id \<Rightarrow> deliveryPlugin \<Rightarrow> bool" where
  "shipped i q \<longleftrightarrow> (\<exists>t. positive_tuning t \<and>
     ((i, q) = (CALIN_API_V1_ID, buildCalinApiV1 t) \<or> (i, q) = (CALIN_API_V2_ID, buildCalinApiV2 t) \<or>
      (i, q) = (CALIN_CHIRPSTACK_ID, buildCalinChirpstack t) \<or> (i, q) = (STUB_PUSH_ID, buildStubPush t) \<or>
      (i, q) = (STUB_PULL_ID, buildStubPull t)))"

lemma catalog_makes:
  assumes "PLUGIN_CATALOG env i = Some factory" and "factory entry = Inr p"
  shows "(\<exists>q. p = Delivery q \<and> shipped i q) \<or> (i = NXT_STS_ID \<and> p = TokenOnly NXT_STS_ID)"
proof -
  have m: "positive_tuning t" if "mergePluginTuning entry no_override = Inr t" for t
    using merge_tuning_positive [OF that] .
  show ?thesis
    using assms unfolding PLUGIN_CATALOG_def shipped_def
    by (auto simp: createCalinApiV1Plugin_def createCalinApiV2Plugin_def createCalinChirpstackPlugin_def
        createNxtStsPlugin_def createStubPushPlugin_def createStubPullPlugin_def map_sum_Inr
        split: if_splits sum.splits dest!: m) blast+
qed

lemma shipped_contract:
  assumes "shipped i q"
  shows "d_id q = i" and "\<exists>kind. delivery_plugin_contract q kind"
  using assms calin_api_v1_contract calin_api_v2_contract chirpstack_contract stub_push_contract stub_pull_contract
  unfolding shipped_def
  by (force simp: buildCalinApiV1_def buildCalinApiV2_def buildCalinChirpstack_def buildStubPush_def
      buildStubPull_def, blast)

lemma catalog_plugin:
  assumes "PLUGIN_CATALOG env i = Some factory" and "factory entry = Inr p"
  shows "plugin_id_of p = Some i" and "p = Delivery q \<Longrightarrow> \<exists>kind. delivery_plugin_contract q kind"
  using catalog_makes [OF assms] shipped_contract by auto

end
