(* ===== verification/Vendor_Claims.thy ===== *)
theory Vendor_Claims
  imports Plugin_Services Example_Service
begin

text \<open>
  Properties of the vendor adapters: which dates the two CALIN APIs accept and how they read back, how the
  credit of a meter is reported, how failed sends are classified, and how an STS token is asked for.
\<close>

section \<open>Decimal texts\<close>

lemma padded_digits:
  assumes "0 \<le> i"
  shows "list_all is_digit (padded n i)" and "padded n i \<noteq> []" and "string_to_nat (padded n i) = nat i"
  using assms digits_nat_to_string [of "nat i"]
  by (auto simp: padded_def pad_start_def int_text_def string_to_nat_zeros list_all_iff)

lemma padded_no_char: "0 \<le> i \<Longrightarrow> \<not> is_digit c \<Longrightarrow> c \<notin> set (padded n i)"
  using padded_digits(1) [of i n] by (auto simp: list_all_iff)

lemma nat_to_string_short:
  assumes "n < 10 ^ k" and "0 < k"
  shows "length (nat_to_string n) \<le> k"
proof (cases "n = 0")
  case True
  then show ?thesis using assms(2) by (simp add: nat_to_string.simps)
next
  case False
  with nat_to_string_length [of n] have "10 ^ (length (nat_to_string n) - 1) < (10 :: nat) ^ k"
    using assms(1) by (meson le_less_trans not_gr_zero)
  then show ?thesis by simp
qed

lemma length_padded:
  assumes "0 \<le> i" and "i < 10 ^ n" and "0 < n"
  shows "length (padded n i) = n"
proof -
  have "nat i < 10 ^ n" using assms(1,2) by (simp add: nat_less_iff)
  with nat_to_string_short [OF this assms(3)] show ?thesis
    using assms(1) by (simp add: padded_def int_text_def length_pad_start)
qed

lemma number_of_padded:
  assumes "0 \<le> i" and "i < 10 ^ 15"
  shows "toSafeNumberOrNull (Some (JStr (padded n i))) = Some (of_int i)"
proof -
  have e: "plain_decimal (padded n i) [] = padded n i" by (simp add: plain_decimal_def)
  note d = padded_digits [OF assms(1), of n]
  have "(of_int i :: num) < of_int (10 ^ 15)" using assms(2) by (simp only: of_int_less_iff)
  then have "(of_int i :: num) < double_overflow" by (simp add: double_overflow_def)
  then have "js_to_number (padded n i) = Some (of_int i)"
    using js_to_number_plain [OF d(1) _ d(2), of "[]" "of_int i"] assms(1) d(3) e by (simp add: pow10_def)
  moreover have "trim (padded n i) \<noteq> []"
    using plain_decimal_ends [OF d(1) _ d(2), of "[]"] d(2) e by simp
  ultimately show ?thesis by (simp add: toSafeNumberOrNull_def)
qed

section \<open>Setting and reading the date\<close>

lemma checked_date_schema:
  assumes "setDatePayloadSchema year month day"
  shows "checked_date year month day =
    (if calendar_date (normal_year year) (month - 1) day
     then Some (make_day (normal_year year) (month - 1) day) else None)"
proof -
  let ?y = "normal_year year"
  have y: "100 \<le> ?y" "?y \<le> 9999" and md: "0 \<le> month - 1" "month - 1 \<le> 11" "1 \<le> day" "day \<le> 31"
    using assms by (auto simp: normal_year_def)
  have mk: "make_day ?y (month - 1) day = day_from_year ?y + month_offset (leap_year ?y) (month - 1) + day - 1"
    using md by (simp add: make_day_def Let_def)
  have "0 \<le> month_offset (leap_year ?y) (month - 1) \<and> month_offset (leap_year ?y) (month - 1) \<le> 335"
  proof -
    have "nat (month - 1) \<in> set [0..<12]" using md by auto
    then show ?thesis by (auto simp: month_offset_def upt_rec numeral_eq_Suc)
  qed
  moreover have "-1000000 \<le> day_from_year ?y" "day_from_year ?y \<le> 4000000"
    using day_from_year_mean [of ?y] y by simp_all
  ultimately have "- 2000000 \<le> make_day ?y (month - 1) day" "make_day ?y (month - 1) day \<le> 5000000"
    using mk md by linarith+
  then have small: "\<bar>make_day ?y (month - 1) day\<bar> \<le> 10 ^ 8" by simp
  have u: "utc_day ?y (month - 1) day = Some (make_day ?y (month - 1) day)"
    using y small by (simp add: utc_day_def Let_def)
  have "utc_fields (make_day ?y (month - 1) day) = (?y, month - 1, day) \<longleftrightarrow> calendar_date ?y (month - 1) day"
    using utc_fields_make_day utc_fields_calendar by blast
  then show ?thesis using assms by (auto simp: checked_date_def safe_integer_def u)
qed

text \<open>The text that sets a date with the second API is reported as that date when it is read back.\<close>

lemma date_reads_back:
  assumes valid: "setDatePayloadSchema year month day" and acc: "v2_formatDate year month day = Inr t"
  shows "v2_parseResponseData ''Clock(time)'' (Some (JStr t)) READ =
    createSuccessfulResponseData (Some [(''year'', JNum (of_int (normal_year year))),
      (''month'', JNum (of_int month)), (''day'', JNum (of_int day))])"
proof -
  have n: "0 \<le> normal_year year" "0 \<le> month" "0 \<le> day" "normal_year year < 10 ^ 15" "month < 10 ^ 15" "day < 10 ^ 15"
    using valid by (auto simp: normal_year_def)
  let ?d = "padded 4 (normal_year year) @ CHR ''-'' # padded 2 month @ CHR ''-'' # padded 2 day"
  have t: "t = ?d @ CHR '' '' # ''00:00:00''"
    using acc checked_date_schema [OF valid] by (auto simp: v2_formatDate_def split: if_splits)
  have sp: "CHR '' '' \<notin> set ?d" using n padded_no_char by simp
  have h: "hd (split_on (CHR '' '') t) = ?d" unfolding t split_on_append [OF sp] by simp
  have dash: "CHR ''-'' \<notin> set (padded 4 (normal_year year))" "CHR ''-'' \<notin> set (padded 2 month)"
    "CHR ''-'' \<notin> set (padded 2 day)"
    using n padded_no_char by simp_all
  have ps: "split_on (CHR ''-'') ?d = [padded 4 (normal_year year), padded 2 month, padded 2 day]"
    by (simp only: split_on_append [OF dash(1)] split_on_append [OF dash(2)] split_on_no_sep [OF dash(3)])
  have "trim ''Clock(time)'' = ''Clock(time)''" by (rule trim_outer) (simp_all add: js_space_def)
  then show ?thesis
    by (simp add: v2_parseResponseData_def v2_parse_clock_def h ps part_def number_or_null_def
        number_of_padded [OF n(1,4)] number_of_padded [OF n(2,5)] number_of_padded [OF n(3,6)])
qed

text \<open>C40 (dates the vendors accept): a date that passes the request schema is accepted by both CALIN APIs
  exactly when it is a date of the calendar (two-digit years are of this century), and is otherwise
  refused by both without a retry; the first API gets the last two digits of the year, the month, the
  day and the weekday as eight digits; the text that the second API gets is, when a read of the date
  returns it, reported as that year, month and day.\<close>

theorem vendor_dates_on_calendar:
  assumes valid: "setDatePayloadSchema year month day"
  shows "if calendar_date (normal_year year) (month - 1) day
    then (\<exists>t. v2_formatDate year month day = Inr t \<and> v2_parseResponseData ''Clock(time)'' (Some (JStr t)) READ =
        createSuccessfulResponseData (Some [(''year'', JNum (of_int (normal_year year))),
          (''month'', JNum (of_int month)), (''day'', JNum (of_int day))])) \<and>
      (\<exists>t. v1_formatDate year month day = Inr t \<and> length t = 8 \<and> list_all is_digit t \<and>
        string_to_nat (take 2 t) = nat year mod 100 \<and> string_to_nat (take 2 (drop 2 t)) = nat month \<and>
        string_to_nat (take 2 (drop 4 t)) = nat day \<and>
        string_to_nat (drop 6 t) = nat (week_day (make_day (normal_year year) (month - 1) day)))
    else v1_formatDate year month day = Inl (skip_retry_error ''Invalid payload for setting date'') \<and>
      v2_formatDate year month day = Inl (skip_retry_error ''Invalid payload for setting date'')"
proof -
  let ?w = "week_day (make_day (normal_year year) (month - 1) day)"
  let ?yy = "js_rem (normal_year year) 100"
  have "(2000 + year) mod 100 = year mod 100" using mod_mult_self2 [of year 100 20] by (simp add: add.commute)
  then have y1: "?yy = year mod 100" using valid by (simp add: js_rem_def normal_year_def)
  then have y: "?yy = year mod 100" "0 \<le> ?yy" "?yy < 100" by simp_all
  have w: "0 \<le> ?w" "?w < 100" using pos_mod_bound [of 7] by (auto simp: week_day_def intro: less_trans)
  have yn: "nat ?yy = nat year mod 100" using valid by (simp add: y(1) nat_mod_distrib)
  have l: "length (padded 2 ?yy) = 2" "length (padded 2 month) = 2" "length (padded 2 day) = 2" "length (padded 2 ?w) = 2"
    using valid y w by (auto intro!: length_padded)
  have v2: "\<exists>t. v2_formatDate year month day = Inr t" if "calendar_date (normal_year year) (month - 1) day"
    using that by (simp add: v2_formatDate_def checked_date_schema [OF valid])
  show ?thesis
  proof (cases "calendar_date (normal_year year) (month - 1) day")
    case True
    obtain t2 where t2: "v2_formatDate year month day = Inr t2" using v2 [OF True] by blast
    show ?thesis
      using valid l y(2) w(1) yn True t2 date_reads_back [OF valid t2]
      by (simp add: v1_formatDate_def checked_date_schema [OF valid] padded_digits)
  next
    case False
    then show ?thesis by (simp add: v1_formatDate_def v2_formatDate_def checked_date_schema [OF valid])
  qed
qed

theorem vendor_dates_on_calendar_witness:
  "v1_formatDate 26 2 30 = Inl (skip_retry_error ''Invalid payload for setting date'') \<and>
   (\<exists>t. v1_formatDate 28 2 29 = Inr t \<and> length t = 8) \<and>
   (\<exists>t. v2_formatDate 28 2 29 = Inr t \<and> v2_parseResponseData ''Clock(time)'' (Some (JStr t)) READ =
     createSuccessfulResponseData (Some [(''year'', JNum 2028), (''month'', JNum 2), (''day'', JNum 29)]))"
  using vendor_dates_on_calendar [of 26 2 30] vendor_dates_on_calendar [of 28 2 29]
  by (auto simp: calendar_date_def normal_year_def days_in_month_def leap_year_def)

section \<open>Reading the credit\<close>

text \<open>The credit of a meter: whatever credit of at most six decimals the first API prints, positive,
  negative or zero, with the state of the relay after a comma, the report carries exactly that number,
  and the relay is reported on for the text \<open>ON\<close> alone.\<close>

lemma vendor_credit_reported:
  assumes size: "\<bar>kwh\<bar> < 10 ^ 21" and decs: "whole_number (kwh * 10 ^ 6)" and relay: "CHR '','' \<notin> set relay"
  shows "v1_parseResponseData ''Current Credit Register'' (Some (num_text kwh @ CHR '','' # relay)) requested =
    Inr (createSuccessfulResponseData (Some [(''kwhCreditAvailable'', JNum kwh), (''isOn'', JBool (relay = ''ON''))]))"
proof -
  have c: "CHR '','' \<notin> set (num_text kwh)" using num_text_chars [OF size decs] by fastforce
  have n: "toSafeNumberOrNull (Some (JStr (num_text kwh))) = Some kwh"
    using num_text_reads_back [OF size decs] by (simp add: toSafeNumberOrNull_def)
  show ?thesis
    by (simp add: v1_parseResponseData_def on_text_def v1_parse_credit_def Let_def split_on_append [OF c]
        split_on_no_sep [OF relay] part_def n)
qed

lemma vendor_credit_reported_witness:
  "v1_parseResponseData ''Current Credit Register'' (Some (num_text (- 25 / 2) @ '',OFF'')) None =
     Inr (createSuccessfulResponseData (Some [(''kwhCreditAvailable'', JNum (- 25 / 2)), (''isOn'', JBool False)]))"
  using vendor_credit_reported [of "- 25 / 2" "''OFF''" None] by (simp add: whole_number_def)

section \<open>Failed sends\<close>

text \<open>The messages that the two CALIN APIs can express.\<close>

definition sendable :: "deviceMessage \<Rightarrow> bool" where
  "sendable message \<longleftrightarrow>
     (let c = m_commandType message in
      map_of CalinApiV1ReadMap c \<noteq> None \<or> map_of CalinApiV1ControlMap c \<noteq> None \<or>
      (c = SET_DATE \<and>
         (case Option.bind (m_requestData message) rd_payload of
            Some (SetDate y m d) \<Rightarrow> calendar_date (normal_year y) (m - 1) d
          | _ \<Rightarrow> False)) \<or>
      (isTokenCommand c \<and>
         (case Option.bind (m_requestData message) rd_token of None \<Rightarrow> False | Some t \<Rightarrow> trim t \<noteq> [])))"

lemma same_maps:
  "map_of CalinApiV2ReadMap c = None \<longleftrightarrow> map_of CalinApiV1ReadMap c = None"
  "map_of CalinApiV2ControlMap c = None \<longleftrightarrow> map_of CalinApiV1ControlMap c = None"
  "map_of CalinApiV2WriteMap c = None \<longleftrightarrow> c \<noteq> SET_DATE" "map_of CalinApiV1WriteMap c = None \<longleftrightarrow> c \<noteq> SET_DATE"
  by (cases c; simp add: CalinApiV1ReadMap_def CalinApiV2ReadMap_def CalinApiV1ControlMap_def
      CalinApiV2ControlMap_def CalinApiV1WriteMap_def CalinApiV2WriteMap_def)+

lemma createCommTask_error:
  assumes "v1_createCommTask secrets net path extra missing = Inl e"
  shows "\<exists>m code. e = VendorError m code False"
  using assms v1_sendRequest_Inl
  by (auto simp: v1_createCommTask_def CalinApiV1Error_def split: sum.splits option.splits) blast+

lemma v2_error_retryable:
  "v2_sendRequest world now path body c = (Inl e, c') \<Longrightarrow> \<exists>m. e = VendorError m None False"
  by (auto simp: v2_sendRequest_def ensureToken_def Let_def CalinApiV2Error_def
      split: sum.splits option.splits postOutcome.splits prod.splits if_splits)

lemma createTask_error:
  "v2_createTask world now path protocolId meterId text c = (Inl e, c') \<Longrightarrow> \<exists>m. e = VendorError m None False"
  using v2_error_retryable
  by (auto simp: v2_createTask_def CalinApiV2Error_def split: prod.splits sum.splits option.splits)

lemma sendable_errors:
  assumes valid: "pred_option valid_requestData (m_requestData message)" and ok: "sendable message"
  shows "v1_sendOne secrets net message = Inl e \<Longrightarrow> \<exists>m code. e = VendorError m code False"
    and "v2_sendOne world now message c = (Inl e, c') \<Longrightarrow> \<exists>m. e = VendorError m None False"
proof -
  let ?c = "m_commandType message" and ?p = "Option.bind (m_requestData message) rd_payload"
  note defs = v1_requestRead_def v1_requestControl_def v1_requestWrite_def v1_requestTokenDelivery_def
    v2_requestRead_def v2_requestControl_def v2_requestWrite_def v2_requestTokenDelivery_def
  have d: "v1_parsePayload SET_DATE ?p \<noteq> Inl e" "v2_parsePayload SET_DATE ?p \<noteq> Inl e"
    if "?c = SET_DATE" for e
  proof -
    have "\<not> isTokenCommand ?c" "map_of CalinApiV1ReadMap ?c = None" "map_of CalinApiV1ControlMap ?c = None"
      using that by (simp_all add: command_guard_defs command_group_defs CalinApiV1ReadMap_def CalinApiV1ControlMap_def)
    then obtain y m d where p: "?p = Some (SetDate y m d)" and cal: "calendar_date (normal_year y) (m - 1) d"
      using ok that by (auto simp: sendable_def split: option.splits payload.splits)
    then have "setDatePayloadSchema y m d" using valid by (auto simp: valid_requestData_def bind_eq_Some_conv)
    then show "v1_parsePayload SET_DATE ?p \<noteq> Inl e" "v2_parsePayload SET_DATE ?p \<noteq> Inl e"
      using cal by (simp_all add: p v1_parsePayload_def v2_parsePayload_def v1_formatDate_def v2_formatDate_def checked_date_schema)
  qed
  have t: "\<exists>token. Option.bind (m_requestData message) rd_token = Some token \<and> trim token \<noteq> []"
    if "map_of CalinApiV1ReadMap ?c = None" "map_of CalinApiV1ControlMap ?c = None" "?c \<noteq> SET_DATE"
    using ok that by (auto simp: sendable_def Let_def split: option.splits)
  have k: "isTokenCommand ?c"
    if "map_of CalinApiV1ReadMap ?c = None" "map_of CalinApiV1ControlMap ?c = None" "?c \<noteq> SET_DATE"
    using ok that by (auto simp: sendable_def Let_def)
  show "\<exists>m code. e = VendorError m code False" if "v1_sendOne secrets net message = Inl e"
    using that d t k
    by (auto simp: v1_sendOne_def same_maps defs Let_def split: if_splits sum.splits option.splits
        dest!: createCommTask_error)
  show "\<exists>m. e = VendorError m None False" if "v2_sendOne world now message c = (Inl e, c')"
    using that d t k
    by (auto simp: v2_sendOne_def same_maps defs Let_def split: if_splits sum.splits option.splits
        dest!: createTask_error)
qed

lemma not_sendable_refused:
  assumes valid: "pred_option valid_requestData (m_requestData message)" and no: "\<not> sendable message"
  shows "\<exists>t. v1_sendOne secrets net message = Inl (skip_retry_error t)"
    and "v1_sendOne secrets net message = v1_sendOne secrets net' message"
    and "\<exists>t. v2_sendOne world now message c = (Inl (skip_retry_error t), c)"
proof -
  let ?c = "m_commandType message" and ?p = "Option.bind (m_requestData message) rd_payload"
  have n: "map_of CalinApiV1ReadMap ?c = None" "map_of CalinApiV1ControlMap ?c = None"
    using no by (auto simp: sendable_def Let_def)
  have d: "\<exists>t. v1_parsePayload SET_DATE ?p = Inl (skip_retry_error t)"
    "\<exists>t. v2_parsePayload SET_DATE ?p = Inl (skip_retry_error t)" if "?c = SET_DATE"
  proof -
    have "\<not> isTokenCommand ?c" using that by (simp add: command_guard_defs command_group_defs)
    then have cal: "\<not> calendar_date (normal_year y) (m - 1) d" if "?p = Some (SetDate y m d)" for y m d
      using no that \<open>?c = SET_DATE\<close> by (simp add: sendable_def)
    have sch: "setDatePayloadSchema y m d" if "?p = Some (SetDate y m d)" for y m d
      using valid that by (auto simp: valid_requestData_def bind_eq_Some_conv)
    show "\<exists>t. v1_parsePayload SET_DATE ?p = Inl (skip_retry_error t)"
      "\<exists>t. v2_parsePayload SET_DATE ?p = Inl (skip_retry_error t)"
      using cal checked_date_schema [OF sch]
      by (auto simp: v1_parsePayload_def v2_parsePayload_def v1_formatDate_def v2_formatDate_def
          split: option.split payload.split)
  qed
  have t: "trim token = []" if "isTokenCommand ?c" "Option.bind (m_requestData message) rd_token = Some token" for token
    using no that by (auto simp: sendable_def Let_def)
  show "\<exists>t. v1_sendOne secrets net message = Inl (skip_retry_error t)"
  proof (cases "?c = SET_DATE")
    case True
    then show ?thesis using n d(1) by (auto simp: v1_sendOne_def same_maps)
  next
    case False
    then show ?thesis using n t by (auto simp: v1_sendOne_def same_maps Let_def split: option.splits)
  qed
  show "v1_sendOne secrets net message = v1_sendOne secrets net' message"
  proof (cases "?c = SET_DATE")
    case True
    then show ?thesis using n d(1) by (auto simp: v1_sendOne_def same_maps)
  next
    case False
    then show ?thesis using n t by (auto simp: v1_sendOne_def same_maps Let_def split: option.splits)
  qed
  show "\<exists>t. v2_sendOne world now message c = (Inl (skip_retry_error t), c)"
  proof (cases "?c = SET_DATE")
    case True
    then show ?thesis using n d(2) by (auto simp: v2_sendOne_def same_maps)
  next
    case False
    then show ?thesis using n t by (auto simp: v2_sendOne_def same_maps Let_def split: option.splits)
  qed
qed

text \<open>C27 (failed sends are retried where that can help): a command that the two CALIN APIs cannot express
  (an unknown command, a date that is not on the calendar, a missing token) fails for good, whatever the
  network would answer and without a request to the vendor; a send of any other command that fails is
  retried, unless the first API answered with its code 99, a rejected token.\<close>

theorem vendor_failures_classified:
  assumes valid: "pred_option valid_requestData (m_requestData message)"
  shows "if sendable message
    then (\<forall>e. v1_sendOne secrets net message = Inl e \<longrightarrow>
        fc_skipRetry (v1_parseError e) = Some (fc_errorCode (v1_parseError e) = Some (CodeNum 99))) \<and>
      (\<forall>e c'. v2_sendOne world now message c = (Inl e, c') \<longrightarrow> fc_skipRetry (v2_parseError e) = Some False)
    else (\<exists>e. v1_sendOne secrets net message = Inl e \<and> fc_skipRetry (v1_parseError e) = Some True) \<and>
      (\<forall>net'. v1_sendOne secrets net' message = v1_sendOne secrets net message) \<and>
      (\<exists>e. v2_sendOne world now message c = (Inl e, c) \<and> fc_skipRetry (v2_parseError e) = Some True)"
proof (cases "sendable message")
  case True
  note err = sendable_errors [OF valid True]
  show ?thesis using True err
    by (fastforce simp: v1_parseError_def v2_parseError_def reason_context_def)
next
  case False
  have "fc_skipRetry (v1_parseError (skip_retry_error t)) = Some True"
    "fc_skipRetry (v2_parseError (skip_retry_error t)) = Some True" for t
    by (simp_all add: skip_retry_error_def v1_parseError_def v2_parseError_def reason_context_def)
  then show ?thesis using False not_sendable_refused [OF valid False] by metis
qed

theorem vendor_failures_classified_witness:
  "\<forall>secrets net. \<exists>e. v1_sendOne secrets net (example_message\<lparr>m_commandType := SET_DATE, m_requestData := None\<rparr>) = Inl e \<and>
     fc_skipRetry (v1_parseError e) = Some True"
proof (intro allI)
  fix secrets net
  let ?m = "example_message\<lparr>m_commandType := SET_DATE, m_requestData := None\<rparr>"
  have "\<not> sendable ?m"
    by (simp add: sendable_def CalinApiV1ReadMap_def CalinApiV1ControlMap_def command_guard_defs command_group_defs)
  then show "\<exists>e. v1_sendOne secrets net ?m = Inl e \<and> fc_skipRetry (v1_parseError e) = Some True"
    using vendor_failures_classified [of ?m secrets net undefined 0 undefined] by simp
qed

section \<open>Tokens of the STS service\<close>

text \<open>A request that the STS service's own schema accepts, for the given device and date.\<close>

definition sts_request_ok :: "generateTokenInput \<Rightarrow> httpRequest \<Rightarrow> bool" where
  "sts_request_ok input rq \<longleftrightarrow>
     (\<exists>raw n. gt_decoderKey input = Some raw \<and> length (trim raw) = 16 \<and>
        set (trim raw) \<subseteq> set ''0123456789ABCDEFabcdef'' \<and> 0 \<le> n \<and> n \<le> (15 :: int) \<and>
        includes_str ''T'' (gt_issueDateString input) \<and>
        rq_body rq = JObj ([(''decoderKey'', JStr (trim raw)), (''randomNumber'', JNum (of_int n)),
          (''issueDate'', JStr (gt_issueDateString input)), (''type'', JStr (kind_text (gt_kind input)))] @
          kind_fields (gt_kind input)))"

lemma sts_body_ok:
  assumes rnd: "0 \<le> rnd" "rnd < 1" and raw: "gt_decoderKey input = Some raw" "STS_DECODER_KEY_HEX (trim raw)"
    and date: "includes_str ''T'' (gt_issueDateString input)" and body: "rq_body rq = sts_body rnd (trim raw) input"
  shows "sts_request_ok input rq"
  unfolding sts_request_ok_def
  using generateRandomNumber_range [OF rnd, of 16] raw date body
  by (intro exI [of _ raw] exI [of _ "generateRandomNumber rnd 16"])
     (simp add: sts_body_def STS_RANDOM_NUMBER_MAX_def STS_DECODER_KEY_HEX_def)

text \<open>An STS token is asked for properly: when the STS plugin returns a token, it is a non-empty text
  that the vendor gave in a successful answer to a well-formed request: the decoder key is the device's,
  trimmed, and has 16 hexadecimal digits, the random number is an integer from 0 to 15, and the issue
  date has a time. A device without such a key gets the same error whatever the vendor would answer.\<close>

lemma sts_request_well_formed:
  assumes rnd: "0 \<le> rnd" "rnd < 1"
  shows "(\<forall>token. sts_generate url net dateParses rnd input = Inr token \<longrightarrow>
      token \<noteq> [] \<and> (\<exists>rq response data. sts_request_ok input rq \<and> net rq = Inr response \<and>
        http_ok response \<and> hr_json response = Inr data \<and> text_field ''token'' data = Some token)) \<and>
    (\<not> pred_option (\<lambda>raw. STS_DECODER_KEY_HEX (trim raw)) (gt_decoderKey input) \<or> gt_decoderKey input = None \<longrightarrow>
      (\<exists>e. \<forall>net'. sts_generate url net' dateParses rnd input = Inl e))"
proof (rule conjI; intro allI impI)
  fix token
  assume "sts_generate url net dateParses rnd input = Inr token"
  then obtain raw data where raw: "gt_decoderKey input = Some raw" "STS_DECODER_KEY_HEX (trim raw)"
    and date: "includes_str ''T'' (gt_issueDateString input)"
    and send: "sendTokenRequest url net (sts_body rnd (trim raw) input) = Inr data"
    and token: "text_field ''token'' data = Some token" "token \<noteq> []"
    by (auto simp: sts_generate_def Let_def assertDecoderKey_def assertIsoDateTime_def filled_Some
        split: option.splits sum.splits if_splits)
  from send obtain rq response where "rq_body rq = sts_body rnd (trim raw) input" "net rq = Inr response"
    "http_ok response" "hr_json response = Inr data"
    by (auto simp: sendTokenRequest_def STS_FAILED_def NxtStsError_def split: sum.splits if_splits) (metis httpRequest.select_convs(3))
  with sts_body_ok [OF rnd raw date] token
  show "token \<noteq> [] \<and> (\<exists>rq response data. sts_request_ok input rq \<and> net rq = Inr response \<and>
        http_ok response \<and> hr_json response = Inr data \<and> text_field ''token'' data = Some token)"
    by blast
next
  assume "\<not> pred_option (\<lambda>raw. STS_DECODER_KEY_HEX (trim raw)) (gt_decoderKey input) \<or> gt_decoderKey input = None"
  then have "assertDecoderKey (map_option trim (gt_decoderKey input)) \<noteq> None"
    by (cases "gt_decoderKey input") (auto simp: assertDecoderKey_def filled_def)
  then show "\<exists>e. \<forall>net'. sts_generate url net' dateParses rnd input = Inl e"
    by (auto simp: sts_generate_def Let_def)
qed

lemma sts_request_well_formed_witness:
  "\<exists>e. sts_generate ''http://sts'' (\<lambda>_. Inl NotAnObject) (\<lambda>_. True) (1 / 2)
     \<lparr>gt_kind = TopUpKwh 10, gt_issueDateString = ''2026-08-12T10:00:00'', gt_externalReference = ''METER-1001'',
      gt_decoderKey = Some ''deadbeef''\<rparr> = Inl e"
  using sts_request_well_formed [of "1 / 2" "''http://sts''" "\<lambda>_. Inl NotAnObject" "\<lambda>_. True" "\<lparr>gt_kind = TopUpKwh 10,
      gt_issueDateString = ''2026-08-12T10:00:00'', gt_externalReference = ''METER-1001'',
      gt_decoderKey = Some ''deadbeef''\<rparr>"]
  by (auto simp: STS_DECODER_KEY_HEX_def trim_def js_space_def)

end
