(* ===== verification/Poll_Claims.thy ===== *)
theory Poll_Claims
  imports Calin_V2_Claims Vendor_Claims Delivery_Claims
begin

text \<open>
  What the engine makes of a vendor's answers while it polls a task: the plugin's poll as the vendor reply
  of the stage action.
\<close>

section \<open>An outage while a task is polled\<close>

lemma v1_unreachable:
  assumes "\<And>rq. \<exists>err. net rq = Inl err"
  shows "v1_fetchStatus secrets net message = Inr None"
proof -
  have "v1_poll_failure message (v1_fetch_failure err) = None" for err
    by (simp add: v1_fetch_failure_def CalinApiV1Error_def v1_poll_failure_def split: option.split)
  moreover obtain err where "net rq = Inl (err rq)" for rq using assms by metis
  ultimately show ?thesis
    by (auto simp: v1_fetchStatus_def v1_sendRequest_def split: option.split)
qed

lemma v2_unreachable:
  assumes "\<And>n rq. \<exists>err. v2_net world n rq = Inl err"
  shows "\<exists>e c'. v2_sendRequest world now path body c = (Inl e, c')"
proof -
  obtain res c' where r: "v2_sendRequest world now path body c = (res, c')" by fastforce
  have no: "post_outcome (v2_net world n rq) = PostFailed" for n rq
    using assms [of n rq] by (auto simp: post_outcome_def)
  have "post_wave world path body bearer n c0 \<noteq> (PostOk data, c1)" for bearer n c0 c1 data
    using post_wave_spec [of world path body bearer n c0 "PostOk data" c1] no by auto
  then show ?thesis
    using r by (cases rule: v2_sendRequest_cases [OF r]) (auto split: sum.splits)
qed

lemma v2_unreachable_poll:
  assumes "\<And>n rq. \<exists>err. v2_net world n rq = Inl err" and "task_type_of (m_commandType message) \<noteq> None"
  shows "\<exists>reason. fst (v2_fetchStatus world now message c) =
    Inr (Some (task_event message DELIVERY_FAILED None (Some (reason_context reason None None))))"
proof -
  obtain ty where ty: "task_type_of (m_commandType message) = Some ty" using assms(2) by auto
  let ?body = "JObj [(''id'', number_or_null (js_to_number (m_deliveryQueueId message))),
    (''lang'', JStr ''en''), (''company'', JStr (v2_companyName (v2_secrets world)))]"
  obtain e c' where r: "v2_sendRequest world now (v2_TASK_PATH_MAP ty) ?body c = (Inl e, c')"
    using v2_unreachable [OF assms(1)] by blast
  from v2_error_retryable [OF r] obtain m where "e = VendorError m None False" by blast
  then show ?thesis using r by (simp add: v2_fetchStatus_def ty v2_poll_failure_def) (rule exI, rule refl)
qed

text \<open>C28 (an outage while a task is polled): when the vendor cannot be reached at a poll, a message of the
  first API stays where it is, unchanged, and is polled again; a message of the second API counts its
  attempt as failed for a reason that may be retried, so its task is given up while the vendor may still
  be working on it.\<close>

theorem vendor_outage_while_polling:
  assumes down: "\<And>rq. \<exists>err. net rq = Inl err" "\<And>n rq. \<exists>err. v2_net world n rq = Inl err"
    and age: "age < PULL_MAX_MESSAGE_AGE_MS" and task: "m_deliveryQueueId message \<noteq> []"
    and command: "task_type_of (m_commandType message) \<noteq> None"
    and indexed: "getMessageIdFromDeliveryQueueId (m_deliveryQueueId message) (db s) = Some (m_id message)"
    and stored: "getMessageById (m_id message) (db s) = Inr (Some message)" "m_deliveryStatus message = DELIVERED_TO_NS"
  shows "stage_action St_awaitingTask cfg w
      \<lparr>v_remoteStatus = rs, v_fetchStatus = v1_fetchStatus secrets net message\<rparr>
      (queueAwaitingTask CALIN_API_V1_ID) message (buildCalinApiV1 tuning) age s = (Inr Rescheduled, s) \<and>
    (\<exists>reason. stage_action St_awaitingTask cfg w
      \<lparr>v_remoteStatus = rs, v_fetchStatus = fst (v2_fetchStatus world now message c)\<rparr>
      (queueAwaitingTask CALIN_API_V2_ID) message (buildCalinApiV2 tuning) age s =
      retryOrFail cfg w (m_id message) (queueAwaitingTask CALIN_API_V2_ID) (reason_context reason None None)
        (buildCalinApiV2 tuning) s)"
proof
  show "stage_action St_awaitingTask cfg w
      \<lparr>v_remoteStatus = rs, v_fetchStatus = v1_fetchStatus secrets net message\<rparr>
      (queueAwaitingTask CALIN_API_V1_ID) message (buildCalinApiV1 tuning) age s = (Inr Rescheduled, s)"
    using age task by (simp add: action_awaitingTask_def v1_unreachable [OF down(1)] buildCalinApiV1_def)
  obtain reason where r: "fst (v2_fetchStatus world now message c) =
      Inr (Some (task_event message DELIVERY_FAILED None (Some (reason_context reason None None))))"
    using v2_unreachable_poll [OF down(2) command] by blast
  show "\<exists>reason. stage_action St_awaitingTask cfg w
      \<lparr>v_remoteStatus = rs, v_fetchStatus = fst (v2_fetchStatus world now message c)\<rparr>
      (queueAwaitingTask CALIN_API_V2_ID) message (buildCalinApiV2 tuning) age s =
      retryOrFail cfg w (m_id message) (queueAwaitingTask CALIN_API_V2_ID) (reason_context reason None None)
        (buildCalinApiV2 tuning) s"
    using age task indexed stored
    by (intro exI [of _ reason])
       (simp add: action_awaitingTask_def r processEvent_def task_event_def buildCalinApiV2_def stageKeyFor_def stage_simps)
qed

text \<open>A message whose task \<open>42\<close> the vendor has.\<close>

definition polled_hash :: mhash where
  "polled_hash = example_dto_hash\<lparr>h_deliveryStatus := Some DELIVERED_TO_NS, h_deliveryQueueId := Some ''42''\<rparr>"

definition polled_message :: deviceMessage where
  "polled_message = message_of ''M1'' polled_hash"

definition polled_engine :: engine where
  "polled_engine = (empty_engine True)\<lparr>db := empty_redis\<lparr>hashes := [messageKey ''M1'' \<mapsto> polled_hash],
     strs := [indexExternalDeliveryId ''42'' \<mapsto> messageKey ''M1'']\<rparr>\<rparr>"

lemma polled_facts:
  "m_id polled_message = ''M1''" "m_deliveryQueueId polled_message = ''42''"
  "m_commandType polled_message = TURN_ON" "m_deliveryStatus polled_message = DELIVERED_TO_NS"
  "getMessageById ''M1'' (db polled_engine) = Inr (Some polled_message)"
  "getMessageIdFromDeliveryQueueId ''42'' (db polled_engine) = Some ''M1''"
  by (simp_all add: polled_message_def polled_hash_def polled_engine_def message_of_def deserializeMessage_def
      example_dto_hash_def serializeCreateDeviceMessage_def complete_hash_def example_create_fields empty_hash_def
      getMessageById_def getMessageIdFromDeliveryQueueId_def messageIdFromKey_messageKey)

theorem vendor_outage_while_polling_witness:
  "\<forall>secrets. stage_action St_awaitingTask example_config (example_world 9000 ''E3'')
     \<lparr>v_remoteStatus = Inr DELIVERED_TO_NS, v_fetchStatus = v1_fetchStatus secrets (\<lambda>_. Inl NotAnObject) polled_message\<rparr>
     (queueAwaitingTask CALIN_API_V1_ID) polled_message (buildCalinApiV1 DEFAULT_PLUGIN_TUNING) 60000 polled_engine =
   (Inr Rescheduled, polled_engine)"
proof -
  let ?world = "example_v2_world\<lparr>v2_net := \<lambda>n rq. Inl NotAnObject\<rparr>"
  have t: "task_type_of (m_commandType polled_message) \<noteq> None"
    by (simp add: polled_facts task_type_of_def command_guard_defs command_group_defs)
  show ?thesis
    using vendor_outage_while_polling [where net = "\<lambda>_. Inl NotAnObject" and world = ?world and
        message = polled_message and s = polled_engine and age = 60000] t
    by (simp add: polled_facts PULL_MAX_MESSAGE_AGE_MS_def)
qed

end
