(* ===== verification/Race_Claims.thy ===== *)
theory Race_Claims
  imports Example_Service
begin

text \<open>
  Places where the atomic handlers hide something. \<open>enterRetry\<close> checks its queue and reads the hash in round
  trips of their own before it writes: a success may be cleaned up in between, or an acknowledgement may
  move the message on. \<open>requeueMessage\<close> moves the message and lists its queue as work in two round trips,
  and the process may end in between.
\<close>

section \<open>The two halves of \<open>enterRetry\<close>\<close>

text \<open>The reads: the ZSCORE guard, then the two fields of the HMGET.\<close>

definition enterRetry_reads :: "msg_id \<Rightarrow> string \<Rightarrow> redis \<Rightarrow> (string option \<times> string option) option" where
  "enterRetry_reads messageId fromKey r =
     (if \<not> in_queue r fromKey messageId then None
      else Some (Option.bind (hashes r (messageKey messageId)) h_deliveryQueueId,
                 Option.bind (hashes r (messageKey messageId)) h_concurrencyRateLimitKey))"

lemma enterRetry_halves:
  "enterRetry cfg w m fromKey n history p s =
     (case enterRetry_reads m fromKey (db s) of
        None \<Rightarrow> (False, recordStageClaimMiss St_retry s)
      | Some (stale, rateKey) \<Rightarrow>
          (True, with_db (enterRetry_write m fromKey n history
             (w_now w + calculateBackoffDelay n (cf_delivery cfg) (w_random w)) stale rateKey) s))"
  by (simp add: enterRetry_def enterRetry_reads_def Let_def entry_context_def)

section \<open>A write after the cleanup\<close>

definition remnant :: "nat \<Rightarrow> failureReason list \<Rightarrow> mhash" where
  "remnant n history = empty_hash\<lparr>h_retryCount := Some n, h_deliveryStatus := Some TO_RETRY, h_failureHistory := Some history\<rparr>"

lemma remnant_facts:
  "h_device (remnant n history) = None" "remnant n history \<noteq> empty_hash"
  "(remnant n history)\<lparr>h_deliveryQueueId := None\<rparr> = remnant n history"
  "(remnant n history)\<lparr>h_concurrencyRateLimitKey := None\<rparr> = remnant n history"
  by (simp_all add: remnant_def empty_hash_def)

lemma expires_view:
  "expires (r_zrem k x r) = expires r" "expires (srem k x r) = expires r"
  "expires (del_str k r) = (expires r)(k := None)" "expires (del_hash k r) = (expires r)(k := None)"
  by (simp_all add: r_zrem_def srem_def del_str_def del_hash_def)

lemma fold_zrem_expires: "expires (fold (\<lambda>k. r_zrem k x) ks r) = expires r"
  by (induction ks arbitrary: r) (simp_all add: expires_view)

lemma zrem_empty: "zsets r q = [] \<Longrightarrow> zsets (r_zrem k x r) q = []"
  by (cases "q = k") (simp_all add: r_zrem_def zrem_def)

lemma fold_zrem_empty: "zsets r q = [] \<Longrightarrow> zsets (fold (\<lambda>k. r_zrem k x) ks r) q = []"
  by (induction ks arbitrary: r) (simp_all add: zrem_empty)

lemma expires_cleared:
  "expires r k = None \<Longrightarrow> expires (srem q x r) k = None" "expires r k = None \<Longrightarrow> expires (del_str q r) k = None"
  by (simp_all add: expires_view)

lemma cleaned_expiry: "expires (messageFullCleanup message ks r) (messageKey (m_id message)) = None"
proof -
  have "expires (fold (\<lambda>k. r_zrem k (m_id message)) ks (del_hash (messageKey (m_id message)) r))
      (messageKey (m_id message)) = None" by (simp add: fold_zrem_expires expires_view)
  then show ?thesis
    unfolding messageFullCleanup_def Let_def
    by (cases "m_concurrencyRateLimitKey message"; cases "m_correlationId message"; simp only: option.case split: if_split)
       (intro conjI impI expires_cleared; assumption)+
qed

lemma hset_at: "hashes (hset k f r) k = Some (f (case hashes r k of None \<Rightarrow> empty_hash | Some h \<Rightarrow> h))"
  by (simp add: hset_def)

lemma hdel_at: "hashes (hdel k f r) k =
    (case hashes r k of None \<Rightarrow> None | Some h \<Rightarrow> if f h = empty_hash then None else Some (f h))"
  by (simp add: hdel_def split: option.split)

lemma expires_kept:
  "expires (hset k f r) = expires r" "expires (hdel k f r) = expires r" "expires (r_zadd q sc x r) = expires r"
  by (simp_all add: hset_def hdel_def r_zadd_def split: option.split)

lemma late_write:
  fixes m fk n history due stale rate r
  defines "r' \<equiv> enterRetry_write m fk n history due stale rate r"
  assumes none: "hashes r (messageKey m) = None"
  shows "hashes r' (messageKey m) = Some (remnant (n + 1) history)"
    and "zscore (zsets r' QUEUE_RETRY_KEY) m = Some due"
    and "expires r (messageKey m) = None \<Longrightarrow> expires r' (messageKey m) = None"
    and "strs r k = None \<Longrightarrow> strs r' k = None"
proof -
  note unfold = r'_def enterRetry_write_def Let_def
  have f: "empty_hash\<lparr>h_retryCount := Some (n + 1), h_deliveryStatus := Some TO_RETRY,
      h_failureHistory := Some history\<rparr> = remnant (n + 1) history" by (simp add: remnant_def)
  have h: "hashes (r_zadd q sc m (r_zrem fk m (hdel (messageKey m) (\<lambda>h. h\<lparr>h_deliveryQueueId := None\<rparr>)
      (hset (messageKey m) (\<lambda>h. h\<lparr>h_retryCount := Some (n + 1), h_deliveryStatus := Some TO_RETRY,
        h_failureHistory := Some history\<rparr>) r)))) (messageKey m) = Some (remnant (n + 1) history)" for q sc
    by (simp add: redis_view hset_at hdel_at none f remnant_facts del: One_nat_def)
  show "hashes r' (messageKey m) = Some (remnant (n + 1) history)"
    unfolding unfold using h
    by (simp add: redis_view hdel_at remnant_facts split: option.split del: One_nat_def)
  show "zscore (zsets r' QUEUE_RETRY_KEY) m = Some due"
    unfolding unfold by (simp add: redis_view r_zadd_def zscore_zadd split: option.split)
  show "expires r (messageKey m) = None \<Longrightarrow> expires r' (messageKey m) = None"
    unfolding unfold by (simp add: expires_kept expires_view split: option.split)
  show "strs r k = None \<Longrightarrow> strs r' k = None"
    unfolding unfold by (simp add: redis_view del_str_def split: option.split)
qed

text \<open>What \<open>deserializeMessage\<close> throws.\<close>

definition no_device :: "msg_id \<Rightarrow> exn" where
  "no_device i = PlainError (''[REDIS] Message without device payload (messageId='' @ i @ '')'')"

lemma drain_stops:
  assumes "getExpiredMessagesInQueue (sq_key queue) now (db s) = m # rest"
    and "getMessageById m (db s) = Inl err"
  shows "drain_queue cfg now queue turns s = (Inl err, s)"
  using assms by (cases "turns m") (simp add: drain_queue_def drain_member_def)

section \<open>A write after an advance\<close>

text \<open>
  A message that advances between the guard of \<open>enterRetry\<close> and its write ends in two queues: the write
  takes it out of the queue that the guard saw, and it is in the next one already.
\<close>

lemma lost_race_two_queues:
  assumes hash: "hashes (db s) (messageKey m) = Some h"
    and reads: "enterRetry_reads m (stageKeyFor (STAGES st) (d_id p)) (db s) = Some (stale, rateKey)"
    and pipeline: "nextStage (d_pattern p) st = Some nx"
    and s1: "s1 = snd (advance cfg w m p st dq n0 s)"
    and s2: "s2 = with_db (enterRetry_write m (stageKeyFor (STAGES st) (d_id p)) n history due stale rateKey) s1"
  shows "in_queue (db s2) (stageKeyFor (STAGES nx) (d_id p)) m \<and> in_queue (db s2) QUEUE_RETRY_KEY m \<and>
    stageKeyFor (STAGES nx) (d_id p) \<noteq> QUEUE_RETRY_KEY"
proof -
  let ?src = "stageKeyFor (STAGES st) (d_id p)" and ?dst = "stageKeyFor (STAGES nx) (d_id p)"
  have "in_queue (db s) ?src m" using reads by (simp add: enterRetry_reads_def split: if_splits)
  then have moved: "in_queue (snd (moveMessageBetweenQueues ?src ?dst (messageKey m) ik m sc status q ex (db s))) ?dst m"
    for ik sc status q ex
    by (rule move_hit [OF _ hash, of ?src m ?dst ik sc status q ex]) simp
  have "\<exists>ik sc status q ex. db s1 = snd (moveMessageBetweenQueues ?src ?dst (messageKey m) ik m sc status q ex (db s))"
    unfolding s1 advance_def pipeline move_def Let_def option.case case_prod_beta by (simp add: if_distrib [of db] del: STAGES.simps) (intro exI, rule refl)
  then have "in_queue (db s1) ?dst m" using moved by metis
  note moved = this
  have step: "st \<noteq> nx" using nextStage_in_pipeline [OF pipeline] by simp
  have "nx \<noteq> St_retry" using nextStage_in_pipeline [OF pipeline] by (cases "d_pattern p") auto
  then have "?dst \<noteq> stageKeyFor (STAGES St_retry) (d_id p)" unfolding stage_keys_distinct by simp
  then have "?dst \<noteq> QUEUE_RETRY_KEY" unfolding stageKeyFor_simps .
  have nx: "?dst \<noteq> ?src" unfolding stage_keys_distinct using step by simp
  note \<open>?dst \<noteq> QUEUE_RETRY_KEY\<close>
  moreover have "in_queue (db s2) ?dst m" "in_queue (db s2) QUEUE_RETRY_KEY m"
    using moved nx by (simp_all add: s2 enterRetry_write_effect(1) del: STAGES.simps)
  ultimately show ?thesis by blast
qed

section \<open>A requeue cut off\<close>

text \<open>
  After the move and before the SADD, the message is in its ready queue, but distribution does not
  look there unless the queue was listed already.
\<close>

lemma requeue_cut_off:
  assumes "in_queue r src m" and "hashes r (messageKey m) = Some h"
    and "r1 = snd (moveMessageBetweenQueues src dst (messageKey m) [] m (- priority) QUEUED [] ex r)"
    and "dst \<notin> set (fetchQueuesWithMessages r)"
  shows "in_queue r1 dst m \<and> dst \<notin> set (fetchQueuesWithMessages r1)"
  by (rule move_hit [OF assms(1,2), of dst "[]" "- priority" QUEUED "[]" ex])
     (use assms(3,4) in \<open>auto simp: fetchQueuesWithMessages_def\<close>)

section \<open>The property\<close>

text \<open>C24 (a lost race stalls the retries): when a failed attempt has checked that its message is queued and
  read its fields, and the message succeeds and is cleaned up before the attempt writes, the write leaves a
  hash of three fields without a device and without a time to live, and a member of the retry queue that
  points to it, although the same guard over the cleaned store refuses the retry. No correlation id leads to
  it, and from the instant it is the first due member, a drain of the retry queue ends at it with an error and
  changes nothing, so that no member behind it gets its turn, at this tick or a later one.\<close>

theorem lost_race_stalls_retries:
  assumes reads: "enterRetry_reads (m_id message) (stageKeyFor (STAGES st) (m_pluginId message)) (db s) =
      Some (stale, rateKey)"
    and s1: "s1 = purge message p s"
    and s2: "s2 = with_db (enterRetry_write (m_id message) (stageKeyFor (STAGES st) (m_pluginId message)) n
      history due stale rateKey) s1"
  shows "\<not> fst (enterRetry cfg wld (m_id message) (stageKeyFor (STAGES st) (m_pluginId message)) n history p s1) \<and>
    (\<exists>h. hash_at (db s2) (m_id message) = Some h \<and> h_device h = None) \<and>
    expires (db s2) (messageKey (m_id message)) = None \<and>
    zscore (zsets (db s2) QUEUE_RETRY_KEY) (m_id message) = Some due \<and>
    (\<forall>c. m_correlationId message = Some c \<longrightarrow> c \<noteq> [] \<longrightarrow>
      strs (db s2) (indexCorrelationId c (m_phase message)) = None) \<and>
    (\<forall>queue now rest turns. sq_key queue = QUEUE_RETRY_KEY \<longrightarrow>
      getExpiredMessagesInQueue QUEUE_RETRY_KEY now (db s2) = m_id message # rest \<longrightarrow>
      drain_queue cfg now queue turns s2 =
        (Inl (no_device (m_id message)), s2))"
proof -
  let ?m = "m_id message"
  have gone: "hashes (db s1) (messageKey ?m) = None" by (simp add: s1 purge_hash)
  note late = late_write [OF gone, where fk = "stageKeyFor (STAGES st) (m_pluginId message)" and n = n and history = history and
      due = due and stale = stale and rate = rateKey]
  have hash: "hashes (db s2) (messageKey ?m) = Some (remnant (n + 1) history)" using late(1) by (simp add: s2)
  have read: "getMessageById ?m (db s2) = Inl (no_device ?m)"
    by (simp add: no_device_def getMessageById_def hash deserializeMessage_def complete_hash_def remnant_facts)
  have "\<not> in_queue (db s1) (stageKeyFor (STAGES st) (m_pluginId message)) ?m" unfolding s1 purge_queue by blast
  then have "\<not> fst (enterRetry cfg wld ?m (stageKeyFor (STAGES st) (m_pluginId message)) n history p s1)"
    by (simp add: enterRetry_miss del: STAGES.simps)
  moreover have "\<exists>h. hash_at (db s2) ?m = Some h \<and> h_device h = None"
    using hash by (simp add: hash_at_def remnant_facts)
  moreover have "expires (db s2) (messageKey ?m) = None"
    using late(3) by (simp add: s2 s1 purge_def cleaned_expiry)
  moreover have "zscore (zsets (db s2) QUEUE_RETRY_KEY) ?m = Some due" using late(2) by (simp add: s2)
  moreover have "strs (db s2) (indexCorrelationId c (m_phase message)) = None"
    if "m_correlationId message = Some c" "c \<noteq> []" for c
    using late(4) purge_strs(3) [OF that] by (simp add: s2 s1)
  moreover have "drain_queue cfg now queue turns s2 = (Inl (no_device ?m), s2)"
    if "sq_key queue = QUEUE_RETRY_KEY" "getExpiredMessagesInQueue QUEUE_RETRY_KEY now (db s2) = ?m # rest"
    for queue now rest turns
    using drain_stops [OF _ read] that by metis
  ultimately show ?thesis by blast
qed

lemma cleaned_queue: "zsets r q = [] \<Longrightarrow> zsets (messageFullCleanup message ks r) q = []"
  by (auto simp: messageFullCleanup_def Let_def redis_view fold_zrem_empty split: option.split)

lemma late_queue:
  "zsets r QUEUE_RETRY_KEY = [] \<Longrightarrow>
     zsets (enterRetry_write m fk n history due stale rate r) QUEUE_RETRY_KEY = [(m, due)]"
  unfolding enterRetry_write_def Let_def
  by (auto simp: redis_view r_zadd_def r_zrem_def zrem_def zadd_def split: option.split)

text \<open>A send that fails while the same message is cleaned up: the retry queue stays blocked from the instant
  the retry falls due.\<close>

definition example_raced :: engine where
  "example_raced = with_db (enterRetry_write ''M1'' QUEUE_NS_KEY 0 [] 5000 None (Some example_rate_key))
     (purge example_message (buildStubPull DEFAULT_PLUGIN_TUNING) example_sent)"

theorem lost_race_stalls_retries_witness:
  "drain_queue example_config 6000 \<lparr>sq_stage = STAGES St_retry, sq_key = QUEUE_RETRY_KEY, sq_pluginId = None\<rparr>
     (\<lambda>_. (example_world 6000 ''E9'', \<lparr>v_remoteStatus = Inr SENT_TO_NS, v_fetchStatus = Inr None\<rparr>)) example_raced =
   (Inl (no_device ''M1''), example_raced)"
proof -
  have key: "stageKeyFor (STAGES St_ns) (m_pluginId example_message) = QUEUE_NS_KEY" by (simp add: stageKeyFor_def)
  have reads: "enterRetry_reads (m_id example_message) (stageKeyFor (STAGES St_ns) (m_pluginId example_message))
      (db example_sent) = Some (None, Some example_rate_key)"
    unfolding key
    by (simp add: enterRetry_reads_def example_picked example_sent_state in_queue_def zscore_def picked_hash_def
        example_key_distinct example_dto_hash_def serializeCreateDeviceMessage_def empty_hash_def)
  have "zsets (db example_sent) QUEUE_RETRY_KEY = []"
    by (simp add: example_sent_state QUEUE_RETRY_KEY_def QUEUE_NS_KEY_def example_queue_def)
  then have "zsets (db (purge example_message (buildStubPull DEFAULT_PLUGIN_TUNING) example_sent)) QUEUE_RETRY_KEY = []"
    by (simp add: purge_def cleaned_queue)
  then have "getExpiredMessagesInQueue QUEUE_RETRY_KEY 6000 (db example_raced) = m_id example_message # []"
    by (simp add: example_raced_def getExpiredMessagesInQueue_def late_queue zrangebyscore_def QUEUE_SCAN_BATCH_SIZE_def
        example_picked)
  then show ?thesis
    using lost_race_stalls_retries [OF reads refl refl, where n = 0 and history = "[]" and due = 5000]
    unfolding key example_picked(2) example_raced_def by simp
qed

end
