(* ===== verification/Http_Layer.thy ===== *)
theory Http_Layer
  imports Plugin_Services Outgoing_Service
begin

text \<open>
  The HTTP routes (\<open>src/http/\<close>) over the services: the bearer hook (\<open>auth.ts\<close>), the command routes
  (\<open>message-routes.ts\<close>, \<open>token-routes.ts\<close>, \<open>provisioning-routes.ts\<close>) and the vendor ingress
  (\<open>ingress-routes.ts\<close>). A route maps a request to a reply and a new state; the framework's routing,
  the text of the validation issues and the serialisation are left out. An error that no route
  handles goes to the framework's error handler, \<open>Unhandled\<close>.
\<close>

datatype 'a httpReply =
    Reply nat 'a
  | ErrorReply nat string
  | Unhandled exn

section \<open>Bearer authentication\<close>

text \<open>A header as the framework gives it: one text, or several.\<close>

datatype headerValue = One string | Many "string list"

definition BEARER_PREFIX :: string where
  "BEARER_PREFIX = ''bearer ''"

definition to_lower :: "char \<Rightarrow> char" where
  "to_lower c = (let n = of_char c :: nat in if 65 \<le> n \<and> n \<le> 90 then char_of (n + 32) else c)"

definition presentedBearerToken :: "headerValue option \<Rightarrow> string option" where
  "presentedBearerToken header =
     (case header of
        Some (One h) \<Rightarrow>
          if length h \<le> length BEARER_PREFIX then None
          else if map to_lower (take (length BEARER_PREFIX) h) \<noteq> BEARER_PREFIX then None
          else Some (drop (length BEARER_PREFIX) h)
      | _ \<Rightarrow> None)"

text \<open>\<open>timingSafeEqualUtf8\<close> compares the texts; \<open>None\<close> lets the request through.\<close>

definition createApiKeyHook :: "string option \<Rightarrow> headerValue option \<Rightarrow> 'a httpReply option" where
  "createApiKeyHook apiKey header =
     (case filled apiKey of
        None \<Rightarrow> None
      | Some key \<Rightarrow>
          if presentedBearerToken header \<noteq> Some key then Some (ErrorReply 401 ''Unauthorized'') else None)"

text \<open>A command route: the hook, then the schema, then the handler.\<close>

definition command_route ::
  "string option \<Rightarrow> headerValue option \<Rightarrow> bool \<Rightarrow> ('s \<Rightarrow> 'a httpReply \<times> 's) \<Rightarrow> 's \<Rightarrow> 'a httpReply \<times> 's" where
  "command_route apiKey header valid handler s =
     (case createApiKeyHook apiKey header of
        Some denied \<Rightarrow> (denied, s)
      | None \<Rightarrow> if \<not> valid then (ErrorReply 400 ''Invalid request body'', s) else handler s)"

section \<open>Command routes\<close>

text \<open>The errors that a route answers with their message.\<close>

fun enqueue_error :: "exn \<Rightarrow> bool" where
  "enqueue_error (UnknownPluginError _) = True"
| "enqueue_error (UnsupportedCommandTypeError _ _) = True"
| "enqueue_error (InvalidEnqueueError _ _) = True"
| "enqueue_error _ = False"

fun token_error :: "exn \<Rightarrow> bool" where
  "token_error (UnknownPluginError _) = True"
| "token_error (TokenNotSupportedError _) = True"
| "token_error _ = False"

fun provisioning_error :: "exn \<Rightarrow> bool" where
  "provisioning_error (UnknownPluginError _) = True"
| "provisioning_error (ProvisioningNotSupportedError _) = True"
| "provisioning_error (InvalidProvisioningError _ _) = True"
| "provisioning_error _ = False"

definition reply_of :: "(exn \<Rightarrow> bool) \<Rightarrow> nat \<Rightarrow> exn + 'a \<Rightarrow> 'a httpReply" where
  "reply_of handled code result =
     (case result of
        Inl e \<Rightarrow> if handled e then ErrorReply 400 (exn_message e) else Unhandled e
      | Inr x \<Rightarrow> Reply code x)"

definition route_enqueue ::
  "engineConfig \<Rightarrow> string option \<Rightarrow> headerValue option \<Rightarrow> world \<Rightarrow> msg_id \<Rightarrow> createDeviceMessage \<Rightarrow>
   engine \<Rightarrow> deviceMessage httpReply \<times> engine" where
  "route_enqueue cfg apiKey header w messageId body =
     command_route apiKey header (createDeviceMessageSchema body)
       (\<lambda>s. case enqueue cfg w messageId body s of
          (res, s1) \<Rightarrow> (reply_of enqueue_error 201 (map_sum id omitInternalFields_full res), s1))"

definition route_get ::
  "string option \<Rightarrow> headerValue option \<Rightarrow> string \<Rightarrow> engine \<Rightarrow> deviceMessage httpReply \<times> engine" where
  "route_get apiKey header correlationId =
     command_route apiKey header (correlationId \<noteq> [])
       (\<lambda>s. ((case getByCorrelationId correlationId s of
                Inl e \<Rightarrow> Unhandled e
              | Inr None \<Rightarrow> ErrorReply 404 ''Not found''
              | Inr (Some message) \<Rightarrow> Reply 200 (omitInternalFields_full message)), s))"

definition route_cancel ::
  "engineConfig \<Rightarrow> string option \<Rightarrow> headerValue option \<Rightarrow> string \<Rightarrow> engine \<Rightarrow>
   cancelMessageResult httpReply \<times> engine" where
  "route_cancel cfg apiKey header correlationId =
     command_route apiKey header (cancelOneBodySchema correlationId)
       (\<lambda>s. case cancelOne cfg correlationId s of (res, s1) \<Rightarrow> (reply_of (\<lambda>_. False) 200 res, s1))"

definition route_cancel_many ::
  "engineConfig \<Rightarrow> string option \<Rightarrow> headerValue option \<Rightarrow> string list \<Rightarrow> engine \<Rightarrow>
   cancelMessageResult list httpReply \<times> engine" where
  "route_cancel_many cfg apiKey header correlationIds =
     command_route apiKey header (cancelManyBodySchema correlationIds)
       (\<lambda>s. case cancelMany cfg correlationIds s of (res, s1) \<Rightarrow> (reply_of (\<lambda>_. False) 200 res, s1))"

definition route_token ::
  "registry \<Rightarrow> (devicePlugin \<Rightarrow> generateTokenInput \<Rightarrow> exn + string) \<Rightarrow> string option \<Rightarrow>
   headerValue option \<Rightarrow> generateTokenRequest \<Rightarrow> engine \<Rightarrow> string httpReply \<times> engine" where
  "route_token reg facet apiKey header body =
     command_route apiKey header (generateTokenSchema body)
       (\<lambda>s. (reply_of token_error 200 (token_generate reg facet body), s))"

definition route_provisioning ::
  "registry \<Rightarrow> (devicePlugin \<Rightarrow> string \<Rightarrow> jval \<Rightarrow> exn + jval) \<Rightarrow> string option \<Rightarrow>
   headerValue option \<Rightarrow> provisioningRequest \<Rightarrow> engine \<Rightarrow> jval httpReply \<times> engine" where
  "route_provisioning reg facet apiKey header body =
     command_route apiKey header (pluginProvisioningRequestSchema body)
       (\<lambda>s. (reply_of provisioning_error 200 (provisioning_execute reg facet body), s))"

section \<open>Ingress\<close>

text \<open>Header and query values as a map of texts: of several, the first.\<close>

definition first_text :: "headerValue \<Rightarrow> string option" where
  "first_text v = (case v of One t \<Rightarrow> Some t | Many (t # _) \<Rightarrow> Some t | Many [] \<Rightarrow> None)"

definition flattenQuery :: "(string \<times> headerValue) list \<Rightarrow> (string \<rightharpoonup> string)" where
  "flattenQuery query = (\<lambda>key. Option.bind (map_of query key) first_text)"

text \<open>
  What the ingress route uses of a plugin besides its record: the optional signature check, and what
  the engine makes of an event that the plugin's \<open>handle\<close> has parsed. \<open>parseJson\<close> is \<open>JSON.parse\<close> of
  the body's UTF-8 text, \<open>None\<close> when it throws.
\<close>

record 's ingressFacet =
  if_verifySignature :: "(nat list \<Rightarrow> (string \<rightharpoonup> string) \<Rightarrow> bool) option"
  if_handle :: "jval \<Rightarrow> (string \<rightharpoonup> string) \<Rightarrow> 's \<Rightarrow> (exn + unit) \<times> 's"

definition signature_ok :: "'s ingressFacet \<Rightarrow> nat list \<Rightarrow> (string \<times> headerValue) list \<Rightarrow> bool" where
  "signature_ok facet rawBody headers =
     (case if_verifySignature facet of
        None \<Rightarrow> True
      | Some verify \<Rightarrow> verify rawBody (flattenQuery headers))"

definition parse_body :: "(nat list \<Rightarrow> jval option) \<Rightarrow> nat list \<Rightarrow> jval option" where
  "parse_body parseJson rawBody = (if rawBody = [] then Some JNull else parseJson rawBody)"

definition route_ingress ::
  "registry \<Rightarrow> (deliveryPlugin \<Rightarrow> 's ingressFacet) \<Rightarrow> (nat list \<Rightarrow> jval option) \<Rightarrow> plugin_id \<Rightarrow>
   nat list \<Rightarrow> (string \<times> headerValue) list \<Rightarrow> (string \<times> headerValue) list \<Rightarrow> 's \<Rightarrow> unit httpReply \<times> 's" where
  "route_ingress reg facets parseJson pluginId rawBody headers query s =
     (if pluginId = [] then (ErrorReply 400 ''Invalid path parameters'', s)
      else
        (case registry_get reg pluginId of
           None \<Rightarrow> (ErrorReply 400 (''Unknown or disabled pluginId: '' @ pluginId), s)
         | Some plugin \<Rightarrow>
             (case delivery_of plugin of
                None \<Rightarrow> (ErrorReply 400 (''Plugin does not support PUSH ingress: '' @ pluginId), s)
              | Some p \<Rightarrow>
                  if d_pattern p \<noteq> PUSH
                  then (ErrorReply 400 (''Plugin does not support PUSH ingress: '' @ pluginId), s)
                  else if \<not> signature_ok (facets p) rawBody headers
                  then (ErrorReply 401 ''Invalid signature'', s)
                  else
                    (case parse_body parseJson rawBody of
                       None \<Rightarrow> (ErrorReply 400 ''Invalid JSON body'', s)
                     | Some event \<Rightarrow>
                         (case if_handle (facets p) event (flattenQuery query) s of
                            (Inl e, s1) \<Rightarrow> (Unhandled e, s1)
                          | (Inr _, s1) \<Rightarrow> (Reply 204 (), s1))))))"

section \<open>Who gets past the hook\<close>

definition admitted :: "string option \<Rightarrow> headerValue option \<Rightarrow> bool" where
  "admitted apiKey header \<longleftrightarrow> filled apiKey = None \<or> presentedBearerToken header = filled apiKey"

lemma command_route_cases:
  "command_route apiKey header valid handler s =
     (if \<not> admitted apiKey header then (ErrorReply 401 ''Unauthorized'', s)
      else if \<not> valid then (ErrorReply 400 ''Invalid request body'', s) else handler s)"
  by (auto simp: command_route_def createApiKeyHook_def admitted_def split: option.splits)

text \<open>Presenting a key: the scheme in any case, one space, and the key itself.\<close>

lemma presented_key:
  assumes "map to_lower scheme = ''bearer''" and "key \<noteq> []"
  shows "presentedBearerToken (Some (One (scheme @ CHR '' '' # key))) = Some key"
proof -
  have "length scheme = 6" using arg_cong [OF assms(1), of length] by simp
  moreover have "to_lower (CHR '' '') = CHR '' ''" by (simp add: to_lower_def)
  ultimately show ?thesis
    using assms by (cases key) (simp_all add: presentedBearerToken_def BEARER_PREFIX_def)
qed

end
