(* ===== verification/Metrics.thy ===== *)
theory Metrics
  imports Http_Layer Js_Number
begin

text \<open>
  Metrics: the queue depths that a scrape reads (\<open>src/metrics/queue-depth.ts\<close>) and the registry of
  counters with its \<open>/metrics\<close> route (\<open>src/metrics/index.ts\<close>). The engine's state keeps what it recorded
  as lists; \<open>metrics_of\<close> is the registry those records leave. A counter is a number per label, the
  retry-count histogram the list of its observations; their text rendering is the metrics library's.
\<close>

section \<open>Queue depths\<close>

record queueDepth =
  qd_queue :: string
  qd_depth :: num

text \<open>\<open>Number(raw)\<close>, \<open>None\<close> when the result is not finite.\<close>

fun js_number :: "jval \<Rightarrow> num option" where
  "js_number (JNum x) = Some x"
| "js_number (JStr s) = js_to_number s"
| "js_number JNull = Some 0"
| "js_number (JBool b) = Some (if b then 1 else 0)"
| "js_number (JArr vs) = js_to_number (js_string (JArr vs))"
| "js_number (JObj fs) = js_to_number (js_string (JObj fs))"

text \<open>The loop over \<open>seen\<close>: the first occurrence of each key, in order.\<close>

fun unseen :: "string list \<Rightarrow> string list \<Rightarrow> string list" where
  "unseen seen [] = []"
| "unseen seen (key # keys) =
     (if key \<in> set seen then unseen seen keys else key # unseen (key # seen) keys)"

definition depth_keys :: "plugin_id list \<Rightarrow> string list \<Rightarrow> string list" where
  "depth_keys pullPluginIds initialKeys =
     unseen [] (enumerateStageKeys pullPluginIds @ [webhookPending] @ initialKeys)"

text \<open>One reply of the pipeline: an error or a raw value.\<close>

type_synonym pipelineReply = "exn option \<times> jval"

definition depth_row :: "string \<Rightarrow> pipelineReply \<Rightarrow> exn + queueDepth" where
  "depth_row queue pair =
     (case pair of
        (Some err, _) \<Rightarrow> Inl err
      | (None, raw) \<Rightarrow>
          (case js_number raw of
             None \<Rightarrow> Inl (PlainError (''[metrics] queue-depth non-numeric ZCARD for '' @ queue))
           | Some depth \<Rightarrow> Inr \<lparr>qd_queue = queue, qd_depth = depth\<rparr>))"

fun depth_rows :: "string list \<Rightarrow> pipelineReply list \<Rightarrow> exn + queueDepth list" where
  "depth_rows [] results = Inr []"
| "depth_rows (queue # queues) [] =
     Inl (PlainError (''[metrics] queue-depth missing result for '' @ queue))"
| "depth_rows (queue # queues) (pair # results) =
     (case depth_row queue pair of
        Inl err \<Rightarrow> Inl err
      | Inr row \<Rightarrow> map_sum id ((#) row) (depth_rows queues results))"

text \<open>\<open>exec\<close> is what the pipelined \<open>ZCARD\<close>s answered, \<open>None\<close> for \<open>null\<close>.\<close>

definition collectQueueDepths ::
  "plugin_id list \<Rightarrow> string list \<Rightarrow> (string list \<Rightarrow> pipelineReply list option) \<Rightarrow> exn + queueDepth list" where
  "collectQueueDepths pullPluginIds initialKeys exec =
     (let keys = depth_keys pullPluginIds initialKeys in
      case exec keys of
        None \<Rightarrow> Inl (PlainError ''[metrics] queue-depth pipeline aborted'')
      | Some results \<Rightarrow> depth_rows keys results)"

section \<open>The registry\<close>

record metricsRegistry =
  messagesTotal :: "terminalOutcome \<Rightarrow> nat"
  retryCountObserved :: "nat list"
  webhookEventsTotal :: "webhookResult \<Rightarrow> nat"
  ingressUnhandledTotal :: "plugin_id \<Rightarrow> nat"
  stageClaimMissesTotal :: "stageName \<Rightarrow> nat"
  queueDepthGauge :: "string \<Rightarrow> num option"

definition inc :: "'a \<Rightarrow> ('a \<Rightarrow> nat) \<Rightarrow> 'a \<Rightarrow> nat" where
  "inc label counter = counter(label := counter label + 1)"

definition createMetrics :: metricsRegistry where
  "createMetrics = \<lparr>messagesTotal = (\<lambda>_. 0), retryCountObserved = [], webhookEventsTotal = (\<lambda>_. 0),
     ingressUnhandledTotal = (\<lambda>_. 0), stageClaimMissesTotal = (\<lambda>_. 0), queueDepthGauge = Map.empty\<rparr>"

definition count_messageTerminal :: "terminalOutcome \<Rightarrow> nat \<Rightarrow> metricsRegistry \<Rightarrow> metricsRegistry" where
  "count_messageTerminal status retries m = m\<lparr>messagesTotal := inc status (messagesTotal m),
     retryCountObserved := retryCountObserved m @ [retries]\<rparr>"

definition count_webhookResult :: "webhookResult \<Rightarrow> metricsRegistry \<Rightarrow> metricsRegistry" where
  "count_webhookResult res m = m\<lparr>webhookEventsTotal := inc res (webhookEventsTotal m)\<rparr>"

definition count_ingressUnhandled :: "plugin_id \<Rightarrow> metricsRegistry \<Rightarrow> metricsRegistry" where
  "count_ingressUnhandled pluginId m =
     m\<lparr>ingressUnhandledTotal := inc pluginId (ingressUnhandledTotal m)\<rparr>"

definition count_stageClaimMiss :: "stageName \<Rightarrow> metricsRegistry \<Rightarrow> metricsRegistry" where
  "count_stageClaimMiss stage m =
     m\<lparr>stageClaimMissesTotal := inc stage (stageClaimMissesTotal m)\<rparr>"

text \<open>The \<open>/metrics\<close> route: the gauge is reset before the fresh rows are set.\<close>

definition set_depths :: "queueDepth list \<Rightarrow> metricsRegistry \<Rightarrow> metricsRegistry" where
  "set_depths rows m = m\<lparr>queueDepthGauge :=
     fold (\<lambda>row gauge. gauge(qd_queue row \<mapsto> qd_depth row)) rows Map.empty\<rparr>"

definition route_metrics ::
  "plugin_id list \<Rightarrow> string list \<Rightarrow> (string list \<Rightarrow> pipelineReply list option) \<Rightarrow> metricsRegistry \<Rightarrow>
   metricsRegistry httpReply \<times> metricsRegistry" where
  "route_metrics pullPluginIds initialKeys exec m =
     (case collectQueueDepths pullPluginIds initialKeys exec of
        Inl err \<Rightarrow> (Unhandled err, m)
      | Inr rows \<Rightarrow> (Reply 200 (set_depths rows m), set_depths rows m))"

section \<open>The engine's records and the registry\<close>

definition metrics_of :: "engine \<Rightarrow> metricsRegistry" where
  "metrics_of s =
     fold count_stageClaimMiss (claimMisses s)
       (fold count_ingressUnhandled (ingressUnhandled s)
         (fold count_webhookResult (wb_results (whdb s))
           (fold (\<lambda>(status, retries). count_messageTerminal status retries) (terminals s) createMetrics)))"

lemma fold_past: "(\<And>x m. f x (g m) = g (f x m)) \<Longrightarrow> fold f xs (g m) = g (fold f xs m)"
  by (induction xs arbitrary: m) simp_all

lemmas count_defs = count_messageTerminal_def count_webhookResult_def count_ingressUnhandled_def
  count_stageClaimMiss_def

lemma counts_commute:
  "count_stageClaimMiss st (count_messageTerminal status n m) =
     count_messageTerminal status n (count_stageClaimMiss st m)"
  "count_ingressUnhandled i (count_messageTerminal status n m) =
     count_messageTerminal status n (count_ingressUnhandled i m)"
  "count_webhookResult res (count_messageTerminal status n m) =
     count_messageTerminal status n (count_webhookResult res m)"
  "count_stageClaimMiss st (count_ingressUnhandled i m) = count_ingressUnhandled i (count_stageClaimMiss st m)"
  "count_stageClaimMiss st (count_webhookResult res m) = count_webhookResult res (count_stageClaimMiss st m)"
  "count_ingressUnhandled i (count_webhookResult res m) = count_webhookResult res (count_ingressUnhandled i m)"
  by (simp_all add: count_defs)

lemma counts_past:
  "fold count_stageClaimMiss sts (count_messageTerminal status n m) =
     count_messageTerminal status n (fold count_stageClaimMiss sts m)"
  "fold count_ingressUnhandled is (count_messageTerminal status n m) =
     count_messageTerminal status n (fold count_ingressUnhandled is m)"
  "fold count_webhookResult rs (count_messageTerminal status n m) =
     count_messageTerminal status n (fold count_webhookResult rs m)"
  "fold count_stageClaimMiss sts (count_ingressUnhandled i m) =
     count_ingressUnhandled i (fold count_stageClaimMiss sts m)"
  "fold count_stageClaimMiss sts (count_webhookResult res m) =
     count_webhookResult res (fold count_stageClaimMiss sts m)"
  "fold count_ingressUnhandled is (count_webhookResult res m) =
     count_webhookResult res (fold count_ingressUnhandled is m)"
  by (rule fold_past, rule counts_commute)+

text \<open>What the engine records one by one is what the registry counts.\<close>

lemma metrics_of_record:
  "metrics_of (recordMessageTerminal status n s) = count_messageTerminal status n (metrics_of s)"
  "metrics_of (recordStageClaimMiss st s) = count_stageClaimMiss st (metrics_of s)"
  "metrics_of (recordIngressUnhandled i s) = count_ingressUnhandled i (metrics_of s)"
  "metrics_of (s\<lparr>whdb := recordWebhookResult res (whdb s)\<rparr>) = count_webhookResult res (metrics_of s)"
  by (simp_all add: metrics_of_def recordMessageTerminal_def recordStageClaimMiss_def
      recordIngressUnhandled_def recordWebhookResult_def counts_past)

section \<open>The rows\<close>

lemma unseen_spec: "distinct (unseen seen ks)" "set (unseen seen ks) = set ks - set seen"
  by (induction seen ks rule: unseen.induct) auto

lemma depth_keys_spec:
  "distinct (depth_keys ids initial)"
  "set (depth_keys ids initial) = set (enumerateStageKeys ids) \<union> {webhookPending} \<union> set initial"
  by (auto simp: depth_keys_def unseen_spec)

text \<open>A row per key, in order, each with the number the store answered.\<close>

lemma depth_rows_answered:
  "(\<And>k. k \<in> set keys \<Longrightarrow> js_number (reply k) = Some (depth k)) \<Longrightarrow>
     depth_rows keys (map (\<lambda>k. (None, reply k)) keys) =
       Inr (map (\<lambda>k. \<lparr>qd_queue = k, qd_depth = depth k\<rparr>) keys)"
  by (induction keys) (simp_all add: depth_row_def)

lemma depth_rows_queues: "depth_rows keys results = Inr rows \<Longrightarrow> map qd_queue rows = keys"
proof (induction keys results arbitrary: rows rule: depth_rows.induct)
  case (3 queue queues pair results)
  obtain row rest where r: "depth_row queue pair = Inr row" "depth_rows queues results = Inr rest"
    "rows = row # rest"
    using "3.prems" by (auto split: sum.splits) (cases "depth_rows queues results"; auto)
  have "qd_queue row = queue" using r(1) by (auto simp: depth_row_def split: prod.splits option.splits)
  then show ?case using "3.IH" r by simp
qed auto

lemma set_depths_gauge:
  assumes "distinct (map qd_queue rows)"
  shows "queueDepthGauge (set_depths rows m) = map_of (map (\<lambda>row. (qd_queue row, qd_depth row)) rows)"
proof -
  have "distinct (map qd_queue rows) \<Longrightarrow> fold (\<lambda>row gauge. gauge(qd_queue row \<mapsto> qd_depth row)) rows g =
      g ++ map_of (map (\<lambda>row. (qd_queue row, qd_depth row)) rows)" for g
  proof (induction rows arbitrary: g)
    case (Cons row rows)
    have "map_of (map (\<lambda>row. (qd_queue row, qd_depth row)) rows) (qd_queue row) = None"
      using Cons.prems by (auto simp: map_of_eq_None_iff)
    then have "g(qd_queue row \<mapsto> qd_depth row) ++ map_of (map (\<lambda>row. (qd_queue row, qd_depth row)) rows) =
        g ++ (map_of (map (\<lambda>row. (qd_queue row, qd_depth row)) rows))(qd_queue row \<mapsto> qd_depth row)"
      by (auto simp: fun_eq_iff map_add_def split: option.split)
    then show ?case using Cons.IH Cons.prems by (simp del: fun_upd_apply)
  qed simp
  from this [OF assms, of Map.empty] show ?thesis by (simp add: set_depths_def)
qed

end
