(* ===== verification/Metrics_Claims.thy ===== *)
theory Metrics_Claims
  imports Metrics Engine_Claims
begin

text \<open>
  What a scrape of the service's metrics shows about the messages it holds.
\<close>

section \<open>What Redis answers\<close>

text \<open>\<open>ZCARD\<close> of a key, the webhook's pending set being kept apart in the model, and the replies of
  the pipeline.\<close>

definition zcard :: "engine \<Rightarrow> string \<Rightarrow> nat" where
  "zcard s k = (if k = webhookPending then length (wb_pending (whdb s)) else length (zsets (db s) k))"

definition zcard_replies :: "engine \<Rightarrow> string list \<Rightarrow> pipelineReply list option" where
  "zcard_replies s keys = Some (map (\<lambda>k. (None, JNum (of_nat (zcard s k)))) keys)"

definition scraped_keys :: "engineConfig \<Rightarrow> engine \<Rightarrow> string list" where
  "scraped_keys cfg s =
     depth_keys (pull_plugin_ids cfg) (sets (db s) listOfInitialQueuesToDistributeFrom)"

lemma scrape_rows:
  "collectQueueDepths (pull_plugin_ids cfg) (sets (db s) listOfInitialQueuesToDistributeFrom)
     (zcard_replies s) =
   Inr (map (\<lambda>k. \<lparr>qd_queue = k, qd_depth = of_nat (zcard s k)\<rparr>) (scraped_keys cfg s))"
  by (simp add: collectQueueDepths_def zcard_replies_def scraped_keys_def depth_rows_answered Let_def)

section \<open>Members and depths\<close>

definition members :: "redis \<Rightarrow> string \<Rightarrow> msg_id set" where
  "members r k = {m. in_queue r k m}"

lemma members_zset: "members r k = fst ` set (zsets r k)"
  by (force simp: members_def in_queue_def zscore_def map_of_eq_None_iff)

lemma card_members: "redis_ok r \<Longrightarrow> card (members r k) = length (zsets r k)"
  unfolding members_zset by (simp add: redis_ok_def zset_ok_def distinct_card flip: set_map)

text \<open>Over different queues of a consistent store the depths add up to the number of messages.\<close>

lemma depths_add_up:
  assumes "redis_ok r" and "\<And>m. one_queue r m" and "distinct ks"
  shows "(\<Sum>k\<leftarrow>ks. length (zsets r k)) = card (\<Union>k \<in> set ks. members r k)"
proof -
  have "(\<Sum>k\<leftarrow>ks. length (zsets r k)) = (\<Sum>k \<in> set ks. card (members r k))"
    using assms(1,3) by (simp add: card_members sum_list_distinct_conv_sum_set)
  also have "\<dots> = card (\<Union>k \<in> set ks. members r k)"
  proof (rule card_UN_disjoint [symmetric])
    show "\<forall>k \<in> set ks. finite (members r k)" by (simp add: members_zset)
    show "\<forall>k \<in> set ks. \<forall>k' \<in> set ks. k \<noteq> k' \<longrightarrow> members r k \<inter> members r k' = {}"
      using assms(2) by (auto simp: members_def one_queue_def)
  qed simp
  finally show ?thesis .
qed

text \<open>The queue of a stored message is among the scraped keys.\<close>

lemma stored_queue_scraped:
  assumes cfg: "config_ok cfg" and db: "db_ok cfg (db s)" and h: "hash_at (db s) m = Some h"
    and q: "in_queue (db s) k m"
  shows "k \<in> set (scraped_keys cfg s)"
proof -
  obtain p where p: "hash_plugin cfg h = Some p" and pf: "plugin_for cfg (d_id p) = Some p"
    by (rule message_plugin [OF cfg db h], rule that, assumption+)
  have home: "k = home_of p h" by (rule queue_is_home [OF db h q p])
  show ?thesis
  proof (cases "stageForStatus (the (h_deliveryStatus h)) (d_pattern p)")
    case None
    then have "k = d_initialQueueKey p (h_networkId h) (the (h_device h))"
      by (simp add: home home_of_def)
    then have "ready_queue k" using hash_plugin_ready(1) [OF cfg p] by simp
    then have "k \<in> set (sets (db s) listOfInitialQueuesToDistributeFrom)"
      using db q by (auto simp: db_ok_def work_ok_def)
    then show ?thesis by (simp add: scraped_keys_def depth_keys_spec)
  next
    case (Some st)
    then have k: "k = stageKeyFor (STAGES st) (d_id p)" by (simp add: home home_of_def del: STAGES.simps)
    have "k \<in> set (enumerateStageKeys (pull_plugin_ids cfg))"
    proof (cases "st = St_awaitingTask")
      case True
      then have pull: "d_pattern p = PULL" using Some
        by (cases "the (h_deliveryStatus h)"; cases "d_pattern p") auto
      from pf obtain i where "registry_get (cf_registry cfg) i = Some (Delivery p)"
        by (auto simp: plugin_for_def bind_eq_Some_conv elim!: delivery_of.elims)
      then have "p \<in> set (getByDeliveryPattern (cf_registry cfg) PULL)"
        using pull by (rule pull_ids_complete)
      then have "d_id p \<in> set (pull_plugin_ids cfg)" by (simp add: pull_plugin_ids_def)
      then show ?thesis unfolding k by (rule stageKeyFor_enumerated)
    next
      case False
      then show ?thesis using k by (cases st) (auto simp: enumerateStageKeys_set stage_simps simp del: STAGES.simps)
    qed
    then show ?thesis by (simp add: scraped_keys_def depth_keys_spec)
  qed
qed

section \<open>The scrape\<close>

text \<open>C22 (nothing queued is out of the operator's sight): in every reachable state a scrape of the metrics
  succeeds and shows each queue once; every stored message that is in a queue is in one of the queues shown;
  the depths shown, the webhook's backlog apart, add up to the number of messages in those queues, so no
  message is counted twice; and the webhook's backlog is the number of pending notifications.  A gauge
  left by an earlier scrape of a queue that is not listed any more is gone.\<close>

theorem scrape_counts_every_message:
  assumes cfg: "config_ok cfg" and reach: "reachable cfg s"
  shows "case route_metrics (pull_plugin_ids cfg) (sets (db s) listOfInitialQueuesToDistributeFrom)
        (zcard_replies s) earlier of
      (Reply code shown, _) \<Rightarrow> code = 200 \<and> finite (dom (queueDepthGauge shown)) \<and>
        (\<forall>m k. hash_at (db s) m \<noteq> None \<and> in_queue (db s) k m \<longrightarrow> k \<in> dom (queueDepthGauge shown)) \<and>
        (\<Sum>k \<in> dom (queueDepthGauge shown) - {webhookPending}. the (queueDepthGauge shown k)) =
          of_nat (card {m. \<exists>k \<in> dom (queueDepthGauge shown) - {webhookPending}. in_queue (db s) k m}) \<and>
        queueDepthGauge shown webhookPending = Some (of_nat (card {e. wb_due_at e (whdb s) \<noteq> None}))
    | _ \<Rightarrow> False"
proof -
  note ok = reachable_ok [OF cfg reach]
  have db: "db_ok cfg (db s)" using ok by (rule engine_db)
  then have r: "redis_ok (db s)" and one: "\<And>m. one_queue (db s) m" by (simp_all add: db_ok_def msg_ok_def)
  let ?ks = "scraped_keys cfg s" and ?row = "\<lambda>k. \<lparr>qd_queue = k, qd_depth = of_nat (zcard s k)\<rparr>"
  let ?shown = "set_depths (map ?row ?ks) earlier"
  have d: "distinct ?ks" by (simp add: scraped_keys_def depth_keys_spec)
  have gauge: "queueDepthGauge ?shown k = (if k \<in> set ?ks then Some (of_nat (zcard s k)) else None)" for k
    using d by (simp add: set_depths_gauge comp_def map_of_map_restrict restrict_map_def)
  then have dom: "dom (queueDepthGauge ?shown) = set ?ks" by (auto split: if_splits)
  let ?others = "filter (\<lambda>k. k \<noteq> webhookPending) ?ks"
  have others: "set ?ks - {webhookPending} = set ?others" by auto
  have "(\<Sum>k \<in> set ?others. the (queueDepthGauge ?shown k)) = (\<Sum>k \<in> set ?others. of_nat (length (zsets (db s) k)))"
    by (rule sum.cong) (simp_all add: gauge cong: if_cong, simp_all add: zcard_def)
  also have "\<dots> = of_nat (\<Sum>k\<leftarrow>?others. length (zsets (db s) k))"
    using d by (simp add: sum_list_distinct_conv_sum_set)
  also have "(\<Sum>k\<leftarrow>?others. length (zsets (db s) k)) = card (\<Union>k \<in> set ?others. members (db s) k)"
    by (rule depths_add_up [OF r one]) (simp add: d)
  finally have total: "(\<Sum>k \<in> set ?others. the (queueDepthGauge ?shown k)) =
      of_nat (card {m. \<exists>k \<in> set ?others. in_queue (db s) k m})"
    by (simp add: members_def UNION_eq)
  have wh: "length (wb_pending (whdb s)) = card {e. wb_due_at e (whdb s) \<noteq> None}"
  proof -
    have "{e. wb_due_at e (whdb s) \<noteq> None} = fst ` set (wb_pending (whdb s))"
      by (force simp: wb_due_at_def zscore_def map_of_eq_None_iff)
    then show ?thesis using ok
      by (simp add: engine_ok_def webhook_ok_def zset_ok_def distinct_card flip: set_map)
  qed
  have "webhookPending \<in> set ?ks" by (simp add: scraped_keys_def depth_keys_spec)
  then have "queueDepthGauge ?shown webhookPending = Some (of_nat (card {e. wb_due_at e (whdb s) \<noteq> None}))"
    unfolding wh [symmetric] by (simp add: gauge) (simp add: zcard_def)
  then show ?thesis
    unfolding route_metrics_def scrape_rows
    using stored_queue_scraped [OF cfg db] total by (auto simp: dom others)
qed

theorem scrape_counts_every_message_witness:
  "\<exists>shown. fst (route_metrics (pull_plugin_ids example_config)
       (sets (db example_sent) listOfInitialQueuesToDistributeFrom) (zcard_replies example_sent) createMetrics) =
     Reply 200 shown \<and> QUEUE_NS_KEY \<in> dom (queueDepthGauge shown)"
proof -
  let ?x = "route_metrics (pull_plugin_ids example_config)
       (sets (db example_sent) listOfInitialQueuesToDistributeFrom) (zcard_replies example_sent) createMetrics"
  have "hash_at (db example_sent) ''M1'' \<noteq> None" by (simp add: example_hash)
  then show ?thesis
    using scrape_counts_every_message [OF example_config_ok example_sent_reachable, of createMetrics] example_in_ns
    by (cases ?x; cases "fst ?x") auto
qed

end
