(* ===== verification/Json_Schema.thy ===== *)
theory Json_Schema
  imports Js_Number "HOL-Library.Monad_Syntax"
begin

text \<open>
  Reading JSON the way the service's schemas declare it. A schema is a function from a JSON value to
  an optional result, \<open>None\<close> for "does not conform"; a strict object lists its keys, and a field is
  required, optional (absent gives \<open>None\<close>) or has a default for an absent key. The objects that
  \<open>JSON.parse\<close> makes have distinct keys.
\<close>

type_synonym fields = "(string \<times> jval) list"

definition strict_object :: "string list \<Rightarrow> jval \<Rightarrow> fields option" where
  "strict_object ks v =
     (case v of JObj fs \<Rightarrow> if set (map fst fs) \<subseteq> set ks then Some fs else None | _ \<Rightarrow> None)"

definition required :: "(jval \<Rightarrow> 'a option) \<Rightarrow> string \<Rightarrow> fields \<Rightarrow> 'a option" where
  "required f k fs = (case map_of fs k of None \<Rightarrow> None | Some v \<Rightarrow> f v)"

definition optional :: "(jval \<Rightarrow> 'a option) \<Rightarrow> string \<Rightarrow> fields \<Rightarrow> 'a option option" where
  "optional f k fs = (case map_of fs k of None \<Rightarrow> Some None | Some v \<Rightarrow> map_option Some (f v))"

definition defaulted :: "'a \<Rightarrow> (jval \<Rightarrow> 'a option) \<Rightarrow> string \<Rightarrow> fields \<Rightarrow> 'a option" where
  "defaulted d f k fs = (case map_of fs k of None \<Rightarrow> Some d | Some v \<Rightarrow> f v)"

definition nullable :: "(jval \<Rightarrow> 'a option) \<Rightarrow> jval \<Rightarrow> 'a option option" where
  "nullable f v = (if v = JNull then Some None else map_option Some (f v))"

definition either :: "(jval \<Rightarrow> 'a option) \<Rightarrow> (jval \<Rightarrow> 'a option) \<Rightarrow> jval \<Rightarrow> 'a option" where
  "either f g v = (case f v of Some x \<Rightarrow> Some x | None \<Rightarrow> g v)"

fun z_string :: "jval \<Rightarrow> string option" where
  "z_string (JStr s) = Some s"
| "z_string _ = None"

definition z_min1 :: "jval \<Rightarrow> string option" where
  "z_min1 v = (case z_string v of Some s \<Rightarrow> if s = [] then None else Some s | None \<Rightarrow> None)"

fun z_number :: "jval \<Rightarrow> num option" where
  "z_number (JNum x) = Some x"
| "z_number _ = None"

fun z_boolean :: "jval \<Rightarrow> bool option" where
  "z_boolean (JBool b) = Some b"
| "z_boolean _ = None"

text \<open>\<open>.int()\<close>: a safe integer.\<close>

definition z_int :: "jval \<Rightarrow> int option" where
  "z_int v =
     (case z_number v of
        Some x \<Rightarrow> if whole_number x \<and> \<bar>x\<bar> < 2 ^ 53 then Some \<lfloor>x\<rfloor> else None
      | None \<Rightarrow> None)"

definition z_int_range :: "int \<Rightarrow> int \<Rightarrow> jval \<Rightarrow> int option" where
  "z_int_range lo hi v =
     (case z_int v of Some n \<Rightarrow> if lo \<le> n \<and> n \<le> hi then Some n else None | None \<Rightarrow> None)"

definition z_nat :: "int \<Rightarrow> jval \<Rightarrow> nat option" where
  "z_nat lo v = (case z_int v of Some n \<Rightarrow> if lo \<le> n then Some (nat n) else None | None \<Rightarrow> None)"

text \<open>\<open>z.uint32()\<close>.\<close>

definition z_uint32 :: "jval \<Rightarrow> nat option" where
  "z_uint32 v = map_option nat (z_int_range 0 (2 ^ 32 - 1) v)"

text \<open>\<open>z.enum\<close> with the value that each name stands for.\<close>

definition z_enum :: "(string \<times> 'a) list \<Rightarrow> jval \<Rightarrow> 'a option" where
  "z_enum table v = (case z_string v of Some s \<Rightarrow> map_of table s | None \<Rightarrow> None)"

fun z_array :: "(jval \<Rightarrow> 'a option) \<Rightarrow> jval \<Rightarrow> 'a list option" where
  "z_array f (JArr vs) = those (map f vs)"
| "z_array f _ = None"

text \<open>\<open>z.record(z.string(), z.unknown())\<close>.\<close>

fun z_record :: "jval \<Rightarrow> fields option" where
  "z_record (JObj fs) = Some fs"
| "z_record _ = None"

section \<open>Writing JSON\<close>

text \<open>\<open>JSON.stringify\<close> of an object: a field whose value is \<open>undefined\<close> is left out.\<close>

definition present :: "string \<Rightarrow> ('a \<Rightarrow> jval) \<Rightarrow> 'a option \<Rightarrow> fields" where
  "present k f x = (case x of None \<Rightarrow> [] | Some v \<Rightarrow> [(k, f v)])"

definition j_nat :: "nat \<Rightarrow> jval" where
  "j_nat n = JNum (of_nat n)"

definition j_int :: "int \<Rightarrow> jval" where
  "j_int n = JNum (of_int n)"

section \<open>Reading back what was written\<close>

named_theorems schema_simps "reading a value that was written, and the fields of an object"

lemma strict_object_JObj [schema_simps]:
  "strict_object ks (JObj fs) = (if set (map fst fs) \<subseteq> set ks then Some fs else None)"
  by (simp add: strict_object_def)

lemma strict_object_Some: "strict_object ks v = Some fs \<longleftrightarrow> v = JObj fs \<and> set (map fst fs) \<subseteq> set ks"
  by (auto simp: strict_object_def split: jval.splits)

lemma map_of_present: "map_of (present k f x) k' = (if k' = k then map_option f x else None)"
  by (simp add: present_def split: option.split)

lemma keys_present: "set (map fst (present k f x)) = (if x = None then {} else {k})"
  by (cases x) (simp_all add: present_def)

lemma present_in [simp]: "fst ` set (present k f x) \<subseteq> ks \<longleftrightarrow> x = None \<or> k \<in> ks"
  by (cases x) (simp_all add: present_def)

lemma whole_number_int [simp]: "whole_number (of_int n)" "whole_number (of_nat k)"
  by (simp_all add: whole_number_def)

lemma z_int_j_int [schema_simps]: "\<bar>n\<bar> < 2 ^ 53 \<Longrightarrow> z_int (j_int n) = Some n"
proof -
  assume "\<bar>n\<bar> < 2 ^ 53"
  then have "(of_int \<bar>n\<bar> :: num) < of_int (2 ^ 53)" by (subst of_int_less_iff)
  then show ?thesis by (simp add: z_int_def j_int_def)
qed

lemma z_int_range_j_int [schema_simps]:
  "lo \<le> n \<Longrightarrow> n \<le> hi \<Longrightarrow> - (2 ^ 53) < lo \<Longrightarrow> hi < 2 ^ 53 \<Longrightarrow> z_int_range lo hi (j_int n) = Some n"
  by (simp add: z_int_range_def z_int_j_int)

lemma j_nat_int: "j_nat n = j_int (int n)"
  by (simp add: j_nat_def j_int_def)

lemma z_nat_j_nat [schema_simps]: "lo \<le> int n \<Longrightarrow> n < 2 ^ 53 \<Longrightarrow> z_nat lo (j_nat n) = Some n"
  by (simp add: z_nat_def j_nat_int z_int_j_int)

lemma z_uint32_j_nat [schema_simps]: "n < 2 ^ 32 \<Longrightarrow> z_uint32 (j_nat n) = Some n"
  by (simp add: z_uint32_def j_nat_int z_int_range_j_int)

lemma z_min1_JStr [schema_simps]: "s \<noteq> [] \<Longrightarrow> z_min1 (JStr s) = Some s"
  by (simp add: z_min1_def)

lemma z_enum_JStr [schema_simps]: "z_enum table (JStr s) = map_of table s"
  by (simp add: z_enum_def)

lemma those_map_some: "(\<And>x. x \<in> set xs \<Longrightarrow> f (g x) = Some x) \<Longrightarrow> those (map f (map g xs)) = Some xs"
  by (induction xs) simp_all

lemma z_array_JArr: "(\<And>x. x \<in> set xs \<Longrightarrow> f (g x) = Some x) \<Longrightarrow> z_array f (JArr (map g xs)) = Some xs"
  using those_map_some [of xs f g] by simp

section \<open>What a conforming value satisfies\<close>

lemma required_Some: "required f k fs = Some x \<longleftrightarrow> (\<exists>v. map_of fs k = Some v \<and> f v = Some x)"
  by (simp add: required_def split: option.split)

lemma optional_Some: "optional f k fs = Some y \<longleftrightarrow>
    (case map_of fs k of None \<Rightarrow> y = None | Some v \<Rightarrow> (\<exists>x. f v = Some x \<and> y = Some x))"
  by (auto simp: optional_def split: option.split)

lemma defaulted_Some: "defaulted d f k fs = Some x \<longleftrightarrow>
    (case map_of fs k of None \<Rightarrow> x = d | Some v \<Rightarrow> f v = Some x)"
  by (auto simp: defaulted_def split: option.split)

lemma optional_satisfies: "optional f k fs = Some y \<Longrightarrow> (\<And>v x. f v = Some x \<Longrightarrow> P x) \<Longrightarrow> pred_option P y"
  by (auto simp: optional_Some split: option.splits)

lemma required_satisfies: "required f k fs = Some x \<Longrightarrow> (\<And>v x. f v = Some x \<Longrightarrow> P x) \<Longrightarrow> P x"
  by (auto simp: required_Some)

lemma defaulted_satisfies:
  "defaulted d f k fs = Some x \<Longrightarrow> P d \<Longrightarrow> (\<And>v x. f v = Some x \<Longrightarrow> P x) \<Longrightarrow> P x"
  by (auto simp: defaulted_Some split: option.splits)

lemma z_min1_nonempty: "z_min1 v = Some s \<Longrightarrow> s \<noteq> []"
  by (auto simp: z_min1_def split: option.splits if_splits)

lemma z_nat_lower: "z_nat lo v = Some n \<Longrightarrow> lo \<le> int n"
  by (auto simp: z_nat_def split: option.splits if_splits)

lemma z_nat_safe: "z_nat lo v = Some n \<Longrightarrow> n < 2 ^ 53"
proof -
  assume a: "z_nat lo v = Some n"
  then obtain x where x: "\<bar>x :: num\<bar> < 2 ^ 53" "n = nat \<lfloor>x\<rfloor>"
    by (auto simp: z_nat_def z_int_def split: option.splits if_splits)
  then have "\<lfloor>x\<rfloor> < 9007199254740992" unfolding floor_less_numeral by simp
  then have "n < 9007199254740992" unfolding x(2) by linarith
  then show "n < 2 ^ 53" by simp
qed

lemma z_int_range_bounds: "z_int_range lo hi v = Some n \<Longrightarrow> lo \<le> n \<and> n \<le> hi"
  by (auto simp: z_int_range_def split: option.splits if_splits)

lemma z_uint32_bound: "z_uint32 v = Some n \<Longrightarrow> n < 2 ^ 32"
  by (auto simp: z_uint32_def dest!: z_int_range_bounds)

end
