(* ===== verification/Config_Load.thy ===== *)
theory Config_Load
  imports Json_Schema Http_Layer Runner
begin

text \<open>
  The service's configuration: the schema of \<open>src/config/schema.ts\<close> over JSON, with its defaults and
  its strictness, where \<open>src/config/load.ts\<close> finds the text and how it fails, and the boot of
  \<open>src/runtime.ts\<close>. The environment, the file system and the network are a record of functions;
  \<open>JSON.parse\<close>, the URL check and the wording of the schema library's issues are arguments. Freezing the
  result has no effect on values that are not assigned to.
\<close>

section \<open>Schema\<close>

datatype stdoutFormat = Pretty | Json

text \<open>\<open>deliverySchema\<close> as a reader of JSON.\<close>

definition delivery_keys :: "string list" where
  "delivery_keys = [''maxRetries'', ''retryBaseDelayMs'', ''retryBackoffMultiplier'',
     ''retryMaxDelayMs'', ''messageTtlSeconds'']"

definition z_multiplier :: "jval \<Rightarrow> num option" where
  "z_multiplier v = (case z_number v of Some x \<Rightarrow> if 1 \<le> x then Some x else None | None \<Rightarrow> None)"

definition parse_delivery :: "jval \<Rightarrow> deliveryConfig option" where
  "parse_delivery v = do {
     fs \<leftarrow> strict_object delivery_keys v;
     retries \<leftarrow> defaulted 11 (z_nat 0) ''maxRetries'' fs;
     base \<leftarrow> defaulted 2000 (z_nat 1) ''retryBaseDelayMs'' fs;
     mult \<leftarrow> defaulted 2 z_multiplier ''retryBackoffMultiplier'' fs;
     cap \<leftarrow> defaulted 3600000 (z_nat 1) ''retryMaxDelayMs'' fs;
     ttl \<leftarrow> defaulted 604800 (z_nat 1) ''messageTtlSeconds'' fs;
     Some \<lparr>maxRetries = retries, retryBaseDelayMs = base, retryBackoffMultiplier = mult,
       retryMaxDelayMs = cap, messageTtlSeconds = ttl\<rparr>
   }"

definition parse_engine :: "jval \<Rightarrow> bool option" where
  "parse_engine v = do {
     fs \<leftarrow> strict_object [''enabled''] v;
     defaulted True z_boolean ''enabled'' fs
   }"

definition parse_logging :: "jval \<Rightarrow> stdoutFormat option" where
  "parse_logging v = do {
     fs \<leftarrow> strict_object [''stdout''] v;
     defaulted Pretty (z_enum [(''pretty'', Pretty), (''json'', Json)]) ''stdout'' fs
   }"

definition webhook_keys :: "string list" where
  "webhook_keys = [''url'', ''maxAttempts'', ''baseDelayMs'', ''backoffMultiplier'', ''maxDelayMs'',
     ''requestTimeoutMs'', ''deadLetterTtlSeconds'']"

definition z_url :: "(string \<Rightarrow> bool) \<Rightarrow> jval \<Rightarrow> string option" where
  "z_url isUrl v = (case z_string v of Some s \<Rightarrow> if isUrl s then Some s else None | None \<Rightarrow> None)"

definition parse_eventWebhook :: "(string \<Rightarrow> bool) \<Rightarrow> jval \<Rightarrow> eventWebhookConfig option" where
  "parse_eventWebhook isUrl v = do {
     fs \<leftarrow> strict_object webhook_keys v;
     url \<leftarrow> required (z_url isUrl) ''url'' fs;
     attempts \<leftarrow> defaulted 6 (z_nat 1) ''maxAttempts'' fs;
     base \<leftarrow> defaulted 2000 (z_nat 1) ''baseDelayMs'' fs;
     mult \<leftarrow> defaulted 2 z_multiplier ''backoffMultiplier'' fs;
     cap \<leftarrow> defaulted 60000 (z_nat 1) ''maxDelayMs'' fs;
     timeout \<leftarrow> defaulted 10000 (z_nat 1) ''requestTimeoutMs'' fs;
     ttl \<leftarrow> defaulted 604800 (z_nat 1) ''deadLetterTtlSeconds'' fs;
     Some \<lparr>wh_url = url, wh_maxAttempts = attempts, wh_baseDelayMs = base,
       wh_backoffMultiplier = mult, wh_maxDelayMs = cap, wh_requestTimeoutMs = timeout,
       wh_deadLetterTtlSeconds = ttl\<rparr>
   }"

definition parse_pluginEntry :: "jval \<Rightarrow> pluginEntry option" where
  "parse_pluginEntry v = do {
     fs \<leftarrow> strict_object [''id'', ''settings'', ''tuning''] v;
     pluginId \<leftarrow> required z_min1 ''id'' fs;
     settings \<leftarrow> optional z_record ''settings'' fs;
     tuning \<leftarrow> optional z_record ''tuning'' fs;
     Some \<lparr>pe_id = pluginId, pe_settings = settings, pe_tuning = tuning\<rparr>
   }"

record deviceMessagingConfig =
  dc_schema :: "string option"
  dc_engineEnabled :: bool
  dc_logging :: stdoutFormat
  dc_delivery :: deliveryConfig
  dc_eventWebhook :: "eventWebhookConfig option"
  dc_plugins :: "pluginEntry list"

definition config_keys :: "string list" where
  "config_keys = [''$schema'', ''$schemaVersion'', ''engine'', ''logging'', ''delivery'',
     ''eventWebhook'', ''plugins'']"

definition z_version :: "jval \<Rightarrow> unit option" where
  "z_version v = (if v = JStr ''1'' then Some () else None)"

definition deviceMessagingConfigSchema :: "(string \<Rightarrow> bool) \<Rightarrow> jval \<Rightarrow> deviceMessagingConfig option" where
  "deviceMessagingConfigSchema isUrl v = do {
     fs \<leftarrow> strict_object config_keys v;
     schema \<leftarrow> optional z_string ''$schema'' fs;
     _ \<leftarrow> required z_version ''$schemaVersion'' fs;
     enabled \<leftarrow> defaulted True parse_engine ''engine'' fs;
     logging \<leftarrow> defaulted Pretty parse_logging ''logging'' fs;
     delivery \<leftarrow> defaulted default_delivery parse_delivery ''delivery'' fs;
     webhook \<leftarrow> optional (parse_eventWebhook isUrl) ''eventWebhook'' fs;
     plugins \<leftarrow> defaulted [] (z_array parse_pluginEntry) ''plugins'' fs;
     Some \<lparr>dc_schema = schema, dc_engineEnabled = enabled, dc_logging = logging,
       dc_delivery = delivery, dc_eventWebhook = webhook, dc_plugins = plugins\<rparr>
   }"

section \<open>Sources\<close>

datatype configFetch = ConfigFetchThrew string | ConfigResponse nat string "exn + string"

record host =
  ho_env :: "string \<Rightarrow> string option"
  ho_fetch :: "string \<Rightarrow> configFetch"
  ho_readFile :: "string \<Rightarrow> string + string"
  ho_exists :: "string \<Rightarrow> bool"
  ho_bundleDir :: string
  ho_cwd :: string

definition DEFAULT_CONFIG_FILENAME :: string where
  "DEFAULT_CONFIG_FILENAME = ''config.default.json''"

definition ENV_CONFIG_JSON :: string where
  "ENV_CONFIG_JSON = ''DEVICE_MESSAGING_CONFIG_JSON''"

definition ENV_CONFIG_URL :: string where
  "ENV_CONFIG_URL = ''DEVICE_MESSAGING_CONFIG_URL''"

definition ENV_CONFIG_PATH :: string where
  "ENV_CONFIG_PATH = ''DEVICE_MESSAGING_CONFIG_PATH''"

definition quoted :: "string \<Rightarrow> string" where
  "quoted s = CHR 0x22 # s @ [CHR 0x22]"

definition fetchConfigUrl :: "host \<Rightarrow> string \<Rightarrow> exn + string" where
  "fetchConfigUrl h url =
     (case ho_fetch h url of
        ConfigFetchThrew cause \<Rightarrow>
          Inl (PlainError (''Failed to fetch config from '' @ quoted url @ '': '' @ cause))
      | ConfigResponse status statusText body \<Rightarrow>
          if \<not> response_ok status
          then Inl (PlainError (''Failed to fetch config from '' @ quoted url @ '': HTTP '' @
                 nat_to_string status @ '' '' @ statusText))
          else body)"

definition readConfigFile :: "host \<Rightarrow> string \<Rightarrow> exn + string" where
  "readConfigFile h path =
     (case ho_readFile h path of
        Inl cause \<Rightarrow> Inl (PlainError (''Failed to read config file at '' @ quoted path @ '': '' @ cause))
      | Inr body \<Rightarrow> Inr body)"

text \<open>\<open>path.join\<close> of a directory as the host gives it and a file name.\<close>

definition path_join :: "string \<Rightarrow> string \<Rightarrow> string" where
  "path_join dir file =
     (if dir \<noteq> [] \<and> List.last dir = CHR ''/'' then dir @ file else dir @ CHR ''/'' # file)"

definition default_candidates :: "host \<Rightarrow> string list" where
  "default_candidates h = [path_join (ho_bundleDir h) DEFAULT_CONFIG_FILENAME,
     path_join (ho_cwd h) DEFAULT_CONFIG_FILENAME]"

definition resolveDefaultConfigPath :: "host \<Rightarrow> exn + string" where
  "resolveDefaultConfigPath h =
     (case List.find (ho_exists h) (default_candidates h) of
        Some found \<Rightarrow> Inr found
      | None \<Rightarrow> Inl (PlainError (''Could not locate the bundled default config ('' @
          quoted DEFAULT_CONFIG_FILENAME @ ''). Looked in: '' @
          concat (map (\<lambda>(i, c). (if i = 0 then [] else '', '') @ c)
            (List.enumerate 0 (default_candidates h))))))"

text \<open>A variable that is set to the empty text counts as unset.\<close>

definition resolveRawConfig :: "host \<Rightarrow> string option \<Rightarrow> exn + string" where
  "resolveRawConfig h defaultConfigPath =
     (case filled (ho_env h ENV_CONFIG_JSON) of
        Some inlineJson \<Rightarrow> Inr inlineJson
      | None \<Rightarrow>
     (case filled (ho_env h ENV_CONFIG_URL) of
        Some configUrl \<Rightarrow> fetchConfigUrl h configUrl
      | None \<Rightarrow>
     (case filled (ho_env h ENV_CONFIG_PATH) of
        Some configPath \<Rightarrow> readConfigFile h configPath
      | None \<Rightarrow>
     (case defaultConfigPath of
        Some path \<Rightarrow> readConfigFile h path
      | None \<Rightarrow>
          (case resolveDefaultConfigPath h of
             Inl err \<Rightarrow> Inl err
           | Inr path \<Rightarrow> readConfigFile h path)))))"

record jsonLibrary =
  jl_parse :: "string \<Rightarrow> string + jval"
  jl_isUrl :: "string \<Rightarrow> bool"
  jl_issues :: "jval \<Rightarrow> string"

definition parseConfig :: "jsonLibrary \<Rightarrow> string \<Rightarrow> exn + deviceMessagingConfig" where
  "parseConfig lib rawJson =
     (case jl_parse lib rawJson of
        Inl cause \<Rightarrow> Inl (PlainError (''Failed to parse config JSON: '' @ cause))
      | Inr candidate \<Rightarrow>
          (case deviceMessagingConfigSchema (jl_isUrl lib) candidate of
             None \<Rightarrow> Inl (PlainError (''Invalid configuration:'' @ CHR 0x0A # jl_issues lib candidate))
           | Some data \<Rightarrow> Inr data))"

definition loadConfig :: "host \<Rightarrow> jsonLibrary \<Rightarrow> string option \<Rightarrow> exn + deviceMessagingConfig" where
  "loadConfig h lib defaultConfigPath =
     (case resolveRawConfig h defaultConfigPath of
        Inl err \<Rightarrow> Inl err
      | Inr rawJson \<Rightarrow> parseConfig lib rawJson)"

section \<open>Boot\<close>

text \<open>
  \<open>runtime.ts\<close>: the configuration, then the registry of the plugins it enables; either failure keeps
  the process from starting. \<open>engine_config\<close> is what \<open>main.ts\<close> hands to the engine's services.
\<close>

definition boot :: "host \<Rightarrow> jsonLibrary \<Rightarrow> catalog \<Rightarrow> exn + deviceMessagingConfig \<times> registry" where
  "boot h lib cat =
     (case loadConfig h lib None of
        Inl err \<Rightarrow> Inl err
      | Inr config \<Rightarrow>
          (case createPluginRegistry cat (dc_plugins config) of
             Inl err \<Rightarrow> Inl err
           | Inr pluginRegistry \<Rightarrow> Inr (config, pluginRegistry)))"

definition engine_config :: "deviceMessagingConfig \<Rightarrow> registry \<Rightarrow> (msg_id \<Rightarrow> time) \<Rightarrow> engineConfig" where
  "engine_config config pluginRegistry decodeTime =
     \<lparr>cf_registry = pluginRegistry, cf_delivery = dc_delivery config,
      cf_webhook = dc_eventWebhook config, cf_decodeTime = decodeTime\<rparr>"

section \<open>What a configuration that loads satisfies\<close>

lemma z_multiplier_lower: "z_multiplier v = Some x \<Longrightarrow> 1 \<le> x"
  by (auto simp: z_multiplier_def split: option.splits if_splits)

lemma z_nat_pos: "z_nat 1 v = Some n \<Longrightarrow> 0 < n"
  by (drule z_nat_lower) simp

lemma parse_delivery_valid: "parse_delivery v = Some d \<Longrightarrow> deliverySchema d"
  unfolding parse_delivery_def bind_eq_Some_conv deliverySchema_def
  by (elim exE conjE)
     (auto elim!: defaulted_satisfies [where P = "\<lambda>n :: nat. 0 < n"] defaulted_satisfies [where P = "\<lambda>x :: num. 1 \<le> x"]
        dest: z_nat_pos z_multiplier_lower)

end
