(* ===== verification/Http_Claims.thy ===== *)
theory Http_Claims
  imports Http_Layer Request_Claims Cancel_Claims
begin

text \<open>
  Properties of the service as its clients and operators see it: who may do what over HTTP, what a
  posted message is answered and how it reads back, and that a registry built from the shipped catalog
  satisfies what the engine relies on.
\<close>

section \<open>Authentication\<close>

lemma to_lower_space: "to_lower c = CHR '' '' \<Longrightarrow> c = CHR '' ''"
proof (rule ccontr)
  assume l: "to_lower c = CHR '' ''" and n: "c \<noteq> CHR '' ''"
  then have u: "65 \<le> (of_char c :: nat)" "(of_char c :: nat) \<le> 90"
    by (auto simp: to_lower_def Let_def split: if_splits)
  then have "(of_char (to_lower c) :: nat) = of_char c + 32" by (simp add: to_lower_def Let_def of_char_of)
  then show False using u by (simp add: l)
qed

lemma map_eq_snoc: "map f xs = ys @ [z] \<Longrightarrow> \<exists>us v. xs = us @ [v] \<and> map f us = ys \<and> f v = z"
  by (cases xs rule: rev_cases) auto

lemma presented_token:
  assumes "presentedBearerToken header = Some key"
  obtains scheme where "header = Some (One (scheme @ CHR '' '' # key))" and "map to_lower scheme = ''bearer''"
proof -
  let ?n = "length BEARER_PREFIX"
  obtain h where h1: "header = Some (One h)"
    using assms by (auto simp: presentedBearerToken_def split: option.splits headerValue.splits)
  have h: "map to_lower (take ?n h) = BEARER_PREFIX" "drop ?n h = key"
  proof -
    have "(if length h \<le> ?n then None else if map to_lower (take ?n h) \<noteq> BEARER_PREFIX then None
        else Some (drop ?n h)) = Some key"
      using assms by (simp only: presentedBearerToken_def h1 option.case headerValue.case)
    then show "map to_lower (take ?n h) = BEARER_PREFIX" "drop ?n h = key"
      by (cases "length h \<le> ?n"; cases "map to_lower (take ?n h) = BEARER_PREFIX"; simp)+
  qed
  have "map to_lower (take ?n h) = ''bearer'' @ [CHR '' '']" using h(1) by (simp add: BEARER_PREFIX_def)
  from map_eq_snoc [OF this] obtain scheme c where t: "take ?n h = scheme @ [c]" "map to_lower scheme = ''bearer''"
    "to_lower c = CHR '' ''"
    by (elim exE conjE) (rule that)
  have "c = CHR '' ''" using t(3) by (rule to_lower_space)
  have "h = take ?n h @ drop ?n h" by (rule append_take_drop_id [symmetric])
  also have "\<dots> = scheme @ c # key" unfolding t(1) h(2) by simp
  finally have hh: "h = scheme @ CHR '' '' # key" unfolding \<open>c = CHR '' ''\<close> .
  show thesis by (rule that [OF h1 [unfolded hh] t(2)])
qed

text \<open>The header that carries a key.\<close>

definition carries_key :: "string \<Rightarrow> headerValue option \<Rightarrow> bool" where
  "carries_key key header \<longleftrightarrow>
     (\<exists>scheme. header = Some (One (scheme @ CHR '' '' # key)) \<and> map to_lower scheme = ''bearer'')"

lemma admitted_iff: "key \<noteq> [] \<Longrightarrow> admitted (Some key) header \<longleftrightarrow> carries_key key header"
  using presented_key [of _ key] presented_token [of header key]
  unfolding admitted_def filled_def carries_key_def by (simp, metis)

lemma reply_not_401: "reply_of handled code res \<noteq> ErrorReply 401 t"
  by (auto simp: reply_of_def split: sum.splits)

lemma command_route_admitted:
  assumes "admitted apiKey header" and "\<And>s. fst (handler s) \<noteq> ErrorReply 401 t"
  shows "fst (command_route apiKey header valid handler s) \<noteq> ErrorReply 401 t"
  using assms by (simp add: command_route_cases)

text \<open>C38 (no command without the key): when an API key is configured, a command request whose
  authorization header is anything but the bearer scheme (in any case), one space and exactly that key is
  answered 401 on every command route, whatever it asks for, and changes nothing; a request that carries
  the key is never answered so.\<close>

theorem commands_need_the_key:
  assumes key: "key \<noteq> []"
  shows "if carries_key key header then
      fst (route_enqueue cfg (Some key) header w i create s) \<noteq> ErrorReply 401 ''Unauthorized'' \<and>
      fst (route_get (Some key) header c s) \<noteq> ErrorReply 401 ''Unauthorized'' \<and>
      fst (route_cancel cfg (Some key) header c s) \<noteq> ErrorReply 401 ''Unauthorized'' \<and>
      fst (route_cancel_many cfg (Some key) header cs s) \<noteq> ErrorReply 401 ''Unauthorized'' \<and>
      fst (route_token reg mint (Some key) header tr s) \<noteq> ErrorReply 401 ''Unauthorized'' \<and>
      fst (route_provisioning reg provision (Some key) header pr s) \<noteq> ErrorReply 401 ''Unauthorized''
    else
      route_enqueue cfg (Some key) header w i create s = (ErrorReply 401 ''Unauthorized'', s) \<and>
      route_get (Some key) header c s = (ErrorReply 401 ''Unauthorized'', s) \<and>
      route_cancel cfg (Some key) header c s = (ErrorReply 401 ''Unauthorized'', s) \<and>
      route_cancel_many cfg (Some key) header cs s = (ErrorReply 401 ''Unauthorized'', s) \<and>
      route_token reg mint (Some key) header tr s = (ErrorReply 401 ''Unauthorized'', s) \<and>
      route_provisioning reg provision (Some key) header pr s = (ErrorReply 401 ''Unauthorized'', s)"
proof (cases "carries_key key header")
  case True
  then have a: "admitted (Some key) header" using admitted_iff [OF key] by simp
  show ?thesis
    unfolding if_P [OF True] route_enqueue_def route_get_def route_cancel_def route_cancel_many_def
      route_token_def route_provisioning_def
    by (intro conjI command_route_admitted [OF a])
       (auto simp: reply_not_401 split: prod.splits sum.splits option.splits)
next
  case False
  then have "\<not> admitted (Some key) header" using admitted_iff [OF key] by simp
  then show ?thesis using False
    by (simp add: route_enqueue_def route_get_def route_cancel_def route_cancel_many_def route_token_def
        route_provisioning_def command_route_cases)
qed

theorem commands_need_the_key_witness:
  "route_cancel example_config (Some ''k3y'') (Some (One ''Bearer  k3y'')) ''c1'' (empty_engine True) =
     (ErrorReply 401 ''Unauthorized'', empty_engine True) \<and>
   fst (route_get (Some ''k3y'') (Some (One ''BEARER k3y'')) ''c1'' (empty_engine True)) \<noteq> ErrorReply 401 ''Unauthorized''"
proof -
  have "map to_lower scheme \<noteq> ''bearer''" if "scheme @ '' k3y'' = ''Bearer  k3y''" for scheme
  proof -
    have "length scheme = 7" using arg_cong [OF that, of length] by simp
    then show ?thesis using arg_cong [of "map to_lower scheme" "''bearer''" length] by auto
  qed
  then have n: "\<not> carries_key ''k3y'' (Some (One ''Bearer  k3y''))" by (fastforce simp: carries_key_def)
  have "map to_lower ''BEARER'' = ''bearer''" by code_simp
  then have y: "carries_key ''k3y'' (Some (One ''BEARER k3y''))"
    unfolding carries_key_def by (intro exI [of _ "''BEARER''"]) simp
  note c = commands_need_the_key [where key = "''k3y''" and cfg = example_config and s = "empty_engine True" and c = "''c1''"]
  show ?thesis
    using c [where header = "Some (One ''Bearer  k3y'')"] c [where header = "Some (One ''BEARER k3y'')"] n y by simp
qed

section \<open>Posting a message\<close>

lemma enqueue_inherited:
  "inherited_id (cf_registry cfg) (c_pluginId create) \<Longrightarrow>
     enqueue cfg w i create s = (Inl (undefined_field ''includes''), s)"
  by (simp add: enqueue_def registry_get_inherited)

lemma enqueue_refusal:
  assumes refused: "enqueue_refused cfg create" and reg: "registry_ok (cf_registry cfg)"
    and own: "\<not> inherited_id (cf_registry cfg) (c_pluginId create)"
  shows "\<exists>e. enqueue cfg w i create s = (Inl e, s) \<and> enqueue_error e"
proof (rule registry_get_cases [of "cf_registry cfg" "c_pluginId create"])
  fix p assume p: "registry_get (cf_registry cfg) (c_pluginId create) = Some (Delivery p)"
  then have "c_commandType create \<notin> set (d_supportedCommandTypes p) \<or>
      Option.bind (d_validateEnqueue p) (\<lambda>validate. validate create) \<noteq> None"
    using refused by (simp add: enqueue_refused_def plugin_for_def)
  then show ?thesis using p
    by (cases "Option.bind (d_validateEnqueue p) (\<lambda>validate. validate create)") (simp_all add: enqueue_def)
next
  fix j assume "registry_get (cf_registry cfg) (c_pluginId create) = Some (ObjectMember j)"
  then show ?thesis using registry_get_ObjectMember(1) [OF reg] own by blast
qed (simp_all add: enqueue_def)

lemma inherited_refused:
  assumes "inherited_id (cf_registry cfg) (c_pluginId create)" shows "enqueue_refused cfg create"
  using registry_get_inherited [OF assms] by (simp add: enqueue_refused_def plugin_for_def)

lemma undefined_field_unhandled [simp]: "\<not> enqueue_error (undefined_field f)"
  by (simp add: undefined_field_def)

text \<open>C15 (what posting a message is answered): a command request with the right key gets 201 exactly when
  it passes the schema and its plugin accepts it, and after that a request for the correlation id of a message
  without a phase gets 200 and the same body. Otherwise it gets 400 and nothing has changed, with one
  exception: a plugin id that is not configured but names a member of every object, such as \<open>constructor\<close>,
  passes the schema and the lookup, and is a server error. Nothing has changed then either.\<close>

theorem posted_message_reads_back:
  assumes adm: "admitted apiKey header" and i: "i \<noteq> []" and reg: "registry_ok (cf_registry cfg)"
  shows "case route_enqueue cfg apiKey header w i create s of
      (Reply code body, s') \<Rightarrow> code = 201 \<and> createDeviceMessageSchema create \<and> \<not> enqueue_refused cfg create \<and>
        m_id body = i \<and> m_deliveryStatus body = QUEUED \<and>
        (case c_correlationId create of
           None \<Rightarrow> True
         | Some c \<Rightarrow> c_phase create \<noteq> None \<or> route_get apiKey header c s' = (Reply 200 body, s'))
    | (ErrorReply code reason, s') \<Rightarrow> code = 400 \<and> s' = s \<and>
        (\<not> createDeviceMessageSchema create \<or>
         enqueue_refused cfg create \<and> \<not> inherited_id (cf_registry cfg) (c_pluginId create))
    | (Unhandled e, s') \<Rightarrow> s' = s \<and> createDeviceMessageSchema create \<and>
        inherited_id (cf_registry cfg) (c_pluginId create)"
proof (cases "createDeviceMessageSchema create \<and> \<not> enqueue_refused cfg create")
  case False
  show ?thesis
  proof (cases "createDeviceMessageSchema create")
    case schema: True
    show ?thesis
    proof (cases "inherited_id (cf_registry cfg) (c_pluginId create)")
      case True
      then show ?thesis using schema
        by (simp add: route_enqueue_def command_route_cases adm reply_of_def enqueue_inherited)
    next
      case own: False
      obtain e where "enqueue cfg w i create s = (Inl e, s)" "enqueue_error e"
        using schema False enqueue_refusal [OF _ reg own] by blast
      then show ?thesis using schema False own by (simp add: route_enqueue_def command_route_cases adm reply_of_def)
    qed
  qed (simp add: route_enqueue_def command_route_cases adm)
next
  case True
  then obtain p where p: "plugin_for cfg (c_pluginId create) = Some p"
    by (auto simp: enqueue_refused_def split: option.splits)
  let ?m = "message_of i (serializeCreateDeviceMessage create)"
  obtain s' where e: "enqueue cfg w i create s = (Inr ?m, s')"
    and st: "m_deliveryStatus ?m = QUEUED" "m_id ?m = i"
    and get: "\<And>c. c_correlationId create = Some c \<Longrightarrow> c \<noteq> [] \<Longrightarrow> c_phase create = None \<Longrightarrow>
      getByCorrelationId c s' = Inr (Some ?m)"
    using enqueue_then_lookup [OF p _ i, where w = w and s = s] True by blast
  have cid: "c \<noteq> []" if "c_correlationId create = Some c" for c
    using True that by (simp add: createDeviceMessageSchema_def)
  have "route_enqueue cfg apiKey header w i create s = (Reply 201 (omitInternalFields_full ?m), s')"
    using True e by (simp add: route_enqueue_def command_route_cases adm reply_of_def)
  moreover have "route_get apiKey header c s' = (Reply 200 (omitInternalFields_full ?m), s')"
    if "c_correlationId create = Some c" "c_phase create = None" for c
    using get [OF that(1) cid [OF that(1)] that(2)] cid [OF that(1)]
    by (simp add: route_get_def command_route_cases adm)
  ultimately show ?thesis using True st
    by (cases "c_phase create") (auto simp: omitInternalFields_full_def split: option.split)
qed

theorem posted_message_reads_back_witness:
  "(\<exists>body s'. route_enqueue example_config None None (example_world 1000 ''E0'') ''M1'' example_create
      (empty_engine True) = (Reply 201 body, s') \<and> route_get None None ''c1'' s' = (Reply 200 body, s')) \<and>
   (\<exists>e. route_enqueue example_config None None (example_world 1000 ''E0'') ''M1''
      (example_create\<lparr>c_pluginId := ''constructor''\<rparr>) (empty_engine True) = (Unhandled e, empty_engine True))"
proof -
  let ?r = "\<lambda>c. route_enqueue example_config None None (example_world 1000 ''E0'') ''M1'' c (empty_engine True)"
  let ?c = "example_create\<lparr>c_pluginId := ''constructor''\<rparr>"
  have own: "\<not> enqueue_refused example_config example_create"
    by (simp add: enqueue_refused_def plugin_for_def example_create_fields example_plugin stub_pull_fields
        ENQUEUEABLE_COMMAND_TYPES_def CONTROL_COMMAND_TYPES_def)
  have member: "inherited_id (cf_registry example_config) ''constructor''"
    by (simp add: inherited_id_def OBJECT_MEMBERS_def example_config_def STUB_PUSH_ID_def STUB_PULL_ID_def)
  have "createDeviceMessageSchema example_create" "createDeviceMessageSchema ?c"
    by (simp_all add: createDeviceMessageSchema_def example_create_def example_device_def valid_device_def
        valid_relayNode_def command_guard_defs command_group_defs STUB_PULL_ID_def uint32_def)
  moreover have "admitted None None" by (simp add: admitted_def filled_def)
  moreover have "registry_ok (cf_registry example_config)" using example_config_ok by (simp add: config_ok_def)
  ultimately show ?thesis
    using posted_message_reads_back [where apiKey = None and header = None and i = "''M1''" and
        cfg = example_config and w = "example_world 1000 ''E0''" and create = example_create and s = "empty_engine True"]
      posted_message_reads_back [where apiKey = None and header = None and i = "''M1''" and
        cfg = example_config and w = "example_world 1000 ''E0''" and create = ?c and s = "empty_engine True"]
      own member inherited_refused [of example_config ?c] inherited_refused [of example_config example_create]
    by (cases "?r example_create"; cases "fst (?r example_create)"; cases "?r ?c"; cases "fst (?r ?c)")
       (auto simp: example_create_fields)
qed

section \<open>Vendor ingress\<close>

text \<open>C39 (forged events): when the ChirpStack plugin has an ingress key, a request to its ingress whose
  \<open>x-api-key\<close> header is missing or is any other text is answered 401 and changes nothing, whatever its
  body and query say, given that the digest has no collision with the key; a request with the key gets
  past the check, and is answered 400 with nothing changed when its body is no JSON text.\<close>

theorem forged_events_rejected:
  assumes collision: "\<And>x. sha256 x = sha256 key \<Longrightarrow> x = key" and key: "key \<noteq> []"
    and p: "registry_get reg CALIN_CHIRPSTACK_ID = Some (Delivery p)" "d_pattern p = PUSH"
    and facet: "if_verifySignature (facets p) = Some (\<lambda>rawBody. verifySignature sha256 (Some key))"
  shows "if flattenQuery headers ''x-api-key'' \<noteq> Some key
    then route_ingress reg facets parseJson CALIN_CHIRPSTACK_ID rawBody headers query s =
      (ErrorReply 401 ''Invalid signature'', s)
    else fst (route_ingress reg facets parseJson CALIN_CHIRPSTACK_ID rawBody headers query s) \<noteq>
        ErrorReply 401 ''Invalid signature'' \<and>
      (rawBody \<noteq> [] \<and> parseJson rawBody = None \<longrightarrow>
        route_ingress reg facets parseJson CALIN_CHIRPSTACK_ID rawBody headers query s =
          (ErrorReply 400 ''Invalid JSON body'', s))"
proof -
  have i: "CALIN_CHIRPSTACK_ID \<noteq> []" by (simp add: CALIN_CHIRPSTACK_ID_def)
  have "signature_ok (facets p) rawBody headers \<longleftrightarrow> flattenQuery headers ''x-api-key'' = Some key"
  proof (cases "flattenQuery headers ''x-api-key''")
    case None
    then show ?thesis using collision [of "[]"] key by (auto simp: signature_ok_def facet verifySignature_def secretEquals_def)
  next
    case (Some k)
    then show ?thesis using collision [of k] by (auto simp: signature_ok_def facet verifySignature_def secretEquals_def)
  qed
  then show ?thesis using p i
    by (auto simp: route_ingress_def parse_body_def split: option.split sum.split prod.split)
qed

theorem forged_events_rejected_witness:
  "route_ingress [(CALIN_CHIRPSTACK_ID, Delivery (buildCalinChirpstack DEFAULT_PLUGIN_TUNING))]
     (\<lambda>_. \<lparr>if_verifySignature = Some (\<lambda>rawBody. verifySignature (map of_char) (Some ''s3cret'')),
       if_handle = (\<lambda>_ _ n :: nat. (Inr (), Suc n))\<rparr>)
     (\<lambda>_. Some JNull) CALIN_CHIRPSTACK_ID [123, 125] [(''x-api-key'', One ''guess'')] [] (0 :: nat) =
   (ErrorReply 401 ''Invalid signature'', 0)"
proof -
  have inj: "x = ''s3cret''" if "(map of_char x :: nat list) = map of_char ''s3cret''" for x
  proof -
    have m: "map char_of (map of_char y :: nat list) = y" for y by (simp add: comp_def)
    show ?thesis using m [of x] m [of "''s3cret''"] that by metis
  qed
  have pat: "d_pattern (buildCalinChirpstack DEFAULT_PLUGIN_TUNING) = PUSH" by (simp add: buildCalinChirpstack_def)
  show ?thesis
    using forged_events_rejected [where ?sha256.0 = "map of_char" and key = "''s3cret''" and
        reg = "[(CALIN_CHIRPSTACK_ID, Delivery (buildCalinChirpstack DEFAULT_PLUGIN_TUNING))]" and
        facets = "\<lambda>_. \<lparr>if_verifySignature = Some (\<lambda>rawBody. verifySignature (map of_char) (Some ''s3cret'')),
          if_handle = (\<lambda>_ _ n :: nat. (Inr (), Suc n))\<rparr>" and headers = "[(''x-api-key'', One ''guess'')]",
        OF inj _ _ pat] by (simp add: registry_get_def flattenQuery_def first_text_def)
qed

section \<open>The shipped plugins\<close>

text \<open>Every deployment satisfies what the engine relies on: whatever plugins a configuration lists,
  if the registry can be built from the shipped catalog and the environment, and the delivery settings
  pass their schema, then the registry lists every plugin under its own id, once, and every delivery
  plugin in it keeps the contract of the plugin interface; so every state the engine reaches with this
  configuration satisfies its invariant.\<close>

lemma shipped_registry_satisfies_engine:
  assumes made: "createPluginRegistry (PLUGIN_CATALOG env) entries = Inr (cf_registry cfg)"
    and delivery: "deliverySchema (cf_delivery cfg)"
  shows "config_ok cfg \<and> map fst (cf_registry cfg) = map pe_id entries \<and>
    (\<forall>s. reachable cfg s \<longrightarrow> engine_ok cfg s)"
proof -
  let ?reg = "cf_registry cfg"
  have from_cat: "\<exists>e factory. PLUGIN_CATALOG env i = Some factory \<and> factory e = Inr p" if "(i, p) \<in> set ?reg" for i p
    using build_registry_from_catalog [OF made [unfolded createPluginRegistry_def] that] by auto
  have "distinct (map fst ?reg)"
    using build_registry_distinct [OF made [unfolded createPluginRegistry_def]] by simp
  moreover have "list_all (\<lambda>(i, p). plugin_id_of p = Some i) ?reg"
    using from_cat catalog_plugin(1) by (fastforce simp: list_all_iff)
  moreover have "\<exists>kind. delivery_plugin_contract p kind" if "registry_get ?reg i = Some (Delivery p)" for i p
    using from_cat [OF registry_get_in [OF that]] catalog_plugin(2) by blast
  ultimately have ok: "config_ok cfg" using delivery by (auto simp: config_ok_def registry_ok_def)
  then show ?thesis
    using reachable_ok [OF ok] build_registry_keys [OF made [unfolded createPluginRegistry_def]] by auto
qed

lemma shipped_registry_satisfies_engine_witness:
  "\<exists>reg. createPluginRegistry (PLUGIN_CATALOG [''NXT_STS_URL'' \<mapsto> ''http://sts''])
     [\<lparr>pe_id = NXT_STS_ID, pe_settings = None, pe_tuning = None\<rparr>, \<lparr>pe_id = STUB_PULL_ID, pe_settings = None, pe_tuning = None\<rparr>] = Inr reg \<and>
   config_ok \<lparr>cf_registry = reg, cf_delivery = default_delivery, cf_webhook = None, cf_decodeTime = (\<lambda>_. 0)\<rparr>"
proof -
  let ?env = "[''NXT_STS_URL'' \<mapsto> ''http://sts'']"
  let ?es = "[\<lparr>pe_id = NXT_STS_ID, pe_settings = None, pe_tuning = None\<rparr>, \<lparr>pe_id = STUB_PULL_ID, pe_settings = None, pe_tuning = None\<rparr>]"
  have "\<exists>url. loadNxtStsSecrets ?env = Inr url"
    by (simp add: loadNxtStsSecrets_def requireEnvKeys_def NXT_STS_ENV_KEYS_def env_missing_def trim_def js_space_def)
  then obtain reg where r: "createPluginRegistry (PLUGIN_CATALOG ?env) ?es = Inr reg"
    by (auto simp: createPluginRegistry_def PLUGIN_CATALOG_def createNxtStsPlugin_def createStubPullPlugin_def
        mergePluginTuning_def plugin_ids)
  let ?cfg = "\<lparr>cf_registry = reg, cf_delivery = default_delivery, cf_webhook = None, cf_decodeTime = (\<lambda>_. 0)\<rparr>"
  show ?thesis
    using shipped_registry_satisfies_engine [where cfg = ?cfg and env = ?env and entries = ?es] r default_delivery_valid
    by simp
qed

end
