(* ===== verification/Config_Claims.thy ===== *)
theory Config_Claims
  imports Config_Load Http_Claims Engine_Claims
begin

text \<open>
  Properties of configuration and boot: a configuration that boots gives an engine whose invariants
  hold, and the settings that an operator writes are the ones the service runs with.
\<close>

section \<open>Boot\<close>

lemma parse_eventWebhook_valid: "parse_eventWebhook isUrl v = Some w \<Longrightarrow> eventWebhookSchema w"
  unfolding parse_eventWebhook_def bind_eq_Some_conv eventWebhookSchema_def
  by (elim exE conjE)
     (auto elim!: defaulted_satisfies [where P = "\<lambda>n :: nat. 0 < n"] defaulted_satisfies [where P = "\<lambda>x :: num. 1 \<le> x"]
        dest: z_nat_pos z_multiplier_lower)

lemma loaded_config_valid:
  assumes "loadConfig h lib d = Inr c"
  shows "deliverySchema (dc_delivery c) \<and> pred_option eventWebhookSchema (dc_eventWebhook c)"
proof -
  obtain raw where "deviceMessagingConfigSchema (jl_isUrl lib) raw = Some c"
    using assms by (auto simp: loadConfig_def parseConfig_def split: sum.splits option.splits)
  then show ?thesis
    unfolding deviceMessagingConfigSchema_def bind_eq_Some_conv
    by (elim exE conjE)
       (auto elim!: defaulted_satisfies [where P = deliverySchema] optional_satisfies
          intro: default_delivery_valid parse_delivery_valid parse_eventWebhook_valid)
qed

text \<open>C13 (a service that starts is sound): whatever the configuration and its source, if the process boots,
  its engine runs with valid delivery and webhook settings and with exactly the configured plugins, each
  keeping the contract of the plugin interface; so every state the engine reaches satisfies its
  invariant, and no stored message is ever retried more than the configured number of times.\<close>

theorem booted_service_is_sound:
  assumes boot: "boot h lib (PLUGIN_CATALOG (ho_env h)) = Inr (config, reg)"
  shows "let cfg = engine_config config reg decodeTime in
    config_ok cfg \<and> pred_option eventWebhookSchema (cf_webhook cfg) \<and>
    map fst reg = map pe_id (dc_plugins config) \<and> distinct (map fst reg) \<and>
    (\<forall>s. reachable cfg s \<longrightarrow> engine_ok cfg s \<and>
      (\<forall>m h. hash_at (db s) m = Some h \<longrightarrow>
        pred_option (\<lambda>n. n \<le> maxRetries (dc_delivery config)) (h_retryCount h)))"
proof -
  let ?cfg = "engine_config config reg decodeTime"
  obtain load: "loadConfig h lib None = Inr config"
    and made: "createPluginRegistry (PLUGIN_CATALOG (ho_env h)) (dc_plugins config) = Inr reg"
    using boot by (auto simp: boot_def split: sum.splits)
  have valid: "deliverySchema (dc_delivery config)" "pred_option eventWebhookSchema (dc_eventWebhook config)"
    using loaded_config_valid [OF load] by simp_all
  have reg: "config_ok ?cfg \<and> map fst reg = map pe_id (dc_plugins config)"
    using shipped_registry_satisfies_engine [of "ho_env h" "dc_plugins config" ?cfg] made valid(1)
    by (simp add: engine_config_def)
  have "distinct (map fst reg)" using reg by (auto simp: config_ok_def registry_ok_def engine_config_def)
  moreover have "engine_ok ?cfg s" if "reachable ?cfg s" for s using reachable_ok reg that by blast
  moreover have "pred_option (\<lambda>n. n \<le> maxRetries (dc_delivery config)) (h_retryCount h)"
    if "engine_ok ?cfg s" "hash_at (db s) m = Some h" for s m h
    using stored(2) [OF engine_db [OF that(1)] that(2)] by (simp add: hash_ok_def engine_config_def)
  ultimately show ?thesis using reg valid by (auto simp: Let_def engine_config_def)
qed

text \<open>The bundled default, with two plugins enabled.\<close>

definition example_settings :: jval where
  "example_settings = JObj [(''$schemaVersion'', JStr ''1''), (''engine'', JObj [(''enabled'', JBool True)]),
     (''delivery'', JObj [(''maxRetries'', JNum 3)]),
     (''plugins'', JArr [JObj [(''id'', JStr NXT_STS_ID)], JObj [(''id'', JStr STUB_PULL_ID)]])]"

definition example_host :: host where
  "example_host = \<lparr>ho_env = [ENV_CONFIG_JSON \<mapsto> ''{..}'', ''NXT_STS_URL'' \<mapsto> ''http://sts''],
     ho_fetch = (\<lambda>_. ConfigFetchThrew ''down''), ho_readFile = (\<lambda>_. Inl ''no file''), ho_exists = (\<lambda>_. False),
     ho_bundleDir = ''/app'', ho_cwd = ''/''\<rparr>"

definition example_library :: jsonLibrary where
  "example_library = \<lparr>jl_parse = (\<lambda>_. Inr example_settings), jl_isUrl = (\<lambda>_. True), jl_issues = (\<lambda>_. [])\<rparr>"

lemma example_load:
  "loadConfig example_host example_library None = Inr \<lparr>dc_schema = None, dc_engineEnabled = True,
     dc_logging = Pretty, dc_delivery = default_delivery\<lparr>maxRetries := 3\<rparr>, dc_eventWebhook = None,
     dc_plugins = [\<lparr>pe_id = NXT_STS_ID, pe_settings = None, pe_tuning = None\<rparr>,
       \<lparr>pe_id = STUB_PULL_ID, pe_settings = None, pe_tuning = None\<rparr>]\<rparr>"
proof -
  have "z_nat 0 (JNum 3) = Some 3" using z_nat_j_nat [of 0 3] by (simp add: j_nat_def)
  then have "deviceMessagingConfigSchema isUrl example_settings = Some \<lparr>dc_schema = None, dc_engineEnabled = True,
     dc_logging = Pretty, dc_delivery = default_delivery\<lparr>maxRetries := 3\<rparr>, dc_eventWebhook = None,
     dc_plugins = [\<lparr>pe_id = NXT_STS_ID, pe_settings = None, pe_tuning = None\<rparr>,
       \<lparr>pe_id = STUB_PULL_ID, pe_settings = None, pe_tuning = None\<rparr>]\<rparr>" for isUrl
    by (simp add: example_settings_def deviceMessagingConfigSchema_def config_keys_def schema_simps
        optional_def required_def defaulted_def z_version_def parse_engine_def parse_delivery_def delivery_keys_def
        default_delivery_def parse_pluginEntry_def plugin_ids)
  then show ?thesis
    by (simp add: loadConfig_def resolveRawConfig_def parseConfig_def example_host_def example_library_def
        filled_def ENV_CONFIG_JSON_def)
qed

theorem booted_service_is_sound_witness:
  "\<exists>config reg. boot example_host example_library (PLUGIN_CATALOG (ho_env example_host)) = Inr (config, reg) \<and>
     map fst reg = [NXT_STS_ID, STUB_PULL_ID] \<and> config_ok (engine_config config reg (\<lambda>_. 0))"
proof -
  let ?env = "ho_env example_host"
  have "\<exists>url. loadNxtStsSecrets ?env = Inr url"
    by (simp add: example_host_def ENV_CONFIG_JSON_def loadNxtStsSecrets_def requireEnvKeys_def NXT_STS_ENV_KEYS_def
        env_missing_def trim_def js_space_def)
  then obtain config reg where b: "boot example_host example_library (PLUGIN_CATALOG ?env) = Inr (config, reg)"
    and c: "map pe_id (dc_plugins config) = [NXT_STS_ID, STUB_PULL_ID]"
    by (auto simp: boot_def example_load createPluginRegistry_def PLUGIN_CATALOG_def createNxtStsPlugin_def
        createStubPullPlugin_def mergePluginTuning_def plugin_ids)
  show ?thesis using booted_service_is_sound [OF b, of "\<lambda>_. 0"] b c by (auto simp: Let_def)
qed

section \<open>Settings\<close>

text \<open>A configuration written out in full.\<close>

definition delivery_json :: "deliveryConfig \<Rightarrow> jval" where
  "delivery_json d = JObj [(''maxRetries'', j_nat (maxRetries d)),
     (''retryBaseDelayMs'', j_nat (retryBaseDelayMs d)),
     (''retryBackoffMultiplier'', JNum (retryBackoffMultiplier d)),
     (''retryMaxDelayMs'', j_nat (retryMaxDelayMs d)), (''messageTtlSeconds'', j_nat (messageTtlSeconds d))]"

definition webhook_json :: "eventWebhookConfig \<Rightarrow> jval" where
  "webhook_json w = JObj [(''url'', JStr (wh_url w)), (''maxAttempts'', j_nat (wh_maxAttempts w)),
     (''baseDelayMs'', j_nat (wh_baseDelayMs w)), (''backoffMultiplier'', JNum (wh_backoffMultiplier w)),
     (''maxDelayMs'', j_nat (wh_maxDelayMs w)), (''requestTimeoutMs'', j_nat (wh_requestTimeoutMs w)),
     (''deadLetterTtlSeconds'', j_nat (wh_deadLetterTtlSeconds w))]"

definition entry_json :: "pluginEntry \<Rightarrow> jval" where
  "entry_json e = JObj ((''id'', JStr (pe_id e)) # present ''settings'' JObj (pe_settings e) @
     present ''tuning'' JObj (pe_tuning e))"

definition config_fields :: "deviceMessagingConfig \<Rightarrow> fields" where
  "config_fields c =
     present ''$schema'' JStr (dc_schema c) @
     [(''$schemaVersion'', JStr ''1''), (''engine'', JObj [(''enabled'', JBool (dc_engineEnabled c))]),
      (''logging'', JObj [(''stdout'', JStr (case dc_logging c of Pretty \<Rightarrow> ''pretty'' | Json \<Rightarrow> ''json''))]),
      (''delivery'', delivery_json (dc_delivery c)), (''plugins'', JArr (map entry_json (dc_plugins c)))] @
     present ''eventWebhook'' webhook_json (dc_eventWebhook c)"

definition safe :: "nat \<Rightarrow> bool" where
  "safe n \<longleftrightarrow> n < 2 ^ 53"

definition delivery_writable :: "deliveryConfig \<Rightarrow> bool" where
  "delivery_writable d \<longleftrightarrow> deliverySchema d \<and> safe (maxRetries d) \<and> safe (retryBaseDelayMs d) \<and>
     safe (retryMaxDelayMs d) \<and> safe (messageTtlSeconds d)"

definition webhook_writable :: "(string \<Rightarrow> bool) \<Rightarrow> eventWebhookConfig \<Rightarrow> bool" where
  "webhook_writable isUrl w \<longleftrightarrow> eventWebhookSchema w \<and> isUrl (wh_url w) \<and> safe (wh_maxAttempts w) \<and>
     safe (wh_baseDelayMs w) \<and> safe (wh_maxDelayMs w) \<and> safe (wh_requestTimeoutMs w) \<and>
     safe (wh_deadLetterTtlSeconds w)"

definition config_writable :: "(string \<Rightarrow> bool) \<Rightarrow> deviceMessagingConfig \<Rightarrow> bool" where
  "config_writable isUrl c \<longleftrightarrow> delivery_writable (dc_delivery c) \<and>
     pred_option (webhook_writable isUrl) (dc_eventWebhook c) \<and> list_all (\<lambda>e. pe_id e \<noteq> []) (dc_plugins c)"

lemma delivery_reads_back: "delivery_writable d \<Longrightarrow> parse_delivery (delivery_json d) = Some d"
  by (simp add: parse_delivery_def delivery_json_def delivery_keys_def schema_simps defaulted_def
      delivery_writable_def deliverySchema_def safe_def z_multiplier_def Suc_leI)

lemma webhook_reads_back: "webhook_writable isUrl w \<Longrightarrow> parse_eventWebhook isUrl (webhook_json w) = Some w"
  by (simp add: parse_eventWebhook_def webhook_json_def webhook_keys_def schema_simps defaulted_def required_def
      webhook_writable_def eventWebhookSchema_def safe_def z_multiplier_def z_url_def Suc_leI)

lemma entry_reads_back: "pe_id e \<noteq> [] \<Longrightarrow> parse_pluginEntry (entry_json e) = Some e"
  by (cases "pe_settings e"; cases "pe_tuning e")
     (simp_all add: parse_pluginEntry_def entry_json_def schema_simps required_def optional_def present_def)

lemma config_reads_back:
  assumes "config_writable isUrl c"
  shows "deviceMessagingConfigSchema isUrl (JObj (config_fields c)) = Some c"
proof -
  let ?fs = "config_fields c"
  have at: "map_of ?fs ''$schema'' = map_option JStr (dc_schema c)"
    "map_of ?fs ''$schemaVersion'' = Some (JStr ''1'')"
    "map_of ?fs ''engine'' = Some (JObj [(''enabled'', JBool (dc_engineEnabled c))])"
    "map_of ?fs ''logging'' = Some (JObj [(''stdout'', JStr (case dc_logging c of Pretty \<Rightarrow> ''pretty'' | Json \<Rightarrow> ''json''))])"
    "map_of ?fs ''delivery'' = Some (delivery_json (dc_delivery c))"
    "map_of ?fs ''plugins'' = Some (JArr (map entry_json (dc_plugins c)))"
    "map_of ?fs ''eventWebhook'' = map_option webhook_json (dc_eventWebhook c)"
    by (auto simp: config_fields_def map_of_present map_add_def split: option.split)
  have strict: "strict_object config_keys (JObj ?fs) = Some ?fs"
    by (simp add: schema_simps config_fields_def config_keys_def)
  have engine: "parse_engine (JObj [(''enabled'', JBool b)]) = Some b" for b
    by (simp add: parse_engine_def schema_simps defaulted_def)
  have logging: "parse_logging (JObj [(''stdout'', JStr (case l of Pretty \<Rightarrow> ''pretty'' | Json \<Rightarrow> ''json''))]) = Some l" for l
    by (cases l) (simp_all add: parse_logging_def schema_simps defaulted_def)
  have plugins: "z_array parse_pluginEntry (JArr (map entry_json (dc_plugins c))) = Some (dc_plugins c)"
    using assms by (intro z_array_JArr entry_reads_back) (simp add: config_writable_def list_all_iff)
  have delivery: "parse_delivery (delivery_json (dc_delivery c)) = Some (dc_delivery c)"
    using assms by (intro delivery_reads_back) (simp add: config_writable_def)
  have webhook: "optional (parse_eventWebhook isUrl) ''eventWebhook'' ?fs = Some (dc_eventWebhook c)"
    using assms by (cases "dc_eventWebhook c") (simp_all add: optional_def at config_writable_def webhook_reads_back)
  have schema: "optional z_string ''$schema'' ?fs = Some (dc_schema c)"
    by (cases "dc_schema c") (simp_all add: optional_def at)
  show ?thesis
    by (simp add: deviceMessagingConfigSchema_def strict schema webhook)
       (simp add: required_def defaulted_def at z_version_def engine logging delivery plugins del: z_array.simps)
qed

text \<open>Where a text stands: inline, at the configured URL, or in the configured file, in this order.\<close>

definition configured_text :: "host \<Rightarrow> string \<Rightarrow> bool" where
  "configured_text h t \<longleftrightarrow>
     (case filled (ho_env h ENV_CONFIG_JSON) of
        Some inline \<Rightarrow> inline = t
      | None \<Rightarrow>
     (case filled (ho_env h ENV_CONFIG_URL) of
        Some url \<Rightarrow> (\<exists>status why. ho_fetch h url = ConfigResponse status why (Inr t) \<and> response_ok status)
      | None \<Rightarrow>
     (case filled (ho_env h ENV_CONFIG_PATH) of
        Some path \<Rightarrow> ho_readFile h path = Inr t
      | None \<Rightarrow> (\<exists>path. List.find (ho_exists h) (default_candidates h) = Some path \<and> ho_readFile h path = Inr t))))"

lemma configured_text_resolves: "configured_text h t \<Longrightarrow> resolveRawConfig h None = Inr t"
  by (auto simp: configured_text_def resolveRawConfig_def fetchConfigUrl_def readConfigFile_def
      resolveDefaultConfigPath_def split: option.splits)

lemma configured_text_unique: "resolveRawConfig h None = Inr t \<Longrightarrow> configured_text h t"
  by (auto simp: configured_text_def resolveRawConfig_def fetchConfigUrl_def readConfigFile_def
      resolveDefaultConfigPath_def split: option.splits configFetch.splits sum.splits if_splits)

text \<open>
  A setting whose name the schema does not know: at the top level, in one of the sections, or in the entry
  of a plugin.
\<close>

definition config_sections :: "(string \<times> string list) list" where
  "config_sections = [(''engine'', [''enabled'']), (''logging'', [''stdout'']), (''delivery'', delivery_keys),
     (''eventWebhook'', webhook_keys)]"

definition unknown_setting :: "fields \<Rightarrow> bool" where
  "unknown_setting fs \<longleftrightarrow> \<not> set (map fst fs) \<subseteq> set config_keys \<or>
     (\<exists>(name, ks) \<in> set config_sections. \<exists>ds. map_of fs name = Some (JObj ds) \<and> \<not> set (map fst ds) \<subseteq> set ks) \<or>
     (\<exists>es ds. map_of fs ''plugins'' = Some (JArr es) \<and> JObj ds \<in> set es \<and>
        \<not> set (map fst ds) \<subseteq> {''id'', ''settings'', ''tuning''})"

lemma section_refuses:
  "\<not> set (map fst ds) \<subseteq> set [''enabled''] \<Longrightarrow> parse_engine (JObj ds) = None"
  "\<not> set (map fst ds) \<subseteq> set [''stdout''] \<Longrightarrow> parse_logging (JObj ds) = None"
  "\<not> set (map fst ds) \<subseteq> set delivery_keys \<Longrightarrow> parse_delivery (JObj ds) = None"
  "\<not> set (map fst ds) \<subseteq> set webhook_keys \<Longrightarrow> parse_eventWebhook isUrl (JObj ds) = None"
  "\<not> set (map fst ds) \<subseteq> {''id'', ''settings'', ''tuning''} \<Longrightarrow> parse_pluginEntry (JObj ds) = None"
  by (simp_all add: parse_engine_def parse_logging_def parse_delivery_def parse_eventWebhook_def
      parse_pluginEntry_def strict_object_JObj)

lemma those_refuses: "None \<in> set vs \<Longrightarrow> those vs = None"
  by (induction vs) (auto split: option.splits)

lemma entry_refuses:
  "JObj ds \<in> set es \<Longrightarrow> \<not> set (map fst ds) \<subseteq> {''id'', ''settings'', ''tuning''} \<Longrightarrow>
    z_array parse_pluginEntry (JArr es) = None"
  using section_refuses(5) [of ds] by (auto intro!: those_refuses image_eqI [of _ _ "JObj ds"])

lemma unknown_setting_refused:
  assumes "unknown_setting fs"
  shows "deviceMessagingConfigSchema isUrl (JObj fs) = None"
proof -
  consider "\<not> set (map fst fs) \<subseteq> set config_keys"
    | ds where "map_of fs ''engine'' = Some (JObj ds)" "parse_engine (JObj ds) = None"
    | ds where "map_of fs ''logging'' = Some (JObj ds)" "parse_logging (JObj ds) = None"
    | ds where "map_of fs ''delivery'' = Some (JObj ds)" "parse_delivery (JObj ds) = None"
    | ds where "map_of fs ''eventWebhook'' = Some (JObj ds)" "parse_eventWebhook isUrl (JObj ds) = None"
    | es where "map_of fs ''plugins'' = Some (JArr es)" "z_array parse_pluginEntry (JArr es) = None"
    using assms section_refuses entry_refuses
    unfolding unknown_setting_def config_sections_def by (simp del: z_array.simps) metis
  then show ?thesis
    by cases (simp_all add: deviceMessagingConfigSchema_def schema_simps bind_eq_None_conv defaulted_def optional_def
        del: z_array.simps)
qed

text \<open>C23 (settings are used as written or refused): the configuration is read from exactly one place, the
  inline text before the URL before the file before the bundled default, and a failure there fails the
  load: it never falls through to the next. When the text there writes out a valid configuration, that
  configuration, setting for setting, is what loads; when it has a setting whose name is not known, at the
  top, in a section or in the entry of a plugin, the load fails with an error instead of ignoring it.\<close>

theorem settings_used_or_refused:
  assumes writable: "config_writable (jl_isUrl lib) c" and at: "configured_text h t"
  shows "(jl_parse lib t = Inr (JObj (config_fields c)) \<longrightarrow> loadConfig h lib None = Inr c) \<and>
    (\<forall>fs. jl_parse lib t = Inr (JObj fs) \<and> unknown_setting fs \<longrightarrow>
      (\<exists>issues. loadConfig h lib None = Inl (PlainError (''Invalid configuration:'' @ issues)))) \<and>
    (\<forall>c'. loadConfig h lib None = Inr c' \<longrightarrow>
      (\<exists>v. jl_parse lib t = Inr v \<and> deviceMessagingConfigSchema (jl_isUrl lib) v = Some c')) \<and>
    (\<forall>h'. (\<nexists>t. configured_text h' t) \<longrightarrow> raises (loadConfig h' lib None))"
proof -
  have load: "loadConfig h lib None = parseConfig lib t"
    using configured_text_resolves [OF at] by (simp add: loadConfig_def)
  have "raises (loadConfig h' lib None)" if "\<nexists>t. configured_text h' t" for h'
    using that configured_text_unique [of h'] by (auto simp: loadConfig_def split: sum.split)
  then show ?thesis
    unfolding load using config_reads_back [OF writable]
    by (auto simp: parseConfig_def unknown_setting_refused split: sum.splits option.splits)
qed

definition example_written :: deviceMessagingConfig where
  "example_written = \<lparr>dc_schema = None, dc_engineEnabled = False, dc_logging = Json, dc_delivery = default_delivery,
     dc_eventWebhook = Some (default_eventWebhook ''http://adopter''),
     dc_plugins = [\<lparr>pe_id = STUB_PULL_ID, pe_settings = None, pe_tuning = None\<rparr>]\<rparr>"

theorem settings_used_or_refused_witness:
  "loadConfig example_host (example_library\<lparr>jl_parse := \<lambda>_. Inr (JObj (config_fields example_written))\<rparr>) None =
     Inr example_written"
proof -
  let ?lib = "example_library\<lparr>jl_parse := \<lambda>_. Inr (JObj (config_fields example_written))\<rparr>"
  have "config_writable (jl_isUrl ?lib) example_written"
    by (simp add: config_writable_def example_written_def delivery_writable_def webhook_writable_def safe_def
        default_delivery_valid default_delivery_def default_eventWebhook_def eventWebhookSchema_def
        example_library_def plugin_ids) (simp add: deliverySchema_def)?
  moreover have "configured_text example_host ''{..}''"
    by (simp add: configured_text_def example_host_def filled_def ENV_CONFIG_JSON_def)
  ultimately show ?thesis using settings_used_or_refused [of ?lib example_written example_host "''{..}''"] by simp
qed

end
