(* ===== verification/Process.thy ===== *)
theory Process
  imports Config_Load In_Flight_Sends Engine_Steps
begin

text \<open>
  The running process: the port (\<open>src/main.ts\<close>) and the Redis connection (\<open>client.ts\<close>) read from the
  environment, the timers (\<open>src/engine/timers.ts\<close>, \<open>startTimers\<close> of the webhook service), which routes
  \<open>src/app.ts\<close> serves, and the shutdown sequence of \<open>src/main.ts\<close>. The engine's handlers interleave with
  the shutdown as the awaits allow: while it waits, requests, settling sends and work that a timer
  began earlier still run.
\<close>

section \<open>Environment\<close>

text \<open>\<open>Number.parseInt(s, 10)\<close>, \<open>None\<close> when the result is not finite.\<close>

definition js_parseInt :: "string \<Rightarrow> int option" where
  "js_parseInt s =
     (let t = dropWhile js_space s;
          signed = t \<noteq> [] \<and> (hd t = CHR ''-'' \<or> hd t = CHR ''+'');
          digits = takeWhile is_digit (if signed then tl t else t);
          n = string_to_nat digits
      in if digits = [] \<or> double_overflow \<le> of_nat n then None
         else Some (if signed \<and> hd t = CHR ''-'' then - int n else int n))"

definition DEFAULT_PORT :: int where
  "DEFAULT_PORT = 3100"

definition resolvePort :: "(string \<Rightarrow> string option) \<Rightarrow> exn + int" where
  "resolvePort env =
     (case filled (env ''PORT'') of
        None \<Rightarrow> Inr DEFAULT_PORT
      | Some raw \<Rightarrow>
          (case js_parseInt raw of
             Some parsed \<Rightarrow>
               if parsed \<le> 0
               then Inl (PlainError (''Invalid PORT '' @ quoted raw @ ''; expected a positive integer''))
               else Inr parsed
           | None \<Rightarrow> Inl (PlainError (''Invalid PORT '' @ quoted raw @ ''; expected a positive integer''))))"

record redisOptions =
  ro_host :: string
  ro_port :: int
  ro_username :: "string option"
  ro_password :: "string option"
  ro_db :: int
  ro_tls :: bool

definition env_or :: "(string \<Rightarrow> string option) \<Rightarrow> string \<Rightarrow> string \<Rightarrow> string" where
  "env_or env name fallback = (case env name of None \<Rightarrow> fallback | Some v \<Rightarrow> v)"

definition shown_env :: "(string \<Rightarrow> string option) \<Rightarrow> string \<Rightarrow> string" where
  "shown_env env name = quoted (env_or env name ''undefined'')"

definition createRedisClientOptions :: "(string \<Rightarrow> string option) \<Rightarrow> exn + redisOptions" where
  "createRedisClientOptions env =
     (let port = js_parseInt (env_or env ''REDIS_PORT'' ''6379'');
          index = js_parseInt (env_or env ''REDIS_DB'' ''0'');
          tlsEnabled = (env ''REDIS_TLS'' = Some ''true'' \<or> env ''REDIS_TLS'' = Some ''1'')
      in case port of
           None \<Rightarrow> Inl (PlainError (''Invalid REDIS_PORT '' @ shown_env env ''REDIS_PORT'' @ ''; expected positive integer''))
         | Some p \<Rightarrow>
             if p \<le> 0
             then Inl (PlainError (''Invalid REDIS_PORT '' @ shown_env env ''REDIS_PORT'' @ ''; expected positive integer''))
             else
               (case index of
                  None \<Rightarrow> Inl (PlainError (''Invalid REDIS_DB '' @ shown_env env ''REDIS_DB'' @ ''; expected non-negative integer''))
                | Some n \<Rightarrow>
                    if n < 0
                    then Inl (PlainError (''Invalid REDIS_DB '' @ shown_env env ''REDIS_DB'' @ ''; expected non-negative integer''))
                    else Inr \<lparr>ro_host = env_or env ''REDIS_HOST'' ''127.0.0.1'', ro_port = p,
                      ro_username = filled (env ''REDIS_USERNAME''),
                      ro_password = filled (env ''REDIS_PASSWORD''), ro_db = n, ro_tls = tlsEnabled\<rparr>))"

section \<open>Routes\<close>

text \<open>
  Which route groups \<open>buildApp\<close> registers, by the services it is given; probes and metrics are always
  there, without a key.
\<close>

datatype routeGroup = OpenApi | MetricsRoute | Healthz | MessageRoutes | TokenRoutes | ProvisioningRoutes
  | IngressRoutes

record appOptions =
  ap_outgoing :: bool
  ap_token :: bool
  ap_provisioning :: bool
  ap_incoming :: bool
  ap_registry :: bool

definition buildApp :: "appOptions \<Rightarrow> routeGroup list" where
  "buildApp opts =
     [OpenApi, MetricsRoute, Healthz] @
     (if ap_outgoing opts then [MessageRoutes] else []) @
     (if ap_token opts then [TokenRoutes] else []) @
     (if ap_provisioning opts then [ProvisioningRoutes] else []) @
     (if ap_incoming opts \<and> ap_registry opts then [IngressRoutes] else [])"

section \<open>State\<close>

datatype signal = SIGTERM | SIGINT

datatype shutdownPhase = Serving | Draining time | ClosingHttp | QuittingRedis | Exited nat | KilledBy signal

text \<open>
  \<open>ps_working\<close> counts the ticks and distributions that a timer or an enqueue kick began and that have
  not finished, \<open>ps_kicked\<close> the kicks of the engine's count that have begun. \<open>ps_once\<close> are the listeners of
  \<open>process.once\<close> that have not fired. A process that ended by itself is \<open>Exited\<close> with its code, one that a
  signal ended is \<open>KilledBy\<close> it.
\<close>

record process =
  ps_engine :: engine
  ps_engineTimer :: bool
  ps_webhookTimer :: bool
  ps_working :: nat
  ps_kicked :: nat
  ps_http :: bool
  ps_redis :: bool
  ps_isShuttingDown :: bool
  ps_once :: "signal list"
  ps_phase :: shutdownPhase
  ps_abandoned :: "nat option"

definition ENGINE_TICK_INTERVAL_MS :: num where
  "ENGINE_TICK_INTERVAL_MS = 1000"

definition WEBHOOK_DRAIN_INTERVAL_MS :: num where
  "WEBHOOK_DRAIN_INTERVAL_MS = 1000"

definition SHUTDOWN_SEND_DRAIN_BUDGET_MS :: num where
  "SHUTDOWN_SEND_DRAIN_BUDGET_MS = 20000"

text \<open>Whether an interval is set: the engine's only when it is enabled, the webhook's with a webhook.\<close>

definition startEngineTimers :: "bool \<Rightarrow> bool" where
  "startEngineTimers enabled = (if \<not> enabled then False else True)"

definition startWebhookTimers :: "eventWebhookConfig option \<Rightarrow> bool" where
  "startWebhookTimers webhook = (webhook \<noteq> None)"

text \<open>A process over the store and the outbox that the last one left.\<close>

definition start_process :: "deviceMessagingConfig \<Rightarrow> engine \<Rightarrow> process" where
  "start_process config found = \<lparr>
     ps_engine = found\<lparr>running := [], sends := [], canKickDistribute := dc_engineEnabled config\<rparr>,
     ps_engineTimer = startEngineTimers (dc_engineEnabled config),
     ps_webhookTimer = startWebhookTimers (dc_eventWebhook config),
     ps_working = 0, ps_kicked = kicks found, ps_http = True, ps_redis = True, ps_isShuttingDown = False,
     ps_once = [SIGTERM, SIGINT], ps_phase = Serving, ps_abandoned = None\<rparr>"

section \<open>Shutdown\<close>

text \<open>\<open>shutdown\<close> up to its first await; a call while it runs finds the flag set.\<close>

definition shutdown_begins :: "time \<Rightarrow> process \<Rightarrow> process" where
  "shutdown_begins now p =
     (if ps_isShuttingDown p then p
      else p\<lparr>ps_isShuttingDown := True, ps_engineTimer := False, ps_webhookTimer := False,
             ps_engine := stopEnqueueKick (ps_engine p),
             ps_phase := Draining (now + SHUTDOWN_SEND_DRAIN_BUDGET_MS)\<rparr>)"

text \<open>
  A listener of \<open>process.once\<close> is removed before it runs. A signal without a listener has its default
  effect, which for both is to end the process at once.
\<close>

definition signal_arrives :: "signal \<Rightarrow> time \<Rightarrow> process \<Rightarrow> process" where
  "signal_arrives sig now p =
     (if sig \<in> set (ps_once p)
      then shutdown_begins now (p\<lparr>ps_once := removeAll sig (ps_once p)\<rparr>)
      else p\<lparr>ps_phase := KilledBy sig\<rparr>)"

text \<open>The wait for the sends ends when there is none, or at the deadline.\<close>

definition drain_over :: "time \<Rightarrow> process \<Rightarrow> bool" where
  "drain_over now p =
     (case ps_phase p of
        Draining deadline \<Rightarrow> sends_size (sends (ps_engine p)) = 0 \<or> deadline \<le> now
      | _ \<Rightarrow> False)"

definition drain_returns :: "process \<Rightarrow> process" where
  "drain_returns p =
     p\<lparr>ps_abandoned := Some (sends_size (sends (ps_engine p))), ps_phase := ClosingHttp\<rparr>"

text \<open>\<open>app.close()\<close> and \<open>redis.quit()\<close>; a failure is logged and the sequence goes on.\<close>

definition http_closes :: "bool \<Rightarrow> process \<Rightarrow> process" where
  "http_closes failed p = p\<lparr>ps_http := ps_http p \<and> failed, ps_phase := QuittingRedis\<rparr>"

definition redis_quits :: "bool \<Rightarrow> process \<Rightarrow> process" where
  "redis_quits failed p = p\<lparr>ps_redis := ps_redis p \<and> failed, ps_phase := Exited 0\<rparr>"

section \<open>Interleaving\<close>

definition alive :: "process \<Rightarrow> bool" where
  "alive p \<longleftrightarrow> (case ps_phase p of Exited _ \<Rightarrow> False | KilledBy _ \<Rightarrow> False | _ \<Rightarrow> ps_redis p)"

definition with_engine :: "(engine \<Rightarrow> engine) \<Rightarrow> process \<Rightarrow> process" where
  "with_engine f p = p\<lparr>ps_engine := f (ps_engine p)\<rparr>"

inductive process_step :: "engineConfig \<Rightarrow> process \<Rightarrow> process \<Rightarrow> bool" for cfg where
  p_time: "alive p \<Longrightarrow> process_step cfg p (with_engine (with_db (redis_at now)) p)"
| p_timer: "alive p \<Longrightarrow> ps_engineTimer p \<Longrightarrow> process_step cfg p (p\<lparr>ps_working := ps_working p + 1\<rparr>)"
| p_kick: "alive p \<Longrightarrow> ps_kicked p < kicks (ps_engine p) \<Longrightarrow>
    process_step cfg p (p\<lparr>ps_kicked := ps_kicked p + 1, ps_working := ps_working p + 1\<rparr>)"
| p_member: "alive p \<Longrightarrow> 0 < ps_working p \<Longrightarrow>
    queue \<in> set (enumerateStageQueues (pull_plugin_ids cfg)) \<Longrightarrow>
    process_step cfg p (with_engine (\<lambda>s. snd (drain_member cfg now queue w v m s)) p)"
| p_distribute: "alive p \<Longrightarrow> 0 < ps_working p \<Longrightarrow>
    process_step cfg p (with_engine (\<lambda>s. snd (distribute_queue cfg w q s)) p)"
| p_done: "alive p \<Longrightarrow> 0 < ps_working p \<Longrightarrow> process_step cfg p (p\<lparr>ps_working := ps_working p - 1\<rparr>)"
| p_settle: "alive p \<Longrightarrow> sd \<in> set (running (ps_engine p)) \<Longrightarrow>
    process_step cfg p (with_engine (\<lambda>s. snd (settle_send cfg w sd reply s)) p)"
| p_enqueue: "alive p \<Longrightarrow> ps_http p \<Longrightarrow> fresh_id (ps_engine p) i \<Longrightarrow>
    process_step cfg p (with_engine (\<lambda>s. snd (enqueue cfg w i dto s)) p)"
| p_cancel: "alive p \<Longrightarrow> ps_http p \<Longrightarrow>
    process_step cfg p (with_engine (\<lambda>s. snd (cancelOne cfg c s)) p)"
| p_ingress: "alive p \<Longrightarrow> ps_http p \<Longrightarrow>
    process_step cfg p (with_engine (\<lambda>s. snd (handle cfg w parsed plugin s)) p)"
| p_webhook: "alive p \<Longrightarrow> process_step cfg p
    (with_engine (\<lambda>s. s\<lparr>whdb := wb_deliverOne wcfg e now reply later (whdb s)\<rparr>) p)"
| p_signal: "alive p \<Longrightarrow> process_step cfg p (signal_arrives sig now p)"
| p_drained: "alive p \<Longrightarrow> drain_over now p \<Longrightarrow> process_step cfg p (drain_returns p)"
| p_closed: "alive p \<Longrightarrow> ps_phase p = ClosingHttp \<Longrightarrow> process_step cfg p (http_closes failed p)"
| p_quit: "alive p \<Longrightarrow> ps_phase p = QuittingRedis \<Longrightarrow> process_step cfg p (redis_quits failed p)"

text \<open>From a start over any state that an earlier process reached.\<close>

inductive process_run :: "deviceMessagingConfig \<Rightarrow> engineConfig \<Rightarrow> process \<Rightarrow> bool" for config cfg where
  run_start: "reachable cfg found \<Longrightarrow> process_run config cfg (start_process config found)"
| run_step: "process_run config cfg p \<Longrightarrow> process_step cfg p p' \<Longrightarrow> process_run config cfg p'"

inductive_cases process_step_cases: "process_step cfg p p'"

section \<open>The engine inside the process\<close>

lemma with_engine_simps [simp]:
  "ps_engine (with_engine f p) = f (ps_engine p)" "ps_engineTimer (with_engine f p) = ps_engineTimer p"
  "ps_webhookTimer (with_engine f p) = ps_webhookTimer p" "ps_http (with_engine f p) = ps_http p"
  "ps_redis (with_engine f p) = ps_redis p" "ps_isShuttingDown (with_engine f p) = ps_isShuttingDown p"
  "ps_phase (with_engine f p) = ps_phase p" "ps_abandoned (with_engine f p) = ps_abandoned p"
  "ps_working (with_engine f p) = ps_working p" "ps_once (with_engine f p) = ps_once p" "ps_kicked (with_engine f p) = ps_kicked p"
  by (simp_all add: with_engine_def)

lemma step_engine: "process_step cfg p p' \<Longrightarrow> reachable cfg (ps_engine p) \<Longrightarrow> reachable cfg (ps_engine p')"
proof (induction rule: process_step.induct)
  case (p_signal p sig now)
  then show ?case by (auto simp: signal_arrives_def shutdown_begins_def intro: reach_step step_stop)
qed (auto simp: drain_returns_def http_closes_def redis_quits_def intro: reach_step engine_step.intros)

lemma run_engine: "process_run config cfg p \<Longrightarrow> reachable cfg (ps_engine p)"
proof (induction rule: process_run.induct)
  case (run_start found)
  then show ?case by (auto simp: start_process_def intro: reach_step step_restart)
qed (rule step_engine)

end
