(* ===== verification/Process_Claims.thy ===== *)
theory Process_Claims
  imports Process Example_Service
begin

text \<open>
  Properties of the running process: the order in which it shuts down, what its signals do, what it leaves
  for the next process, and the ports it accepts.
\<close>

section \<open>Who may start a distribution\<close>

text \<open>
  The kick flag and the number of kicks, which only an enqueue raises, and the sends in progress, which only
  a distribution adds to.
\<close>

definition kick_state :: "engine \<Rightarrow> bool \<times> nat \<times> send list" where
  "kick_state s = (canKickDistribute s, kicks s, running s)"

named_theorems kick_frame "operations that leave the kick state alone"

lemma kick_basic [kick_frame]:
  "kick_state (s\<lparr>db := r\<rparr>) = kick_state s" "kick_state (s\<lparr>whdb := h\<rparr>) = kick_state s"
  "kick_state (with_db f s) = kick_state s" "kick_state (recordStageClaimMiss st s) = kick_state s"
  "kick_state (recordMessageTerminal t n s) = kick_state s"
  "kick_state (recordIngressUnhandled i s) = kick_state s"
  "kick_state (purge m p s) = kick_state s"
  by (simp_all add: kick_state_def with_db_def recordStageClaimMiss_def recordMessageTerminal_def
      recordIngressUnhandled_def purge_def)

lemma kick_emit [kick_frame]: "kick_state (snd (emitDeliveryEvent cfg w m s)) = kick_state s"
  by (simp add: emitDeliveryEvent_def kick_frame Let_def split: option.split prod.split)

lemma kick_emitD: "emitDeliveryEvent cfg w m s = (res, s') \<Longrightarrow> kick_state s' = kick_state s"
  using kick_emit [of cfg w m s] by simp

lemma kick_advance [kick_frame]: "kick_state (snd (advance cfg w i p st d n s)) = kick_state s"
  by (simp add: advance_def kick_frame Let_def split: option.split prod.split)

lemma kick_advanceD: "advance cfg w i p st d n s = (res, s') \<Longrightarrow> kick_state s' = kick_state s"
  using kick_advance [of cfg w i p st d n s] by simp

lemma kick_enterRetry [kick_frame]: "kick_state (snd (enterRetry cfg w i k n hist p s)) = kick_state s"
  by (simp add: enterRetry_def kick_frame Let_def)

lemma kick_enterRetryD: "enterRetry cfg w i k n hist p s = (res, s') \<Longrightarrow> kick_state s' = kick_state s"
  using kick_enterRetry [of cfg w i k n hist p s] by simp

lemma kick_requeueD: "requeue w i k k' n s = (res, s') \<Longrightarrow> kick_state s' = kick_state s"
  by (auto simp: requeue_def kick_frame Let_def split: prod.splits)

lemma kick_claimD: "claimFromQueue k i s = (res, s') \<Longrightarrow> kick_state s' = kick_state s"
  by (auto simp: claimFromQueue_def kick_frame Let_def split: prod.splits)

lemma kick_pickD: "pickIntoNs cfg w k p limit s = (res, s') \<Longrightarrow> kick_state s' = kick_state s"
  by (auto simp: pickIntoNs_def kick_frame Let_def split: prod.splits)

lemma kick_retryOrFail [kick_frame]: "kick_state (snd (retryOrFail cfg w i k c p s)) = kick_state s"
  by (auto simp: retryOrFail_def kick_frame Let_def split: sum.splits option.splits prod.splits
      dest!: kick_emitD kick_enterRetryD)

lemma kick_retryOrFailD: "retryOrFail cfg w i k c p s = (res, s') \<Longrightarrow> kick_state s' = kick_state s"
  using kick_retryOrFail [of cfg w i k c p s] by simp

lemma kick_processEvent [kick_frame]: "kick_state (snd (processEvent cfg w e p s)) = kick_state s"
  by (simp add: processEvent_def kick_frame Let_def split: sum.split option.split prod.split)
     (auto simp: kick_frame dest!: kick_emitD kick_advanceD)

lemma kick_processEventD: "processEvent cfg w e p s = (res, s') \<Longrightarrow> kick_state s' = kick_state s"
  using kick_processEvent [of cfg w e p s] by simp

lemma kick_handle [kick_frame]: "kick_state (snd (handle cfg w parsed p s)) = kick_state s"
  by (auto simp: handle_def kick_frame split: sum.split option.split prod.split dest!: kick_processEventD)

lemma kick_failPermanentlyD: "failPermanently cfg w m p s = (res, s') \<Longrightarrow> kick_state s' = kick_state s"
  by (auto simp: failPermanently_def kick_frame Let_def split: sum.splits prod.splits dest!: kick_emitD)

lemma kick_action [kick_frame]: "kick_state (snd (stage_action st cfg w v k m p age s)) = kick_state s"
  by (cases st)
     (auto simp: action_ns_def action_relayNode_def action_device_def action_awaitingTask_def action_retry_def
        kick_frame Let_def split: sum.split option.split prod.split dest!: kick_failPermanentlyD kick_requeueD)

lemma kick_drain_member [kick_frame]: "kick_state (snd (drain_member cfg now q w v m s)) = kick_state s"
proof -
  have act: "kick_state s' = kick_state s" if "act cfg w v q msg p age s = (oc, s')" for msg p age oc s'
    using that kick_action [of "st_name (sq_stage q)" cfg w v "sq_key q" msg p age s]
    by (auto simp: act_def split: prod.splits sum.splits)
  show ?thesis
    by (auto simp: drain_member_def drop_member_def reschedule_def kick_frame Let_def
        split: sum.split option.split prod.split dest: act)
qed

lemma kick_flags:
  assumes "kick_state s' = kick_state s"
  shows "canKickDistribute s' = canKickDistribute s" "kicks s' = kicks s" "running s' = running s"
  using assms by (simp_all add: kick_state_def)

lemma kick_distribute:
  "canKickDistribute (snd (distribute_queue cfg w q s)) = canKickDistribute s"
  "kicks (snd (distribute_queue cfg w q s)) = kicks s"
  by (auto simp: distribute_queue_def track_def kick_state_def split: option.split prod.split bool.split
      sum.split devicePlugin.split dest!: kick_pickD kick_emitD)

lemma kick_settle:
  "canKickDistribute (snd (settle_send cfg w sd reply s)) = canKickDistribute s"
  "kicks (snd (settle_send cfg w sd reply s)) = kicks s"
  "set (running (snd (settle_send cfg w sd reply s))) \<subseteq> set (running s)"
proof -
  let ?r = "sendOneToNetworkServer cfg w (sd_plugin sd) (sd_message sd) reply s"
  have "kick_state (snd ?r) = kick_state s"
    by (auto simp: sendOneToNetworkServer_def split: sum.split prod.split if_split
        dest!: kick_retryOrFailD kick_advanceD)
  note k = kick_flags [OF this]
  show "canKickDistribute (snd (settle_send cfg w sd reply s)) = canKickDistribute s"
    "kicks (snd (settle_send cfg w sd reply s)) = kicks s"
    "set (running (snd (settle_send cfg w sd reply s))) \<subseteq> set (running s)"
    using k by (cases ?r; auto simp: settle_send_def untrack_def)+
qed

lemma kick_cancelOneMessage: "cancelOneMessage cfg m s = (ok, s') \<Longrightarrow> kick_state s' = kick_state s"
  by (auto simp: cancelOneMessage_def kick_frame Let_def split: if_splits option.splits prod.splits bool.splits
      dest!: kick_claimD)

lemma kick_cancel_messages: "cancel_messages cfg ms s = (oks, s') \<Longrightarrow> kick_state s' = kick_state s"
  by (induction ms arbitrary: s oks s') (auto split: prod.splits dest!: kick_cancelOneMessage)

lemma kick_cancelOne [kick_frame]: "kick_state (snd (cancelOne cfg c s)) = kick_state s"
  by (auto simp: cancelOne_def split: sum.split prod.split dest!: kick_cancel_messages)

text \<open>An enqueue adds a kick only while the flag is up.\<close>

lemma kick_enqueue:
  "canKickDistribute (snd (enqueue cfg w i dto s)) = canKickDistribute s"
  "running (snd (enqueue cfg w i dto s)) = running s"
  "\<not> canKickDistribute s \<Longrightarrow> kicks (snd (enqueue cfg w i dto s)) = kicks s"
  by (auto simp: enqueue_def Let_def split: option.split prod.split devicePlugin.split)

section \<open>Shutdown\<close>

fun phase_rank :: "shutdownPhase \<Rightarrow> nat" where
  "phase_rank Serving = 0"
| "phase_rank (Draining _) = 1"
| "phase_rank ClosingHttp = 2"
| "phase_rank QuittingRedis = 3"
| "phase_rank (Exited _) = 4"
| "phase_rank (KilledBy _) = 5"

definition shutdown_ok :: "process \<Rightarrow> bool" where
  "shutdown_ok p \<longleftrightarrow>
     (ps_isShuttingDown p \<longleftrightarrow> ps_phase p \<noteq> Serving) \<and>
     (ps_isShuttingDown p \<longleftrightarrow> ps_once p \<noteq> [SIGTERM, SIGINT]) \<and>
     (ps_isShuttingDown p \<longrightarrow> set (ps_once p) \<noteq> UNIV) \<and>
     (ps_isShuttingDown p \<longrightarrow> \<not> ps_engineTimer p \<and> \<not> ps_webhookTimer p \<and> \<not> canKickDistribute (ps_engine p)) \<and>
     (phase_rank (ps_phase p) \<in> {2, 3, 4} \<longrightarrow> ps_abandoned p \<noteq> None) \<and>
     (\<not> ps_http p \<longrightarrow> 3 \<le> phase_rank (ps_phase p) \<and> ps_abandoned p \<noteq> None) \<and>
     (\<not> ps_redis p \<longrightarrow> ps_phase p = Exited 0) \<and>
     (\<forall>code. ps_phase p = Exited code \<longrightarrow> code = 0)"

lemma shutdown_ok_with_engine:
  "shutdown_ok p \<Longrightarrow> canKickDistribute (f (ps_engine p)) = canKickDistribute (ps_engine p) \<Longrightarrow>
     shutdown_ok (with_engine f p)"
  by (auto simp: shutdown_ok_def)

lemma UNIV_signal: "UNIV = {SIGTERM, SIGINT}"
  using signal.exhaust by auto


lemma removeAll_signal: "removeAll sig xs \<noteq> [SIGTERM, SIGINT]" "set (removeAll sig xs) \<noteq> UNIV"
proof -
  have "sig \<in> set [SIGTERM, SIGINT]" by (cases sig) simp_all
  then show "removeAll sig xs \<noteq> [SIGTERM, SIGINT]" by (metis DiffD2 set_removeAll singletonI)
  show "set (removeAll sig xs) \<noteq> UNIV" by auto
qed

lemma shutdown_ok_signal:
  assumes ok: "shutdown_ok p" and alive: "alive p" shows "shutdown_ok (signal_arrives sig now p)"
proof (cases "sig \<in> set (ps_once p)")
  case True
  then show ?thesis using ok alive
    by (cases "ps_isShuttingDown p")
       (auto simp: signal_arrives_def shutdown_begins_def shutdown_ok_def stopEnqueueKick_def removeAll_signal
          alive_def dest: arg_cong [where f = length] split: shutdownPhase.splits)
next
  case False
  then have "ps_isShuttingDown p" using ok by (cases sig) (auto simp: shutdown_ok_def)
  then show ?thesis using ok alive False
    by (auto simp: signal_arrives_def shutdown_ok_def alive_def split: shutdownPhase.splits)
qed

lemma shutdown_ok_drained: "shutdown_ok p \<Longrightarrow> drain_over now p \<Longrightarrow> shutdown_ok (drain_returns p)"
  by (cases "ps_phase p") (auto simp: drain_over_def drain_returns_def shutdown_ok_def)

lemma shutdown_ok_step: "process_step cfg p p' \<Longrightarrow> shutdown_ok p \<Longrightarrow> shutdown_ok p'"
proof (induction rule: process_step.induct)
  case (p_signal p sig now)
  then show ?case by (intro shutdown_ok_signal)
next
  case (p_drained p now)
  then show ?case by (intro shutdown_ok_drained)
next
  case (p_closed p failed)
  then show ?case by (auto simp: shutdown_ok_def http_closes_def)
next
  case (p_quit p failed)
  then show ?case by (auto simp: shutdown_ok_def redis_quits_def)
next
  case (p_timer p)
  then show ?case by (auto simp: shutdown_ok_def)
next
  case (p_kick p)
  then show ?case by (auto simp: shutdown_ok_def)
next
  case (p_done p)
  then show ?case by (auto simp: shutdown_ok_def)
qed (auto intro!: shutdown_ok_with_engine
    simp: kick_enqueue kick_distribute kick_settle kick_frame [THEN kick_flags(1)])

lemma run_shutdown_ok: "process_run config cfg p \<Longrightarrow> shutdown_ok p"
proof (induction rule: process_run.induct)
  case (run_start found)
  then show ?case by (simp add: shutdown_ok_def start_process_def)
qed (rule shutdown_ok_step)



section \<open>What a shutdown leaves\<close>

text \<open>C18 (an abandoned send is not lost): at any instant at which the process may end, in the middle of its
  shutdown or after it, each message whose send was still running is, unless its hash has expired, a member
  of the \<open>ns\<close> stage; the next process starts over this store with the engine's invariant intact and
  with no send of its own for the message, so its first due turn is a timeout of the attempt and not held off.\<close>

theorem abandoned_send_recovers:
  assumes cfg: "config_ok cfg" and run: "process_run config cfg p"
    and sd: "sd \<in> set (running (ps_engine p))" and h: "hash_at (db (ps_engine p)) (send_id sd) \<noteq> None"
  shows "let q = start_process config' (ps_engine p) in
    process_run config' cfg q \<and> engine_ok cfg (ps_engine q) \<and>
    in_queue (db (ps_engine q)) QUEUE_NS_KEY (send_id sd) \<and>
    \<not> sends_has (send_id sd) (sends (ps_engine q)) \<and>
    (\<forall>w message plugin. m_id message = send_id sd \<longrightarrow>
      action_ns cfg w message plugin (ps_engine q) =
        retryOrFail cfg w (send_id sd) QUEUE_NS_KEY (timeout_context TIMEOUT_NS) plugin (ps_engine q))"
proof -
  have reach: "reachable cfg (ps_engine p)" by (rule run_engine [OF run])
  then have "in_queue (db (ps_engine p)) QUEUE_NS_KEY (send_id sd)"
    using reachable_ok [OF cfg reach] sd h by (auto simp: engine_ok_def sends_ok_def)
  moreover have q: "process_run config' cfg (start_process config' (ps_engine p))"
    by (rule run_start [OF reach])
  moreover have "engine_ok cfg (ps_engine (start_process config' (ps_engine p)))"
    by (rule reachable_ok [OF cfg run_engine [OF q]])
  ultimately show ?thesis by (auto simp: Let_def start_process_def sends_has_def action_ns_def)
qed

text \<open>The example service: one message enqueued over HTTP, then the signal.\<close>

definition example_settings' :: deviceMessagingConfig where
  "example_settings' = \<lparr>dc_schema = None, dc_engineEnabled = True, dc_logging = Pretty,
     dc_delivery = default_delivery, dc_eventWebhook = Some (default_eventWebhook ''http://adopter''), dc_plugins = []\<rparr>"

definition example_serving :: process where
  "example_serving = with_engine (\<lambda>s. snd (enqueue example_config (example_world 1000 ''E0'') ''M1'' example_create s))
     (start_process example_settings' (empty_engine True))"

lemma start_empty: "ps_engine (start_process example_settings' (empty_engine True)) = empty_engine True"
  by (simp add: start_process_def empty_engine_def example_settings'_def)

lemma example_serving_run: "process_run example_settings' example_config example_serving"
  unfolding example_serving_def
proof (rule run_step [OF run_start [OF reach_empty [of _ True]]], rule p_enqueue)
  show "alive (start_process example_settings' (empty_engine True))" by (simp add: alive_def start_process_def)
  show "ps_http (start_process example_settings' (empty_engine True))" by (simp add: start_process_def)
  show "fresh_id (ps_engine (start_process example_settings' (empty_engine True))) ''M1''"
    unfolding start_empty by (rule example_fresh)
qed

lemma example_serving_state:
  "ps_engine example_serving = example_queued" "ps_phase example_serving = Serving"
  "ps_isShuttingDown example_serving = False" "ps_http example_serving" "ps_redis example_serving"
  "ps_engineTimer example_serving" "ps_working example_serving = 0" "ps_once example_serving = [SIGTERM, SIGINT]"
  by (simp_all add: example_serving_def start_empty example_queued_def)
     (simp_all add: start_process_def startEngineTimers_def example_settings'_def)

definition example_working :: process where
  "example_working = signal_arrives SIGTERM 5000 (example_serving\<lparr>ps_working := 1\<rparr>)"

lemma example_working_run: "process_run example_settings' example_config example_working"
proof -
  have "process_step example_config example_serving (example_serving\<lparr>ps_working := ps_working example_serving + 1\<rparr>)"
    by (rule p_timer) (simp_all add: alive_def example_serving_state)
  then have "process_run example_settings' example_config (example_serving\<lparr>ps_working := 1\<rparr>)"
    using run_step [OF example_serving_run] by (simp add: example_serving_state)
  then show ?thesis
    unfolding example_working_def
    by (rule run_step) (rule p_signal, simp add: alive_def example_serving_state)
qed

lemma example_working_state:
  "ps_engine example_working = stopEnqueueKick example_queued" "ps_phase example_working = Draining 25000"
  "ps_isShuttingDown example_working" "ps_http example_working" "ps_redis example_working"
  "ps_working example_working = 1" "ps_once example_working = [SIGINT]"
  by (simp_all add: example_working_def signal_arrives_def shutdown_begins_def example_serving_state SHUTDOWN_SEND_DRAIN_BUDGET_MS_def)


text \<open>Distribution does not look at the kick flag.\<close>

lemma distribute_stopped:
  "distribute_queue cfg w q (stopEnqueueKick s) = map_prod id stopEnqueueKick (distribute_queue cfg w q s)"
  by (simp add: distribute_queue_def stopEnqueueKick_def pickIntoNs_def emitDeliveryEvent_def track_def Let_def
      split: option.split prod.split bool.split sum.split devicePlugin.split)

definition example_cut_off :: process where
  "example_cut_off = redis_quits False (http_closes False
     (with_engine (\<lambda>s. snd (distribute_queue example_config (example_world 2000 ''E1'') example_queue s))
       (drain_returns example_working)))"

lemma example_cut_off_run: "process_run example_settings' example_config example_cut_off"
proof -
  let ?d = "drain_returns example_working"
  let ?s = "with_engine (\<lambda>s. snd (distribute_queue example_config (example_world 2000 ''E1'') example_queue s)) ?d"
  have "process_run example_settings' example_config ?d"
    by (rule run_step [OF example_working_run], rule p_drained [where now = 5000])
       (simp_all add: alive_def example_working_state drain_over_def sends_size_def stopEnqueueKick_def example_queued_state)
  then have "process_run example_settings' example_config ?s"
    by (rule run_step) (rule p_distribute, simp_all add: alive_def drain_returns_def example_working_state)
  then have "process_run example_settings' example_config (http_closes False ?s)"
    by (rule run_step) (rule p_closed, simp_all add: alive_def drain_returns_def example_working_state)
  then show ?thesis
    unfolding example_cut_off_def
    by (rule run_step) (rule p_quit, simp_all add: alive_def http_closes_def drain_returns_def example_working_state)
qed

lemma example_cut_off_state:
  "ps_engine example_cut_off = stopEnqueueKick example_sent" "ps_phase example_cut_off = Exited 0"
  "ps_abandoned example_cut_off = Some 0"
  by (simp_all add: example_cut_off_def redis_quits_def http_closes_def drain_returns_def example_working_state
      distribute_stopped example_sent_def sends_size_def)
     (simp add: stopEnqueueKick_def example_queued_state)

theorem abandoned_send_recovers_witness:
  "in_queue (db (ps_engine (start_process example_settings' (ps_engine example_cut_off)))) QUEUE_NS_KEY ''M1'' \<and>
   engine_ok example_config (ps_engine (start_process example_settings' (ps_engine example_cut_off)))"
proof -
  let ?sd = "hd (running example_sent)"
  have sd: "?sd \<in> set (running (ps_engine example_cut_off))" "send_id ?sd = ''M1''"
    by (simp_all add: example_cut_off_state stopEnqueueKick_def example_sent_state send_id_def example_picked)
  have "hash_at (db (ps_engine example_cut_off)) (send_id ?sd) \<noteq> None"
    unfolding sd(2) by (simp add: example_cut_off_state stopEnqueueKick_def hash_at_def example_sent_state)
  from abandoned_send_recovers [OF example_config_ok example_cut_off_run sd(1) this, of example_settings']
  show ?thesis by (simp add: Let_def sd)
qed

section \<open>What the wait covers\<close>

lemma stopped_running [simp]: "running (stopEnqueueKick s) = running s" "sends (stopEnqueueKick s) = sends s"
  by (simp_all add: stopEnqueueKick_def)

text \<open>After the wait, with nothing at work: the sends still running are among those that ran at its end.\<close>

definition settled_at :: "send set \<Rightarrow> nat \<Rightarrow> process \<Rightarrow> bool" where
  "settled_at S n p \<longleftrightarrow> shutdown_ok p \<and> ps_isShuttingDown p \<and> 2 \<le> phase_rank (ps_phase p) \<and>
     ps_working p = 0 \<and> kicks (ps_engine p) \<le> ps_kicked p \<and> ps_abandoned p = Some n \<and>
     set (running (ps_engine p)) \<subseteq> S"

lemma settled_with_engine:
  assumes "settled_at S n p" and "canKickDistribute (f (ps_engine p)) = canKickDistribute (ps_engine p)"
    and "kicks (f (ps_engine p)) = kicks (ps_engine p)"
    and "set (running (f (ps_engine p))) \<subseteq> set (running (ps_engine p))"
  shows "settled_at S n (with_engine f p)"
  using assms shutdown_ok_with_engine [of p f] by (auto simp: settled_at_def)

lemma settled_step: "process_step cfg p p' \<Longrightarrow> settled_at S n p \<Longrightarrow> settled_at S n p'"
proof (induction rule: process_step.induct)
  case (p_signal p sig now)
  then show ?case
    using shutdown_ok_signal [of p sig now] by (auto simp: settled_at_def signal_arrives_def shutdown_begins_def)
next
  case (p_drained p now)
  then show ?case by (cases "ps_phase p") (auto simp: drain_over_def settled_at_def)
next
  case (p_closed p failed)
  then show ?case using shutdown_ok_step [OF process_step.p_closed [OF p_closed(1,2), of cfg failed]]
    by (auto simp: settled_at_def http_closes_def)
next
  case (p_quit p failed)
  then show ?case using shutdown_ok_step [OF process_step.p_quit [OF p_quit(1,2), of cfg failed]]
    by (auto simp: settled_at_def redis_quits_def)
next
  case (p_timer p)
  then show ?case by (auto simp: settled_at_def shutdown_ok_def)
next
  case (p_kick p)
  then show ?case by (auto simp: settled_at_def)
next
  case (p_member p queue now w v m)
  then show ?case by (auto simp: settled_at_def)
next
  case (p_distribute p w q)
  then show ?case by (auto simp: settled_at_def)
next
  case (p_done p)
  then show ?case by (auto simp: settled_at_def)
next
  case (p_enqueue p i w dto)
  then have "\<not> canKickDistribute (ps_engine p)" by (auto simp: settled_at_def shutdown_ok_def)
  then show ?case using p_enqueue by (intro settled_with_engine) (simp_all add: kick_enqueue)
next
  case (p_settle p sd w reply)
  then show ?case by (intro settled_with_engine) (simp_all add: kick_settle)
next
  case (p_time p now)
  then show ?case by (intro settled_with_engine) (simp_all add: with_db_def)
next
  case (p_cancel p c)
  then show ?case by (intro settled_with_engine) (simp_all add: kick_flags [OF kick_cancelOne])
next
  case (p_ingress p w parsed plugin)
  then show ?case by (intro settled_with_engine) (simp_all add: kick_flags [OF kick_handle])
next
  case (p_webhook p wcfg e now reply later)
  then show ?case by (intro settled_with_engine) simp_all
qed

lemma settled_steps: "(process_step cfg)\<^sup>*\<^sup>* p p' \<Longrightarrow> settled_at S n p \<Longrightarrow> settled_at S n p'"
  by (induction rule: rtranclp_induct) (auto intro: settled_step)

lemma steps_run: "(process_step cfg)\<^sup>*\<^sup>* p p' \<Longrightarrow> process_run config cfg p \<Longrightarrow> process_run config cfg p'"
  by (induction rule: rtranclp_induct) (auto intro: run_step)

lemma running_counted:
  assumes "sends_ok cfg s" shows "length (running s) \<le> sends_size (sends s)"
proof -
  have "set (map send_id (running s)) \<subseteq> set (map fst (sends s))"
    using assms by (force simp: sends_ok_def dest: map_of_SomeD)
  then have "card (set (map send_id (running s))) \<le> card (set (map fst (sends s)))" by (intro card_mono) simp_all
  also have "\<dots> \<le> length (sends s)" using card_length [of "map fst (sends s)"] by simp
  finally show ?thesis using assms distinct_card [of "map send_id (running s)"]
    by (simp add: sends_ok_def sends_size_def)
qed

text \<open>C25 (what the wait for the sends covers): let a signal begin the shutdown. When the wait returns and no tick
  or distribution is at work, nothing can start a send any more: whatever happens until the process
  ends, the sends still running are among those that ran when the wait returned, and there are at most as many
  as the number it reported; so with 0 none is cut off. A tick that began before the signal and is still
  at work breaks this. If it starts a send while the process waits, the wait lasts until the deadline or until
  that send has settled; but if there was no send to wait for, the wait can return 0 before, and then the tick
  starts the send all the same: the process exits with code 0, reporting that it abandoned nothing, while
  the send is running.\<close>

theorem drain_covers_sends_not_ticks:
  assumes cfg: "config_ok cfg" and run: "process_run config cfg p" and serving: "ps_phase p = Serving"
  shows "let begun = signal_arrives sig now p; deadline = now + SHUTDOWN_SEND_DRAIN_BUDGET_MS;
      distributed = with_engine (\<lambda>s. snd (distribute_queue cfg w q s)) in
    (\<forall>t p1 p2. (process_step cfg)\<^sup>*\<^sup>* begun p1 \<and> ps_phase p1 = Draining deadline \<and> drain_over t p1 \<and>
        ps_working p1 = 0 \<and> kicks (ps_engine p1) \<le> ps_kicked p1 \<and> (process_step cfg)\<^sup>*\<^sup>* (drain_returns p1) p2 \<longrightarrow>
      set (running (ps_engine p2)) \<subseteq> set (running (ps_engine p1)) \<and>
      (\<exists>n. ps_abandoned p2 = Some n \<and> length (running (ps_engine p1)) \<le> n)) \<and>
    (0 < ps_working p \<and> sends (ps_engine p) = [] \<and> running (ps_engine (distributed p)) = [sd] \<longrightarrow>
      process_step cfg begun (distributed begun) \<and>
      (\<forall>t. drain_over t (distributed begun) \<longrightarrow> deadline \<le> t) \<and>
      (\<exists>p'. (process_step cfg)\<^sup>*\<^sup>* begun p' \<and> ps_phase p' = Exited 0 \<and> ps_abandoned p' = Some 0 \<and>
        running (ps_engine p') = [sd]))"
proof -
  let ?b = "signal_arrives sig now p" and ?d = "now + SHUTDOWN_SEND_DRAIN_BUDGET_MS"
  let ?dist = "with_engine (\<lambda>s. snd (distribute_queue cfg w q s))"
  note ok = run_shutdown_ok [OF run]
  have p: "\<not> ps_isShuttingDown p" "alive p" "ps_once p = [SIGTERM, SIGINT]" "ps_redis p" "ps_abandoned p = None \<or> True"
    using ok serving by (auto simp: shutdown_ok_def alive_def)
  have "sig \<in> set [SIGTERM, SIGINT]" by (cases sig) simp_all
  then have b: "ps_phase ?b = Draining ?d" "ps_engine ?b = stopEnqueueKick (ps_engine p)" "ps_working ?b = ps_working p"
    "ps_redis ?b"
    using p by (simp_all add: signal_arrives_def shutdown_begins_def)
  have runb: "process_run config cfg ?b" by (rule run_step [OF run p_signal [OF p(2)]])
  have alive: "alive ?b" using b by (simp add: alive_def)
  have covered: "set (running (ps_engine p2)) \<subseteq> set (running (ps_engine p1)) \<and>
      (\<exists>n. ps_abandoned p2 = Some n \<and> length (running (ps_engine p1)) \<le> n)"
    if steps: "(process_step cfg)\<^sup>*\<^sup>* ?b p1" and d: "ps_phase p1 = Draining ?d" and over: "drain_over t p1"
      and quiet: "ps_working p1 = 0" "kicks (ps_engine p1) \<le> ps_kicked p1"
      and after: "(process_step cfg)\<^sup>*\<^sup>* (drain_returns p1) p2" for t p1 p2
  proof -
    note run1 = steps_run [OF steps runb]
    note ok1 = run_shutdown_ok [OF run1]
    have sd: "ps_isShuttingDown p1" using ok1 d by (simp add: shutdown_ok_def)
    have "settled_at (set (running (ps_engine p1))) (sends_size (sends (ps_engine p1))) (drain_returns p1)"
      using shutdown_ok_drained [OF ok1 over] quiet sd by (simp add: settled_at_def drain_returns_def)
    note settled = settled_steps [OF after this]
    have "sends_ok cfg (ps_engine p1)" using reachable_ok [OF cfg run_engine [OF run1]] by (simp add: engine_ok_def)
    then show ?thesis using settled running_counted by (auto simp: settled_at_def)
  qed
  have late: "process_step cfg ?b (?dist ?b) \<and> (\<forall>t. drain_over t (?dist ?b) \<longrightarrow> ?d \<le> t) \<and>
      (\<exists>p'. (process_step cfg)\<^sup>*\<^sup>* ?b p' \<and> ps_phase p' = Exited 0 \<and> ps_abandoned p' = Some 0 \<and> running (ps_engine p') = [sd])"
    if tick: "0 < ps_working p" and none: "sends (ps_engine p) = []" and starts: "running (ps_engine (?dist p)) = [sd]"
  proof -
    have d: "running (ps_engine (?dist ?b)) = [sd]" using starts by (simp add: b distribute_stopped)
    have step: "process_step cfg ?b (?dist ?b)" by (rule p_distribute [OF alive]) (simp add: b tick)
    have "sends_ok cfg (ps_engine (?dist ?b))"
      using reachable_ok [OF cfg run_engine [OF run_step [OF runb step]]] by (simp add: engine_ok_def)
    then have "sends_size (sends (ps_engine (?dist ?b))) \<noteq> 0" using running_counted d by fastforce
    then have wait: "drain_over t (?dist ?b) \<longrightarrow> ?d \<le> t" for t by (simp add: drain_over_def b)
    let ?r = "drain_returns ?b"
    have s1: "process_step cfg ?b ?r"
      by (rule p_drained [OF alive, of now]) (simp add: drain_over_def b none stopEnqueueKick_def sends_size_def)
    have s2: "process_step cfg ?r (?dist ?r)"
      by (rule p_distribute) (simp_all add: alive_def drain_returns_def b tick)
    have s3: "process_step cfg (?dist ?r) (http_closes False (?dist ?r))"
      by (rule p_closed) (simp_all add: alive_def drain_returns_def b)
    have s4: "process_step cfg (http_closes False (?dist ?r)) (redis_quits False (http_closes False (?dist ?r)))"
      by (rule p_quit) (simp_all add: alive_def http_closes_def drain_returns_def b)
    have "(process_step cfg)\<^sup>*\<^sup>* ?b (redis_quits False (http_closes False (?dist ?r)))"
      using s1 s2 s3 s4 by (meson converse_rtranclp_into_rtranclp rtranclp.rtrancl_refl)
    moreover have "running (ps_engine (redis_quits False (http_closes False (?dist ?r)))) = [sd]"
      using d by (simp add: redis_quits_def http_closes_def drain_returns_def)
    ultimately show ?thesis
      using step wait
      by (intro conjI allI exI [of _ "redis_quits False (http_closes False (?dist ?r))"])
         (simp_all add: redis_quits_def http_closes_def drain_returns_def b none stopEnqueueKick_def sends_size_def)
  qed
  show ?thesis unfolding Let_def using covered late by blast
qed

definition example_ticking :: process where
  "example_ticking = example_serving\<lparr>ps_working := 1\<rparr>"

lemma example_ticking_run: "process_run example_settings' example_config example_ticking"
proof -
  have "process_step example_config example_serving (example_serving\<lparr>ps_working := ps_working example_serving + 1\<rparr>)"
    by (rule p_timer) (simp_all add: alive_def example_serving_state)
  then show ?thesis
    using run_step [OF example_serving_run] by (simp add: example_ticking_def example_serving_state)
qed

theorem drain_covers_sends_not_ticks_witness:
  "\<exists>p'. (process_step example_config)\<^sup>*\<^sup>* (signal_arrives SIGTERM 5000 example_ticking) p' \<and>
     ps_phase p' = Exited 0 \<and> ps_abandoned p' = Some 0 \<and> map send_id (running (ps_engine p')) = [''M1'']"
proof -
  let ?dist = "with_engine (\<lambda>s. snd (distribute_queue example_config (example_world 2000 ''E1'') example_queue s))"
  have e: "ps_engine (?dist example_ticking) = example_sent"
    by (simp add: example_ticking_def example_serving_state example_sent_def)
  obtain sd where sd: "running example_sent = [sd]" "send_id sd = ''M1''"
    by (simp add: example_sent_state send_id_def example_picked)
  have "ps_phase example_ticking = Serving" "0 < ps_working example_ticking" "sends (ps_engine example_ticking) = []"
    by (simp_all add: example_ticking_def example_serving_state example_queued_state)
  then have "\<exists>p'. (process_step example_config)\<^sup>*\<^sup>* (signal_arrives SIGTERM 5000 example_ticking) p' \<and>
      ps_phase p' = Exited 0 \<and> ps_abandoned p' = Some 0 \<and> running (ps_engine p') = [sd]"
    using drain_covers_sends_not_ticks [OF example_config_ok example_ticking_run, where sig = SIGTERM and now = 5000
        and w = "example_world 2000 ''E1''" and q = example_queue and sd = sd, unfolded Let_def e sd(1)] by blast
  then show ?thesis using sd(2) by auto
qed

section \<open>Ports\<close>

lemma parseInt_decimal:
  assumes "of_nat n < double_overflow" and "rest = [] \<or> \<not> is_digit (hd rest)"
  shows "js_parseInt (nat_to_string n @ rest) = Some (int n)"
proof -
  obtain c cs where c: "nat_to_string n = c # cs" by (cases "nat_to_string n") simp_all
  then have d: "is_digit c" using digits_nat_to_string [of n] by simp
  then have s: "\<not> js_space c" by (rule digit_no_space)
  have sign: "c \<noteq> CHR ''-''" "c \<noteq> CHR ''+''" using d by auto
  have "takeWhile is_digit (nat_to_string n @ rest) = nat_to_string n"
  proof -
    have "takeWhile is_digit rest = []" using assms(2) by (cases rest) auto
    then show ?thesis using digits_nat_to_string [of n] by (simp add: list_all_iff)
  qed
  then have digits: "takeWhile is_digit (c # cs @ rest) = c # cs" by (simp only: c append.simps)
  have n: "string_to_nat (c # cs) = n" unfolding c [symmetric] by simp
  have "dropWhile js_space (c # cs @ rest) = c # cs @ rest" using s by simp
  then show ?thesis
    using assms(1) sign digits n by (simp add: js_parseInt_def c Let_def del: takeWhile.simps dropWhile.simps)
qed

text \<open>The port: a \<open>PORT\<close> that writes a positive number is the port the service listens on, and with
  anything that is not a digit after the number it still is; an unset or empty \<open>PORT\<close> gives 3100; and
  whatever \<open>PORT\<close> is, the service never starts on a port that is not positive.\<close>

lemma port_as_configured:
  assumes "0 < n" and "of_nat n < double_overflow" and "rest = [] \<or> \<not> is_digit (hd rest)"
  shows "resolvePort (env(''PORT'' \<mapsto> nat_to_string n @ rest)) = Inr (int n) \<and>
    resolvePort (env(''PORT'' := None)) = Inr 3100 \<and> resolvePort (env(''PORT'' \<mapsto> [])) = Inr 3100 \<and>
    (\<forall>env' p. resolvePort env' = Inr p \<longrightarrow> 0 < p)"
  using parseInt_decimal [OF assms(2,3)] assms(1)
  by (auto simp: resolvePort_def filled_def DEFAULT_PORT_def split: option.splits if_splits)

lemma port_as_configured_witness: "resolvePort (Map.empty(''PORT'' \<mapsto> ''80abc'')) = Inr 80"
proof -
  have "nat_to_string 80 @ ''abc'' = ''80abc''" by code_simp
  moreover have "\<not> is_digit (hd ''abc'')" by (simp add: is_digit_def)
  moreover have "(of_nat 80 :: num) < double_overflow" by (simp add: double_overflow_def)
  ultimately show ?thesis using port_as_configured [of 80 "''abc''" Map.empty] by simp
qed

end
