(* ===== verification/Wire_Schemas.thy ===== *)
theory Wire_Schemas
  imports Json_Schema Http_Layer Webhook
begin

text \<open>
  The JSON of the service's interface: what the schemas of \<open>src/lib/device-message/schemas.ts\<close>,
  \<open>src/http/response-schemas.ts\<close> and \<open>src/engine/webhook/event-schema.ts\<close> accept, as readers of JSON, and
  the JSON that the service writes. Request schemas give the typed value that the routes work with;
  response schemas, which the contract package publishes for adopters, give \<open>Some ()\<close> for a conforming
  value. \<open>isoText\<close> is \<open>Date.prototype.toISOString\<close>.
\<close>

section \<open>Names\<close>

definition command_names :: "commandType list \<Rightarrow> (string \<times> commandType) list" where
  "command_names cs = map (\<lambda>c. (command_text c, c)) cs"

definition phaseSchema :: "jval \<Rightarrow> phase option" where
  "phaseSchema = z_enum (map (\<lambda>p. (phase_string p, p)) PHASES)"

fun status_text :: "deliveryStatus \<Rightarrow> string" where
  "status_text QUEUED = ''QUEUED''"
| "status_text TO_RETRY = ''TO_RETRY''"
| "status_text SENT_TO_NS = ''SENT_TO_NS''"
| "status_text DELIVERED_TO_NS = ''DELIVERED_TO_NS''"
| "status_text SENT_TO_DEVICE = ''SENT_TO_DEVICE''"
| "status_text DELIVERY_SUCCESSFUL = ''DELIVERY_SUCCESSFUL''"
| "status_text DELIVERY_FAILED = ''DELIVERY_FAILED''"

definition deliveryStatusSchema :: "jval \<Rightarrow> deliveryStatus option" where
  "deliveryStatusSchema = z_enum (map (\<lambda>s. (status_text s, s))
     [QUEUED, TO_RETRY, SENT_TO_NS, DELIVERED_TO_NS, SENT_TO_DEVICE, DELIVERY_SUCCESSFUL, DELIVERY_FAILED])"

fun response_text :: "messageResponseStatus \<Rightarrow> string" where
  "response_text EXECUTION_SUCCESS = ''EXECUTION_SUCCESS''"
| "response_text EXECUTION_FAILURE = ''EXECUTION_FAILURE''"

definition messageResponseStatusSchema :: "jval \<Rightarrow> messageResponseStatus option" where
  "messageResponseStatusSchema =
     z_enum (map (\<lambda>s. (response_text s, s)) [EXECUTION_SUCCESS, EXECUTION_FAILURE])"

fun cancel_text :: "cancelResult \<Rightarrow> string" where
  "cancel_text CANCELLED = ''CANCELLED''"
| "cancel_text NOT_CANCELLABLE = ''NOT_CANCELLABLE''"
| "cancel_text NOT_FOUND = ''NOT_FOUND''"

section \<open>Request schemas\<close>

definition relayNodeSchema :: "jval \<Rightarrow> relayNode option" where
  "relayNodeSchema v = do {
     fs \<leftarrow> strict_object [''id'', ''externalReference'', ''snr'', ''rssi''] v;
     i \<leftarrow> optional z_uint32 ''id'' fs;
     ref \<leftarrow> optional z_string ''externalReference'' fs;
     snr \<leftarrow> optional z_number ''snr'' fs;
     rssi \<leftarrow> optional z_number ''rssi'' fs;
     Some \<lparr>rn_id = i, rn_externalReference = ref, rn_snr = snr, rn_rssi = rssi\<rparr>
   }"

definition deviceSchema :: "jval \<Rightarrow> device option" where
  "deviceSchema v = do {
     fs \<leftarrow> strict_object [''type'', ''externalReference'', ''relayNode''] v;
     ty \<leftarrow> required (z_enum [(''ELECTRICITY_METER'', ELECTRICITY_METER)]) ''type'' fs;
     ref \<leftarrow> required z_min1 ''externalReference'' fs;
     relay \<leftarrow> optional relayNodeSchema ''relayNode'' fs;
     Some \<lparr>dev_type = ty, dev_externalReference = ref, dev_relayNode = relay\<rparr>
   }"

definition setDateSchema :: "jval \<Rightarrow> payload option" where
  "setDateSchema v = do {
     fs \<leftarrow> strict_object [''year'', ''month'', ''day''] v;
     y \<leftarrow> required (z_int_range 0 9999) ''year'' fs;
     m \<leftarrow> required (z_int_range 1 12) ''month'' fs;
     d \<leftarrow> required (z_int_range 1 31) ''day'' fs;
     Some (SetDate y m d)
   }"

definition setTimeSchema :: "jval \<Rightarrow> payload option" where
  "setTimeSchema v = do {
     fs \<leftarrow> strict_object [''hour'', ''minute'', ''second''] v;
     h \<leftarrow> required (z_int_range 0 23) ''hour'' fs;
     m \<leftarrow> required (z_int_range 0 59) ''minute'' fs;
     s \<leftarrow> optional (z_int_range 0 59) ''second'' fs;
     Some (SetTime h m s)
   }"

definition requestDataSchema :: "jval \<Rightarrow> requestData option" where
  "requestDataSchema v = do {
     fs \<leftarrow> strict_object [''token'', ''payload''] v;
     token \<leftarrow> optional z_string ''token'' fs;
     payload \<leftarrow> optional (either setDateSchema setTimeSchema) ''payload'' fs;
     Some \<lparr>rd_token = token, rd_payload = payload\<rparr>
   }"

definition create_keys :: "string list" where
  "create_keys = [''commandType'', ''priority'', ''pluginId'', ''requestData'', ''phase'', ''networkId'',
     ''correlationId'', ''device'']"

definition createBodySchema :: "jval \<Rightarrow> createDeviceMessage option" where
  "createBodySchema v = do {
     fs \<leftarrow> strict_object create_keys v;
     command \<leftarrow> required (z_enum (command_names ENQUEUEABLE_COMMAND_TYPES)) ''commandType'' fs;
     prio \<leftarrow> required z_number ''priority'' fs;
     plugin \<leftarrow> required z_min1 ''pluginId'' fs;
     request \<leftarrow> optional requestDataSchema ''requestData'' fs;
     ph \<leftarrow> optional phaseSchema ''phase'' fs;
     network \<leftarrow> required (nullable z_uint32) ''networkId'' fs;
     correlation \<leftarrow> optional z_min1 ''correlationId'' fs;
     dev \<leftarrow> required deviceSchema ''device'' fs;
     Some \<lparr>c_commandType = command, c_priority = prio, c_pluginId = plugin, c_requestData = request,
       c_phase = ph, c_networkId = network, c_correlationId = correlation, c_device = dev\<rparr>
   }"

definition cancelOneSchema :: "jval \<Rightarrow> string option" where
  "cancelOneSchema v = do {
     fs \<leftarrow> strict_object [''correlationId''] v;
     required z_min1 ''correlationId'' fs
   }"

definition z_nonempty :: "(jval \<Rightarrow> 'a list option) \<Rightarrow> jval \<Rightarrow> 'a list option" where
  "z_nonempty f v = (case f v of Some xs \<Rightarrow> if xs = [] then None else Some xs | None \<Rightarrow> None)"

definition cancelManySchema :: "jval \<Rightarrow> string list option" where
  "cancelManySchema v = do {
     fs \<leftarrow> strict_object [''correlationIds''] v;
     required (z_nonempty (z_array z_min1)) ''correlationIds'' fs
   }"

definition tokenDeviceSchema :: "jval \<Rightarrow> (string \<times> string option) option" where
  "tokenDeviceSchema v = do {
     fs \<leftarrow> strict_object [''externalReference'', ''decoderKey''] v;
     ref \<leftarrow> required z_min1 ''externalReference'' fs;
     key \<leftarrow> optional z_string ''decoderKey'' fs;
     Some (ref, key)
   }"

text \<open>The member of the discriminated union that \<open>type\<close> names: its own keys and its payload.\<close>

definition z_single :: "string \<Rightarrow> jval \<Rightarrow> num option" where
  "z_single k v = do {
     fs \<leftarrow> strict_object [k] v;
     required z_number k fs
   }"

definition token_kind :: "string \<Rightarrow> fields \<Rightarrow> tokenKind option" where
  "token_kind ty fs =
     (if ty = ''TOP_UP_KWH'' then map_option TopUpKwh (required (z_single ''kwh'') ''payload'' fs)
      else if ty = ''SET_POWER_LIMIT'' then map_option PowerLimit (required (z_single ''powerLimit'') ''payload'' fs)
      else if map_of fs ''payload'' \<noteq> None then None
      else if ty = ''CLEAR_TAMPER'' then Some ClearTamper
      else if ty = ''CLEAR_CREDIT'' then Some ClearCredit else None)"

definition generateTokenBodySchema :: "jval \<Rightarrow> generateTokenRequest option" where
  "generateTokenBodySchema v = do {
     fs \<leftarrow> strict_object [''pluginId'', ''issueDateString'', ''device'', ''type'', ''payload''] v;
     ty \<leftarrow> required z_string ''type'' fs;
     plugin \<leftarrow> required z_min1 ''pluginId'' fs;
     issued \<leftarrow> required z_min1 ''issueDateString'' fs;
     (ref, key) \<leftarrow> required tokenDeviceSchema ''device'' fs;
     kind \<leftarrow> token_kind ty fs;
     Some \<lparr>tr_pluginId = plugin, tr_input = \<lparr>gt_kind = kind, gt_issueDateString = issued,
       gt_externalReference = ref, gt_decoderKey = key\<rparr>\<rparr>
   }"

section \<open>Response schemas\<close>

definition messageResponseSchema :: "jval \<Rightarrow> unit option" where
  "messageResponseSchema v = do {
     fs \<leftarrow> strict_object [''status'', ''data''] v;
     _ \<leftarrow> required messageResponseStatusSchema ''status'' fs;
     _ \<leftarrow> optional z_record ''data'' fs;
     Some ()
   }"

definition z_errorCode :: "jval \<Rightarrow> errorCode option" where
  "z_errorCode = either (\<lambda>v. map_option CodeNum (z_number v)) (\<lambda>v. map_option CodeStr (z_string v))"

definition failureReasonSchema :: "jval \<Rightarrow> unit option" where
  "failureReasonSchema v = do {
     fs \<leftarrow> strict_object [''reason'', ''errorCode'', ''details'', ''status'', ''timestamp'', ''isFinal''] v;
     _ \<leftarrow> required z_string ''reason'' fs;
     _ \<leftarrow> optional z_errorCode ''errorCode'' fs;
     _ \<leftarrow> optional z_string ''details'' fs;
     _ \<leftarrow> required deliveryStatusSchema ''status'' fs;
     _ \<leftarrow> required z_string ''timestamp'' fs;
     _ \<leftarrow> optional z_boolean ''isFinal'' fs;
     Some ()
   }"

definition response_keys :: "string list" where
  "response_keys = [''id'', ''commandType'', ''priority'', ''pluginId'', ''requestData'', ''phase'',
     ''networkId'', ''correlationId'', ''device'', ''deliveryQueueId'', ''deliveryStatus'', ''response'',
     ''unsolicited'', ''retryCount'', ''failureHistory'']"

definition deviceMessageResponseSchema :: "jval \<Rightarrow> unit option" where
  "deviceMessageResponseSchema v = do {
     fs \<leftarrow> strict_object response_keys v;
     _ \<leftarrow> required z_string ''id'' fs;
     _ \<leftarrow> required (z_enum (command_names COMMAND_TYPES)) ''commandType'' fs;
     _ \<leftarrow> required z_number ''priority'' fs;
     _ \<leftarrow> required z_string ''pluginId'' fs;
     _ \<leftarrow> optional requestDataSchema ''requestData'' fs;
     _ \<leftarrow> optional phaseSchema ''phase'' fs;
     _ \<leftarrow> required (nullable z_uint32) ''networkId'' fs;
     _ \<leftarrow> optional z_string ''correlationId'' fs;
     _ \<leftarrow> required deviceSchema ''device'' fs;
     _ \<leftarrow> required z_string ''deliveryQueueId'' fs;
     _ \<leftarrow> required deliveryStatusSchema ''deliveryStatus'' fs;
     _ \<leftarrow> optional messageResponseSchema ''response'' fs;
     _ \<leftarrow> optional z_boolean ''unsolicited'' fs;
     _ \<leftarrow> optional z_number ''retryCount'' fs;
     _ \<leftarrow> optional (z_array failureReasonSchema) ''failureHistory'' fs;
     Some ()
   }"

text \<open>The webhook's slice of it: the picked fields, all but two of them optional.\<close>

definition webhookMessagePayloadSchema :: "jval \<Rightarrow> unit option" where
  "webhookMessagePayloadSchema v = do {
     fs \<leftarrow> strict_object [''id'', ''correlationId'', ''commandType'', ''deliveryStatus'', ''phase'',
       ''device'', ''response'', ''failureHistory'', ''unsolicited''] v;
     _ \<leftarrow> optional z_string ''id'' fs;
     _ \<leftarrow> optional z_string ''correlationId'' fs;
     _ \<leftarrow> optional (z_enum (command_names COMMAND_TYPES)) ''commandType'' fs;
     _ \<leftarrow> required deliveryStatusSchema ''deliveryStatus'' fs;
     _ \<leftarrow> optional phaseSchema ''phase'' fs;
     _ \<leftarrow> required deviceSchema ''device'' fs;
     _ \<leftarrow> optional messageResponseSchema ''response'' fs;
     _ \<leftarrow> optional (z_array failureReasonSchema) ''failureHistory'' fs;
     _ \<leftarrow> optional z_boolean ''unsolicited'' fs;
     Some ()
   }"

definition webhookEventSchema :: "jval \<Rightarrow> unit option" where
  "webhookEventSchema v = do {
     fs \<leftarrow> strict_object [''eventId'', ''occurredAt'', ''pluginId'', ''message''] v;
     _ \<leftarrow> required z_string ''eventId'' fs;
     _ \<leftarrow> required z_string ''occurredAt'' fs;
     _ \<leftarrow> required z_string ''pluginId'' fs;
     _ \<leftarrow> required webhookMessagePayloadSchema ''message'' fs;
     Some ()
   }"

definition cancelMessageResultSchema :: "jval \<Rightarrow> unit option" where
  "cancelMessageResultSchema v = do {
     fs \<leftarrow> strict_object [''correlationId'', ''result''] v;
     _ \<leftarrow> required z_string ''correlationId'' fs;
     _ \<leftarrow> required (z_enum (map (\<lambda>r. (cancel_text r, r)) [CANCELLED, NOT_CANCELLABLE, NOT_FOUND])) ''result'' fs;
     Some ()
   }"

definition errorBodySchema :: "jval \<Rightarrow> unit option" where
  "errorBodySchema v = do {
     fs \<leftarrow> strict_object [''error'', ''issues''] v;
     _ \<leftarrow> required z_string ''error'' fs;
     _ \<leftarrow> optional (z_array (\<lambda>issue. do {
       is \<leftarrow> strict_object [''path'', ''message''] issue;
       _ \<leftarrow> required z_string ''path'' is;
       required z_string ''message'' is
     })) ''issues'' fs;
     Some ()
   }"

section \<open>What the service writes\<close>

definition relayNode_json :: "relayNode \<Rightarrow> jval" where
  "relayNode_json r = JObj (present ''id'' j_nat (rn_id r) @
     present ''externalReference'' JStr (rn_externalReference r) @ present ''snr'' JNum (rn_snr r) @
     present ''rssi'' JNum (rn_rssi r))"

fun type_text :: "deviceType \<Rightarrow> string" where
  "type_text ELECTRICITY_METER = ''ELECTRICITY_METER''"

definition device_json :: "device \<Rightarrow> jval" where
  "device_json d = JObj ([(''type'', JStr (type_text (dev_type d))),
     (''externalReference'', JStr (dev_externalReference d))] @
     present ''relayNode'' relayNode_json (dev_relayNode d))"

fun payload_json :: "payload \<Rightarrow> jval" where
  "payload_json (SetDate y m d) = JObj [(''year'', j_int y), (''month'', j_int m), (''day'', j_int d)]"
| "payload_json (SetTime h m s) = JObj ([(''hour'', j_int h), (''minute'', j_int m)] @ present ''second'' j_int s)"

definition requestData_json :: "requestData \<Rightarrow> jval" where
  "requestData_json r = JObj (present ''token'' JStr (rd_token r) @ present ''payload'' payload_json (rd_payload r))"

definition network_json :: "nat option \<Rightarrow> jval" where
  "network_json n = (case n of None \<Rightarrow> JNull | Some k \<Rightarrow> j_nat k)"

definition phase_json :: "phase \<Rightarrow> jval" where
  "phase_json p = JStr (phase_string p)"

definition create_json :: "createDeviceMessage \<Rightarrow> jval" where
  "create_json c = JObj ([(''commandType'', JStr (command_text (c_commandType c))),
     (''priority'', JNum (c_priority c)), (''pluginId'', JStr (c_pluginId c))] @
     present ''requestData'' requestData_json (c_requestData c) @ present ''phase'' phase_json (c_phase c) @
     [(''networkId'', network_json (c_networkId c))] @
     present ''correlationId'' JStr (c_correlationId c) @ [(''device'', device_json (c_device c))])"

fun errorCode_json :: "errorCode \<Rightarrow> jval" where
  "errorCode_json (CodeNum x) = JNum x"
| "errorCode_json (CodeStr s) = JStr s"

definition failure_json :: "(time \<Rightarrow> string) \<Rightarrow> failureReason \<Rightarrow> jval" where
  "failure_json isoText f = JObj ([(''reason'', JStr (fr_reason f))] @
     present ''errorCode'' errorCode_json (fr_errorCode f) @ present ''details'' JStr (fr_details f) @
     [(''status'', JStr (status_text (fr_status f))), (''timestamp'', JStr (isoText (fr_timestamp f)))] @
     present ''isFinal'' JBool (fr_isFinal f))"

definition response_json :: "messageResponse \<Rightarrow> jval" where
  "response_json r = JObj ((''status'', JStr (response_text (mr_status r))) # present ''data'' JObj (mr_data r))"

definition history_json :: "(time \<Rightarrow> string) \<Rightarrow> failureReason list \<Rightarrow> jval" where
  "history_json isoText fs = JArr (map (failure_json isoText) fs)"

definition message_json :: "(time \<Rightarrow> string) \<Rightarrow> deviceMessage \<Rightarrow> jval" where
  "message_json isoText m = JObj ([(''id'', JStr (m_id m)), (''commandType'', JStr (command_text (m_commandType m))),
     (''pluginId'', JStr (m_pluginId m)), (''priority'', JNum (m_priority m)),
     (''device'', device_json (m_device m)), (''networkId'', network_json (m_networkId m))] @
     present ''correlationId'' JStr (m_correlationId m) @
     present ''requestData'' requestData_json (m_requestData m) @ present ''phase'' phase_json (m_phase m) @
     [(''deliveryQueueId'', JStr (m_deliveryQueueId m)), (''deliveryStatus'', JStr (status_text (m_deliveryStatus m)))] @
     present ''response'' response_json (m_response m) @ present ''unsolicited'' JBool (m_unsolicited m) @
     present ''retryCount'' j_nat (m_retryCount m) @
     present ''failureHistory'' (history_json isoText) (m_failureHistory m) @
     present ''concurrencyRateLimitKey'' JStr (m_concurrencyRateLimitKey m))"

definition webhookMessage_json :: "(time \<Rightarrow> string) \<Rightarrow> webhookMessagePayload \<Rightarrow> jval" where
  "webhookMessage_json isoText p = JObj ([(''deliveryStatus'', JStr (status_text (wp_deliveryStatus p))),
     (''device'', device_json (wp_device p))] @ present ''id'' JStr (wp_id p) @
     present ''correlationId'' JStr (wp_correlationId p) @
     present ''commandType'' (\<lambda>c. JStr (command_text c)) (wp_commandType p) @
     present ''phase'' phase_json (wp_phase p) @ present ''response'' response_json (wp_response p) @
     present ''failureHistory'' (history_json isoText) (wp_failureHistory p) @
     present ''unsolicited'' JBool (wp_unsolicited p))"

definition event_json :: "(time \<Rightarrow> string) \<Rightarrow> webhookEvent \<Rightarrow> jval" where
  "event_json isoText e = JObj [(''eventId'', JStr (we_eventId e)), (''occurredAt'', JStr (isoText (we_occurredAt e))),
     (''pluginId'', JStr (we_pluginId e)), (''message'', webhookMessage_json isoText (we_message e))]"

definition cancelResult_json :: "cancelMessageResult \<Rightarrow> jval" where
  "cancelResult_json r = JObj [(''correlationId'', JStr (cr_correlationId r)), (''result'', JStr (cancel_text (cr_result r)))]"

definition error_json :: "string \<Rightarrow> jval" where
  "error_json reason = JObj [(''error'', JStr reason)]"

text \<open>
  The reply to a request that a schema refuses (\<open>src/http/validation-errors.ts\<close>): the library's issues,
  each a JSON pointer and an optional message, with the pointers as dotted paths.
\<close>

definition dottedPath :: "string \<Rightarrow> string" where
  "dottedPath instancePath =
     (if instancePath = [] \<or> instancePath = ''/'' then []
      else map (\<lambda>c. if c = CHR ''/'' then CHR ''.'' else c)
        (if hd instancePath = CHR ''/'' then tl instancePath else instancePath))"

definition validation_json :: "bool \<Rightarrow> (string \<times> string option) list \<Rightarrow> jval" where
  "validation_json params issues = JObj
     [(''error'', JStr (if params then ''Invalid path parameters'' else ''Invalid request body'')),
      (''issues'', JArr (map (\<lambda>(path, message). JObj [(''path'', JStr (dottedPath path)),
         (''message'', JStr (case message of None \<Rightarrow> [] | Some t \<Rightarrow> t))]) issues))]"

section \<open>Posting a body\<close>

text \<open>
  \<open>POST /messages\<close> from the JSON body on: the key is checked first, then the body's shape, and the
  handler sees the typed value.
\<close>

definition post_message ::
  "engineConfig \<Rightarrow> string option \<Rightarrow> headerValue option \<Rightarrow> world \<Rightarrow> msg_id \<Rightarrow> jval \<Rightarrow> engine \<Rightarrow>
   deviceMessage httpReply \<times> engine" where
  "post_message cfg apiKey header w messageId body s =
     (case createBodySchema body of
        Some create \<Rightarrow> route_enqueue cfg apiKey header w messageId create s
      | None \<Rightarrow> command_route apiKey header False (\<lambda>s. (Unhandled (PlainError ''unreachable''), s)) s)"

end
