(* ===== verification/Wire_Requests.thy ===== *)
theory Wire_Requests
  imports Wire_Schemas
begin

text \<open>
  Requests as JSON: what the schemas read back from a written request, and what every request that they
  accept satisfies.
\<close>

section \<open>Fields of a written object\<close>

lemma option_id [simp]: "(case x of None \<Rightarrow> None | Some y \<Rightarrow> Some y) = x"
  by (cases x) simp_all

lemma map_add_at: "(f ++ g) k = (case g k of None \<Rightarrow> f k | Some v \<Rightarrow> Some v)"
  by (simp add: map_add_def)

lemmas written_fields = map_of_append map_add_at map_of_present

lemma optional_written:
  "map_of fs k = map_option g x \<Longrightarrow> (\<And>y. x = Some y \<Longrightarrow> f (g y) = Some y) \<Longrightarrow> optional f k fs = Some x"
  by (cases x) (simp_all add: optional_def)

lemma optional_conforms:
  "map_of fs k = map_option g x \<Longrightarrow> (\<And>y. x = Some y \<Longrightarrow> f (g y) \<noteq> None) \<Longrightarrow> optional f k fs \<noteq> None"
  by (cases x) (simp_all add: optional_def)

lemma bind_conforms: "x \<noteq> None \<Longrightarrow> Option.bind x (\<lambda>_. y) = y"
  by (cases x) simp_all

lemma required_conforms: "map_of fs k = Some v \<Longrightarrow> f v \<noteq> None \<Longrightarrow> required f k fs \<noteq> None"
  by (simp add: required_def)

section \<open>Requests\<close>

lemma command_names_text: "c \<in> set cs \<Longrightarrow> map_of (command_names cs) (command_text c) = Some c"
proof (induction cs)
  case (Cons d cs)
  have "command_text d = command_text c \<Longrightarrow> d = c" by (cases c; cases d) simp_all
  then show ?case using Cons by (auto simp: command_names_def)
qed simp

lemma command_names_Some: "map_of (command_names cs) s = Some c \<Longrightarrow> c \<in> set cs"
  by (auto simp: command_names_def dest!: map_of_SomeD)

lemma phase_reads_back [simp]: "phaseSchema (phase_json p) = Some p"
  by (cases p) (simp_all add: phaseSchema_def phase_json_def z_enum_def PHASES_def)

lemma j_nat_not_null [simp]: "j_nat n \<noteq> JNull"
  by (simp add: j_nat_def)

lemma network_reads_back: "pred_option uint32 n \<Longrightarrow> nullable z_uint32 (network_json n) = Some n"
  by (cases n) (simp_all add: nullable_def network_json_def uint32_def schema_simps)

lemma relayNode_reads_back: "valid_relayNode r \<Longrightarrow> relayNodeSchema (relayNode_json r) = Some r"
  by (cases "rn_id r"; cases "rn_externalReference r"; cases "rn_snr r"; cases "rn_rssi r")
     (simp_all add: relayNodeSchema_def relayNode_json_def schema_simps present_def optional_def valid_relayNode_def
        uint32_def)

lemma device_reads_back: "valid_device d \<Longrightarrow> deviceSchema (device_json d) = Some d"
  by (cases "dev_relayNode d"; cases "dev_type d")
     (simp_all add: deviceSchema_def device_json_def schema_simps present_def optional_def required_def
        valid_device_def relayNode_reads_back)

lemma payload_reads_back: "valid_payload p \<Longrightarrow> either setDateSchema setTimeSchema (payload_json p) = Some p"
proof (cases p)
  case (SetDate y m d)
  then show "valid_payload p \<Longrightarrow> ?thesis"
    by (simp add: either_def setDateSchema_def schema_simps required_def)
next
  case (SetTime h m s)
  then show "valid_payload p \<Longrightarrow> ?thesis"
    by (cases s) (simp_all add: either_def setDateSchema_def setTimeSchema_def schema_simps required_def
        optional_def present_def)
qed

lemma requestData_reads_back: "valid_requestData r \<Longrightarrow> requestDataSchema (requestData_json r) = Some r"
  by (cases "rd_token r"; cases "rd_payload r")
     (simp_all add: requestDataSchema_def requestData_json_def schema_simps present_def optional_def
        valid_requestData_def payload_reads_back)

lemma create_reads_back:
  assumes "createDeviceMessageSchema c"
  shows "createBodySchema (create_json c) = Some c"
proof -
  have "c_commandType c \<in> set ENQUEUEABLE_COMMAND_TYPES"
    using assms by (simp add: createDeviceMessageSchema_def isEnqueueableCommand_def isTypeIn_def)
  then show ?thesis
    using assms
    by (cases "c_requestData c"; cases "c_phase c"; cases "c_correlationId c")
       (simp_all add: createBodySchema_def create_json_def create_keys_def schema_simps present_def optional_def
          required_def createDeviceMessageSchema_def command_names_text requestData_reads_back device_reads_back
          network_reads_back)
qed

section \<open>What an accepted request satisfies\<close>

lemma z_uint32_valid: "z_uint32 v = Some n \<Longrightarrow> uint32 n"
  unfolding uint32_def by (rule z_uint32_bound)

lemma required_min1: "required z_min1 k fs = Some s \<Longrightarrow> s \<noteq> []"
  by (auto simp: required_Some dest: z_min1_nonempty)

lemma relayNode_valid: "relayNodeSchema v = Some r \<Longrightarrow> valid_relayNode r"
  unfolding relayNodeSchema_def bind_eq_Some_conv valid_relayNode_def
  by (elim exE conjE) (auto elim!: optional_satisfies intro: z_uint32_valid)

lemma device_valid: "deviceSchema v = Some d \<Longrightarrow> valid_device d"
  unfolding deviceSchema_def bind_eq_Some_conv valid_device_def
  by (elim exE conjE)
     (auto elim!: optional_satisfies dest: required_min1 intro: relayNode_valid)

lemma payload_valid: "either setDateSchema setTimeSchema v = Some p \<Longrightarrow> valid_payload p"
proof -
  have d: "valid_payload p" if "setDateSchema v = Some p"
    using that unfolding setDateSchema_def bind_eq_Some_conv
    by (elim exE conjE) (auto simp: required_Some dest!: z_int_range_bounds)
  have t: "valid_payload p" if "setTimeSchema v = Some p"
    using that unfolding setTimeSchema_def bind_eq_Some_conv
    by (elim exE conjE)
       (auto simp: required_Some dest!: z_int_range_bounds elim!: optional_satisfies)
  show "either setDateSchema setTimeSchema v = Some p \<Longrightarrow> valid_payload p"
    using d t by (auto simp: either_def split: option.splits)
qed

lemma requestData_valid: "requestDataSchema v = Some r \<Longrightarrow> valid_requestData r"
  unfolding requestDataSchema_def bind_eq_Some_conv valid_requestData_def
  by (elim exE conjE) (auto elim!: optional_satisfies intro: payload_valid)

lemma network_valid: "nullable z_uint32 v = Some n \<Longrightarrow> pred_option uint32 n"
  by (auto simp: nullable_def split: if_splits dest: z_uint32_valid)

lemma create_valid: "createBodySchema v = Some c \<Longrightarrow> createDeviceMessageSchema c"
  unfolding createBodySchema_def bind_eq_Some_conv createDeviceMessageSchema_def
  by (elim exE conjE)
     (auto simp: isEnqueueableCommand_def isTypeIn_def required_Some z_enum_def
        dest: command_names_Some required_min1 z_min1_nonempty network_valid device_valid
        elim!: optional_satisfies intro: requestData_valid split: option.splits)

section \<open>Cancel and token requests\<close>

lemma cancelOne_reads: "cancelOneSchema (JObj [(''correlationId'', JStr c)]) = (if cancelOneBodySchema c then Some c else None)"
  by (simp add: cancelOneSchema_def strict_object_def required_def z_min1_def cancelOneBodySchema_def)

lemma those_min1: "those (map z_min1 (map JStr cs)) = (if list_all (\<lambda>s. s \<noteq> []) cs then Some cs else None)"
  by (induction cs) (auto simp: z_min1_def)

lemma cancelMany_reads:
  "cancelManySchema (JObj [(''correlationIds'', JArr (map JStr cs))]) = (if cancelManyBodySchema cs then Some cs else None)"
  unfolding cancelManySchema_def z_nonempty_def cancelManyBodySchema_def required_def
  by (simp add: strict_object_def those_min1 del: map_map)

lemma z_min1_Nil [simp]: "z_min1 v \<noteq> Some []"
  using z_min1_nonempty by blast

lemma token_valid: "generateTokenBodySchema v = Some r \<Longrightarrow> generateTokenSchema r"
  unfolding generateTokenBodySchema_def tokenDeviceSchema_def bind_eq_Some_conv generateTokenSchema_def
  by (elim exE conjE) (auto simp: required_Some bind_eq_Some_conv)

end
