(* ===== verification/Wire_Invariant.thy ===== *)
theory Wire_Invariant
  imports Wire_Requests Engine_Claims
begin

text \<open>
  What the service holds is always something its published schemas can describe: every stored hash keeps
  the device, request data and network that passed the request schema, and every stored notification
  names a valid device.
\<close>

section \<open>The invariant\<close>

definition wire_hash :: "mhash \<Rightarrow> bool" where
  "wire_hash h \<longleftrightarrow> pred_option valid_device (h_device h) \<and> pred_option valid_requestData (h_requestData h) \<and>
     pred_option uint32 (h_networkId h)"

definition wire_redis :: "redis \<Rightarrow> bool" where
  "wire_redis r \<longleftrightarrow> (\<forall>k h. hashes r k = Some h \<longrightarrow> wire_hash h)"

definition wire_record :: "webhookStoredRecord \<Rightarrow> bool" where
  "wire_record r \<longleftrightarrow> valid_device (wp_device (we_message (sr_event r)))"

definition wire_outbox :: "webhook_db \<Rightarrow> bool" where
  "wire_outbox d \<longleftrightarrow> (\<forall>k r. wb_records d k = Some r \<longrightarrow> wire_record r)"

definition wire_ok :: "engine \<Rightarrow> bool" where
  "wire_ok s \<longleftrightarrow> wire_redis (db s) \<and> wire_outbox (whdb s)"

definition wire_message :: "deviceMessage \<Rightarrow> bool" where
  "wire_message m \<longleftrightarrow> valid_device (m_device m) \<and> pred_option valid_requestData (m_requestData m) \<and>
     pred_option uint32 (m_networkId m)"

named_theorems wire "operations that keep the stored values describable"

section \<open>Redis commands\<close>

lemma wire_same_hashes: "hashes r' = hashes r \<Longrightarrow> wire_redis r \<Longrightarrow> wire_redis r'"
  by (simp add: wire_redis_def)

lemma wire_empty_hash [simp]: "wire_hash empty_hash"
  by (simp add: wire_hash_def empty_hash_def)

lemma wire_hset [wire]:
  "wire_redis r \<Longrightarrow> (\<And>h. wire_hash h \<Longrightarrow> wire_hash (f h)) \<Longrightarrow> wire_redis (hset k f r)"
  by (auto simp: wire_redis_def hset_def split: option.split)

lemma wire_hdel [wire]:
  "wire_redis r \<Longrightarrow> (\<And>h. wire_hash h \<Longrightarrow> wire_hash (f h)) \<Longrightarrow> wire_redis (hdel k f r)"
  by (auto simp: wire_redis_def hdel_def split: option.split)

lemma wire_status [simp]:
  "wire_hash (h\<lparr>h_deliveryStatus := a\<rparr>) = wire_hash h" "wire_hash (h\<lparr>h_deliveryQueueId := b\<rparr>) = wire_hash h"
  "wire_hash (h\<lparr>h_concurrencyRateLimitKey := c\<rparr>) = wire_hash h" "wire_hash (h\<lparr>h_retryCount := d\<rparr>) = wire_hash h"
  "wire_hash (h\<lparr>h_failureHistory := e\<rparr>) = wire_hash h"
  by (simp_all add: wire_hash_def)

lemma wire_commands [wire]:
  "wire_redis r \<Longrightarrow> wire_redis (r_zadd k sc m r)" "wire_redis r \<Longrightarrow> wire_redis (r_zaddXx k sc m r)"
  "wire_redis r \<Longrightarrow> wire_redis (r_zrem k m r)" "wire_redis r \<Longrightarrow> wire_redis (sadd k m r)"
  "wire_redis r \<Longrightarrow> wire_redis (srem k m r)" "wire_redis r \<Longrightarrow> wire_redis (expire k t r)"
  "wire_redis r \<Longrightarrow> wire_redis (del_hash k r)" "wire_redis r \<Longrightarrow> wire_redis (del_str k r)"
  "wire_redis r \<Longrightarrow> wire_redis (set_ex k v t r)" "wire_redis r \<Longrightarrow> wire_redis (r\<lparr>zsets := z\<rparr>)"
  "wire_redis r \<Longrightarrow> wire_redis (redis_at t r)"
  by (auto simp: wire_redis_def redis_command_defs redis_at_def)

lemma wire_fold [wire]: "wire_redis r \<Longrightarrow> (\<And>x r. wire_redis r \<Longrightarrow> wire_redis (f x r)) \<Longrightarrow> wire_redis (fold f xs r)"
  by (induction xs arbitrary: r) auto

section \<open>Store operations\<close>

lemma wire_serialize: "createDeviceMessageSchema c \<Longrightarrow> wire_hash (serializeCreateDeviceMessage c)"
  by (simp add: wire_hash_def serializeCreateDeviceMessage_def createDeviceMessageSchema_def)

lemma wire_fetch [wire]:
  "wire_redis r \<Longrightarrow> wire_redis (snd (fetchNextMessageInQueueAndMove src dst ls c t st mx r))"
  by (auto simp: fetchNextMessageInQueueAndMove_def Let_def split: option.split intro!: wire)

lemma wire_moveMessage [wire]:
  "wire_redis r \<Longrightarrow> wire_redis (snd (moveMessageBetweenQueues src dst key ikey m sc st dq ex r))"
  by (auto simp: moveMessageBetweenQueues_def Let_def intro!: wire)

lemma wire_requeueMessage [wire]: "wire_redis r \<Longrightarrow> wire_redis (snd (requeueMessage m a b p t r))"
  using wire_moveMessage [of r a b "messageKey m" "[]" m "- p" QUEUED "[]" "ttl_instant t 0"]
  by (auto simp: requeueMessage_def split: prod.split intro!: wire)

lemma wire_removeMessage [wire]: "wire_redis r \<Longrightarrow> wire_redis (snd (removeMessageFromQueue k m r))"
  by (auto simp: removeMessageFromQueue_def intro!: wire)

lemma wire_enqueueMessage:
  "createDeviceMessageSchema c \<Longrightarrow> wire_redis r \<Longrightarrow> wire_redis (snd (enqueueDeviceMessage c k ttl i t r))"
  by (auto simp: enqueueDeviceMessage_def Let_def wire_serialize split: option.split intro!: wire)

lemma wire_cleanup [wire]: "wire_redis r \<Longrightarrow> wire_redis (messageFullCleanup m ks r)"
  by (auto simp: messageFullCleanup_def Let_def split: option.split intro!: wire)

lemma wire_enterRetry_write [wire]:
  "wire_redis r \<Longrightarrow> wire_redis (enterRetry_write m k n hist due stale rate r)"
  by (auto simp: enterRetry_write_def Let_def split: option.split intro!: wire)

lemma wire_canAdmit [wire]: "wire_redis r \<Longrightarrow> wire_redis (snd (canAdmit w p q r))"
  by (auto simp: canAdmit_def lockQueueForTimeMs_def validateAndCleanConcurrencyRateLimit_def Let_def
      split: admission.split option.split intro!: wire)

section \<open>Messages read from the store\<close>

lemma deserialized_wire: "wire_hash h \<Longrightarrow> deserializeMessage i h = Inr m \<Longrightarrow> wire_message m"
  by (auto simp: wire_hash_def wire_message_def deserializeMessage_def complete_hash_def split: if_splits)

lemma stored_wire: "wire_redis r \<Longrightarrow> getMessageById i r = Inr (Some m) \<Longrightarrow> wire_message m"
  unfolding getMessageById_def wire_redis_def
  by (cases "hashes r (messageKey i)"; cases "deserializeMessage i (the (hashes r (messageKey i)))")
     (auto intro: deserialized_wire)

section \<open>Notifications\<close>

lemma built_wire:
  "buildWebhookEvent m t i = Inr e \<Longrightarrow> pred_option valid_device (p_device m) \<Longrightarrow>
     valid_device (wp_device (we_message e))"
  by (auto simp: buildWebhookEvent_def omitInternalFields_eq Let_def split: if_splits)

lemma wire_outbox_simps:
  "wire_outbox (d\<lparr>wb_pending := z\<rparr>) = wire_outbox d" "wire_outbox (d\<lparr>wb_expires := t\<rparr>) = wire_outbox d"
  "wire_outbox (d\<lparr>wb_results := rs\<rparr>) = wire_outbox d"
  by (simp_all add: wire_outbox_def)

lemma wire_record_simps [simp]:
  "wire_record (r\<lparr>sr_attemptCount := n\<rparr>) = wire_record r" "wire_record (r\<lparr>sr_lastError := x\<rparr>) = wire_record r"
  by (simp_all add: wire_record_def)

lemma wire_outbox_ops [wire]:
  "wire_outbox d \<Longrightarrow> wire_record r \<Longrightarrow> wire_outbox (wb_enqueue r t d)"
  "wire_outbox d \<Longrightarrow> wire_record r \<Longrightarrow> wire_outbox (wb_reschedule r t d)"
  "wire_outbox d \<Longrightarrow> wire_outbox (wb_complete i d)"
  "wire_outbox d \<Longrightarrow> wire_record r \<Longrightarrow> wire_outbox (wb_deadLetter r ttl t d)"
  "wire_outbox d \<Longrightarrow> wire_outbox (recordWebhookResult res d)"
  by (auto simp: wire_outbox_def wb_defs)

lemma wire_onFailure [wire]: "wire_outbox d \<Longrightarrow> wire_record r \<Longrightarrow> wire_outbox (wb_onFailure c r e t d)"
  by (auto simp: wb_onFailure_def Let_def intro!: wire)

lemma wire_deliverOne [wire]: "wire_outbox d \<Longrightarrow> wire_outbox (wb_deliverOne c i t reply t' d)"
proof (cases "wb_getRecord i d")
  case (Some r)
  assume d: "wire_outbox d"
  then have "wire_record r" using Some by (auto simp: wb_getRecord_def wire_outbox_def)
  then show ?thesis using d Some
    by (auto simp: wb_deliverOne_def Let_def split: fetchReply.split intro!: wire)
qed (auto simp: wb_deliverOne_def intro!: wire)

section \<open>The engine\<close>

lemma wire_metric [simp]:
  "wire_ok (recordStageClaimMiss st s) = wire_ok s" "wire_ok (recordMessageTerminal o' n s) = wire_ok s"
  "wire_ok (recordIngressUnhandled i s) = wire_ok s" "wire_ok (s\<lparr>kicks := k\<rparr>) = wire_ok s"
  "wire_ok (track p m s) = wire_ok s" "wire_ok (untrack sd s) = wire_ok s"
  "wire_ok (s\<lparr>running := [], sends := [], canKickDistribute := b\<rparr>) = wire_ok s"
  "wire_ok (stopEnqueueKick s) = wire_ok s"
  by (simp_all add: wire_ok_def stopEnqueueKick_def)

lemma wire_with_db [wire]: "wire_ok s \<Longrightarrow> (\<And>r. wire_redis r \<Longrightarrow> wire_redis (f r)) \<Longrightarrow> wire_ok (with_db f s)"
  by (simp add: wire_ok_def)

lemma wire_set_db [wire]: "wire_ok s \<Longrightarrow> wire_redis r \<Longrightarrow> wire_ok (s\<lparr>db := r\<rparr>)"
  by (simp add: wire_ok_def)

lemma wire_db: "wire_ok s \<Longrightarrow> wire_redis (db s)"
  by (simp add: wire_ok_def)

lemma wire_emit [wire]:
  assumes "wire_ok s" and "pred_option valid_device (p_device m)"
  shows "wire_ok (snd (emitDeliveryEvent cfg w m s))"
proof -
  have "wire_outbox (snd (storeAndEmit m (w_now w) (w_eventId w) (w_persistFails w) (whdb s)))"
    using assms built_wire [of m "w_now w" "w_eventId w"]
    by (auto simp: storeAndEmit_def wire_ok_def wire_record_def split: sum.split intro!: wire)
  then show ?thesis using assms
    by (auto simp: emitDeliveryEvent_def wire_ok_def split: option.split prod.split)
qed

lemma wire_emitted:
  "emitDeliveryEvent cfg w m s = (res, s') \<Longrightarrow> wire_ok s \<Longrightarrow> pred_option valid_device (p_device m) \<Longrightarrow> wire_ok s'"
  using wire_emit [of s m cfg w] by simp

lemma wire_purge [wire]: "wire_ok s \<Longrightarrow> wire_ok (purge m p s)"
  by (auto simp: purge_def intro!: wire)

lemma wire_advance [wire]: "wire_ok s \<Longrightarrow> wire_ok (snd (advance cfg w m p st d n s))"
  by (auto simp: advance_def move_def Let_def wire_db split: option.split prod.split intro!: wire
      dest!: arg_cong [where f = snd])

lemma wire_enterRetry [wire]: "wire_ok s \<Longrightarrow> wire_ok (snd (enterRetry cfg w m k n hist p s))"
  by (auto simp: enterRetry_def Let_def intro!: wire)

lemma partial_device [simp]: "p_device (partial_of m) = Some (m_device m)"
  by (simp add: partial_of_def)

lemma wire_message_device: "wire_message m \<Longrightarrow> valid_device (m_device m)"
  by (simp add: wire_message_def)

lemma stored_device: "wire_ok s \<Longrightarrow> getMessageById i (db s) = Inr (Some m) \<Longrightarrow> valid_device (m_device m)"
  using stored_wire by (auto simp: wire_ok_def wire_message_def)

lemma wire_then [wire]:
  "wire_ok (snd fs) \<Longrightarrow> (\<And>u s1. wire_ok s1 \<Longrightarrow> wire_ok (g u s1)) \<Longrightarrow>
     wire_ok (snd (case fs of (Inl e, s1) \<Rightarrow> (k e, s1) | (Inr u, s1) \<Rightarrow> (h u, g u s1)))"
  by (cases fs; cases "fst fs") auto

lemma wire_pair [wire]: "wire_ok (snd fs) \<Longrightarrow> wire_ok (snd (case fs of (u, s1) \<Rightarrow> (h u, s1)))"
  by (cases fs) simp

lemma wire_retryOrFail [wire]: "wire_ok s \<Longrightarrow> wire_ok (snd (retryOrFail cfg w i k ctx p s))"
  by (auto simp: retryOrFail_def Let_def split: sum.split option.split intro!: wire intro: stored_device)

definition wire_event :: "parsedIncomingEvent \<Rightarrow> bool" where
  "wire_event e \<longleftrightarrow> valid_device (e_device e)"

lemma resolved_device: "m_device (resolved_message t e m) = e_device e"
  by (simp add: resolved_message_def Let_def split: option.split)

lemma wire_processEvent [wire]:
  assumes s: "wire_ok s" and e: "wire_event e"
  shows "wire_ok (snd (processEvent cfg w e p s))"
  using e unfolding processEvent_def Let_def
  by (auto simp: s unsolicited_message_def resolved_device wire_event_def split: sum.split option.split intro!: wire)

lemma wire_handle [wire]:
  "wire_ok s \<Longrightarrow> (\<And>e. parsed = Inr (Some e) \<Longrightarrow> wire_event e) \<Longrightarrow> wire_ok (snd (handle cfg w parsed p s))"
  by (auto simp: handle_def split: sum.split option.split prod.split dest!: arg_cong [where f = snd] intro!: wire)

lemma wire_failPermanently [wire]:
  "wire_ok s \<Longrightarrow> valid_device (m_device m) \<Longrightarrow> wire_ok (snd (failPermanently cfg w m p s))"
  by (auto simp: failPermanently_def expired_message_def Let_def split: sum.split prod.split
      dest!: arg_cong [where f = snd] intro!: wire)

lemma wire_requeue [wire]: "wire_ok s \<Longrightarrow> wire_ok (snd (requeue w m a b pr s))"
  by (auto simp: requeue_def Let_def split: prod.split dest!: arg_cong [where f = snd] intro!: wire wire_db)

lemma wire_reschedule [wire]: "wire_ok s \<Longrightarrow> wire_ok (reschedule cfg w st m age p s)"
  by (auto simp: reschedule_def Let_def intro!: wire)

lemma wire_drop [wire]: "wire_ok s \<Longrightarrow> wire_ok (drop_member k m s)"
  by (auto simp: drop_member_def intro!: wire)

lemma wire_stage_action [wire]:
  assumes "wire_ok s" and "valid_device (m_device m)" and "\<And>e. v_fetchStatus v = Inr (Some e) \<Longrightarrow> wire_event e"
  shows "wire_ok (snd (stage_action st cfg w v q m p age s))"
  using assms
  by (cases st)
     (auto simp: action_ns_def action_relayNode_def action_device_def action_awaitingTask_def action_retry_def Let_def
        split: sum.split option.split prod.split intro!: wire dest!: arg_cong [where f = snd])

lemma wire_drain_member [wire]:
  assumes "wire_ok s" and "\<And>e. v_fetchStatus v = Inr (Some e) \<Longrightarrow> wire_event e"
  shows "wire_ok (snd (drain_member cfg now queue w v i s))"
proof -
  have "wire_ok (snd (act cfg w v queue m p age s))" if "getMessageById i (db s) = Inr (Some m)" for m p age
    using wire_stage_action [OF assms(1) stored_device [OF assms(1) that] assms(2)]
    by (auto simp: act_def split: sum.split prod.split dest!: arg_cong [where f = snd])
  then show ?thesis using assms(1)
    by (auto simp: drain_member_def Let_def split: sum.split option.split prod.split intro!: wire
        dest!: arg_cong [where f = snd])
qed

lemma hset_here: "hashes (hset k f r) k = Some (f (case hashes r k of None \<Rightarrow> empty_hash | Some h \<Rightarrow> h))"
  by (simp add: hset_def)

lemma fetched_wire:
  assumes "wire_redis r" and "fst (fetchNextMessageInQueueAndMove src dst ls c t st mx r) = Some (i, h)"
  shows "wire_hash h"
proof -
  let ?f = "fetchNextMessageInQueueAndMove src dst ls c t st mx r"
  have "hashes (snd ?f) (messageKey i) = Some h"
    using assms(2)
    by (auto simp: fetchNextMessageInQueueAndMove_def Let_def hset_here
        split: option.split_asm if_split_asm)
  then show ?thesis using wire_fetch [OF assms(1)] by (auto simp: wire_redis_def)
qed

lemma pick_wire:
  assumes "wire_ok s"
  shows "wire_ok (snd (pickIntoNs cfg w q p l s))"
    and "fst (pickIntoNs cfg w q p l s) = Inr (Some m) \<Longrightarrow> valid_device (m_device m)"
proof -
  let ?f = "fetchNextMessageInQueueAndMove q (st_key (STAGES St_ns) [])
            listOfInitialQueuesToDistributeFrom
            (case l of None \<Rightarrow> [] | Some l \<Rightarrow> crl_key l) (w_now w + st_entryWaitMs (STAGES St_ns) (entry_context cfg w p 0))
            (st_entryStatus (STAGES St_ns))
            (case l of None \<Rightarrow> 0 | Some l \<Rightarrow> crl_max l) (db s)"
  obtain raw r where f: "?f = (raw, r)" by fastforce
  have p: "pickIntoNs cfg w q p l s = ((case raw of None \<Rightarrow> Inr None
      | Some (i, rawHash) \<Rightarrow> map_sum id Some (deserializeMessage i rawHash)), s\<lparr>db := r\<rparr>)"
    unfolding pickIntoNs_def Let_def f by simp
  have "wire_redis r" using wire_fetch [OF wire_db [OF assms]] f by (metis snd_conv)
  then show "wire_ok (snd (pickIntoNs cfg w q p l s))" unfolding p using assms by (simp add: wire_set_db)
  assume "fst (pickIntoNs cfg w q p l s) = Inr (Some m)"
  then obtain i h where h: "raw = Some (i, h)" "deserializeMessage i h = Inr m"
    unfolding p by (cases raw; cases "deserializeMessage (fst (the raw)) (snd (the raw))") auto
  have "wire_hash h" using fetched_wire [OF wire_db [OF assms]] f h(1) by (metis fst_conv)
  then show "valid_device (m_device m)" using deserialized_wire h(2) by (auto simp: wire_message_def)
qed

lemma wire_distribute [wire]:
  assumes "wire_ok s" shows "wire_ok (snd (distribute_queue cfg w q s))"
proof -
  have a: "wire_ok (s\<lparr>db := snd (canAdmit w p q (db s))\<rparr>)" for p
    using assms by (auto intro!: wire wire_db)
  have b: "wire_ok (snd (case pickIntoNs cfg w q p l s' of (Inl err, s1) \<Rightarrow> (Inl err, s1)
      | (Inr None, s1) \<Rightarrow> (Inr (), s1)
      | (Inr (Some message), s1) \<Rightarrow>
          (case (if retry_count message = 0 then emitDeliveryEvent cfg w (partial_of message) s1 else (Inr (), s1)) of
             (Inl err, s2) \<Rightarrow> (Inl err, s2)
           | (Inr _, s2) \<Rightarrow> (Inr (), track p message s2))))" if "wire_ok s'" for s' p l
    using pick_wire [OF that, of cfg w q p l]
    by (auto split: sum.split option.split prod.split dest!: wire_emitted)
  show ?thesis
  proof (cases "Option.bind (getPluginIdFromInitialQueueKey q)
      (\<lambda>i. Option.bind (registry_get (cf_registry cfg) i) delivery_of)")
    case (Some p)
    obtain ok r where c: "canAdmit w p q (db s) = (ok, r)" by fastforce
    then have "wire_ok (s\<lparr>db := r\<rparr>)" using a [of p] by simp
    then show ?thesis using Some b [of "s\<lparr>db := r\<rparr>" p "concurrency_limit p q"]
      by (cases ok) (simp_all add: distribute_queue_def distribute_owned c)
  qed (use assms distribute_not_owned [of q cfg w s] in auto)
qed

lemma wire_settle [wire]: "wire_ok s \<Longrightarrow> wire_ok (snd (settle_send cfg w sd reply s))"
  by (auto simp: settle_send_def sendOneToNetworkServer_def split: sum.split prod.split intro!: wire
      dest!: arg_cong [where f = snd])

lemma wire_cancelOneMessage [wire]: "wire_ok s \<Longrightarrow> wire_ok (snd (cancelOneMessage cfg m s))"
  by (auto simp: cancelOneMessage_def claimFromQueue_def Let_def wire_db split: option.split prod.split bool.split intro!: wire
      dest!: arg_cong [where f = snd])

lemma wire_cancel_messages [wire]: "wire_ok s \<Longrightarrow> wire_ok (snd (cancel_messages cfg ms s))"
proof (induction ms arbitrary: s)
  case (Cons m ms)
  then show ?case using wire_cancelOneMessage [OF Cons.prems, of cfg m]
    by (auto split: prod.split dest!: arg_cong [where f = snd])
qed simp

lemma wire_cancelOne [wire]: "wire_ok s \<Longrightarrow> wire_ok (snd (cancelOne cfg c s))"
  by (auto simp: cancelOne_def split: sum.split prod.split intro!: wire dest!: arg_cong [where f = snd])

lemma wire_enqueue:
  "createDeviceMessageSchema c \<Longrightarrow> wire_ok s \<Longrightarrow> wire_ok (snd (enqueue cfg w i c s))"
  by (auto simp: enqueue_def Let_def wire_db split: option.split prod.split devicePlugin.split
      intro!: wire wire_enqueueMessage dest!: arg_cong [where f = snd])


lemma wire_post: "wire_ok s \<Longrightarrow> wire_ok (snd (post_message cfg apiKey header w i body s))"
  using create_valid [of body]
  by (auto simp: post_message_def route_enqueue_def command_route_cases wire_enqueue split: option.split prod.split
      dest!: arg_cong [where f = snd])

section \<open>The service in operation\<close>

text \<open>
  The service as its clients reach it: messages arrive as posted JSON, events and vendor replies name a
  device with an external reference, and between them everything the engine does by itself, in any order.
\<close>

inductive served :: "engineConfig \<Rightarrow> engine \<Rightarrow> bool" for cfg where
  served_empty: "served cfg (empty_engine b)"
| served_post: "served cfg s \<Longrightarrow> fresh_id s i \<Longrightarrow> served cfg (snd (post_message cfg apiKey header w i body s))"
| served_event: "served cfg s \<Longrightarrow> (\<And>e. parsed = Inr (Some e) \<Longrightarrow> wire_event e) \<Longrightarrow>
    served cfg (snd (handle cfg w parsed p s))"
| served_member: "served cfg s \<Longrightarrow> queue \<in> set (enumerateStageQueues (pull_plugin_ids cfg)) \<Longrightarrow>
    (\<And>e. v_fetchStatus v = Inr (Some e) \<Longrightarrow> wire_event e) \<Longrightarrow>
    served cfg (snd (drain_member cfg now queue w v m s))"
| served_cancel: "served cfg s \<Longrightarrow> served cfg (snd (cancelOne cfg c s))"
| served_distribute: "served cfg s \<Longrightarrow> served cfg (snd (distribute_queue cfg w q s))"
| served_settle: "served cfg s \<Longrightarrow> sd \<in> set (running s) \<Longrightarrow> served cfg (snd (settle_send cfg w sd reply s))"
| served_webhook: "served cfg s \<Longrightarrow> served cfg (s\<lparr>whdb := wb_deliverOne wcfg e now reply later (whdb s)\<rparr>)"
| served_time: "served cfg s \<Longrightarrow> served cfg (with_db (redis_at now) s)"
| served_stop: "served cfg s \<Longrightarrow> served cfg (stopEnqueueKick s)"
| served_restart: "served cfg s \<Longrightarrow> served cfg (s\<lparr>running := [], sends := [], canKickDistribute := b\<rparr>)"

lemma wire_empty_engine: "wire_ok (empty_engine b)"
  by (simp add: wire_ok_def empty_engine_def wire_redis_def empty_redis_def wire_outbox_def empty_webhook_db_def)

lemma served_wire_ok: "served cfg s \<Longrightarrow> wire_ok s"
proof (induction rule: served.induct)
  case (served_webhook s wcfg e now reply later)
  then show ?case by (simp add: wire_ok_def wire_deliverOne)
qed (auto simp: wire_empty_engine intro: wire_post intro!: wire)

text \<open>Nothing of this goes beyond the engine's own steps.\<close>

lemma served_reachable: "served cfg s \<Longrightarrow> reachable cfg s"
proof (induction rule: served.induct)
  case (served_post s i apiKey header w body)
  show ?case
  proof (cases "createBodySchema body")
    case (Some c)
    have "snd (post_message cfg apiKey header w i body s) \<in> {s, snd (enqueue cfg w i c s)}"
      using Some by (simp add: post_message_def route_enqueue_def command_route_cases split: prod.split)
    then show ?thesis using served_post reach_step [OF _ step_enqueue] by auto
  qed (use served_post in \<open>simp add: post_message_def command_route_cases\<close>)
qed (auto intro: reach_empty reach_step engine_step.intros)

end
