(* ===== verification/Wire_Claims.thy ===== *)
theory Wire_Claims
  imports Wire_Invariant Http_Claims
begin

text \<open>
  The service's JSON interface: what a posted body says is what the service takes it to say, and every
  reply and every notification conforms to the schema that is published for it.
\<close>

section \<open>What is written conforms\<close>

lemma bind_ok: "x \<noteq> None \<Longrightarrow> y \<noteq> None \<Longrightarrow> Option.bind x (\<lambda>_. y) \<noteq> None"
  by (cases x) simp_all

lemma bind_strict:
  "set (map fst fs) \<subseteq> set ks \<Longrightarrow> g fs \<noteq> None \<Longrightarrow> Option.bind (strict_object ks (JObj fs)) g \<noteq> None"
  by (simp add: strict_object_JObj)

lemma optional_ok: "(\<And>v. map_of fs k = Some v \<Longrightarrow> f v \<noteq> None) \<Longrightarrow> optional f k fs \<noteq> None"
  by (simp add: optional_def split: option.split)

lemma required_ok: "\<exists>v. map_of fs k = Some v \<and> f v \<noteq> None \<Longrightarrow> required f k fs \<noteq> None"
  by (auto simp: required_def)

lemmas conforms_intros = bind_strict bind_ok optional_ok required_ok

lemma unit_conforms: "(x :: unit option) \<noteq> None \<Longrightarrow> x = Some ()"
  by auto

lemma status_conforms [simp]: "deliveryStatusSchema (JStr (status_text st)) = Some st"
  by (cases st) (simp_all add: deliveryStatusSchema_def z_enum_def)

lemma response_status_conforms [simp]: "messageResponseStatusSchema (JStr (response_text st)) = Some st"
  by (cases st) (simp_all add: messageResponseStatusSchema_def z_enum_def)

lemma command_conforms [simp]: "z_enum (command_names COMMAND_TYPES) (JStr (command_text c)) = Some c"
proof -
  have "c \<in> set COMMAND_TYPES" by (cases c) (simp_all add: command_group_defs COMMAND_TYPES_def)
  then show ?thesis by (simp add: schema_simps command_names_text)
qed

lemma errorCode_conforms [simp]: "z_errorCode (errorCode_json c) = Some c"
  by (cases c) (simp_all add: z_errorCode_def either_def)

lemmas conforms_simps = written_fields keys_present

lemma response_conforms [simp]: "messageResponseSchema (response_json r) = Some ()"
  by (rule unit_conforms, unfold messageResponseSchema_def response_json_def)
     (intro conforms_intros, auto simp: conforms_simps split: option.split_asm)

lemma failure_conforms [simp]: "failureReasonSchema (failure_json isoText f) = Some ()"
  by (rule unit_conforms, unfold failureReasonSchema_def failure_json_def)
     (intro conforms_intros, auto simp: conforms_simps split: option.split_asm)

lemma history_conforms [simp]: "z_array failureReasonSchema (history_json isoText fs) = Some (map (\<lambda>_. ()) fs)"
  unfolding history_json_def z_array.simps by (induction fs) simp_all

lemma message_conforms:
  assumes "wire_message m" and "m_concurrencyRateLimitKey m = None"
  shows "deviceMessageResponseSchema (message_json isoText m) = Some ()"
  using assms
  by (intro unit_conforms, unfold deviceMessageResponseSchema_def message_json_def wire_message_def)
     (intro conforms_intros, auto simp: conforms_simps response_keys_def j_nat_def device_reads_back requestData_reads_back
        network_reads_back split: option.split_asm)

lemma event_conforms:
  assumes "valid_device (wp_device (we_message e))"
  shows "webhookEventSchema (event_json isoText e) = Some ()"
proof -
  have "webhookMessagePayloadSchema (webhookMessage_json isoText (we_message e)) = Some ()"
    using assms
    by (intro unit_conforms, unfold webhookMessagePayloadSchema_def webhookMessage_json_def)
       (intro conforms_intros, auto simp: conforms_simps device_reads_back split: option.split_asm)
  then show ?thesis
    by (intro unit_conforms, unfold webhookEventSchema_def event_json_def)
       (intro conforms_intros, auto simp: conforms_simps split: option.split_asm)
qed

lemma cancel_conforms: "cancelMessageResultSchema (cancelResult_json r) = Some ()"
proof -
  have "z_enum (map (\<lambda>r. (cancel_text r, r)) [CANCELLED, NOT_CANCELLABLE, NOT_FOUND]) (JStr (cancel_text x)) = Some x" for x
    by (cases x) (simp_all add: z_enum_def)
  then show ?thesis
    by (intro unit_conforms, unfold cancelMessageResultSchema_def cancelResult_json_def)
       (intro conforms_intros, auto simp: conforms_simps simp del: list.map split: option.split_asm)
qed

lemma error_conforms: "errorBodySchema (error_json reason) = Some ()"
  by (intro unit_conforms, unfold errorBodySchema_def error_json_def)
     (intro conforms_intros, auto simp: conforms_simps split: option.split_asm)

lemma validation_conforms: "errorBodySchema (validation_json params issues) = Some ()"
proof -
  let ?issue = "\<lambda>issue. strict_object [''path'', ''message''] issue \<bind>
      (\<lambda>is. required z_string ''path'' is \<bind> (\<lambda>_. required z_string ''message'' is))"
  have "those (map (?issue \<circ> (\<lambda>(path, message). JObj [(''path'', JStr (dottedPath path)),
      (''message'', JStr (case message of None \<Rightarrow> [] | Some t \<Rightarrow> t))])) issues) \<noteq> None"
    by (induction issues) (auto simp: strict_object_def required_def split: option.splits)
  then show ?thesis
    by (intro unit_conforms, unfold errorBodySchema_def validation_json_def)
       (intro conforms_intros, auto simp: conforms_simps)
qed

section \<open>Posted bodies\<close>

text \<open>C16 (what a body says): a request that is written as JSON is read back as the same request exactly when
  it passes the schema's constraints; whatever JSON is accepted stands for a request that passes them and
  has no key but the schema's own; and a body that is not accepted is answered 400 and changes nothing.\<close>

theorem posted_body_round_trip:
  assumes adm: "admitted apiKey header"
  shows "(createBodySchema (create_json c) = Some c \<longleftrightarrow> createDeviceMessageSchema c) \<and>
    (case createBodySchema body of
       Some c' \<Rightarrow> createDeviceMessageSchema c' \<and> (\<exists>fs. body = JObj fs \<and> set (map fst fs) \<subseteq> set create_keys)
     | None \<Rightarrow> post_message cfg apiKey header w i body s = (ErrorReply 400 ''Invalid request body'', s))"
proof -
  have "\<exists>fs. body = JObj fs \<and> set (map fst fs) \<subseteq> set create_keys" if "createBodySchema body = Some c'" for c'
    using that unfolding createBodySchema_def bind_eq_Some_conv strict_object_Some by blast
  then show ?thesis
    using create_reads_back [of c] create_valid [of "create_json c" c] create_valid [of body]
    by (auto simp: post_message_def command_route_cases adm split: option.split)
qed

lemma example_create_valid: "createDeviceMessageSchema example_create"
  by (simp add: createDeviceMessageSchema_def example_create_def example_device_def valid_device_def
      valid_relayNode_def command_guard_defs command_group_defs STUB_PULL_ID_def uint32_def)

theorem posted_body_round_trip_witness:
  "createBodySchema (create_json example_create) = Some example_create \<and>
   post_message example_config None None (example_world 1000 ''E0'') ''M1'' (JObj [(''command'', JStr ''TURN_ON'')])
     (empty_engine True) = (ErrorReply 400 ''Invalid request body'', empty_engine True)"
proof -
  have "createBodySchema (JObj [(''command'', JStr ''TURN_ON'')]) = None"
    by (simp add: createBodySchema_def strict_object_def create_keys_def)
  moreover have "admitted None None" by (simp add: admitted_def filled_def)
  ultimately show ?thesis
    using posted_body_round_trip [where apiKey = None and header = None and c = example_create and
        body = "JObj [(''command'', JStr ''TURN_ON'')]" and cfg = example_config and
        w = "example_world 1000 ''E0''" and i = "''M1''" and s = "empty_engine True"]
      example_create_valid by simp
qed

section \<open>Replies and notifications\<close>

lemma omitted_conforms:
  "wire_message m \<Longrightarrow> deviceMessageResponseSchema (message_json isoText (omitInternalFields_full m)) = Some ()"
  by (rule message_conforms) (simp_all add: omitInternalFields_full_def wire_message_def)

lemma looked_up_wire:
  assumes "wire_ok s" and "getByCorrelationId c s = Inr (Some m)" shows "wire_message m"
  using assms stored_wire [of "db s"]
  by (auto simp: getByCorrelationId_def getMessageFromCorrelationId_def wire_ok_def split: option.splits)

lemma enqueued_wire:
  assumes "createDeviceMessageSchema c" and "enqueue cfg w i c s = (Inr m, s')" shows "wire_message m"
  using assms deserialized_wire [OF wire_serialize]
  by (auto simp: enqueue_def enqueueDeviceMessage_def Let_def split: option.splits devicePlugin.splits if_splits)

lemma enqueue_answers:
  assumes reg: "registry_ok (cf_registry cfg)"
  obtains e where "enqueue cfg w i c s = (Inl e, s)" "enqueue_error e"
  | e where "enqueue cfg w i c s = (Inl e, s)" "inherited_id (cf_registry cfg) (c_pluginId c)"
  | m s' where "enqueue cfg w i c s = (Inr m, s')"
  using enqueue_refusal [OF _ reg, of c w i s] enqueue_guards [of cfg w i c s] enqueue_inherited [of cfg c w i s]
  by (cases "enqueue cfg w i c s"; cases "fst (enqueue cfg w i c s)"; cases "inherited_id (cf_registry cfg) (c_pluginId c)")
     auto

text \<open>A posted body whose plugin id is not configured but a member of every object.\<close>

definition inherited_body :: "engineConfig \<Rightarrow> jval \<Rightarrow> bool" where
  "inherited_body cfg body \<longleftrightarrow>
     (\<exists>c. createBodySchema body = Some c \<and> inherited_id (cf_registry cfg) (c_pluginId c))"

lemma post_answers:
  assumes reg: "registry_ok (cf_registry cfg)"
  shows "case post_message cfg apiKey header w i body s of
     (Reply code m, s') \<Rightarrow> code = 201 \<and> deviceMessageResponseSchema (message_json isoText m) = Some ()
   | (ErrorReply code reason, s') \<Rightarrow> code \<in> {400, 401}
   | (Unhandled e, s') \<Rightarrow> s' = s \<and> inherited_body cfg body"
proof (cases "createBodySchema body")
  case (Some c)
  then have c: "createDeviceMessageSchema c" by (rule create_valid)
  show ?thesis
  proof (rule enqueue_answers [OF reg, of w i c s])
    fix m s' assume e: "enqueue cfg w i c s = (Inr m, s')"
    then show ?thesis using Some enqueued_wire [OF c e] omitted_conforms
      by (simp add: post_message_def route_enqueue_def command_route_cases reply_of_def)
  qed (auto simp: post_message_def route_enqueue_def command_route_cases reply_of_def Some inherited_body_def)
qed (simp add: post_message_def command_route_cases)

lemma lookup_answers:
  assumes "db_ok cfg (db s)" shows "\<exists>m. getByCorrelationId c s = Inr m"
proof -
  have "\<exists>m. getMessageById i (db s) = Inr m" for i
    using load_hash [OF assms, of i] by (cases "hash_at (db s) i") (auto simp: getMessageById_def hash_at_def)
  then show ?thesis
    by (auto simp: getByCorrelationId_def getMessageFromCorrelationId_def split: option.split)
qed

lemma collect_answers: "db_ok cfg r \<Longrightarrow> \<exists>ms. collect_messages ks r = Inr ms"
proof (induction ks)
  case (Cons k ks)
  then obtain ms where ms: "collect_messages ks r = Inr ms" by blast
  have "deserializeMessage i h \<noteq> Inl e" if "hashes r k = Some h" "messageIdFromKey (Some k) = Some i" for h i e
  proof -
    have "k = messageKey i" using that(2) messageIdFromKey_Some by auto
    then have "complete_hash h" using that(1) Cons.prems
      by (auto simp: db_ok_def msg_ok_def stored_ok_def hash_ok_def hash_at_def)
    then show ?thesis using deserialize_complete [of h i] by auto
  qed
  then show ?case using ms by (auto split: option.split sum.split)
qed simp

lemma cancel_answers:
  assumes "db_ok cfg (db s)" shows "\<exists>res. fst (cancelOne cfg c s) = Inr \<lparr>cr_correlationId = c, cr_result = res\<rparr>"
proof -
  obtain ms where "getAllMessagesForCorrelationId c (db s) = Inr ms"
    unfolding getAllMessagesForCorrelationId_def Let_def using collect_answers [OF assms] by blast
  then show ?thesis by (auto simp: cancelOne_def split: prod.split)
qed

text \<open>C14 (the published interface): in every state the service reaches by serving posted bodies, however its
  ticks, sends, events, cancels, deliveries, restarts and the passing of time interleave, what it answers to
  a message request or a cancel is never a server error and conforms to the published response schemas, which
  admit no internal field; so does what it answers to the next posted body, and every notification it holds
  conforms to the published event schema. (The replies go through these schemas when they are serialised: one
  that did not conform would be a server error.) The only server error is for a posted body whose plugin id is
  not configured but names a member of every object; it changes nothing.\<close>

theorem interface_conforms:
  assumes cfg: "config_ok cfg" and s: "served cfg s"
  shows "(case fst (route_get apiKey header c s) of
       Reply code m \<Rightarrow> code = 200 \<and> deviceMessageResponseSchema (message_json isoText m) = Some ()
     | ErrorReply code reason \<Rightarrow> code \<in> {400, 401, 404} \<and> errorBodySchema (error_json reason) = Some ()
     | Unhandled e \<Rightarrow> False) \<and>
    (case fst (route_cancel cfg apiKey header c s) of
       Reply code r \<Rightarrow> code = 200 \<and> cr_correlationId r = c \<and>
         cancelMessageResultSchema (cancelResult_json r) = Some ()
     | ErrorReply code reason \<Rightarrow> code \<in> {400, 401} \<and> errorBodySchema (error_json reason) = Some ()
     | Unhandled e \<Rightarrow> False) \<and>
    (case post_message cfg apiKey header w i body s of
       (Reply code m, s') \<Rightarrow> code = 201 \<and> deviceMessageResponseSchema (message_json isoText m) = Some ()
     | (ErrorReply code reason, s') \<Rightarrow> code \<in> {400, 401} \<and> errorBodySchema (error_json reason) = Some ()
     | (Unhandled e, s') \<Rightarrow> s' = s \<and> inherited_body cfg body) \<and>
    errorBodySchema (validation_json params issues) = Some () \<and>
    (\<forall>k r. wb_records (whdb s) k = Some r \<longrightarrow> webhookEventSchema (event_json isoText (sr_event r)) = Some ())"
proof (intro conjI allI impI)
  have wire: "wire_ok s" using served_wire_ok [OF s] .
  have db: "db_ok cfg (db s)" using reachable_ok [OF cfg served_reachable [OF s]] by (simp add: engine_ok_def)
  from lookup_answers [OF db, of c] obtain m where m: "getByCorrelationId c s = Inr m" by blast
  show "case fst (route_get apiKey header c s) of
       Reply code m \<Rightarrow> code = 200 \<and> deviceMessageResponseSchema (message_json isoText m) = Some ()
     | ErrorReply code reason \<Rightarrow> code \<in> {400, 401, 404} \<and> errorBodySchema (error_json reason) = Some ()
     | Unhandled e \<Rightarrow> False"
    using m looked_up_wire [OF wire] omitted_conforms
    by (cases m) (auto simp: route_get_def command_route_cases error_conforms)
  obtain res s' where "cancelOne cfg c s = (Inr \<lparr>cr_correlationId = c, cr_result = res\<rparr>, s')"
    using cancel_answers [OF db, of c] by (cases "cancelOne cfg c s") auto
  then show "case fst (route_cancel cfg apiKey header c s) of
       Reply code r \<Rightarrow> code = 200 \<and> cr_correlationId r = c \<and>
         cancelMessageResultSchema (cancelResult_json r) = Some ()
     | ErrorReply code reason \<Rightarrow> code \<in> {400, 401} \<and> errorBodySchema (error_json reason) = Some ()
     | Unhandled e \<Rightarrow> False"
    by (simp add: route_cancel_def command_route_cases reply_of_def error_conforms cancel_conforms)
  have reg: "registry_ok (cf_registry cfg)" using cfg by (simp add: config_ok_def)
  show "case post_message cfg apiKey header w i body s of
       (Reply code m, s') \<Rightarrow> code = 201 \<and> deviceMessageResponseSchema (message_json isoText m) = Some ()
     | (ErrorReply code reason, s') \<Rightarrow> code \<in> {400, 401} \<and> errorBodySchema (error_json reason) = Some ()
     | (Unhandled e, s') \<Rightarrow> s' = s \<and> inherited_body cfg body"
    using post_answers [OF reg, where isoText = isoText and apiKey = apiKey and header = header and w = w and i = i
        and body = body and s = s] error_conforms
    by (cases "post_message cfg apiKey header w i body s"; cases "fst (post_message cfg apiKey header w i body s)") auto
  show "errorBodySchema (validation_json params issues) = Some ()" by (rule validation_conforms)
  show "webhookEventSchema (event_json isoText (sr_event r)) = Some ()" if "wb_records (whdb s) k = Some r" for k r
    using wire that by (auto simp: wire_ok_def wire_outbox_def wire_record_def intro: event_conforms)
qed


lemma example_sent_served: "served example_config example_sent"
proof -
  have "snd (post_message example_config None None (example_world 1000 ''E0'') ''M1'' (create_json example_create)
      (empty_engine True)) = example_queued"
    by (simp add: post_message_def create_reads_back [OF example_create_valid] route_enqueue_def command_route_cases
        admitted_def filled_def example_create_valid example_queued_def split: prod.split)
  then have "served example_config example_queued"
    using served_post [OF served_empty example_fresh] by metis
  then show ?thesis unfolding example_sent_def by (rule served_distribute)
qed

theorem interface_conforms_witness:
  "\<exists>m. fst (route_get None None ''c1'' example_sent) = Reply 200 m \<and> m_deliveryStatus m = SENT_TO_NS \<and>
     deviceMessageResponseSchema (message_json (\<lambda>_. ''2024-01-01T00:00:00.000Z'') m) = Some ()"
proof -
  have "getMessageById ''M1'' (db example_sent) = Inr (Some example_message)"
    by (simp add: getMessageById_def example_sent_state example_picked)
  then have "getByCorrelationId ''c1'' example_sent = Inr (Some example_message)"
    using messageIdFromKey_messageKey [of "''M1''"]
    by (simp add: getByCorrelationId_def getMessageFromCorrelationId_def example_sent_state)
  then have "fst (route_get None None ''c1'' example_sent) = Reply 200 (omitInternalFields_full example_message)"
    by (simp add: route_get_def command_route_cases admitted_def filled_def)
  moreover have "m_deliveryStatus (omitInternalFields_full example_message) = SENT_TO_NS"
    by (simp add: omitInternalFields_full_def example_message_def message_of_def deserializeMessage_def picked_hash_def
        example_dto_hash_def serializeCreateDeviceMessage_def complete_hash_def)
  ultimately show ?thesis
    using interface_conforms [OF example_config_ok example_sent_served, where apiKey = None and header = None and
        c = "''c1''" and isoText = "\<lambda>_. ''2024-01-01T00:00:00.000Z''"] by auto
qed

end
