(* ===== verification/Spec2Isabelle.thy ===== *)
theory Spec2Isabelle
  imports Service_Claims Chirpstack_Flow Poll_Claims Race_Claims Metrics_Claims Config_Claims Process_Claims Wire_Claims
begin

text \<open>
  \<^bold>\<open>The program.\<close> The device messaging service accepts commands for energy meters over HTTP, keeps each as
  a message in Redis, hands it to a vendor through a plugin, follows it until the meter has answered or the
  retries are used up, and tells the adopter's webhook how it ended. A message is a Redis hash and a member
  of one sorted set, the queue of its stage: a ready queue of its plugin (scored by negated priority), or
  one of the stage queues \<open>ns\<close>, \<open>relayNode\<close>, \<open>device\<close>, \<open>awaitingTask\<close> and \<open>retry\<close> (scored by the instant of
  its next turn). Distribution picks the best member of each ready queue that its admission strategy lets
  through and starts a send; the lifecycle runner gives every due member of a stage queue its turn; vendor
  events arrive over the ingress route (PUSH plugins) or by polling a vendor task (PULL plugins).

  \<^bold>\<open>Theories and sources\<close> (paths under \<open>src/src/\<close>).

  \<^item> Shared: \<open>Prelude\<close> (numbers, strings, JSON values, the lemma collections), \<open>Js_Number\<close> (number and text
    conversion, \<open>plugins/_shared/to-safe-number-or-null.ts\<close>), \<open>Js_Date\<close> (the calendar of \<open>Date\<close>), \<open>Base64\<close>.
  \<^item> Vocabulary and data: \<open>Command_Types\<close> (\<open>lib/device-message/command-types.ts\<close>), \<open>Device_Message\<close> (\<open>types.ts\<close>,
    \<open>schemas.ts\<close>, \<open>omit-internal-fields.ts\<close>, \<open>engine/errors.ts\<close>), \<open>Delivery_Config\<close> (\<open>config/schema.ts\<close>,
    \<open>lib/retry-helpers.ts\<close>, \<open>_shared/merge-plugin-tuning.ts\<close>).
  \<^item> Redis: \<open>Redis_Keys\<close> (the key builders), \<open>Sorted_Set\<close> (sorted sets, behind a locale), \<open>Redis_Store\<close> (the
    stores, the helpers and the two Lua scripts of \<open>lib/redis-repository/\<close>), \<open>Redis_Laws\<close> (what each leaves).
  \<^item> Plugins: \<open>Plugin_SPI\<close> (\<open>plugin.interface.ts\<close>, \<open>registry.ts\<close>), \<open>Stub_Plugin\<close>, \<open>Vendor_Shared\<close>
    (environment keys, one HTTP exchange), \<open>Chirpstack_Client\<close>, \<open>Calin_Encode\<close>, \<open>Calin_Decode\<close>, \<open>Correlator\<close>
    and \<open>Chirpstack_Plugin\<close> (\<open>plugins/calin-chirpstack/\<close>), \<open>Calin_V1_Client\<close> and \<open>Calin_V1_Plugin\<close>
    (\<open>calin-api-v1/\<close>), \<open>Calin_V2_Client\<close> and \<open>Calin_V2_Plugin\<close> (\<open>calin-api-v2/\<close>), \<open>Nxt_Sts\<close> (\<open>nxt-sts/\<close>),
    \<open>Plugin_Services\<close> (\<open>catalog.ts\<close>, \<open>engine/token.ts\<close>, \<open>engine/provisioning.ts\<close>).
  \<^item> Engine: \<open>Stages\<close>, \<open>Moves\<close>, \<open>Stage_Actions\<close>, \<open>Runner\<close> (\<open>engine/lifecycle/\<close>), \<open>Webhook\<close> (\<open>engine/webhook/\<close>),
    \<open>Base_Service\<close>, \<open>Incoming_Service\<close>, \<open>Outgoing_Service\<close>, \<open>In_Flight_Sends\<close> (\<open>engine/\<close>).
  \<^item> HTTP: \<open>Http_Layer\<close> (\<open>http/\<close>), \<open>Json_Schema\<close> (reading JSON by a schema) and \<open>Wire_Schemas\<close> (\<open>schemas.ts\<close>,
    \<open>http/response-schemas.ts\<close>, \<open>http/validation-errors.ts\<close>, \<open>engine/webhook/event-schema.ts\<close>, and the JSON
    that the service writes).
  \<^item> Process: \<open>Config_Load\<close> (\<open>config/\<close>, \<open>runtime.ts\<close>), \<open>Process\<close> (\<open>main.ts\<close>, \<open>app.ts\<close>, \<open>engine/timers.ts\<close>,
    \<open>lib/redis-repository/client.ts\<close>), \<open>Metrics\<close> (\<open>metrics/\<close>).

  A definition has the name of the function it models, with a prefix (\<open>v1_\<close>, \<open>v2_\<close>, \<open>wb_\<close>, \<open>route_\<close>,
  \<open>action_\<close>) where two parts use one name. A record has the fields of the type it models.

  \<^bold>\<open>How code becomes definitions.\<close> An operation of the engine is a function from the engine state to a
  result and a new state. The state holds the Redis database, the webhook outbox, the sends in progress and
  the counters; the result is \<open>Inl\<close> an error that the code throws, or \<open>Inr\<close> its value. Every handler is atomic:
  the code's awaits inside a handler are not interleaved with other handlers, except at a send, which is
  split into its start (\<open>distribute_queue\<close>, which ends by tracking it) and its settling (\<open>settle_send\<close>). So
  the invariants speak of handlers in sequence; \<open>Race_Claims\<close> shows races that this leaves out. What
  comes from outside is an argument: the clock, the random number, the event id and a persist failure of
  the outbox (\<open>world\<close>), the replies of a vendor (\<open>vendorReplies\<close>, the gRPC stubs, and \<open>network\<close>, a function
  from the request to the reply; for the authorised client one such function for every position in its log
  of requests), ULIDs, SHA-256 and HMAC, \<open>JSON.parse\<close>, \<open>Date.parse\<close> and \<open>decodeTime\<close>. Redis commands succeed,
  but for the transactions that close an attempt, the cleanup and the entry into retry: an operation that
  ends in one is a function \<open>X_exec\<close> of the outcome of the transaction (applied and confirmed, not
  applied, or applied with its reply lost), and \<open>X\<close> is the run in which it is confirmed (\<open>X_def\<close> is its
  equation). Keys expire in the step \<open>redis_at now\<close>. The registry is a plain object, so a lookup of an id that is
  no plugin can find a member of every object (\<open>ObjectMember\<close>); \<open>enqueue\<close> and \<open>distribute_queue\<close> throw there.
  Cancel and the runner look up the plugin of a stored message, which is always a configured delivery plugin,
  and treat anything else as no plugin. Numbers are exact rationals (\<open>NaN\<close> and the infinities are
  \<open>None\<close> or the JSON null), bytes are naturals below 256, and the 32-bit shifts of the frame decoder are those
  of \<open>32 word\<close>. A JSON body is read at the types that the code declares for it; a field of another type
  counts as absent. \<open>VendorError\<close> stands for each plugin's own error class. Loops over lists are
  recursions over them; the retry loops of the authorised client count their attempts down from
  \<open>FETCH_RETRIES\<close>, the bound in the code, and the walk along the causes of an error stops after the four
  levels of the code, so no bound has been added. A number is printed with at most 400 decimals, more than
  any double between \<open>10 ^ -6\<close> and \<open>10 ^ 21\<close> that is read from a decimal text of that length needs.

  \<^bold>\<open>What the lemmas show.\<close>

  \<^item> \<open>Engine_Invariant\<close>, \<open>Engine_Preservation\<close>, \<open>Handler_Preservation\<close>, \<open>Handler_Invariants\<close> and
    \<open>Outgoing_Invariants\<close>: the invariant \<open>engine_ok\<close> (one queue per message, the queue that its status names,
    complete work list, concurrency slots held exactly by the messages that recorded them, caps kept, one
    send per message) and that every operation keeps it. \<open>Engine_Steps\<close>: the transition system of all
    handlers in any order, with time passing and the process restarting at any point; \<open>Engine_Claims\<close>: what the
    invariant says of every reachable state, and that a due member's turn always settles.
  \<^item> \<open>Engine_Outcomes\<close> and \<open>Delivery_Claims\<close>: what a success, a failed attempt, a final failure, an accepted
    send and an error in between, or at the closing transaction, do to the message; \<open>Cancel_Claims\<close> and \<open>Request_Claims\<close>: cancel, enqueue,
    lookup and distribution; \<open>Service_Claims\<close>: the outbox, the registry and the retry schedule.
  \<^item> \<open>Calin_Claims\<close>: layout, domain and round trips of the meter frames; \<open>Correlator_Claims\<close>: the correlator
    against its specification as a set of pairs; \<open>Chirpstack_Claims\<close> and \<open>Chirpstack_Flow\<close>: the plugin's
    sends, errors and references, and its events through the engine in either order.
  \<^item> \<open>Vendor_Claims\<close> and \<open>Calin_V2_Claims\<close>: dates, credits and failures of the HTTP vendors, the bounds and
    the recovery of the authorised client, the provisioning allowlist and the STS requests; \<open>Poll_Claims\<close>: an
    outage during a poll, through the engine; \<open>Http_Claims\<close>: authentication, forged events, the
    answers to a posted message, and that a registry made from the shipped catalog always satisfies
    \<open>config_ok\<close>, the hypothesis of the engine's properties.

  \<^item> \<open>Wire_Requests\<close>, \<open>Wire_Invariant\<close> and \<open>Wire_Claims\<close>: what a posted body is read as; the invariant that
    everything stored can be described by the published schemas, over the relation \<open>served\<close> of a service
    whose messages arrive as JSON and whose events name a device; and that every reply and notification
    conforms. \<open>Config_Claims\<close>: which text the configuration is read from, that its settings are used as
    written or refused, and that a service that boots satisfies \<open>config_ok\<close>. \<open>Metrics_Claims\<close>: a scrape
    counts every queued message once. \<open>Process_Claims\<close>: the shutdown sequence, interleaved with the handlers
    as its awaits allow, its signals, what it leaves behind and what the next process makes of it. \<open>Race_Claims\<close>: what the atomicity of
    the handlers hides at the two places that are known, \<open>enterRetry\<close>, whose reads and write a cleanup or an
    advance may separate, and \<open>requeueMessage\<close>, whose move and listing the end of the process may separate.

  The locales state the interfaces: the sorted set (interpreted on the Redis model), the claim of a queue
  member that every queue-leaving operation shares (interpreted on each of them), and the contract of a
  delivery plugin (interpreted on every shipped plugin). \<open>Example_Service\<close> is the concrete service
  that the witnesses use.

  \<^bold>\<open>Not modelled.\<close> \<open>log.ts\<close> and the log lines (output), the text rendering of the metrics, the OpenAPI document
  and the texts of validation issues (the libraries'), \<open>deepFreeze\<close> (no effect on values that are not assigned
  to), the published contract package (types without behaviour), the interleaving of two handlers inside
  their awaits (but for the races of \<open>Race_Claims\<close>), failing Redis commands other than the closing transactions, an
  \<open>app.close()\<close> or \<open>redis.quit()\<close> that never settles, and the sharing of one login between concurrent callers of the
  authorised client. JSON objects have distinct keys, as \<open>JSON.parse\<close> makes them; \<open>z.url()\<close>, \<open>toISOString\<close>, the
  file system, \<open>fetch\<close> and the environment are arguments.
\<close>

end
